(* ===== verification/Py_Prelude.thy ===== *)
theory Py_Prelude
  imports Complex_Main "HOL-Library.Char_ord" "HOL-Library.List_Lexorder"
begin

text \<open>
  The Python vocabulary the components share: strings and the string methods the sources
  call, dynamically typed values (what \<open>json.loads\<close> returns and what an unchecked argument
  may be), results with an error value, and order-preserving deduplication
  (\<open>dict.fromkeys\<close>).

  A Python \<open>str\<close> is a \<^typ>\<open>string\<close> holding its UTF-8 bytes, so equality, prefixes,
  suffixes, concatenation and splitting at an ASCII separator are exact; \<open>len\<close> counts code
  points (\<open>py_len\<close>). The character classes (\<open>str.isspace\<close>, case folding) are the ASCII
  ones: text whose only white space or cased letters are non-ASCII is outside the model.
\<close>

section \<open>Results\<close>

text \<open>A fallible Python function returns \<open>Inl\<close> of the exception or \<open>Inr\<close> of its value.\<close>

fun rbind :: "('e + 'a) \<Rightarrow> ('a \<Rightarrow> 'e + 'b) \<Rightarrow> 'e + 'b" where
  "rbind (Inl e) f = Inl e"
| "rbind (Inr x) f = f x"

lemma rbind_eq_Inr [simp]: "rbind m f = Inr y \<longleftrightarrow> (\<exists>x. m = Inr x \<and> f x = Inr y)"
  by (cases m) auto

lemma rbind_eq_Inl: "rbind m f = Inl e \<longleftrightarrow> m = Inl e \<or> (\<exists>x. m = Inr x \<and> f x = Inl e)"
  by (cases m) auto

text \<open>A list comprehension whose element expression may raise.\<close>

fun rmap :: "('a \<Rightarrow> 'e + 'b) \<Rightarrow> 'a list \<Rightarrow> 'e + 'b list" where
  "rmap f [] = Inr []"
| "rmap f (x # xs) = rbind (f x) (\<lambda>y. rbind (rmap f xs) (\<lambda>ys. Inr (y # ys)))"

lemma rmap_eq_Inr: "rmap f xs = Inr ys \<longleftrightarrow> map f xs = map Inr ys"
  by (induction xs arbitrary: ys) (auto simp: Cons_eq_map_conv)

lemma rmap_length: "rmap f xs = Inr ys \<Longrightarrow> length ys = length xs"
  by (induction xs arbitrary: ys) auto

lemma rmap_id: "(\<And>x. x \<in> set xs \<Longrightarrow> f x = Inr x) \<Longrightarrow> rmap f xs = Inr xs"
  by (induction xs) auto

section \<open>Machines whose steps may be refused\<close>

text \<open>Applying a list of events: the first refusal ends the run with its error.\<close>

fun run_events :: "('s \<Rightarrow> 'e \<Rightarrow> 'x + 's) \<Rightarrow> 's \<Rightarrow> 'e list \<Rightarrow> 'x + 's" where
  "run_events step s [] = Inr s"
| "run_events step s (e # es) = rbind (step s e) (\<lambda>s'. run_events step s' es)"

text \<open>
  The contract of a state machine: every accepted step keeps an invariant. Whatever keeps it
  step by step keeps it over every accepted run.
\<close>

locale guarded_machine =
  fixes step :: "'s \<Rightarrow> 'e \<Rightarrow> 'x + 's"
    and inv :: "'s \<Rightarrow> bool"
  assumes step_inv: "inv s \<Longrightarrow> step s e = Inr s' \<Longrightarrow> inv s'"
begin

lemma run_inv: "inv s \<Longrightarrow> run_events step s es = Inr s' \<Longrightarrow> inv s'"
  by (induction es arbitrary: s) (auto dest: step_inv)

end

text \<open>A machine with final states, from which every step is refused.\<close>

locale absorbing_machine = guarded_machine step inv
  for step :: "'s \<Rightarrow> 'e \<Rightarrow> 'x + 's" and inv :: "'s \<Rightarrow> bool" +
  fixes final :: "'s \<Rightarrow> bool"
  assumes final_refuses: "final s \<Longrightarrow> \<exists>x. step s e = Inl x"
begin

lemma final_run: "final s \<Longrightarrow> run_events step s es = Inr s' \<Longrightarrow> es = [] \<and> s' = s"
proof (cases es)
  case (Cons e es')
  assume "final s" and "run_events step s es = Inr s'"
  moreover from \<open>final s\<close> obtain x where "step s e = Inl x"
    using final_refuses by blast
  ultimately show ?thesis using Cons by simp
qed simp

end

section \<open>Strings\<close>

definition ws :: "char \<Rightarrow> bool" where
  "ws c \<longleftrightarrow> c \<in> set [CHR 0x09, CHR 0x0A, CHR 0x0B, CHR 0x0C, CHR 0x0D,
     CHR 0x1C, CHR 0x1D, CHR 0x1E, CHR 0x1F, CHR '' '']"

definition lstrip :: "string \<Rightarrow> string" where
  "lstrip = dropWhile ws"

definition rstrip :: "string \<Rightarrow> string" where
  "rstrip s = rev (dropWhile ws (rev s))"

definition strip :: "string \<Rightarrow> string" where
  "strip s = rstrip (lstrip s)"

text \<open>\<open>not s.strip()\<close>: the string is empty or all white space.\<close>

definition blank :: "string \<Rightarrow> bool" where
  "blank s \<longleftrightarrow> list_all ws s"

lemma lstrip_eq_Nil [simp]: "lstrip s = [] \<longleftrightarrow> blank s"
  by (auto simp: lstrip_def blank_def list_all_iff)

lemma dropWhile_ws_last: "dropWhile ws s \<noteq> [] \<Longrightarrow> last (dropWhile ws s) = last s"
  by (induction s) auto

lemma rstrip_eq_Nil [simp]: "rstrip s = [] \<longleftrightarrow> blank s"
  by (auto simp: rstrip_def blank_def list_all_iff)

lemma blank_lstrip [simp]: "blank (lstrip s) = blank s"
  unfolding blank_def lstrip_def by (induction s) auto

lemma strip_eq_Nil [simp]: "strip s = [] \<longleftrightarrow> blank s"
  by (simp add: strip_def)

lemma hd_rstrip: "s \<noteq> [] \<Longrightarrow> \<not> ws (hd s) \<Longrightarrow> rstrip s = hd s # rstrip (tl s)"
  by (cases s) (auto simp: rstrip_def dropWhile_append)

lemma rstrip_idem [simp]: "rstrip (rstrip s) = rstrip s"
  by (simp add: rstrip_def)

lemma lstrip_idem [simp]: "lstrip (lstrip s) = lstrip s"
  by (simp add: lstrip_def)

lemma lstrip_hd: "s \<noteq> [] \<Longrightarrow> \<not> ws (hd s) \<Longrightarrow> lstrip s = s"
  by (cases s) (auto simp: lstrip_def)

lemma not_ws_hd_lstrip: "lstrip s \<noteq> [] \<Longrightarrow> \<not> ws (hd (lstrip s))"
  unfolding lstrip_def by (rule hd_dropWhile)

lemma lstrip_rstrip_lstrip [simp]: "lstrip (rstrip (lstrip s)) = rstrip (lstrip s)"
proof (cases "lstrip s = []")
  case True
  then show ?thesis unfolding True by (simp add: lstrip_def rstrip_def)
next
  case False
  then have "\<not> ws (hd (lstrip s))" by (rule not_ws_hd_lstrip)
  with False have "rstrip (lstrip s) = hd (lstrip s) # rstrip (tl (lstrip s))"
    by (rule hd_rstrip)
  with \<open>\<not> ws (hd (lstrip s))\<close> show ?thesis
    by (auto intro!: lstrip_hd)
qed

lemma strip_idem [simp]: "strip (strip s) = strip s"
  by (simp add: strip_def)

lemma strip_Nil [simp]: "strip [] = []"
  by (simp add: strip_def lstrip_def rstrip_def)

lemma blank_strip [simp]: "blank (strip s) = blank s"
  using strip_eq_Nil[of "strip s"] strip_eq_Nil[of s] by (metis strip_idem)

text \<open>Case mapping on the ASCII letters.\<close>

definition lower_char :: "char \<Rightarrow> char" where
  "lower_char c = (let n = of_char c :: nat in if 65 \<le> n \<and> n \<le> 90 then char_of (n + 32) else c)"

definition upper_char :: "char \<Rightarrow> char" where
  "upper_char c = (let n = of_char c :: nat in if 97 \<le> n \<and> n \<le> 122 then char_of (n - 32) else c)"

definition casefold :: "string \<Rightarrow> string" where
  "casefold = map lower_char"

definition upper :: "string \<Rightarrow> string" where
  "upper = map upper_char"

lemma lower_char_idem [simp]: "lower_char (lower_char c) = lower_char c"
  by (auto simp: lower_char_def Let_def)

lemma upper_char_idem [simp]: "upper_char (upper_char c) = upper_char c"
  by (auto simp: upper_char_def Let_def)

lemma casefold_idem [simp]: "casefold (casefold s) = casefold s"
  by (simp add: casefold_def)

lemma upper_idem [simp]: "upper (upper s) = upper s"
  by (simp add: upper_def)

definition is_digit :: "char \<Rightarrow> bool" where
  "is_digit c \<longleftrightarrow> c \<in> set ''0123456789''"

definition is_upper :: "char \<Rightarrow> bool" where
  "is_upper c \<longleftrightarrow> c \<in> set ''ABCDEFGHIJKLMNOPQRSTUVWXYZ''"

definition is_lower :: "char \<Rightarrow> bool" where
  "is_lower c \<longleftrightarrow> c \<in> set ''abcdefghijklmnopqrstuvwxyz''"

definition is_alnum :: "char \<Rightarrow> bool" where
  "is_alnum c \<longleftrightarrow> is_digit c \<or> is_upper c \<or> is_lower c"

definition is_hex :: "char \<Rightarrow> bool" where
  "is_hex c \<longleftrightarrow> is_digit c \<or> c \<in> set ''abcdef''"

text \<open>\<open>len(s)\<close>: the code points of a UTF-8 text, its bytes outside \<open>0x80..0xBF\<close>.\<close>

definition continuation_byte :: "char \<Rightarrow> bool" where
  "continuation_byte c \<longleftrightarrow> (let n = of_char c :: nat in 128 \<le> n \<and> n < 192)"

definition py_len :: "string \<Rightarrow> nat" where
  "py_len s = length (filter (\<lambda>c. \<not> continuation_byte c) s)"

lemma py_len_append [simp]: "py_len (s @ t) = py_len s + py_len t"
  by (simp add: py_len_def)

lemma py_len_le_length: "py_len s \<le> length s"
  by (simp add: py_len_def)

definition starts :: "string \<Rightarrow> string \<Rightarrow> bool" where
  "starts p s \<longleftrightarrow> take (length p) s = p"

definition ends :: "string \<Rightarrow> string \<Rightarrow> bool" where
  "ends p s \<longleftrightarrow> length p \<le> length s \<and> drop (length s - length p) s = p"

lemma starts_iff: "starts p s \<longleftrightarrow> (\<exists>t. s = p @ t)"
  unfolding starts_def by (metis append_eq_conv_conj append_take_drop_id)

lemma ends_iff: "ends p s \<longleftrightarrow> (\<exists>t. s = t @ p)"
proof
  assume "ends p s"
  then have "s = take (length s - length p) s @ p"
    unfolding ends_def by (metis append_take_drop_id)
  then show "\<exists>t. s = t @ p" ..
next
  assume "\<exists>t. s = t @ p"
  then show "ends p s" by (auto simp: ends_def)
qed

lemma starts_append [simp]: "starts p (p @ s)"
  by (auto simp: starts_iff)

text \<open>
  The first occurrence of a separator: \<open>s.partition(sep)\<close> and \<open>s.split(sep, 1)\<close> with what
  comes before and after it, \<^const>\<open>None\<close> when it does not occur.
\<close>

fun cut :: "string \<Rightarrow> string \<Rightarrow> (string \<times> string) option" where
  "cut sep [] = (if sep = [] then Some ([], []) else None)"
| "cut sep (c # s) =
     (if starts sep (c # s) then Some ([], drop (length sep) (c # s))
      else map_option (\<lambda>(a, b). (c # a, b)) (cut sep s))"

definition contains :: "string \<Rightarrow> string \<Rightarrow> bool" where
  "contains sep s \<longleftrightarrow> cut sep s \<noteq> None"

lemma cut_Some: "cut sep s = Some (a, b) \<Longrightarrow> s = a @ sep @ b"
proof (induction s arbitrary: a)
  case Nil
  then show ?case by (auto split: if_splits)
next
  case (Cons c s)
  show ?case
  proof (cases "starts sep (c # s)")
    case True
    with Cons.prems show ?thesis
      by (auto simp: starts_def) (metis append_take_drop_id)
  next
    case False
    with Cons.prems obtain a' where "cut sep s = Some (a', b)" and "a = c # a'"
      by auto
    with Cons.IH show ?thesis by auto
  qed
qed

lemma contains_iff: "contains sep s \<longleftrightarrow> (\<exists>a b. s = a @ sep @ b)"
proof
  assume "contains sep s"
  then show "\<exists>a b. s = a @ sep @ b"
    by (auto simp: contains_def dest: cut_Some)
next
  assume "\<exists>a b. s = a @ sep @ b"
  then obtain a b where "s = a @ sep @ b" by blast
  then have "cut sep s \<noteq> None"
  proof (induction a arbitrary: s)
    case Nil
    then have "starts sep s" by simp
    then show ?case by (cases s) (auto simp: starts_iff)
  next
    case (Cons c a)
    then show ?case by (auto simp: starts_iff)
  qed
  then show "contains sep s" by (simp add: contains_def)
qed

text \<open>The part before the first separator, the whole string without one: \<open>s.split(sep, 1)[0]\<close>.\<close>

definition head_of :: "string \<Rightarrow> string \<Rightarrow> string" where
  "head_of sep s = (case cut sep s of None \<Rightarrow> s | Some (a, b) \<Rightarrow> a)"

text \<open>\<open>sep.join(parts)\<close>.\<close>

fun join :: "string \<Rightarrow> string list \<Rightarrow> string" where
  "join sep [] = []"
| "join sep [s] = s"
| "join sep (s # t # ts) = s @ sep @ join sep (t # ts)"

lemma join_Cons: "ts \<noteq> [] \<Longrightarrow> join sep (s # ts) = s @ sep @ join sep ts"
  by (cases ts) auto

text \<open>\<open>s.split(c)\<close> for a one-character separator: never empty.\<close>

fun split_on :: "char \<Rightarrow> string \<Rightarrow> string list" where
  "split_on c [] = [[]]"
| "split_on c (x # s) =
     (if x = c then [] # split_on c s
      else (case split_on c s of [] \<Rightarrow> [[x]] | t # ts \<Rightarrow> (x # t) # ts))"

lemma split_on_nonempty [simp]: "split_on c s \<noteq> []"
  by (induction s) (auto split: list.splits)

lemma join_split_on: "join [c] (split_on c s) = s"
proof (induction s)
  case (Cons x s)
  obtain t ts where ts: "split_on c s = t # ts" by (cases "split_on c s") auto
  with Cons show ?case by (cases ts) auto
qed simp

lemma split_on_plain: "c \<notin> set s \<Longrightarrow> split_on c s = [s]"
  by (induction s) auto

lemma split_on_append:
  "c \<notin> set s \<Longrightarrow> split_on c (s @ c # t) = s # split_on c t"
  by (induction s) auto

text \<open>
  \<open>s.splitlines()\<close>: a line ends at one of the ASCII line boundaries (a carriage return
  followed by a line feed is one boundary); there is no last empty line.
\<close>

definition line_end :: "char \<Rightarrow> bool" where
  "line_end c \<longleftrightarrow> c \<in> set [CHR 0x0A, CHR 0x0B, CHR 0x0C, CHR 0x0D, CHR 0x1C, CHR 0x1D, CHR 0x1E]"

fun splitlines_acc :: "bool \<Rightarrow> string \<Rightarrow> string \<Rightarrow> string list" where
  "splitlines_acc after_cr acc [] = (if acc = [] then [] else [rev acc])"
| "splitlines_acc after_cr acc (c # s) =
     (if after_cr \<and> c = CHR 0x0A then splitlines_acc False acc s
      else if line_end c then rev acc # splitlines_acc (c = CHR 0x0D) [] s
      else splitlines_acc False (c # acc) s)"

definition splitlines :: "string \<Rightarrow> string list" where
  "splitlines = splitlines_acc False []"

lemma splitlines_acc_plain:
  "\<forall>c \<in> set s. \<not> line_end c \<Longrightarrow>
   splitlines_acc b acc s = (if acc = [] \<and> s = [] then [] else [rev acc @ s])"
  by (induction s arbitrary: acc b) (auto simp: line_end_def)

lemma splitlines_acc_newline:
  "\<forall>c \<in> set s. \<not> line_end c \<Longrightarrow>
   splitlines_acc False acc (s @ CHR 0x0A # t) = (rev acc @ s) # splitlines_acc False [] t"
  by (induction s arbitrary: acc) (auto simp: line_end_def)

lemma splitlines_Nil [simp]: "splitlines [] = []"
  by (simp add: splitlines_def)

lemma splitlines_join:
  assumes "\<forall>l \<in> set ls. l \<noteq> [] \<and> (\<forall>c \<in> set l. \<not> line_end c)"
  shows "splitlines (join [CHR 0x0A] ls) = ls"
  using assms
proof (induction ls)
  case (Cons l ls)
  then show ?case
    by (cases "ls = []")
      (simp_all add: splitlines_def splitlines_acc_plain join_Cons splitlines_acc_newline)
qed simp

abbreviation newline :: string where
  "newline \<equiv> [CHR 0x0A]"

text \<open>Decimal rendering: \<open>str(n)\<close>, \<open>f"{n:02d}"\<close> and \<open>f"{n:03d}"\<close>.\<close>

definition digit_char :: "nat \<Rightarrow> char" where
  "digit_char n = ''0123456789'' ! (n mod 10)"

fun show_nat :: "nat \<Rightarrow> string" where
  "show_nat n = (if n < 10 then [digit_char n] else show_nat (n div 10) @ [digit_char n])"

declare show_nat.simps [simp del]

definition show_int :: "int \<Rightarrow> string" where
  "show_int i = (if i < 0 then ''-'' @ show_nat (nat (- i)) else show_nat (nat i))"

definition pad_zeros :: "nat \<Rightarrow> string \<Rightarrow> string" where
  "pad_zeros w s = replicate (w - length s) (CHR ''0'') @ s"

definition show02 :: "nat \<Rightarrow> string" where
  "show02 n = pad_zeros 2 (show_nat n)"

definition show03 :: "nat \<Rightarrow> string" where
  "show03 n = pad_zeros 3 (show_nat n)"

definition digit_val :: "char \<Rightarrow> nat" where
  "digit_val c = of_char c - 48"

definition read_nat :: "string \<Rightarrow> nat" where
  "read_nat s = foldl (\<lambda>n c. 10 * n + digit_val c) 0 s"

lemma less_10_cases:
  "n < 10 \<Longrightarrow> n \<in> {0, 1, 2, 3, 4, 5, 6, 7, 8, 9 :: nat}"
  by auto

lemma digit_val_digit_char [simp]: "digit_val (digit_char n) = n mod 10"
proof -
  have "n mod 10 < 10" by simp
  from less_10_cases [OF this] show ?thesis
    by (auto simp: digit_char_def digit_val_def)
qed

lemma read_nat_snoc: "read_nat (s @ [c]) = 10 * read_nat s + digit_val c"
  by (simp add: read_nat_def)

lemma read_show_nat [simp]: "read_nat (show_nat n) = n"
proof (induction n rule: show_nat.induct)
  case (1 n)
  show ?case
  proof (cases "n < 10")
    case True
    then show ?thesis by (subst show_nat.simps) (simp add: read_nat_def)
  next
    case False
    with 1 show ?thesis by (subst show_nat.simps) (simp add: read_nat_snoc)
  qed
qed

lemma show_nat_inj: "show_nat m = show_nat n \<Longrightarrow> m = n"
  by (metis read_show_nat)

lemma read_nat_pad [simp]: "read_nat (pad_zeros w s) = read_nat s"
proof -
  have "read_nat (replicate k (CHR ''0'') @ s) = read_nat s" for k
    by (induction k) (simp_all add: read_nat_def digit_val_def)
  then show ?thesis by (simp add: pad_zeros_def)
qed

lemma show02_inj: "show02 m = show02 n \<Longrightarrow> m = n"
  unfolding show02_def by (metis read_nat_pad read_show_nat)

lemma show03_inj: "show03 m = show03 n \<Longrightarrow> m = n"
  unfolding show03_def by (metis read_nat_pad read_show_nat)

section \<open>Order-preserving deduplication\<close>

text \<open>\<open>tuple(dict.fromkeys(xs))\<close>: the first occurrence of every element, in order.\<close>

fun dedup :: "'a list \<Rightarrow> 'a list" where
  "dedup [] = []"
| "dedup (x # xs) = x # filter (\<lambda>y. y \<noteq> x) (dedup xs)"

lemma set_dedup [simp]: "set (dedup xs) = set xs"
  by (induction xs) auto

lemma distinct_dedup [simp]: "distinct (dedup xs)"
  by (induction xs) auto

lemma dedup_distinct: "distinct xs \<Longrightarrow> dedup xs = xs"
proof (induction xs)
  case (Cons x xs)
  then have "dedup xs = xs" and "x \<notin> set xs" by simp_all
  then show ?case by (auto intro: filter_True)
qed simp

lemma dedup_idem [simp]: "dedup (dedup xs) = dedup xs"
  by (rule dedup_distinct) simp

lemma length_dedup: "length (dedup xs) \<le> length xs"
  by (induction xs) (auto intro: le_trans [OF length_filter_le])

section \<open>Dynamically typed values\<close>

text \<open>
  What an unchecked argument or a decoded JSON document may be. A member of a \<open>StrEnum\<close> is
  the string of its value. Floats of the sources are rationals (no NaN, no infinity). A
  dictionary is the association list of its items in insertion order.
\<close>

datatype pyval =
    PNone
  | PBool bool
  | PInt int
  | PFloat rat
  | PStr string
  | PList "pyval list"
  | PTuple "pyval list"
  | PDict "(string \<times> pyval) list"

text \<open>\<open>bool(x)\<close>.\<close>

fun truthy :: "pyval \<Rightarrow> bool" where
  "truthy PNone = False"
| "truthy (PBool b) = b"
| "truthy (PInt i) = (i \<noteq> 0)"
| "truthy (PFloat q) = (q \<noteq> 0)"
| "truthy (PStr s) = (s \<noteq> [])"
| "truthy (PList xs) = (xs \<noteq> [])"
| "truthy (PTuple xs) = (xs \<noteq> [])"
| "truthy (PDict xs) = (xs \<noteq> [])"

text \<open>\<open>x == 2\<close> for an integer literal: Python compares numbers across their types.\<close>

fun num_eq :: "pyval \<Rightarrow> int \<Rightarrow> bool" where
  "num_eq (PBool b) n = ((if b then 1 else 0) = n)"
| "num_eq (PInt i) n = (i = n)"
| "num_eq (PFloat q) n = (q = rat_of_int n)"
| "num_eq _ n = False"

text \<open>The dictionary accesses: \<open>d.get(k)\<close>, \<open>d.get(k, default)\<close>, \<open>k in d\<close>.\<close>

definition dget :: "(string \<times> pyval) list \<Rightarrow> string \<Rightarrow> pyval" where
  "dget d k = (case map_of d k of None \<Rightarrow> PNone | Some v \<Rightarrow> v)"

definition dget_or :: "(string \<times> pyval) list \<Rightarrow> string \<Rightarrow> pyval \<Rightarrow> pyval" where
  "dget_or d k v0 = (case map_of d k of None \<Rightarrow> v0 | Some v \<Rightarrow> v)"

text \<open>\<open>d[k] = v\<close>: an existing key keeps its place, a new one is appended; \<open>d.update(e)\<close>.\<close>

fun dset :: "(string \<times> 'v) list \<Rightarrow> string \<Rightarrow> 'v \<Rightarrow> (string \<times> 'v) list" where
  "dset [] k v = [(k, v)]"
| "dset ((k', v') # d) k v = (if k' = k then (k, v) # d else (k', v') # dset d k v)"

definition dupdate :: "(string \<times> 'v) list \<Rightarrow> (string \<times> 'v) list \<Rightarrow> (string \<times> 'v) list" where
  "dupdate d e = fold (\<lambda>(k, v) acc. dset acc k v) e d"

lemma map_of_dset [simp]: "map_of (dset d k v) = (map_of d)(k \<mapsto> v)"
  by (induction d) auto

lemma map_of_dupdate:
  "distinct (map fst e) \<Longrightarrow> map_of (dupdate d e) = map_of d ++ map_of e"
proof (induction e arbitrary: d)
  case Nil
  then show ?case by (simp add: dupdate_def)
next
  case (Cons kv e)
  obtain k v where kv: "kv = (k, v)" by force
  from Cons.prems kv have fresh: "map_of e k = None" and dist: "distinct (map fst e)"
    by (auto simp: map_of_eq_None_iff)
  have "map_of (dupdate d (kv # e)) = (map_of d)(k \<mapsto> v) ++ map_of e"
    using Cons.IH [OF dist] kv by (simp add: dupdate_def fun_upd_def)
  also have "\<dots> = map_of d ++ map_of (kv # e)"
    using fresh kv by (auto simp: map_add_def fun_eq_iff split: option.splits)
  finally show ?case .
qed

lemma dget_dset [simp]: "dget (dset d k v) k' = (if k' = k then v else dget d k')"
  by (simp add: dget_def)

definition py_keys :: "(string \<times> 'v) list \<Rightarrow> string set" where
  "py_keys d = fst ` set d"

section \<open>Collections of facts\<close>

named_theorems value_simps \<open>values of enumeration members\<close>
named_theorems step_defs \<open>definitions of state-changing operations\<close>

end
