(* ===== verification/RecoveryPolicy.thy ===== *)
theory RecoveryPolicy
  imports Py_Prelude
begin

text \<open>
  The failure classification of \<open>recovery_policy.py\<close>: the single table from stable failure
  codes to failure classes, the ladder of recovery strategies of every class, the classification
  of one failure, the executor fallbacks, the autonomous budget and its wall clock.

  The lemmas show that classification is total on every non-blank code, that it only depends on
  the stable code before the first colon, and exactly which codes reach \<open>HARD_STOP\<close> and
  \<open>WAIT_HUMAN\<close>.
\<close>

section \<open>Classes, strategies and the classification table\<close>

datatype failure_class = TRANSIENT | FIXABLE | SPEC_DECISION | FATAL

datatype recovery_strategy =
    RETRY_TARGETED | FALLBACK_EXECUTOR | MARK_FAILED_CONTINUE
  | WAIT_EXTERNAL_STRATEGY | WAIT_HUMAN_STRATEGY | HARD_STOP

definition terminal_strategy :: "recovery_strategy \<Rightarrow> bool" where
  "terminal_strategy s \<longleftrightarrow> s \<in> {WAIT_EXTERNAL_STRATEGY, WAIT_HUMAN_STRATEGY, HARD_STOP}"

fun strategy_value :: "recovery_strategy \<Rightarrow> string" where
  "strategy_value RETRY_TARGETED = ''retry_targeted''"
| "strategy_value FALLBACK_EXECUTOR = ''fallback_executor''"
| "strategy_value MARK_FAILED_CONTINUE = ''mark_failed_continue''"
| "strategy_value WAIT_EXTERNAL_STRATEGY = ''wait_external''"
| "strategy_value WAIT_HUMAN_STRATEGY = ''wait_human''"
| "strategy_value HARD_STOP = ''hard_stop''"

text \<open>The table, in the order of the source: patterns are tried in this order.\<close>

definition failure_classes :: "(string \<times> failure_class) list" where
  "failure_classes =
    [(''UNSCANNABLE_STAGED_BLOB'', FATAL),
     (''STAGED_BLOB_SCAN_FAILED'', FATAL),
     (''UNREVIEWABLE_TEXT_DIFF'', FATAL),
     (''HEAD_MODIFIED_OUTSIDE_AUTHORITY'', FATAL),
     (''BRANCH_MODIFIED_OUTSIDE_AUTHORITY'', FATAL),
     (''REMOTE_AUTHORITY_MISMATCH'', FATAL),
     (''ROLLBACK_TREE_MISMATCH'', FATAL),
     (''SECRET_*'', FATAL),
     (''*_BLOB_NOT_REVIEWABLE'', FATAL),
     (''COMMIT_SECURITY_FAILURE'', FATAL),
     (''TREE_MODIFIED_OUTSIDE_AUTHORITY'', FATAL),
     (''BASE_MOVED_SINCE_RUN'', FATAL),
     (''REPOSITORY_TREE_DRIFT_UNEXPLAINED'', FATAL),
     (''HARD_DENY_PATH_MUTATION'', FATAL),
     (''ROLLBACK_FAILED'', FATAL),
     (''RESUME_REQUIRES_OPERATOR'', FATAL),
     (''RESUME_INTEGRITY_FAILURE'', FATAL),
     (''DURABLE_ARTIFACT_CORRUPTED'', FATAL),
     (''RUN_SCHEMA_UNSUPPORTED'', FATAL),
     (''AUDIT_PROFILE_NOT_WRITABLE'', FATAL),
     (''SPEC_DECISION_REQUIRED'', SPEC_DECISION),
     (''LLM_*'', TRANSIENT),
     (''AGENT_RUNTIME_FAILED'', TRANSIENT),
     (''AGENT_TIMEOUT'', TRANSIENT),
     (''EXTERNAL_AUTH_REQUIRED'', TRANSIENT),
     (''PUSH_FAILED'', TRANSIENT),
     (''GITHUB_WORKSTREAM_FAILURE'', TRANSIENT),
     (''GIT_FAILURE'', TRANSIENT),
     (''CHECK_INFRASTRUCTURE_UNAVAILABLE'', TRANSIENT),
     (''CHECK_SIDE_EFFECT_REPEATED'', TRANSIENT),
     (''AGENT_CONTRACT_MISMATCH'', FIXABLE),
     (''AGENT_SCOPE_VIOLATION'', FIXABLE),
     (''AGENT_GIT_VIOLATION'', FIXABLE),
     (''CHECK_FAILED'', FIXABLE),
     (''DETERMINISTIC_GATE_FAILED'', FIXABLE),
     (''INTERNAL_HARNESS_ERROR'', FIXABLE),
     (''CONFIGURATION_INVALID'', FIXABLE),
     (''PER_STEP_GATE_REGRESSION'', FIXABLE),
     (''PLANNER_OUTPUT_INVALID'', FIXABLE),
     (''PLAN_APPROVAL_INVALID'', FIXABLE),
     (''COMMIT_GATE_FAILED'', FIXABLE)]"

fun recovery_ladder :: "failure_class \<Rightarrow> recovery_strategy list" where
  "recovery_ladder TRANSIENT = [RETRY_TARGETED, FALLBACK_EXECUTOR, WAIT_EXTERNAL_STRATEGY]"
| "recovery_ladder FIXABLE = [RETRY_TARGETED, FALLBACK_EXECUTOR, MARK_FAILED_CONTINUE]"
| "recovery_ladder SPEC_DECISION = [WAIT_HUMAN_STRATEGY]"
| "recovery_ladder FATAL = [HARD_STOP]"

fun class_reason :: "failure_class \<Rightarrow> string" where
  "class_reason TRANSIENT = ''a temporary external condition; retried, then waited on''"
| "class_reason FIXABLE = ''an ordinary failure; recovered autonomously''"
| "class_reason SPEC_DECISION = ''a product decision the SPEC does not settle''"
| "class_reason FATAL = ''a proven, irrecoverable authority or integrity boundary''"

section \<open>Decisions\<close>

record recovery_decision =
  rd_class :: failure_class
  rd_strategy :: recovery_strategy
  rd_reason :: string
  rd_known :: bool

datatype policy_error =
    Failure_not_a_code
  | Decision_reason_empty
  | Strategy_unreachable failure_class recovery_strategy
  | Fallbacks_not_a_tuple string
  | Fallbacks_invalid_profile string
  | Execution_class_invalid
  | Budget_out_of_bounds string

text \<open>The checks \<open>RecoveryDecision.__post_init__\<close> makes before a decision exists.\<close>

definition mk_recovery_decision ::
  "failure_class \<Rightarrow> recovery_strategy \<Rightarrow> string \<Rightarrow> bool \<Rightarrow> policy_error + recovery_decision" where
  "mk_recovery_decision c s reason known =
     (if blank reason then Inl Decision_reason_empty
      else if (s = HARD_STOP) \<noteq> (c = FATAL) \<or> (s = WAIT_HUMAN_STRATEGY) \<noteq> (c = SPEC_DECISION)
      then Inl (Strategy_unreachable c s)
      else Inr \<lparr>rd_class = c, rd_strategy = s, rd_reason = reason, rd_known = known\<rparr>)"

definition stable_code :: "pyval \<Rightarrow> policy_error + string" where
  "stable_code failure =
     (case failure of
        PStr s \<Rightarrow> if blank s then Inl Failure_not_a_code
                  else Inr (upper (strip (head_of '':'' (strip s))))
      | _ \<Rightarrow> Inl Failure_not_a_code)"

definition failure_code_aliases :: "(string \<times> string) list" where
  "failure_code_aliases =
    [(''AGENT_AUTH_FAILURE'', ''EXTERNAL_AUTH_REQUIRED''),
     (''LLM_401'', ''EXTERNAL_AUTH_REQUIRED''),
     (''LLM_403'', ''EXTERNAL_AUTH_REQUIRED''),
     (''LLM_AUTH_FAILURE'', ''EXTERNAL_AUTH_REQUIRED'')]"

definition resolve_alias :: "string \<Rightarrow> string" where
  "resolve_alias code = (case map_of failure_code_aliases code of None \<Rightarrow> code | Some c \<Rightarrow> c)"

definition canonical_failure_code :: "pyval \<Rightarrow> policy_error + string" where
  "canonical_failure_code failure = rbind (stable_code failure) (\<lambda>code. Inr (resolve_alias code))"

text \<open>A key ending with a star is a prefix pattern, one starting with a star a suffix pattern.\<close>

definition pattern_matches :: "string \<Rightarrow> string \<Rightarrow> bool" where
  "pattern_matches key code \<longleftrightarrow>
     (ends ''*'' key \<and> starts (butlast key) code) \<or> (starts ''*'' key \<and> ends (tl key) code)"

definition lookup_class :: "string \<Rightarrow> failure_class option" where
  "lookup_class code =
     (case map_of failure_classes code of
        Some c \<Rightarrow> Some c
      | None \<Rightarrow> map_option snd (find (\<lambda>(key, _). pattern_matches key code) failure_classes))"

definition classify_failure :: "pyval \<Rightarrow> bool \<Rightarrow> policy_error + recovery_decision" where
  "classify_failure failure exhausted =
     rbind (canonical_failure_code failure) (\<lambda>code.
       let known = lookup_class code;
           c = (case known of None \<Rightarrow> FIXABLE | Some k \<Rightarrow> k);
           ladder = recovery_ladder c
       in mk_recovery_decision c (if exhausted then last ladder else hd ladder)
            (class_reason c) (known \<noteq> None))"

section \<open>Executor fallbacks\<close>

record execution_fallbacks =
  fb_mechanical :: "string list"
  fb_reasoning :: "string list"
  fb_agentic :: "string list"
  fb_audit :: "string list"

definition valid_profile_id :: "pyval \<Rightarrow> bool" where
  "valid_profile_id v \<longleftrightarrow>
     (case v of
        PStr s \<Rightarrow> s \<noteq> [] \<and> py_len s \<le> 64 \<and> is_alnum (hd s)
          \<and> list_all (\<lambda>c. is_alnum c \<or> c \<in> set ''_.-'') s
      | _ \<Rightarrow> False)"

fun str_of :: "pyval \<Rightarrow> string" where
  "str_of (PStr s) = s"
| "str_of _ = []"

definition fallback_list :: "string \<Rightarrow> pyval \<Rightarrow> policy_error + string list" where
  "fallback_list name values =
     (case values of
        PTuple vs \<Rightarrow>
          if length vs > 10 \<or> \<not> list_all valid_profile_id vs \<or> \<not> distinct vs
          then Inl (Fallbacks_invalid_profile name)
          else Inr (map str_of vs)
      | _ \<Rightarrow> Inl (Fallbacks_not_a_tuple name))"

definition mk_execution_fallbacks ::
  "pyval \<Rightarrow> pyval \<Rightarrow> pyval \<Rightarrow> pyval \<Rightarrow> policy_error + execution_fallbacks" where
  "mk_execution_fallbacks m r a u =
     rbind (fallback_list ''mechanical'' m) (\<lambda>ms.
     rbind (fallback_list ''reasoning'' r) (\<lambda>rs.
     rbind (fallback_list ''agentic'' a) (\<lambda>as.
     rbind (fallback_list ''audit'' u) (\<lambda>us.
       Inr \<lparr>fb_mechanical = ms, fb_reasoning = rs, fb_agentic = as, fb_audit = us\<rparr>))))"

definition for_execution_class :: "execution_fallbacks \<Rightarrow> string \<Rightarrow> policy_error + string list" where
  "for_execution_class fb execution_class =
     (let key = casefold execution_class
      in if key = ''mechanical'' then Inr (fb_mechanical fb)
         else if key = ''reasoning'' then Inr (fb_reasoning fb)
         else if key = ''agentic'' then Inr (fb_agentic fb)
         else Inl Execution_class_invalid)"

section \<open>The autonomous budget\<close>

record autonomy_budget =
  step_attempts :: int
  audit_repairs :: int
  max_iterations :: int
  max_wall_clock_hours :: rat
  max_cost :: rat

definition int_in :: "int \<Rightarrow> int \<Rightarrow> string \<Rightarrow> pyval \<Rightarrow> policy_error + int" where
  "int_in lo hi name v =
     (case v of
        PInt i \<Rightarrow> if lo \<le> i \<and> i \<le> hi then Inr i else Inl (Budget_out_of_bounds name)
      | _ \<Rightarrow> Inl (Budget_out_of_bounds name))"

fun num_val :: "pyval \<Rightarrow> rat option" where
  "num_val (PInt i) = Some (rat_of_int i)"
| "num_val (PFloat q) = Some q"
| "num_val _ = None"

definition mk_autonomy_budget ::
  "pyval \<Rightarrow> pyval \<Rightarrow> pyval \<Rightarrow> pyval \<Rightarrow> pyval \<Rightarrow> policy_error + autonomy_budget" where
  "mk_autonomy_budget attempts repairs iterations hours cost =
     rbind (int_in 1 10 ''step_attempts'' attempts) (\<lambda>a.
     rbind (int_in 0 10 ''audit_repairs'' repairs) (\<lambda>r.
     rbind (int_in 1 99 ''max_iterations'' iterations) (\<lambda>m.
     case num_val hours of
       None \<Rightarrow> Inl (Budget_out_of_bounds ''max_wall_clock_hours'')
     | Some h \<Rightarrow>
         if \<not> (0 < h \<and> h \<le> 720) then Inl (Budget_out_of_bounds ''max_wall_clock_hours'')
         else (case num_val cost of
             None \<Rightarrow> Inl (Budget_out_of_bounds ''max_cost'')
           | Some c \<Rightarrow>
               if \<not> (0 \<le> c \<and> c \<le> 1000000000) then Inl (Budget_out_of_bounds ''max_cost'')
               else Inr \<lparr>step_attempts = a, audit_repairs = r, max_iterations = m,
                      max_wall_clock_hours = h, max_cost = c\<rparr>))))"

definition unsupported_cost_cap :: "pyval \<Rightarrow> string option" where
  "unsupported_cost_cap cost =
     (if num_eq cost 0 then None
      else Some (''budget.max_cost > 0 is not supported: no configured provider publishes ''
        @ ''an explicit cost, and MetaHarness never derives a price from tokens''))"

text \<open>
  \<open>parse_iso\<close> is \<open>datetime.fromisoformat\<close>: the instant a timestamp names, in seconds, a naive one
  read as UTC; \<^const>\<open>None\<close> where it raises \<open>ValueError\<close>. \<open>now\<close> is the clock, in seconds.
\<close>

fun replace_Z :: "string \<Rightarrow> string" where
  "replace_Z [] = []"
| "replace_Z (c # s) = (if c = CHR ''Z'' then ''+00:00'' @ replace_Z s else c # replace_Z s)"

definition elapsed_hours :: "(string \<Rightarrow> rat option) \<Rightarrow> pyval \<Rightarrow> rat \<Rightarrow> rat option" where
  "elapsed_hours parse_iso started_at now =
     (case started_at of
        PStr s \<Rightarrow>
          if blank s then None
          else (case parse_iso (replace_Z (strip s)) of
              None \<Rightarrow> None
            | Some started \<Rightarrow> Some ((now - started) / 3600))
      | _ \<Rightarrow> None)"

definition wall_clock_exhausted :: "(string \<Rightarrow> rat option) \<Rightarrow> pyval \<Rightarrow> rat \<Rightarrow> rat \<Rightarrow> bool" where
  "wall_clock_exhausted parse_iso started_at max_hours now =
     (case elapsed_hours parse_iso started_at now of None \<Rightarrow> False | Some h \<Rightarrow> h \<ge> max_hours)"

section \<open>Facts the other components use\<close>

definition class_of_code :: "string \<Rightarrow> failure_class" where
  "class_of_code code = (case lookup_class code of None \<Rightarrow> FIXABLE | Some k \<Rightarrow> k)"

definition code_of :: "string \<Rightarrow> string" where
  "code_of s = resolve_alias (upper (strip (head_of '':'' (strip s))))"

definition decision_for :: "string \<Rightarrow> bool \<Rightarrow> recovery_decision" where
  "decision_for code exhausted =
     (let c = class_of_code code; ladder = recovery_ladder c
      in \<lparr>rd_class = c, rd_strategy = (if exhausted then last ladder else hd ladder),
          rd_reason = class_reason c, rd_known = (lookup_class code \<noteq> None)\<rparr>)"

lemma class_reason_not_blank [simp]: "\<not> blank (class_reason c)"
  by (cases c) (simp_all add: blank_def ws_def)

lemma canonical_failure_code_str [simp]:
  "\<not> blank s \<Longrightarrow> canonical_failure_code (PStr s) = Inr (code_of s)"
  by (simp add: canonical_failure_code_def stable_code_def code_of_def)

lemma classify_failure_str [simp]:
  "\<not> blank s \<Longrightarrow> classify_failure (PStr s) exhausted = Inr (decision_for (code_of s) exhausted)"
  unfolding classify_failure_def decision_for_def class_of_code_def mk_recovery_decision_def
  by (cases "case lookup_class (code_of s) of None \<Rightarrow> FIXABLE | Some k \<Rightarrow> k")
    (simp_all add: Let_def)

lemma decision_class [simp]: "rd_class (decision_for code ex) = class_of_code code"
  by (simp add: decision_for_def Let_def)

lemma decision_known [simp]: "rd_known (decision_for code ex) = (lookup_class code \<noteq> None)"
  by (simp add: decision_for_def Let_def)

lemma decision_hard_stop: "rd_strategy (decision_for code ex) = HARD_STOP \<longleftrightarrow> class_of_code code = FATAL"
  by (cases "class_of_code code") (simp_all add: decision_for_def Let_def)

lemma decision_wait_human:
  "rd_strategy (decision_for code ex) = WAIT_HUMAN_STRATEGY \<longleftrightarrow> class_of_code code = SPEC_DECISION"
  by (cases "class_of_code code") (simp_all add: decision_for_def Let_def)

lemma decision_exhausted_continue:
  "rd_strategy (decision_for code True) = MARK_FAILED_CONTINUE \<longleftrightarrow> class_of_code code = FIXABLE"
  by (cases "class_of_code code") (simp_all add: decision_for_def Let_def)

lemma decision_exhausted_external:
  "rd_strategy (decision_for code True) = WAIT_EXTERNAL_STRATEGY \<longleftrightarrow> class_of_code code = TRANSIENT"
  by (cases "class_of_code code") (simp_all add: decision_for_def Let_def)

lemma decision_first_terminal:
  "terminal_strategy (rd_strategy (decision_for code False)) \<longleftrightarrow>
     class_of_code code \<in> {SPEC_DECISION, FATAL}"
  by (cases "class_of_code code") (simp_all add: decision_for_def Let_def terminal_strategy_def)

lemmas decision_strategies =
  decision_hard_stop decision_wait_human decision_exhausted_continue
  decision_exhausted_external decision_first_terminal

text \<open>Only the exact codes of the table and the three patterns have a class of their own.\<close>

definition exact_codes :: "failure_class \<Rightarrow> string list" where
  "exact_codes c = map fst (filter (\<lambda>(k, d). d = c) failure_classes)"

lemma find_pattern:
  "find (\<lambda>(key, _). pattern_matches key code) failure_classes =
     (if starts ''SECRET_'' code then Some (''SECRET_*'', FATAL)
      else if ends ''_BLOB_NOT_REVIEWABLE'' code then Some (''*_BLOB_NOT_REVIEWABLE'', FATAL)
      else if starts ''LLM_'' code then Some (''LLM_*'', TRANSIENT)
      else None)"
proof -
  have plain: "\<not> pattern_matches k code" if "hd k \<noteq> CHR ''*''" "last k \<noteq> CHR ''*''" "k \<noteq> []" for k
    using that by (cases k rule: rev_cases) (auto simp: pattern_matches_def ends_iff starts_iff)
  have secret: "pattern_matches ''SECRET_*'' code = starts ''SECRET_'' code"
    and blob: "pattern_matches ''*_BLOB_NOT_REVIEWABLE'' code = ends ''_BLOB_NOT_REVIEWABLE'' code"
    and llm: "pattern_matches ''LLM_*'' code = starts ''LLM_'' code"
    by (simp_all add: pattern_matches_def ends_def starts_def)
  show ?thesis
    unfolding failure_classes_def by (simp add: plain secret blob llm)
qed

lemma lookup_class_cases:
  "lookup_class code =
     (case map_of failure_classes code of
        Some c \<Rightarrow> Some c
      | None \<Rightarrow>
          if starts ''SECRET_'' code \<or> ends ''_BLOB_NOT_REVIEWABLE'' code then Some FATAL
          else if starts ''LLM_'' code then Some TRANSIENT else None)"
  by (simp add: lookup_class_def find_pattern split: option.split)

lemma resolve_alias_idem: "resolve_alias (resolve_alias c) = resolve_alias c"
  by (simp add: resolve_alias_def failure_code_aliases_def split: option.split)


text \<open>The code before the first colon.\<close>

lemma head_no_colon: "CHR '':'' \<notin> set s \<Longrightarrow> head_of '':'' s = s"
  by (cases "cut '':'' s") (auto simp: head_of_def dest: cut_Some)

lemma cut_colon: "CHR '':'' \<notin> set a \<Longrightarrow> cut '':'' (a @ CHR '':'' # b) = Some (a, b)"
  by (induction a) (auto simp: starts_def)

lemma set_strip_colon: "c \<notin> set s \<Longrightarrow> c \<notin> set (strip s)"
  unfolding strip_def rstrip_def lstrip_def by (metis set_dropWhileD set_rev)

lemma head_before_colon:
  assumes "\<not> blank a" and "CHR '':'' \<notin> set a"
  shows "strip (head_of '':'' (strip (a @ CHR '':'' # b))) = strip a"
proof -
  from assms(1) obtain x where "x \<in> set a" and "\<not> ws x" by (auto simp: blank_def list_all_iff)
  then have "lstrip (a @ CHR '':'' # b) = lstrip a @ CHR '':'' # b"
    unfolding lstrip_def by (rule dropWhile_append1)
  moreover have "rstrip (t @ CHR '':'' # b) = t @ CHR '':'' # rstrip b" for t
    unfolding rstrip_def by (simp add: dropWhile_append ws_def)
  ultimately have "strip (a @ CHR '':'' # b) = lstrip a @ CHR '':'' # rstrip b"
    by (simp add: strip_def)
  moreover have "CHR '':'' \<notin> set (lstrip a)"
    using assms(2) unfolding lstrip_def by (metis set_dropWhileD)
  ultimately show ?thesis by (simp add: head_of_def cut_colon strip_def)
qed

text \<open>The specification of the fatal boundaries: eighteen codes and two families.\<close>

definition boundary_code :: "string \<Rightarrow> bool" where
  "boundary_code code \<longleftrightarrow>
     code \<in> set [''UNSCANNABLE_STAGED_BLOB'', ''STAGED_BLOB_SCAN_FAILED'', ''UNREVIEWABLE_TEXT_DIFF'',
       ''HEAD_MODIFIED_OUTSIDE_AUTHORITY'', ''BRANCH_MODIFIED_OUTSIDE_AUTHORITY'',
       ''REMOTE_AUTHORITY_MISMATCH'', ''ROLLBACK_TREE_MISMATCH'', ''COMMIT_SECURITY_FAILURE'',
       ''TREE_MODIFIED_OUTSIDE_AUTHORITY'', ''BASE_MOVED_SINCE_RUN'',
       ''REPOSITORY_TREE_DRIFT_UNEXPLAINED'', ''HARD_DENY_PATH_MUTATION'', ''ROLLBACK_FAILED'',
       ''RESUME_REQUIRES_OPERATOR'', ''RESUME_INTEGRITY_FAILURE'', ''DURABLE_ARTIFACT_CORRUPTED'',
       ''RUN_SCHEMA_UNSUPPORTED'', ''AUDIT_PROFILE_NOT_WRITABLE'']
     \<or> starts ''SECRET_'' code \<or> ends ''_BLOB_NOT_REVIEWABLE'' code"

lemma table_distinct: "distinct (map fst failure_classes)"
  by code_simp

lemma table_fatal: "list_all (\<lambda>(k, c). c = FATAL \<longleftrightarrow> boundary_code k) failure_classes"
  by code_simp

lemma table_complete:
  "list_all (\<lambda>k. map_of failure_classes k = Some FATAL)
     [''UNSCANNABLE_STAGED_BLOB'', ''STAGED_BLOB_SCAN_FAILED'', ''UNREVIEWABLE_TEXT_DIFF'',
       ''HEAD_MODIFIED_OUTSIDE_AUTHORITY'', ''BRANCH_MODIFIED_OUTSIDE_AUTHORITY'',
       ''REMOTE_AUTHORITY_MISMATCH'', ''ROLLBACK_TREE_MISMATCH'', ''COMMIT_SECURITY_FAILURE'',
       ''TREE_MODIFIED_OUTSIDE_AUTHORITY'', ''BASE_MOVED_SINCE_RUN'',
       ''REPOSITORY_TREE_DRIFT_UNEXPLAINED'', ''HARD_DENY_PATH_MUTATION'', ''ROLLBACK_FAILED'',
       ''RESUME_REQUIRES_OPERATOR'', ''RESUME_INTEGRITY_FAILURE'', ''DURABLE_ARTIFACT_CORRUPTED'',
       ''RUN_SCHEMA_UNSUPPORTED'', ''AUDIT_PROFILE_NOT_WRITABLE'']"
  by code_simp

lemma table_spec_decision: "list_all (\<lambda>(k, c). c = SPEC_DECISION \<longleftrightarrow> k = ''SPEC_DECISION_REQUIRED'') failure_classes"
  by code_simp

lemma class_fatal: "class_of_code code = FATAL \<longleftrightarrow> boundary_code code"
proof (cases "map_of failure_classes code")
  case None
  then have "code \<notin> set [''UNSCANNABLE_STAGED_BLOB'', ''STAGED_BLOB_SCAN_FAILED'', ''UNREVIEWABLE_TEXT_DIFF'',
       ''HEAD_MODIFIED_OUTSIDE_AUTHORITY'', ''BRANCH_MODIFIED_OUTSIDE_AUTHORITY'',
       ''REMOTE_AUTHORITY_MISMATCH'', ''ROLLBACK_TREE_MISMATCH'', ''COMMIT_SECURITY_FAILURE'',
       ''TREE_MODIFIED_OUTSIDE_AUTHORITY'', ''BASE_MOVED_SINCE_RUN'',
       ''REPOSITORY_TREE_DRIFT_UNEXPLAINED'', ''HARD_DENY_PATH_MUTATION'', ''ROLLBACK_FAILED'',
       ''RESUME_REQUIRES_OPERATOR'', ''RESUME_INTEGRITY_FAILURE'', ''DURABLE_ARTIFACT_CORRUPTED'',
       ''RUN_SCHEMA_UNSUPPORTED'', ''AUDIT_PROFILE_NOT_WRITABLE'']"
    using table_complete unfolding list_all_iff by (metis option.distinct(1))
  with None show ?thesis
    by (simp only: class_of_code_def lookup_class_cases boundary_code_def option.case simp_thms
        split: option.split if_split) simp
next
  case (Some c)
  then have "(code, c) \<in> set failure_classes" by (rule map_of_SomeD)
  with table_fatal Some show ?thesis
    by (auto simp: list_all_iff class_of_code_def lookup_class_def)
qed

lemma class_spec_decision: "class_of_code code = SPEC_DECISION \<longleftrightarrow> code = ''SPEC_DECISION_REQUIRED''"
proof (cases "map_of failure_classes code")
  case None
  moreover have "map_of failure_classes ''SPEC_DECISION_REQUIRED'' = Some SPEC_DECISION" by code_simp
  ultimately show ?thesis by (auto simp: class_of_code_def lookup_class_cases)
next
  case (Some c)
  then have "(code, c) \<in> set failure_classes" by (rule map_of_SomeD)
  with table_spec_decision Some show ?thesis
    by (auto simp: list_all_iff class_of_code_def lookup_class_def)
qed

section \<open>Properties\<close>

text \<open>C12: every failure that names a code is classified, and a run is stopped only at a listed
  boundary. The hard stop is reached exactly by the eighteen boundary codes and the two boundary
  families, the human wait exactly by a SPEC decision, whatever was tried before; a code no table
  knows is an ordinary failure, retried first and then passed over.\<close>

theorem only_boundaries_stop:
  assumes "\<not> blank failure"
  shows "\<exists>d. classify_failure (PStr failure) exhausted = Inr d
    \<and> (rd_strategy d = HARD_STOP \<longleftrightarrow> boundary_code (code_of failure))
    \<and> (rd_strategy d = WAIT_HUMAN_STRATEGY \<longleftrightarrow> code_of failure = ''SPEC_DECISION_REQUIRED'')
    \<and> (rd_known d \<or> rd_strategy d = (if exhausted then MARK_FAILED_CONTINUE else RETRY_TARGETED))"
proof -
  have unknown: "lookup_class (code_of failure) = None \<Longrightarrow>
      rd_strategy (decision_for (code_of failure) exhausted)
        = (if exhausted then MARK_FAILED_CONTINUE else RETRY_TARGETED)"
    by (simp add: decision_for_def class_of_code_def)
  show ?thesis
  proof (intro exI conjI)
    show "classify_failure (PStr failure) exhausted = Inr (decision_for (code_of failure) exhausted)"
      using assms by simp
    show "rd_known (decision_for (code_of failure) exhausted) \<or> rd_strategy (decision_for (code_of failure) exhausted)
        = (if exhausted then MARK_FAILED_CONTINUE else RETRY_TARGETED)"
      using unknown unfolding decision_known by blast
  qed (simp_all add: decision_hard_stop decision_wait_human class_fatal class_spec_decision)
qed

theorem only_boundaries_stop_witness:
  "\<exists>d. classify_failure (PStr ''secret_found: .env'') True = Inr d \<and> rd_strategy d = HARD_STOP"
proof -
  have "\<not> blank ''secret_found: .env''" and "boundary_code (code_of ''secret_found: .env'')" by code_simp+
  with only_boundaries_stop [of "''secret_found: .env''" True] show ?thesis by blast
qed

text \<open>The classification reads the stable code only. Whatever detail follows the colon, and
  whatever white space surrounds the code, the class, the strategy and the reason are the same.\<close>

theorem failure_detail_is_ignored:
  assumes "\<not> blank code" and "CHR '':'' \<notin> set code"
  shows "classify_failure (PStr (code @ '':'' @ detail)) exhausted = classify_failure (PStr (strip code)) exhausted"
proof -
  have "\<not> blank (code @ '':'' @ detail)" and "\<not> blank (strip code)"
    using assms(1) by (simp_all add: blank_def [of "code @ _"] blank_def [of code])
  moreover have "code_of (code @ '':'' @ detail) = code_of (strip code)"
    using assms by (simp add: code_of_def head_before_colon head_no_colon set_strip_colon)
  ultimately show ?thesis by simp
qed

theorem failure_detail_is_ignored_witness:
  "classify_failure (PStr ''git_failure: push rejected'') True = classify_failure (PStr ''git_failure'') True"
proof -
  have "\<not> blank ''git_failure''" and "CHR '':'' \<notin> set ''git_failure''" and "strip ''git_failure'' = ''git_failure''"
    by code_simp+
  with failure_detail_is_ignored [of "''git_failure''" "'' push rejected''" True] show ?thesis by simp
qed

end
