(* ===== verification/ConfigModels.thy ===== *)
theory ConfigModels
  imports RecoveryPolicy
begin

text \<open>
  The configuration and plan values of \<open>models.py\<close>: the closed vocabularies, the validated
  configuration dataclasses (every \<open>__post_init__\<close> is a constructor function that may refuse),
  and the selection of trusted checks. The lemmas show that a constructed value satisfies its
  bounds and that a selection returns exactly the requested catalogue entries.
\<close>

section \<open>Vocabularies\<close>

datatype execution_class = MECHANICAL | REASONING | AGENTIC

fun execution_class_value :: "execution_class \<Rightarrow> string" where
  "execution_class_value MECHANICAL = ''MECHANICAL''"
| "execution_class_value REASONING = ''REASONING''"
| "execution_class_value AGENTIC = ''AGENTIC''"

definition execution_class_of :: "pyval \<Rightarrow> execution_class option" where
  "execution_class_of v =
     (case v of
        PStr s \<Rightarrow> find (\<lambda>c. execution_class_value c = s) [MECHANICAL, REASONING, AGENTIC]
      | _ \<Rightarrow> None)"

datatype execution_mode = SINGLE | STAGED

fun execution_mode_value :: "execution_mode \<Rightarrow> string" where
  "execution_mode_value SINGLE = ''SINGLE''"
| "execution_mode_value STAGED = ''STAGED''"

datatype plan_decision = READY | BLOCKED

fun plan_decision_value :: "plan_decision \<Rightarrow> string" where
  "plan_decision_value READY = ''READY''"
| "plan_decision_value BLOCKED = ''BLOCKED''"

datatype blocker_kind = BLOCKER_SPEC_DECISION

datatype gate_stage = POST_IMPLEMENTATION

datatype cycle_kind = INITIAL

datatype config_error = Config_error string

definition is_str :: "pyval \<Rightarrow> bool" where
  "is_str v \<longleftrightarrow> (case v of PStr _ \<Rightarrow> True | _ \<Rightarrow> False)"

text \<open>\<open>isinstance(v, str) and v.strip()\<close>.\<close>

definition nonblank_str :: "pyval \<Rightarrow> bool" where
  "nonblank_str v \<longleftrightarrow> (case v of PStr s \<Rightarrow> \<not> blank s | _ \<Rightarrow> False)"

definition is_bool :: "pyval \<Rightarrow> bool" where
  "is_bool v \<longleftrightarrow> (case v of PBool _ \<Rightarrow> True | _ \<Rightarrow> False)"

text \<open>An integer that is not a boolean and greater than zero.\<close>

definition positive_int :: "pyval \<Rightarrow> bool" where
  "positive_int v \<longleftrightarrow> (case v of PInt i \<Rightarrow> i > 0 | _ \<Rightarrow> False)"

fun int_val :: "pyval \<Rightarrow> int" where
  "int_val (PInt i) = i"
| "int_val _ = 0"

fun bool_val :: "pyval \<Rightarrow> bool" where
  "bool_val (PBool b) = b"
| "bool_val _ = False"

section \<open>Routing\<close>

record routing_config =
  mechanical_profile :: string
  reasoning_profile :: string
  agentic_profile :: string

definition mk_routing_config :: "pyval \<Rightarrow> pyval \<Rightarrow> pyval \<Rightarrow> config_error + routing_config" where
  "mk_routing_config m r a =
     (if \<not> is_str m then Inl (Config_error ''routing mechanical_profile must be a profile id'')
      else if \<not> is_str r then Inl (Config_error ''routing reasoning_profile must be a profile id'')
      else if \<not> is_str a then Inl (Config_error ''routing agentic_profile must be a profile id'')
      else Inr \<lparr>mechanical_profile = str_of m, reasoning_profile = str_of r, agentic_profile = str_of a\<rparr>)"

definition profile_for :: "routing_config \<Rightarrow> pyval \<Rightarrow> config_error + string" where
  "profile_for cfg execution_class =
     (case execution_class_of execution_class of
        None \<Rightarrow> Inl (Config_error ''execution class is invalid'')
      | Some MECHANICAL \<Rightarrow> Inr (mechanical_profile cfg)
      | Some REASONING \<Rightarrow> Inr (reasoning_profile cfg)
      | Some AGENTIC \<Rightarrow> Inr (agentic_profile cfg))"

section \<open>Planning, publication, gate and transport configuration\<close>

record planning_config =
  pc_decomposition :: string
  pc_single_step_max_mutable_paths :: int
  pc_staged_step_max_mutable_paths :: int
  pc_execution_mode_policy :: string
  pc_max_steps_per_plan :: int
  pc_max_read_paths_per_step :: int
  pc_max_step_contract_chars :: int

definition mk_planning_config ::
  "pyval \<Rightarrow> pyval \<Rightarrow> pyval \<Rightarrow> pyval \<Rightarrow> pyval \<Rightarrow> pyval \<Rightarrow> pyval \<Rightarrow> pyval \<Rightarrow> config_error + planning_config" where
  "mk_planning_config protocol decomposition single staged policy max_steps max_read max_chars =
     (if protocol \<noteq> PStr ''v2'' then Inl (Config_error ''planning protocol must be v2'')
      else if decomposition \<notin> {PStr ''balanced'', PStr ''aggressive''}
      then Inl (Config_error ''planning decomposition must be balanced or aggressive'')
      else if \<not> positive_int single
      then Inl (Config_error ''single_step_max_mutable_paths must be an integer greater than zero'')
      else if \<not> positive_int staged
      then Inl (Config_error ''staged_step_max_mutable_paths must be an integer greater than zero'')
      else if \<not> positive_int max_steps
      then Inl (Config_error ''max_steps_per_plan must be an integer greater than zero'')
      else if \<not> positive_int max_read
      then Inl (Config_error ''max_read_paths_per_step must be an integer greater than zero'')
      else if \<not> positive_int max_chars
      then Inl (Config_error ''max_step_contract_chars must be an integer greater than zero'')
      else if int_val max_steps > 99
      then Inl (Config_error ''max_steps_per_plan must not exceed the protocol maximum of 99'')
      else if policy \<notin> {PStr ''auto'', PStr ''require-staged''}
      then Inl (Config_error ''planning execution_mode_policy must be auto or require-staged'')
      else Inr \<lparr>pc_decomposition = str_of decomposition,
        pc_single_step_max_mutable_paths = int_val single,
        pc_staged_step_max_mutable_paths = int_val staged,
        pc_execution_mode_policy = str_of policy,
        pc_max_steps_per_plan = int_val max_steps,
        pc_max_read_paths_per_step = int_val max_read,
        pc_max_step_contract_chars = int_val max_chars\<rparr>)"

text \<open>\<open>PlanningConfig()\<close>: the defaults of the dataclass.\<close>

definition default_planning :: planning_config where
  "default_planning = \<lparr>pc_decomposition = ''aggressive'', pc_single_step_max_mutable_paths = 3,
     pc_staged_step_max_mutable_paths = 3, pc_execution_mode_policy = ''auto'',
     pc_max_steps_per_plan = 12, pc_max_read_paths_per_step = 8, pc_max_step_contract_chars = 9000\<rparr>"

record publish_config =
  pub_enabled :: bool
  pub_remote :: string
  pub_mode :: string

definition valid_remote :: "pyval \<Rightarrow> bool" where
  "valid_remote v \<longleftrightarrow>
     (case v of
        PStr s \<Rightarrow> \<not> blank s \<and> \<not> list_ex ws s \<and> CHR 0x00 \<notin> set s \<and> \<not> starts ''-'' s
      | _ \<Rightarrow> False)"

definition mk_publish_config :: "pyval \<Rightarrow> pyval \<Rightarrow> pyval \<Rightarrow> config_error + publish_config" where
  "mk_publish_config enabled remote mode =
     (if \<not> is_bool enabled then Inl (Config_error ''publish.enabled must be a boolean'')
      else if \<not> valid_remote remote then Inl (Config_error ''publish.remote must be a valid remote name'')
      else if mode \<notin> {PStr ''run-branch'', PStr ''fast-forward-base''}
      then Inl (Config_error ''publish.mode must be run-branch or fast-forward-base'')
      else Inr \<lparr>pub_enabled = bool_val enabled, pub_remote = str_of remote, pub_mode = str_of mode\<rparr>)"

record prompt_budget_config =
  planner_max_bytes :: int
  implementer_max_bytes :: int
  audit_max_bytes :: int

definition mk_prompt_budget_config :: "pyval \<Rightarrow> pyval \<Rightarrow> pyval \<Rightarrow> config_error + prompt_budget_config" where
  "mk_prompt_budget_config p i a =
     (if \<not> positive_int p then Inl (Config_error ''planner_max_bytes must be an integer greater than zero'')
      else if \<not> positive_int i
      then Inl (Config_error ''implementer_max_bytes must be an integer greater than zero'')
      else if \<not> positive_int a then Inl (Config_error ''audit_max_bytes must be an integer greater than zero'')
      else Inr \<lparr>planner_max_bytes = int_val p, implementer_max_bytes = int_val i, audit_max_bytes = int_val a\<rparr>)"

definition mk_transport_config :: "pyval \<Rightarrow> config_error + int" where
  "mk_transport_config max_wait =
     (if \<not> positive_int max_wait
      then Inl (Config_error ''transport.max_wait_seconds must be a positive integer'')
      else Inr (int_val max_wait))"

definition mk_gate_config :: "pyval \<Rightarrow> config_error + string list" where
  "mk_gate_config per_step =
     (case per_step of
        PTuple ids \<Rightarrow>
          if \<not> distinct ids then Inl (Config_error ''gate.per_step check IDs must be unique'')
          else if \<not> list_all nonblank_str ids
          then Inl (Config_error ''gate.per_step must contain non-empty check IDs'')
          else Inr (map str_of ids)
      | _ \<Rightarrow> Inl (Config_error ''gate.per_step must be an array of check IDs''))"

record github_config =
  gh_enabled :: bool
  gh_issue_mode :: string
  gh_pull_request_mode :: string
  gh_issue_number :: "int option"
  gh_api_key_env :: "string option"

definition env_name :: "string \<Rightarrow> bool" where
  "env_name s \<longleftrightarrow> s \<noteq> [] \<and> (is_upper (hd s) \<or> is_lower (hd s) \<or> hd s = CHR ''_'')
     \<and> list_all (\<lambda>c. is_alnum c \<or> c = CHR ''_'') s"

definition mk_github_config ::
  "pyval \<Rightarrow> pyval \<Rightarrow> pyval \<Rightarrow> pyval \<Rightarrow> pyval \<Rightarrow> config_error + github_config" where
  "mk_github_config enabled issue_mode pr_mode issue_number api_key_env =
     (if \<not> is_bool enabled then Inl (Config_error ''github.enabled must be a boolean'')
      else if issue_mode \<notin> {PStr ''off'', PStr ''link-existing'', PStr ''create''}
      then Inl (Config_error ''github.issue_mode is invalid'')
      else if pr_mode \<notin> {PStr ''off'', PStr ''create''}
      then Inl (Config_error ''github.pull_request_mode is invalid'')
      else if issue_number \<noteq> PNone \<and> \<not> positive_int issue_number
      then Inl (Config_error ''github.issue_number must be a positive integer or null'')
      else if api_key_env \<noteq> PNone \<and> \<not> (is_str api_key_env \<and> env_name (str_of api_key_env))
      then Inl (Config_error ''github.api_key_env must be an environment variable name or null'')
      else Inr \<lparr>gh_enabled = bool_val enabled, gh_issue_mode = str_of issue_mode,
        gh_pull_request_mode = str_of pr_mode,
        gh_issue_number = (if issue_number = PNone then None else Some (int_val issue_number)),
        gh_api_key_env = (if api_key_env = PNone then None else Some (str_of api_key_env))\<rparr>)"

record run_cycle =
  cy_number :: int
  cy_kind :: cycle_kind

definition mk_run_cycle :: "pyval \<Rightarrow> pyval \<Rightarrow> config_error + run_cycle" where
  "mk_run_cycle num kind =
     (if \<not> positive_int num then Inl (Config_error ''run cycle number must be a positive integer'')
      else if kind \<noteq> PStr ''initial'' then Inl (Config_error ''run cycle kind is unknown'')
      else Inr \<lparr>cy_number = int_val num, cy_kind = INITIAL\<rparr>)"

section \<open>Model profiles\<close>

record model_profile =
  mp_id :: string
  mp_roles :: "string list"
  mp_driver :: string
  mp_model :: string
  mp_argv :: "string list"
  mp_provider :: string
  mp_driver_version :: "string option"
  mp_description :: string
  mp_strengths :: "string list"
  mp_cost_tier :: string
  mp_latency_tier :: string

definition plain_arg :: "pyval \<Rightarrow> bool" where
  "plain_arg v \<longleftrightarrow> (case v of PStr s \<Rightarrow> s \<noteq> [] \<and> CHR 0x00 \<notin> set s | _ \<Rightarrow> False)"

definition bounded_str :: "nat \<Rightarrow> pyval \<Rightarrow> bool" where
  "bounded_str n v \<longleftrightarrow> (case v of PStr s \<Rightarrow> py_len s \<le> n | _ \<Rightarrow> False)"

fun tuple_val :: "pyval \<Rightarrow> pyval list option" where
  "tuple_val (PTuple vs) = Some vs"
| "tuple_val _ = None"

text \<open>The identifier and the roles are not checked by the dataclass and are kept as given.\<close>

definition mk_model_profile ::
  "string \<Rightarrow> string list \<Rightarrow> pyval \<Rightarrow> pyval \<Rightarrow> pyval \<Rightarrow> pyval \<Rightarrow> pyval \<Rightarrow> pyval \<Rightarrow> pyval \<Rightarrow> pyval \<Rightarrow> pyval
     \<Rightarrow> config_error + model_profile" where
  "mk_model_profile ident roles driver model argv provider version description strengths cost latency =
     (if \<not> nonblank_str driver then Inl (Config_error ''profile driver must be a non-empty string'')
      else if \<not> nonblank_str model then Inl (Config_error ''profile model must be a non-empty string'')
      else (case tuple_val argv of
        None \<Rightarrow> Inl (Config_error ''profile argv must be a tuple of non-empty strings'')
      | Some args \<Rightarrow>
        if \<not> list_all plain_arg args
        then Inl (Config_error ''profile argv must be a tuple of non-empty strings'')
        else if \<not> nonblank_str provider then Inl (Config_error ''profile provider must be a non-empty string'')
        else if version \<noteq> PNone \<and> \<not> nonblank_str version
        then Inl (Config_error ''profile driver_version must be a non-empty string or null'')
        else if \<not> bounded_str 300 description
        then Inl (Config_error ''profile description must be at most 300 characters'')
        else (case tuple_val strengths of
          None \<Rightarrow> Inl (Config_error ''profile strengths must contain at most 8 entries'')
        | Some ss \<Rightarrow>
          if length ss > 8 then Inl (Config_error ''profile strengths must contain at most 8 entries'')
          else if \<not> list_all (bounded_str 80) ss
          then Inl (Config_error ''profile strengths entries must be at most 80 characters'')
          else if cost \<notin> {PStr ''low'', PStr ''standard'', PStr ''high''}
          then Inl (Config_error ''profile cost_tier is invalid'')
          else if latency \<notin> {PStr ''fast'', PStr ''standard'', PStr ''slow''}
          then Inl (Config_error ''profile latency_tier is invalid'')
          else Inr \<lparr>mp_id = ident, mp_roles = roles, mp_driver = str_of driver, mp_model = str_of model,
            mp_argv = map str_of args, mp_provider = str_of provider,
            mp_driver_version = (if version = PNone then None else Some (str_of version)),
            mp_description = str_of description, mp_strengths = map str_of ss,
            mp_cost_tier = str_of cost, mp_latency_tier = str_of latency\<rparr>)))"

section \<open>Trusted checks\<close>

record check_config =
  cc_name :: string
  cc_argv :: "string list"
  cc_cwd :: string
  cc_timeout_seconds :: int
  cc_required :: bool
  cc_preflight_argv :: "string list"
  cc_description :: string
  cc_blocking :: bool
  cc_junit_xml :: string

abbreviation check_id :: "check_config \<Rightarrow> string" where
  "check_id \<equiv> cc_name"

text \<open>The part of \<open>HarnessConfig\<close> the check selection reads.\<close>

record harness_checks =
  hc_check_catalog :: "check_config list"
  hc_default_check_ids :: "string list"

text \<open>A dict comprehension: the last catalogue entry of an ID wins.\<close>

definition trusted_check_map :: "harness_checks \<Rightarrow> (string \<times> check_config) list" where
  "trusted_check_map cfg = fold (\<lambda>c d. dset d (check_id c) c) (hc_check_catalog cfg) []"

definition required_check_ids :: "harness_checks \<Rightarrow> string list" where
  "required_check_ids cfg =
     (if hc_default_check_ids cfg \<noteq> [] then hc_default_check_ids cfg
      else map check_id (filter cc_required (hc_check_catalog cfg)))"

datatype selection_error = Check_ids_not_unique | Unknown_check_ids "string list"

definition select_checks :: "harness_checks \<Rightarrow> string list option \<Rightarrow> selection_error + check_config list" where
  "select_checks cfg ids =
     (let catalogue = map_of (trusted_check_map cfg);
          selected = (case ids of None \<Rightarrow> required_check_ids cfg | Some xs \<Rightarrow> xs);
          unknown = filter (\<lambda>i. catalogue i = None) selected
      in if \<not> distinct selected then Inl Check_ids_not_unique
         else if unknown \<noteq> [] then Inl (Unknown_check_ids unknown)
         else Inr (map (\<lambda>i. the (catalogue i)) selected))"

lemma trusted_map_ids:
  assumes "map_of (trusted_check_map cfg) i = Some c"
  shows "check_id c = i \<and> c \<in> set (hc_check_catalog cfg)"
proof -
  have "map_of (fold (\<lambda>c d. dset d (check_id c) c) cs d) i = Some c \<Longrightarrow>
      (check_id c = i \<and> c \<in> set cs) \<or> map_of d i = Some c" for cs d
    by (induction cs arbitrary: d) (fastforce split: if_splits)+
  with assms show ?thesis unfolding trusted_check_map_def by fastforce
qed

lemma select_checks_ids:
  assumes "select_checks cfg ids = Inr cs"
  shows "map check_id cs = (case ids of None \<Rightarrow> required_check_ids cfg | Some xs \<Rightarrow> xs)"
    and "set cs \<subseteq> set (hc_check_catalog cfg)"
    and "distinct (map check_id cs)"
proof -
  let ?sel = "case ids of None \<Rightarrow> required_check_ids cfg | Some xs \<Rightarrow> xs"
  let ?cat = "map_of (trusted_check_map cfg)"
  from assms have dist: "distinct ?sel" and known: "\<And>i. i \<in> set ?sel \<Longrightarrow> ?cat i \<noteq> None"
    and cs: "cs = map (\<lambda>i. the (?cat i)) ?sel"
    by (auto simp: select_checks_def Let_def filter_empty_conv split: if_splits)
  have get: "check_id (the (?cat i)) = i \<and> the (?cat i) \<in> set (hc_check_catalog cfg)"
    if "i \<in> set ?sel" for i
    using known [OF that] trusted_map_ids by force
  have ids: "map check_id cs = ?sel"
    unfolding cs map_map comp_def by (rule map_idI) (simp add: get)
  then show "map check_id cs = ?sel" .
  show "set cs \<subseteq> set (hc_check_catalog cfg)" using cs get by auto
  from ids dist show "distinct (map check_id cs)" by simp
qed

lemma planning_config_bounds:
  assumes "mk_planning_config p d s t pol ms mr mc = Inr cfg"
  shows "1 \<le> pc_max_steps_per_plan cfg \<and> pc_max_steps_per_plan cfg \<le> 99"
    and "1 \<le> pc_max_read_paths_per_step cfg" and "1 \<le> pc_max_step_contract_chars cfg"
  using assms
  by (auto simp: mk_planning_config_def positive_int_def split: if_splits pyval.splits)

end
