(* ===== verification/RunFiles.thy ===== *)
theory RunFiles
  imports ConfigModels "HOL-Library.Countable" "HOL-Library.Multiset"
begin

text \<open>
  The durable files of one run directory, and the standard-library functions every reader of them
  uses. A directory maps a path relative to it to what reading that path gives. \<open>json.loads\<close> after
  UTF-8 decoding, \<open>json.dumps\<close> in the three layouts of the sources and \<open>hashlib.sha256\<close> are a
  record of functions that the definitions take as an argument. An atomic replacement
  (\<open>os.replace\<close>) is an update of one entry, an exclusive publication (\<open>os.link\<close>) is refused
  when the entry exists.
\<close>

datatype file_read = Missing | Io_error | Bytes string

type_synonym run_dir = "string \<Rightarrow> file_read"

datatype json_style = Indented | Indented_sorted | Compact_sorted

record codec =
  json_loads :: "string \<Rightarrow> pyval option"
  json_dumps :: "json_style \<Rightarrow> pyval \<Rightarrow> string"
  sha256_hex :: "string \<Rightarrow> string"

text \<open>The text a JSON artifact is written as: the document and a line feed.\<close>

definition json_text :: "codec \<Rightarrow> json_style \<Rightarrow> pyval \<Rightarrow> string" where
  "json_text cdc style v = json_dumps cdc style v @ newline"

text \<open>Reading a JSON file; absent, unreadable and undecodable files have no value.\<close>

definition read_json :: "codec \<Rightarrow> run_dir \<Rightarrow> string \<Rightarrow> pyval option" where
  "read_json cdc rd path = (case rd path of Bytes b \<Rightarrow> json_loads cdc b | _ \<Rightarrow> None)"

definition atomic_write_text :: "run_dir \<Rightarrow> string \<Rightarrow> string \<Rightarrow> run_dir" where
  "atomic_write_text rd path content = rd(path := Bytes content)"

definition file_exists :: "run_dir \<Rightarrow> string \<Rightarrow> bool" where
  "file_exists rd path \<longleftrightarrow> rd path \<noteq> Missing"

definition iteration_dir :: "int \<Rightarrow> string option" where
  "iteration_dir i = (if i < 1 then None else Some (''iterations/'' @ show02 (nat i)))"

definition iteration_plan_dir :: "int \<Rightarrow> string option" where
  "iteration_plan_dir i = map_option (\<lambda>d. d @ ''/plan'') (iteration_dir i)"

lemma iteration_dir_inj:
  "iteration_dir i = Some d \<Longrightarrow> iteration_dir j = Some d \<Longrightarrow> i = j"
  by (auto simp: iteration_dir_def dest!: show02_inj split: if_splits)

section \<open>What the sources rely on from the JSON module\<close>

text \<open>
  Values a JSON document can hold exactly: no tuple (it comes back as a list), no float (its
  decimal form is not modelled), and the keys of every object distinct, as in every dictionary.
\<close>

fun json_plain :: "pyval \<Rightarrow> bool" where
  "json_plain PNone = True"
| "json_plain (PBool b) = True"
| "json_plain (PInt i) = True"
| "json_plain (PStr s) = True"
| "json_plain (PFloat q) = False"
| "json_plain (PTuple xs) = False"
| "json_plain (PList xs) = list_all json_plain xs"
| "json_plain (PDict d) = (distinct (map fst d) \<and> list_all json_plain (map snd d))"

fun json_scalar :: "pyval \<Rightarrow> bool" where
  "json_scalar (PList xs) = False"
| "json_scalar (PTuple xs) = False"
| "json_scalar (PDict d) = False"
| "json_scalar (PFloat q) = False"
| "json_scalar _ = True"

text \<open>
  Decoding what was encoded gives the value back; with \<open>sort_keys\<close> the entries of a flat object
  come back in another order.
\<close>

definition json_faithful :: "codec \<Rightarrow> bool" where
  "json_faithful cdc \<longleftrightarrow>
     (\<forall>v. json_plain v \<longrightarrow> json_loads cdc (json_text cdc Indented v) = Some v)"

definition json_sorted_faithful :: "codec \<Rightarrow> bool" where
  "json_sorted_faithful cdc \<longleftrightarrow>
     (\<forall>d. distinct (map fst d) \<and> list_all (\<lambda>e. json_scalar (snd e)) d \<longrightarrow>
        (\<exists>d'. json_loads cdc (json_text cdc Indented_sorted (PDict d)) = Some (PDict d') \<and> mset d' = mset d))"

lemma map_of_mset:
  assumes "distinct (map fst d)" and "mset d' = mset d"
  shows "map_of d' = map_of d"
proof -
  from assms have "distinct (map fst d')"
    by (metis mset_map mset_eq_imp_distinct_iff)
  moreover from assms(2) have "set d' = set d" by (metis set_mset_mset)
  ultimately show ?thesis using assms(1) by (metis map_of_inject_set)
qed

text \<open>One codec with these laws: a document is a number of the countable type of values.\<close>

instance pyval :: countable
  by countable_datatype

definition numbering_codec :: codec where
  "numbering_codec = \<lparr>json_loads = (\<lambda>s. Some (from_nat (read_nat (butlast s)))),
     json_dumps = (\<lambda>style v. show_nat (to_nat v)),
     sha256_hex = (\<lambda>s. pad_zeros 64 (show_nat (length s mod 1000)))\<rparr>"

lemma numbering_codec_faithful: "json_faithful numbering_codec"
  by (simp add: json_faithful_def numbering_codec_def json_text_def)

lemma numbering_codec_sorted_faithful: "json_sorted_faithful numbering_codec"
  by (simp add: json_sorted_faithful_def numbering_codec_def json_text_def)

text \<open>
  The contract of a file a component owns: what it writes is what it reads back, and writing one
  path leaves every other one as it was.
\<close>

locale durable_file =
  fixes get :: "run_dir \<Rightarrow> 'v option"
    and put :: "run_dir \<Rightarrow> 'v \<Rightarrow> run_dir"
    and path :: string
    and ok :: "'v \<Rightarrow> bool"
  assumes read_write: "ok v \<Longrightarrow> get (put rd v) = Some v"
    and write_frame: "q \<noteq> path \<Longrightarrow> put rd v q = rd q"
    and read_local: "rd path = rd' path \<Longrightarrow> get rd = get rd'"
begin

lemma write_write_read: "ok v \<Longrightarrow> get (put (put rd u) v) = Some v"
  by (rule read_write)

lemma read_after_foreign_write: "q \<noteq> path \<Longrightarrow> get (rd(q := f)) = get rd"
  by (rule read_local) simp

lemma read_stable:
  assumes "ok v" and "q \<noteq> path"
  shows "get ((put rd v)(q := f)) = Some v"
  using assms by (simp add: read_after_foreign_write read_write)

end

end
