(* ===== verification/Approval.thy ===== *)
theory Approval
  imports RunFiles
begin

text \<open>
  The durable human approval of \<open>approval.py\<close>: the identity of the plan artifacts a human was
  shown, the approval artifact, its exclusive publication and its validated read.

  The lemmas show that a decision is never replaced, that a published decision is read back for
  the identity it was given for, and that an accepted approval names the exact artifacts on disk.
\<close>

datatype approval_error =
    Hash_invalid string
  | Decision_unknown
  | Created_at_invalid
  | Source_invalid
  | Identity_not_an_object
  | Identity_invalid
  | Approval_unreadable
  | Approval_json_invalid
  | Approval_not_an_object
  | Approval_schema_unsupported
  | Approval_field_missing
  | Approval_checks_missing
  | Standalone_with_authority
  | Artifact_missing string
  | Artifact_mismatch string
  | Identity_mismatch
  | Authority_unreadable
  | Authority_not_of_run
  | Already_decided
  | Iteration_invalid

datatype approval_decision = APPROVE | REJECT

fun approval_decision_value :: "approval_decision \<Rightarrow> string" where
  "approval_decision_value APPROVE = ''APPROVE''"
| "approval_decision_value REJECT = ''REJECT''"

definition approval_decision_of :: "pyval \<Rightarrow> approval_decision option" where
  "approval_decision_of v =
     (if v = PStr ''APPROVE'' then Some APPROVE else if v = PStr ''REJECT'' then Some REJECT else None)"

definition valid_sha256 :: "pyval \<Rightarrow> bool" where
  "valid_sha256 v \<longleftrightarrow> (case v of PStr s \<Rightarrow> length s = 64 \<and> list_all is_hex s | _ \<Rightarrow> False)"

definition optional_str :: "pyval \<Rightarrow> string option" where
  "optional_str v = (case v of PStr s \<Rightarrow> Some s | _ \<Rightarrow> None)"

fun str_or_none :: "string option \<Rightarrow> pyval" where
  "str_or_none None = PNone"
| "str_or_none (Some s) = PStr s"

record plan_identity =
  pi_raw_sha256 :: string
  pi_contract_sha256 :: string
  pi_bundle_sha256 :: "string option"
  pi_execution_sha256 :: "string option"
  pi_checks_sha256 :: "string option"

definition check_hashes ::
  "pyval \<Rightarrow> pyval \<Rightarrow> pyval \<Rightarrow> pyval \<Rightarrow> pyval \<Rightarrow> approval_error + unit" where
  "check_hashes raw contract execution bundle checks =
     (if \<not> valid_sha256 raw then Inl (Hash_invalid ''raw_sha256'')
      else if \<not> valid_sha256 contract then Inl (Hash_invalid ''contract_sha256'')
      else if execution \<noteq> PNone \<and> \<not> valid_sha256 execution then Inl (Hash_invalid ''execution_sha256'')
      else if bundle \<noteq> PNone \<and> \<not> valid_sha256 bundle then Inl (Hash_invalid ''bundle_sha256'')
      else if checks \<noteq> PNone \<and> \<not> valid_sha256 checks then Inl (Hash_invalid ''checks_sha256'')
      else Inr ())"

definition mk_plan_identity ::
  "pyval \<Rightarrow> pyval \<Rightarrow> pyval \<Rightarrow> pyval \<Rightarrow> pyval \<Rightarrow> approval_error + plan_identity" where
  "mk_plan_identity raw contract bundle execution checks =
     rbind (check_hashes raw contract execution bundle checks) (\<lambda>_.
       Inr \<lparr>pi_raw_sha256 = str_of raw, pi_contract_sha256 = str_of contract,
         pi_bundle_sha256 = optional_str bundle, pi_execution_sha256 = optional_str execution,
         pi_checks_sha256 = optional_str checks\<rparr>)"

definition plan_identity_from_mapping :: "pyval \<Rightarrow> approval_error + plan_identity" where
  "plan_identity_from_mapping v =
     (case v of
        PDict d \<Rightarrow>
          if map_of d ''raw_sha256'' = None \<or> map_of d ''contract_sha256'' = None
          then Inl Identity_invalid
          else (case mk_plan_identity (dget d ''raw_sha256'') (dget d ''contract_sha256'')
                  (dget d ''bundle_sha256'') (dget d ''execution_sha256'') (dget d ''checks_sha256'') of
              Inl _ \<Rightarrow> Inl Identity_invalid
            | Inr i \<Rightarrow> Inr i)
      | _ \<Rightarrow> Inl Identity_not_an_object)"

record plan_approval =
  pa_decision :: approval_decision
  pa_raw_sha256 :: string
  pa_contract_sha256 :: string
  pa_created_at :: string
  pa_source :: string
  pa_bundle_sha256 :: "string option"
  pa_execution_sha256 :: "string option"
  pa_checks_sha256 :: "string option"

definition mk_plan_approval ::
  "pyval \<Rightarrow> pyval \<Rightarrow> pyval \<Rightarrow> pyval \<Rightarrow> pyval \<Rightarrow> pyval \<Rightarrow> pyval \<Rightarrow> pyval \<Rightarrow> approval_error + plan_approval" where
  "mk_plan_approval decision raw contract created_at source bundle execution checks =
     (case approval_decision_of decision of
        None \<Rightarrow> Inl Decision_unknown
      | Some dec \<Rightarrow>
          rbind (check_hashes raw contract execution bundle checks) (\<lambda>_.
            if \<not> nonblank_str created_at then Inl Created_at_invalid
            else if source \<notin> {PStr ''cli'', PStr ''web-ui'', PStr ''test''} then Inl Source_invalid
            else Inr \<lparr>pa_decision = dec, pa_raw_sha256 = str_of raw, pa_contract_sha256 = str_of contract,
              pa_created_at = str_of created_at, pa_source = str_of source,
              pa_bundle_sha256 = optional_str bundle, pa_execution_sha256 = optional_str execution,
              pa_checks_sha256 = optional_str checks\<rparr>))"

definition approval_filename :: string where
  "approval_filename = ''plan_approval.json''"

definition check_authority_filename :: string where
  "check_authority_filename = ''check_authority.json''"

definition present :: "string \<Rightarrow> string option \<Rightarrow> (string \<times> pyval) list" where
  "present field v = (case v of None \<Rightarrow> [] | Some s \<Rightarrow> [(field, PStr s)])"

definition approval_payload :: "plan_approval \<Rightarrow> (string \<times> pyval) list" where
  "approval_payload a =
     (let payload =
            [(''schema_version'', PInt (if pa_checks_sha256 a \<noteq> None then 5 else 1)),
             (''decision'', PStr (approval_decision_value (pa_decision a))),
             (''raw_sha256'', PStr (pa_raw_sha256 a)),
             (''contract_sha256'', PStr (pa_contract_sha256 a)),
             (''created_at'', PStr (pa_created_at a)),
             (''source'', PStr (pa_source a))]
            @ present ''execution_sha256'' (pa_execution_sha256 a)
            @ present ''bundle_sha256'' (pa_bundle_sha256 a)
            @ present ''checks_sha256'' (pa_checks_sha256 a)
      in if pa_execution_sha256 a \<noteq> None \<or> pa_bundle_sha256 a \<noteq> None
         then dset (dset payload ''schema_version'' (PInt 5)) ''checks_sha256'' (str_or_none (pa_checks_sha256 a))
         else payload)"

definition publish_exclusive :: "run_dir \<Rightarrow> string \<Rightarrow> string \<Rightarrow> approval_error + run_dir" where
  "publish_exclusive rd path content =
     (if file_exists rd path then Inl Already_decided else Inr (rd(path := Bytes content)))"

text \<open>The check hash the run state records for its plan, whatever the state file holds.\<close>

definition stored_checks_sha256 :: "codec \<Rightarrow> run_dir \<Rightarrow> pyval" where
  "stored_checks_sha256 cdc rd =
     (case read_json cdc rd ''state.json'' of
        Some (PDict st) \<Rightarrow> (case dget st ''plan_identity'' of
            PDict i \<Rightarrow> dget i ''checks_sha256''
          | _ \<Rightarrow> PNone)
      | _ \<Rightarrow> PNone)"

definition bind_check_authority ::
  "codec \<Rightarrow> run_dir \<Rightarrow> plan_identity \<Rightarrow> approval_error + plan_identity" where
  "bind_check_authority cdc rd i =
     (if pi_checks_sha256 i \<noteq> None then Inr i
      else (case rd check_authority_filename of
          Missing \<Rightarrow> Inr i
        | Io_error \<Rightarrow> Inl Authority_unreadable
        | Bytes b \<Rightarrow>
            let sha = sha256_hex cdc b; stored = stored_checks_sha256 cdc rd
            in if stored \<noteq> PNone \<and> stored \<noteq> PStr sha then Inl Authority_not_of_run
               else mk_plan_identity (PStr (pi_raw_sha256 i)) (PStr (pi_contract_sha256 i))
                 (str_or_none (pi_bundle_sha256 i)) (str_or_none (pi_execution_sha256 i)) (PStr sha)))"

definition write_plan_approval ::
  "codec \<Rightarrow> string \<Rightarrow> run_dir \<Rightarrow> pyval \<Rightarrow> plan_identity \<Rightarrow> pyval \<Rightarrow> approval_error + run_dir" where
  "write_plan_approval cdc now rd decision identity source =
     (case approval_decision_of decision of
        None \<Rightarrow> Inl Decision_unknown
      | Some dec \<Rightarrow>
          rbind (bind_check_authority cdc rd identity) (\<lambda>i.
          rbind (mk_plan_approval (PStr (approval_decision_value dec)) (PStr (pi_raw_sha256 i))
                   (PStr (pi_contract_sha256 i)) (PStr now) source (str_or_none (pi_bundle_sha256 i))
                   (str_or_none (pi_execution_sha256 i)) (str_or_none (pi_checks_sha256 i))) (\<lambda>a.
            publish_exclusive rd approval_filename (json_text cdc Indented (PDict (approval_payload a))))))"

section \<open>Reading a decision back\<close>

definition check_artifact ::
  "codec \<Rightarrow> run_dir \<Rightarrow> string \<Rightarrow> string option \<Rightarrow> string \<Rightarrow> approval_error + unit" where
  "check_artifact cdc rd label digest path =
     (case digest of
        None \<Rightarrow> Inr ()
      | Some h \<Rightarrow> (case rd path of
            Bytes b \<Rightarrow> if sha256_hex cdc b \<noteq> h then Inl (Artifact_mismatch label) else Inr ()
          | _ \<Rightarrow> Inl (Artifact_missing label)))"

definition matches_identity :: "plan_approval \<Rightarrow> plan_identity \<Rightarrow> bool" where
  "matches_identity a i \<longleftrightarrow>
     \<not> (pa_raw_sha256 a \<noteq> pi_raw_sha256 i
       \<or> pa_contract_sha256 a \<noteq> pi_contract_sha256 i
       \<or> (pi_execution_sha256 i \<noteq> None \<and> pa_execution_sha256 a \<noteq> pi_execution_sha256 i)
       \<or> (pi_bundle_sha256 i \<noteq> None \<and> pa_bundle_sha256 a \<noteq> pi_bundle_sha256 i)
       \<or> (pi_checks_sha256 i \<noteq> None \<and> pa_checks_sha256 a \<noteq> pi_checks_sha256 i)
       \<or> (pi_bundle_sha256 i = None \<and> pa_bundle_sha256 a \<noteq> None)
       \<or> (pi_checks_sha256 i = None \<and> pa_checks_sha256 a \<noteq> None))"

definition has_key :: "(string \<times> pyval) list \<Rightarrow> string \<Rightarrow> bool" where
  "has_key d k \<longleftrightarrow> map_of d k \<noteq> None"

text \<open>The shape checks on the decoded document, in the order of the source.\<close>

definition decode_plan_approval :: "(string \<times> pyval) list \<Rightarrow> approval_error + plan_approval" where
  "decode_plan_approval payload =
     (if dget payload ''schema_version'' \<notin> {PInt 1, PInt 5} then Inl Approval_schema_unsupported
      else if \<exists>k \<in> set [''decision'', ''raw_sha256'', ''contract_sha256'', ''created_at'', ''source''].
                \<not> has_key payload k then Inl Approval_field_missing
      else if dget payload ''schema_version'' = PInt 5 \<and> \<not> has_key payload ''checks_sha256''
      then Inl Approval_checks_missing
      else if dget payload ''schema_version'' = PInt 1
        \<and> (\<exists>k \<in> set [''execution_sha256'', ''bundle_sha256'', ''checks_sha256'']. has_key payload k)
      then Inl Standalone_with_authority
      else mk_plan_approval (dget payload ''decision'') (dget payload ''raw_sha256'')
             (dget payload ''contract_sha256'') (dget payload ''created_at'') (dget payload ''source'')
             (dget payload ''bundle_sha256'') (dget payload ''execution_sha256'')
             (dget payload ''checks_sha256''))"

definition verify_artifacts :: "codec \<Rightarrow> run_dir \<Rightarrow> plan_approval \<Rightarrow> int \<Rightarrow> approval_error + unit" where
  "verify_artifacts cdc rd a iteration =
     (case iteration_dir iteration of
        None \<Rightarrow> Inl Iteration_invalid
      | Some dir \<Rightarrow>
          rbind (check_artifact cdc rd ''execution selection'' (pa_execution_sha256 a)
                   (dir @ ''/execution_selection.json'')) (\<lambda>_.
          rbind (check_artifact cdc rd ''implementation bundle'' (pa_bundle_sha256 a)
                   (dir @ ''/plan/implementation_bundle.json'')) (\<lambda>_.
            check_artifact cdc rd ''check authority'' (pa_checks_sha256 a) check_authority_filename)))"

definition read_plan_approval ::
  "codec \<Rightarrow> run_dir \<Rightarrow> plan_identity \<Rightarrow> int \<Rightarrow> approval_error + plan_approval option" where
  "read_plan_approval cdc rd expected iteration =
     (case rd approval_filename of
        Missing \<Rightarrow> Inr None
      | Io_error \<Rightarrow> Inl Approval_unreadable
      | Bytes content \<Rightarrow>
        (case json_loads cdc content of
           None \<Rightarrow> Inl Approval_json_invalid
         | Some (PDict payload) \<Rightarrow>
             rbind (decode_plan_approval payload) (\<lambda>a.
             rbind (verify_artifacts cdc rd a iteration) (\<lambda>_.
               if matches_identity a expected then Inr (Some a) else Inl Identity_mismatch))
         | Some _ \<Rightarrow> Inl Approval_not_an_object))"

section \<open>Facts about identities and approvals\<close>

lemma valid_sha256_PNone [simp]: "\<not> valid_sha256 PNone"
  by (simp add: valid_sha256_def)

lemma valid_sha256_str: "valid_sha256 v \<Longrightarrow> v = PStr (str_of v)"
  by (auto simp: valid_sha256_def split: pyval.splits)

lemma optional_str_inv [simp]: "optional_str (str_or_none x) = x"
  by (cases x) (simp_all add: optional_str_def)

lemma str_or_none_inv: "v = PNone \<or> valid_sha256 v \<Longrightarrow> str_or_none (optional_str v) = v"
  by (auto simp: optional_str_def valid_sha256_def split: pyval.splits)

lemma str_or_none_eq [simp]: "str_or_none x = str_or_none y \<longleftrightarrow> x = y"
  by (metis optional_str_inv)

lemma str_or_none_PNone [simp]: "str_or_none x = PNone \<longleftrightarrow> x = None"
  by (cases x) simp_all

lemma approval_decision_of_value [simp]:
  "approval_decision_of (PStr (approval_decision_value d)) = Some d"
  by (cases d) (simp_all add: approval_decision_of_def)

lemma check_hashes_Inr:
  "check_hashes raw contract execution bundle checks = Inr u \<longleftrightarrow>
     valid_sha256 raw \<and> valid_sha256 contract
     \<and> (execution = PNone \<or> valid_sha256 execution)
     \<and> (bundle = PNone \<or> valid_sha256 bundle) \<and> (checks = PNone \<or> valid_sha256 checks)"
  by (auto simp: check_hashes_def)

text \<open>An approval rebuilt from its own fields is itself.\<close>

definition approval_ok :: "plan_approval \<Rightarrow> bool" where
  "approval_ok a \<longleftrightarrow>
     check_hashes (PStr (pa_raw_sha256 a)) (PStr (pa_contract_sha256 a))
       (str_or_none (pa_execution_sha256 a)) (str_or_none (pa_bundle_sha256 a))
       (str_or_none (pa_checks_sha256 a)) = Inr ()
     \<and> \<not> blank (pa_created_at a)
     \<and> PStr (pa_source a) \<in> {PStr ''cli'', PStr ''web-ui'', PStr ''test''}"

lemma mk_plan_approval_ok:
  assumes "mk_plan_approval d r c t s b e k = Inr a"
  shows "approval_ok a" and "approval_decision_of d = Some (pa_decision a)"
    and "r = PStr (pa_raw_sha256 a)" and "c = PStr (pa_contract_sha256 a)"
    and "b = str_or_none (pa_bundle_sha256 a)" and "e = str_or_none (pa_execution_sha256 a)"
    and "k = str_or_none (pa_checks_sha256 a)" and "t = PStr (pa_created_at a)" and "s = PStr (pa_source a)"
proof -
  from assms obtain dec where dec: "approval_decision_of d = Some dec"
    and h: "check_hashes r c e b k = Inr ()" and t: "nonblank_str t"
    and s: "s \<in> {PStr ''cli'', PStr ''web-ui'', PStr ''test''}"
    and a: "a = \<lparr>pa_decision = dec, pa_raw_sha256 = str_of r, pa_contract_sha256 = str_of c,
        pa_created_at = str_of t, pa_source = str_of s, pa_bundle_sha256 = optional_str b,
        pa_execution_sha256 = optional_str e, pa_checks_sha256 = optional_str k\<rparr>"
    unfolding mk_plan_approval_def by (simp split: option.splits if_splits)
  have sel: "pa_decision a = dec" "pa_raw_sha256 a = str_of r" "pa_contract_sha256 a = str_of c"
    "pa_created_at a = str_of t" "pa_source a = str_of s" "pa_bundle_sha256 a = optional_str b"
    "pa_execution_sha256 a = optional_str e" "pa_checks_sha256 a = optional_str k"
    unfolding a by simp_all
  from h have vs: "valid_sha256 r" "valid_sha256 c" "e = PNone \<or> valid_sha256 e"
    "b = PNone \<or> valid_sha256 b" "k = PNone \<or> valid_sha256 k" by (simp_all add: check_hashes_Inr)
  from t have ts: "t = PStr (str_of t)" and nb: "\<not> blank (str_of t)"
    unfolding nonblank_str_def by (simp_all split: pyval.splits)
  from s have ss: "s = PStr (str_of s)" by (elim insertE) simp_all
  show "approval_decision_of d = Some (pa_decision a)" unfolding sel by (rule dec)
  show r: "r = PStr (pa_raw_sha256 a)" unfolding sel by (rule valid_sha256_str [OF vs(1)])
  show c: "c = PStr (pa_contract_sha256 a)" unfolding sel by (rule valid_sha256_str [OF vs(2)])
  show e: "e = str_or_none (pa_execution_sha256 a)" unfolding sel by (rule str_or_none_inv [OF vs(3), symmetric])
  show b: "b = str_or_none (pa_bundle_sha256 a)" unfolding sel by (rule str_or_none_inv [OF vs(4), symmetric])
  show k: "k = str_or_none (pa_checks_sha256 a)" unfolding sel by (rule str_or_none_inv [OF vs(5), symmetric])
  show "t = PStr (pa_created_at a)" unfolding sel by (rule ts)
  show src: "s = PStr (pa_source a)" unfolding sel by (rule ss)
  have hashes: "check_hashes (PStr (pa_raw_sha256 a)) (PStr (pa_contract_sha256 a))
      (str_or_none (pa_execution_sha256 a)) (str_or_none (pa_bundle_sha256 a))
      (str_or_none (pa_checks_sha256 a)) = Inr ()"
    using h r c e b k by metis
  have "\<not> blank (pa_created_at a)" unfolding sel by (rule nb)
  moreover have "PStr (pa_source a) \<in> {PStr ''cli'', PStr ''web-ui'', PStr ''test''}"
    using s src by metis
  ultimately show "approval_ok a"
    unfolding approval_ok_def using hashes by blast
qed

lemma mk_plan_approval_same:
  "approval_ok a \<Longrightarrow>
   mk_plan_approval (PStr (approval_decision_value (pa_decision a))) (PStr (pa_raw_sha256 a))
     (PStr (pa_contract_sha256 a)) (PStr (pa_created_at a)) (PStr (pa_source a))
     (str_or_none (pa_bundle_sha256 a)) (str_or_none (pa_execution_sha256 a))
     (str_or_none (pa_checks_sha256 a)) = Inr a"
  by (simp add: mk_plan_approval_def approval_ok_def nonblank_str_def)

lemma payload_fields [simp]:
  "dget (approval_payload a) ''decision'' = PStr (approval_decision_value (pa_decision a))"
  "dget (approval_payload a) ''raw_sha256'' = PStr (pa_raw_sha256 a)"
  "dget (approval_payload a) ''contract_sha256'' = PStr (pa_contract_sha256 a)"
  "dget (approval_payload a) ''created_at'' = PStr (pa_created_at a)"
  "dget (approval_payload a) ''source'' = PStr (pa_source a)"
  "dget (approval_payload a) ''execution_sha256'' = str_or_none (pa_execution_sha256 a)"
  "dget (approval_payload a) ''bundle_sha256'' = str_or_none (pa_bundle_sha256 a)"
  "dget (approval_payload a) ''checks_sha256'' = str_or_none (pa_checks_sha256 a)"
  by (cases "pa_execution_sha256 a"; cases "pa_bundle_sha256 a"; cases "pa_checks_sha256 a";
      simp add: approval_payload_def dget_def present_def Let_def)+

lemma payload_schema:
  "dget (approval_payload a) ''schema_version'' =
     PInt (if pa_execution_sha256 a = None \<and> pa_bundle_sha256 a = None \<and> pa_checks_sha256 a = None
       then 1 else 5)"
  by (cases "pa_execution_sha256 a"; cases "pa_bundle_sha256 a"; cases "pa_checks_sha256 a";
      simp add: approval_payload_def dget_def present_def Let_def)

lemma payload_keys:
  "has_key (approval_payload a) ''decision''" "has_key (approval_payload a) ''raw_sha256''"
  "has_key (approval_payload a) ''contract_sha256''" "has_key (approval_payload a) ''created_at''"
  "has_key (approval_payload a) ''source''"
  "pa_execution_sha256 a \<noteq> None \<or> pa_bundle_sha256 a \<noteq> None \<or> pa_checks_sha256 a \<noteq> None \<Longrightarrow>
     has_key (approval_payload a) ''checks_sha256''"
  "pa_execution_sha256 a = None \<Longrightarrow> pa_bundle_sha256 a = None \<Longrightarrow> pa_checks_sha256 a = None \<Longrightarrow>
     \<not> has_key (approval_payload a) ''execution_sha256'' \<and> \<not> has_key (approval_payload a) ''bundle_sha256''
     \<and> \<not> has_key (approval_payload a) ''checks_sha256''"
  by (cases "pa_execution_sha256 a"; cases "pa_bundle_sha256 a"; cases "pa_checks_sha256 a";
      simp add: approval_payload_def has_key_def present_def Let_def)+

lemma payload_plain: "json_plain (PDict (approval_payload a))"
  by (cases "pa_execution_sha256 a"; cases "pa_bundle_sha256 a"; cases "pa_checks_sha256 a";
      simp add: approval_payload_def present_def Let_def)

section \<open>Publication and read\<close>

text \<open>What a successful publication wrote: one file, absent before, holding one approval.\<close>

lemma write_plan_approval_Inr:
  assumes "write_plan_approval cdc now rd decision i source = Inr rd'"
  obtains a j where "rd approval_filename = Missing" and "approval_ok a"
    and "approval_decision_of decision = Some (pa_decision a)"
    and "bind_check_authority cdc rd i = Inr j"
    and "pa_raw_sha256 a = pi_raw_sha256 j" and "pa_contract_sha256 a = pi_contract_sha256 j"
    and "pa_bundle_sha256 a = pi_bundle_sha256 j" and "pa_execution_sha256 a = pi_execution_sha256 j"
    and "pa_checks_sha256 a = pi_checks_sha256 j" and "pa_created_at a = now"
    and "rd' = rd(approval_filename := Bytes (json_text cdc Indented (PDict (approval_payload a))))"
proof -
  from assms obtain dec j a where dec: "approval_decision_of decision = Some dec"
    and j: "bind_check_authority cdc rd i = Inr j"
    and a: "mk_plan_approval (PStr (approval_decision_value dec)) (PStr (pi_raw_sha256 j))
        (PStr (pi_contract_sha256 j)) (PStr now) source (str_or_none (pi_bundle_sha256 j))
        (str_or_none (pi_execution_sha256 j)) (str_or_none (pi_checks_sha256 j)) = Inr a"
    and pub: "publish_exclusive rd approval_filename
        (json_text cdc Indented (PDict (approval_payload a))) = Inr rd'"
    by (auto simp: write_plan_approval_def split: option.splits)
  note m = mk_plan_approval_ok [OF a]
  show thesis
    using pub dec m j that [of a j]
    by (auto simp: publish_exclusive_def file_exists_def split: if_splits)
qed

lemma bind_check_authority_keeps:
  assumes "bind_check_authority cdc rd i = Inr j"
  shows "pi_raw_sha256 j = pi_raw_sha256 i" and "pi_contract_sha256 j = pi_contract_sha256 i"
    and "pi_bundle_sha256 j = pi_bundle_sha256 i" and "pi_execution_sha256 j = pi_execution_sha256 i"
    and "pi_checks_sha256 i \<noteq> None \<Longrightarrow> j = i"
  using assms
  by (auto simp: bind_check_authority_def mk_plan_identity_def Let_def split: if_splits file_read.splits)

text \<open>Every artifact an approval names has the recorded digest.\<close>

definition artifacts_match :: "codec \<Rightarrow> run_dir \<Rightarrow> plan_approval \<Rightarrow> string \<Rightarrow> bool" where
  "artifacts_match cdc rd a dir \<longleftrightarrow>
     (\<forall>(digest, path) \<in> set [(pa_execution_sha256 a, dir @ ''/execution_selection.json''),
         (pa_bundle_sha256 a, dir @ ''/plan/implementation_bundle.json''),
         (pa_checks_sha256 a, check_authority_filename)].
       case digest of None \<Rightarrow> True
       | Some h \<Rightarrow> \<exists>b. rd path = Bytes b \<and> sha256_hex cdc b = h)"

lemma check_artifact_Inr:
  "check_artifact cdc rd label digest path = Inr u \<longleftrightarrow>
     (case digest of None \<Rightarrow> True | Some h \<Rightarrow> \<exists>b. rd path = Bytes b \<and> sha256_hex cdc b = h)"
  by (auto simp: check_artifact_def split: option.splits file_read.splits if_splits)

lemma verify_artifacts_Inr:
  "verify_artifacts cdc rd a it = Inr u \<longleftrightarrow>
     (\<exists>dir. iteration_dir it = Some dir \<and> artifacts_match cdc rd a dir)"
  by (auto simp: verify_artifacts_def artifacts_match_def check_artifact_Inr split: option.splits)

lemma decode_payload:
  assumes "approval_ok a"
  shows "decode_plan_approval (approval_payload a) = Inr a"
proof (cases "pa_execution_sha256 a = None \<and> pa_bundle_sha256 a = None \<and> pa_checks_sha256 a = None")
  case True
  then show ?thesis
    using mk_plan_approval_same [OF assms]
    by (simp add: decode_plan_approval_def payload_schema payload_keys)
next
  case False
  then show ?thesis
    using mk_plan_approval_same [OF assms]
    by (auto simp: decode_plan_approval_def payload_schema payload_keys)
qed



lemma read_published:
  assumes "json_faithful cdc" and "approval_ok a"
    and stored: "rd approval_filename = Bytes (json_text cdc Indented (PDict (approval_payload a)))"
    and dir: "iteration_dir it = Some dir" and art: "artifacts_match cdc rd a dir"
    and match: "matches_identity a i"
  shows "read_plan_approval cdc rd i it = Inr (Some a)"
proof -
  from \<open>json_faithful cdc\<close> have "json_loads cdc (json_text cdc Indented (PDict (approval_payload a)))
      = Some (PDict (approval_payload a))"
    using payload_plain by (simp add: json_faithful_def)
  moreover from dir art have "verify_artifacts cdc rd a it = Inr ()"
    by (simp add: verify_artifacts_Inr)
  ultimately show ?thesis
    using stored match decode_payload [OF \<open>approval_ok a\<close>] by (simp add: read_plan_approval_def)
qed

text \<open>A published decision occupies the file: no second decision is ever written.\<close>

lemma write_plan_approval_refused:
  "file_exists rd approval_filename \<Longrightarrow> \<exists>e. write_plan_approval cdc now rd decision i source = Inl e"
  by (cases "write_plan_approval cdc now rd decision i source")
    (auto elim!: write_plan_approval_Inr simp: file_exists_def)


section \<open>Properties\<close>

text \<open>Every artifact a plan identity names is on disk with the digest the identity has.\<close>

definition identity_on_disk :: "codec \<Rightarrow> run_dir \<Rightarrow> plan_identity \<Rightarrow> string \<Rightarrow> bool" where
  "identity_on_disk cdc rd i dir \<longleftrightarrow>
     (\<forall>(digest, path) \<in> set [(pi_execution_sha256 i, dir @ ''/execution_selection.json''),
         (pi_bundle_sha256 i, dir @ ''/plan/implementation_bundle.json''),
         (pi_checks_sha256 i, check_authority_filename)].
       case digest of None \<Rightarrow> True
       | Some h \<Rightarrow> \<exists>b. rd path = Bytes b \<and> sha256_hex cdc b = h)"

lemma artifact_paths:
  assumes "iteration_dir it = Some dir"
  shows "dir @ s \<noteq> approval_filename" and "check_authority_filename \<noteq> approval_filename"
proof -
  from assms have "take 1 (dir @ s) = ''i''" by (auto simp: iteration_dir_def split: if_splits)
  moreover have "take 1 approval_filename = ''p''" by (simp add: approval_filename_def)
  ultimately show "dir @ s \<noteq> approval_filename" by force
qed (simp add: check_authority_filename_def approval_filename_def)

text \<open>C17: a plan is decided once. After a decision was published no second one is ever written, for any
  plan, by any source and at any time, whatever happens to the other files of the run.\<close>

theorem approval_is_decided_once:
  assumes "write_plan_approval cdc now rd decision i source = Inr rd'" and "q \<noteq> approval_filename"
  shows "rd approval_filename = Missing
     \<and> (\<exists>e. write_plan_approval cdc' now' (rd'(q := f)) decision' i' source' = Inl e)"
proof -
  from assms(1) have "rd approval_filename = Missing \<and> file_exists rd' approval_filename"
    by (auto elim!: write_plan_approval_Inr simp: file_exists_def)
  with assms(2) write_plan_approval_refused [of "rd'(q := f)"] show ?thesis
    by (simp add: file_exists_def)
qed

text \<open>C18: a published decision is the one that is read. When the artifacts of the plan are on disk with
  the digests of its identity, the decision published for the identity is read back for it: same
  decision, same plan hashes.\<close>

theorem published_decision_reads_back:
  assumes "json_faithful cdc" and "write_plan_approval cdc now rd decision i source = Inr rd'"
    and "bind_check_authority cdc rd i = Inr j"
    and "iteration_dir it = Some dir" and "identity_on_disk cdc rd j dir"
  shows "\<exists>a. read_plan_approval cdc rd' j it = Inr (Some a)
     \<and> approval_decision_of decision = Some (pa_decision a)
     \<and> pa_raw_sha256 a = pi_raw_sha256 i \<and> pa_contract_sha256 a = pi_contract_sha256 i"
proof -
  from assms(2) obtain a j' where ok: "approval_ok a" and dec: "approval_decision_of decision = Some (pa_decision a)"
    and j': "bind_check_authority cdc rd i = Inr j'"
    and h: "pa_raw_sha256 a = pi_raw_sha256 j'" "pa_contract_sha256 a = pi_contract_sha256 j'"
      "pa_bundle_sha256 a = pi_bundle_sha256 j'" "pa_execution_sha256 a = pi_execution_sha256 j'"
      "pa_checks_sha256 a = pi_checks_sha256 j'"
    and rd': "rd' = rd(approval_filename := Bytes (json_text cdc Indented (PDict (approval_payload a))))"
    by (rule write_plan_approval_Inr)
  from j' assms(3) have j: "j' = j" by simp
  have "artifacts_match cdc rd' a dir"
    using assms(5) artifact_paths [OF assms(4)] h
    unfolding artifacts_match_def identity_on_disk_def rd' j by (simp split: option.splits)
  moreover have "matches_identity a j" using h unfolding matches_identity_def j by auto
  moreover have "rd' approval_filename = Bytes (json_text cdc Indented (PDict (approval_payload a)))"
    by (simp add: rd')
  ultimately have "read_plan_approval cdc rd' j it = Inr (Some a)"
    using read_published [OF assms(1) ok _ assms(4)] by blast
  with dec h j bind_check_authority_keeps(1,2) [OF assms(3)] show ?thesis by auto
qed


definition sample_identity :: plan_identity where
  "sample_identity = \<lparr>pi_raw_sha256 = replicate 64 (CHR ''a''), pi_contract_sha256 = replicate 64 (CHR ''b''),
     pi_bundle_sha256 = None, pi_execution_sha256 = None, pi_checks_sha256 = None\<rparr>"

lemma sample_publication:
  "\<exists>rd'. write_plan_approval numbering_codec ''t0'' (\<lambda>p. Missing) (PStr ''APPROVE'') sample_identity (PStr ''cli'')
     = Inr rd'"
proof -
  have "(case mk_plan_approval (PStr ''APPROVE'') (PStr (replicate 64 (CHR ''a''))) (PStr (replicate 64 (CHR ''b'')))
      (PStr ''t0'') (PStr ''cli'') PNone PNone PNone of Inl _ \<Rightarrow> False | Inr _ \<Rightarrow> True)" by code_simp
  then show ?thesis
    by (simp add: write_plan_approval_def approval_decision_of_def bind_check_authority_def
        sample_identity_def publish_exclusive_def file_exists_def split: sum.splits)
qed

lemma sample_bound: "bind_check_authority numbering_codec (\<lambda>p. Missing) sample_identity = Inr sample_identity"
  by (simp add: bind_check_authority_def sample_identity_def)

lemma sample_on_disk: "identity_on_disk numbering_codec rd sample_identity dir"
  by (simp add: identity_on_disk_def sample_identity_def)

theorem approval_is_decided_once_witness:
  "\<exists>rd'. write_plan_approval numbering_codec ''t0'' (\<lambda>p. Missing) (PStr ''APPROVE'') sample_identity (PStr ''cli'') = Inr rd'
     \<and> (\<exists>e. write_plan_approval numbering_codec ''t1'' (rd'(''x'' := Missing)) (PStr ''REJECT'') sample_identity (PStr ''web-ui'')
          = Inl e)"
proof -
  obtain rd' where w: "write_plan_approval numbering_codec ''t0'' (\<lambda>p. Missing) (PStr ''APPROVE'') sample_identity
      (PStr ''cli'') = Inr rd'" using sample_publication by blast
  have "''x'' \<noteq> approval_filename" by (simp add: approval_filename_def)
  from approval_is_decided_once [OF w this] w show ?thesis by blast
qed

theorem published_decision_reads_back_witness:
  "\<exists>rd' a. write_plan_approval numbering_codec ''t0'' (\<lambda>p. Missing) (PStr ''APPROVE'') sample_identity (PStr ''cli'') = Inr rd'
     \<and> read_plan_approval numbering_codec rd' sample_identity 1 = Inr (Some a) \<and> pa_decision a = APPROVE"
proof -
  obtain rd' where w: "write_plan_approval numbering_codec ''t0'' (\<lambda>p. Missing) (PStr ''APPROVE'') sample_identity
      (PStr ''cli'') = Inr rd'" using sample_publication by blast
  have "iteration_dir 1 = Some (''iterations/'' @ show02 1)" by (simp add: iteration_dir_def)
  from published_decision_reads_back [OF numbering_codec_faithful w sample_bound this sample_on_disk] w
  show ?thesis by (auto simp: approval_decision_of_def)
qed


end
