(* ===== verification/RunMachine.thy ===== *)
theory RunMachine
  imports Py_Prelude
begin

text \<open>
  The run state machine of \<open>models.py\<close>: phases, dispositions, events, the phase graph, the single
  \<open>transition\<close> function, the projection of a machine state onto an operator-facing status, and
  the bridges that assemble a machine state from recorded facts.

  The lemmas give the reachable states of the machine, the invariant they keep (a completed run
  stopped at a completable phase, a human wait always carries the SPEC decision reason, a running
  or completed run carries none), and that the projection is total on them.
\<close>

section \<open>Vocabulary\<close>

datatype run_phase =
    CONTEXT | PLANNER | PLAN_APPROVAL | WORKTREE_SETUP | IMPLEMENT_STEP
  | DETERMINISTIC_GATE | AUDIT | CANDIDATE_READY | CANDIDATE_PUSH | PUBLISH

fun phase_value :: "run_phase \<Rightarrow> string" where
  "phase_value CONTEXT = ''context''"
| "phase_value PLANNER = ''planner''"
| "phase_value PLAN_APPROVAL = ''plan_approval''"
| "phase_value WORKTREE_SETUP = ''worktree_setup''"
| "phase_value IMPLEMENT_STEP = ''implement_step''"
| "phase_value DETERMINISTIC_GATE = ''deterministic_gate''"
| "phase_value AUDIT = ''audit''"
| "phase_value CANDIDATE_READY = ''candidate_ready''"
| "phase_value CANDIDATE_PUSH = ''candidate_push''"
| "phase_value PUBLISH = ''publish''"

text \<open>The members in the order of the class body, which iteration and lookup by value follow.\<close>

definition all_phases :: "run_phase list" where
  "all_phases = [CONTEXT, PLANNER, PLAN_APPROVAL, WORKTREE_SETUP, IMPLEMENT_STEP,
     DETERMINISTIC_GATE, AUDIT, CANDIDATE_READY, CANDIDATE_PUSH, PUBLISH]"

instantiation run_phase :: enum
begin

definition enum_run_phase :: "run_phase list" where
  "enum_run_phase = all_phases"

definition enum_all_run_phase :: "(run_phase \<Rightarrow> bool) \<Rightarrow> bool" where
  "enum_all_run_phase P \<longleftrightarrow> list_all P all_phases"

definition enum_ex_run_phase :: "(run_phase \<Rightarrow> bool) \<Rightarrow> bool" where
  "enum_ex_run_phase P \<longleftrightarrow> list_ex P all_phases"

instance
proof
  show univ: "(UNIV :: run_phase set) = set enum_class.enum"
    by (auto simp: enum_run_phase_def all_phases_def intro: run_phase.exhaust)
  show "distinct (enum_class.enum :: run_phase list)"
    by (simp add: enum_run_phase_def all_phases_def)
  fix P :: "run_phase \<Rightarrow> bool"
  show "enum_class.enum_all P \<longleftrightarrow> Ball UNIV P"
    unfolding univ by (simp add: enum_all_run_phase_def enum_run_phase_def list_all_iff)
  show "enum_class.enum_ex P \<longleftrightarrow> Bex UNIV P"
    unfolding univ by (simp add: enum_ex_run_phase_def enum_run_phase_def list_ex_iff)
qed

end

text \<open>\<open>RunPhase(value)\<close>: \<^const>\<open>None\<close> where the enumeration raises.\<close>

definition phase_of :: "pyval \<Rightarrow> run_phase option" where
  "phase_of v = (case v of PStr s \<Rightarrow> find (\<lambda>p. phase_value p = s) all_phases | _ \<Rightarrow> None)"

datatype run_disposition = RUNNING | WAIT_EXTERNAL | WAIT_HUMAN | COMPLETED | FAILED

fun disposition_value :: "run_disposition \<Rightarrow> string" where
  "disposition_value RUNNING = ''RUNNING''"
| "disposition_value WAIT_EXTERNAL = ''WAIT_EXTERNAL''"
| "disposition_value WAIT_HUMAN = ''WAIT_HUMAN''"
| "disposition_value COMPLETED = ''COMPLETED''"
| "disposition_value FAILED = ''FAILED''"

definition disposition_of :: "pyval \<Rightarrow> run_disposition option" where
  "disposition_of v =
     (case v of
        PStr s \<Rightarrow> find (\<lambda>d. disposition_value d = s) [RUNNING, WAIT_EXTERNAL, WAIT_HUMAN, COMPLETED, FAILED]
      | _ \<Rightarrow> None)"

definition waiting :: "run_disposition \<Rightarrow> bool" where
  "waiting d \<longleftrightarrow> d \<in> {WAIT_EXTERNAL, WAIT_HUMAN}"

definition terminal :: "run_disposition \<Rightarrow> bool" where
  "terminal d \<longleftrightarrow> d \<in> {COMPLETED, FAILED}"

datatype run_status =
    S_RUNNING | S_WAITING_HUMAN | S_WAITING_EXTERNAL | S_COMMITTED | S_PUBLISHED | S_PARTIAL | S_FAILED

fun status_value :: "run_status \<Rightarrow> string" where
  "status_value S_RUNNING = ''running''"
| "status_value S_WAITING_HUMAN = ''waiting_human''"
| "status_value S_WAITING_EXTERNAL = ''waiting_external''"
| "status_value S_COMMITTED = ''committed''"
| "status_value S_PUBLISHED = ''published''"
| "status_value S_PARTIAL = ''partial''"
| "status_value S_FAILED = ''failed''"

definition partial_reasons :: "string list" where
  "partial_reasons = [''stagnation'', ''max_iterations'', ''wall_clock'', ''cost_cap'']"

section \<open>Machine states, identities and events\<close>

datatype transition_error =
    Reason_invalid
  | Phase_unknown
  | Disposition_unknown
  | Event_kind_unknown
  | Event_target_unknown
  | Event_disposition_unknown
  | Identity_field_invalid string
  | Terminal_run run_disposition
  | Advance_without_target
  | Must_resume_before_advance run_disposition
  | Advance_without_phase
  | Never_advances run_phase run_phase
  | Wait_without_waiting_disposition
  | Wait_human_reserved
  | Must_resume_before_complete run_disposition
  | Not_completable "run_phase option"
  | Not_waiting run_disposition
  | Status_unknown

definition run_reason :: "pyval \<Rightarrow> transition_error + string option" where
  "run_reason v =
     (case v of
        PNone \<Rightarrow> Inr None
      | PStr s \<Rightarrow> if blank s then Inl Reason_invalid else Inr (Some (strip s))
      | _ \<Rightarrow> Inl Reason_invalid)"

text \<open>A field that holds an enumeration member, its value or \<open>None\<close>.\<close>

definition optional_enum :: "(pyval \<Rightarrow> 'a option) \<Rightarrow> 'e \<Rightarrow> pyval \<Rightarrow> 'e + 'a option" where
  "optional_enum look e v =
     (if v = PNone then Inr None
      else (case look v of None \<Rightarrow> Inl e | Some x \<Rightarrow> Inr (Some x)))"

record machine_state =
  ms_phase :: "run_phase option"
  ms_disposition :: run_disposition
  ms_reason :: "string option"

definition mk_machine_state :: "pyval \<Rightarrow> pyval \<Rightarrow> pyval \<Rightarrow> transition_error + machine_state" where
  "mk_machine_state phase disposition reason =
     rbind (optional_enum phase_of Phase_unknown phase) (\<lambda>p.
     case disposition_of disposition of
       None \<Rightarrow> Inl Disposition_unknown
     | Some d \<Rightarrow> rbind (run_reason reason) (\<lambda>r.
         Inr \<lparr>ms_phase = p, ms_disposition = d, ms_reason = r\<rparr>))"

record run_identity =
  ri_phase :: "run_phase option"
  ri_disposition :: run_disposition
  ri_reason :: "string option"
  ri_updated_at :: "string option"
  ri_checkpoint_sha256 :: "string option"

definition identity_field :: "string \<Rightarrow> pyval \<Rightarrow> transition_error + string option" where
  "identity_field name v =
     (case v of
        PNone \<Rightarrow> Inr None
      | PStr s \<Rightarrow> if s = [] then Inl (Identity_field_invalid name) else Inr (Some s)
      | _ \<Rightarrow> Inl (Identity_field_invalid name))"

definition identity_of ::
  "machine_state \<Rightarrow> pyval \<Rightarrow> pyval \<Rightarrow> transition_error + run_identity" where
  "identity_of m updated_at checkpoint_sha256 =
     rbind (identity_field ''updated_at'' updated_at) (\<lambda>u.
     rbind (identity_field ''checkpoint_sha256'' checkpoint_sha256) (\<lambda>c.
       Inr \<lparr>ri_phase = ms_phase m, ri_disposition = ms_disposition m, ri_reason = ms_reason m,
            ri_updated_at = u, ri_checkpoint_sha256 = c\<rparr>))"

datatype run_event_kind = ADVANCE | WAIT | FAIL | COMPLETE | RESUME

record run_event =
  ev_kind :: run_event_kind
  ev_target :: "run_phase option"
  ev_disposition :: "run_disposition option"
  ev_reason :: "string option"

text \<open>The constructors of the events the runtime builds; a \<open>reason\<close> is checked and stripped.\<close>

definition event_advance :: "pyval \<Rightarrow> transition_error + run_event" where
  "event_advance target =
     rbind (optional_enum phase_of Event_target_unknown target) (\<lambda>t.
       Inr \<lparr>ev_kind = ADVANCE, ev_target = t, ev_disposition = None, ev_reason = None\<rparr>)"

definition event_wait :: "pyval \<Rightarrow> pyval \<Rightarrow> transition_error + run_event" where
  "event_wait disposition reason =
     rbind (optional_enum disposition_of Event_disposition_unknown disposition) (\<lambda>d.
     rbind (run_reason reason) (\<lambda>r.
       Inr \<lparr>ev_kind = WAIT, ev_target = None, ev_disposition = d, ev_reason = r\<rparr>))"

definition event_fail :: "pyval \<Rightarrow> transition_error + run_event" where
  "event_fail reason =
     rbind (run_reason reason) (\<lambda>r.
       Inr \<lparr>ev_kind = FAIL, ev_target = None, ev_disposition = None, ev_reason = r\<rparr>)"

definition event_complete :: run_event where
  "event_complete = \<lparr>ev_kind = COMPLETE, ev_target = None, ev_disposition = None, ev_reason = None\<rparr>"

definition event_resume :: run_event where
  "event_resume = \<lparr>ev_kind = RESUME, ev_target = None, ev_disposition = None, ev_reason = None\<rparr>"

section \<open>The phase graph and the transition function\<close>

fun phase_successors :: "run_phase \<Rightarrow> run_phase list" where
  "phase_successors CONTEXT = [PLANNER]"
| "phase_successors PLANNER = [PLAN_APPROVAL, IMPLEMENT_STEP, CANDIDATE_READY]"
| "phase_successors PLAN_APPROVAL = [WORKTREE_SETUP]"
| "phase_successors WORKTREE_SETUP = [IMPLEMENT_STEP]"
| "phase_successors IMPLEMENT_STEP = [IMPLEMENT_STEP, DETERMINISTIC_GATE]"
| "phase_successors DETERMINISTIC_GATE = [DETERMINISTIC_GATE, CANDIDATE_READY, AUDIT, PLANNER]"
| "phase_successors AUDIT = [DETERMINISTIC_GATE]"
| "phase_successors CANDIDATE_READY = [CANDIDATE_PUSH]"
| "phase_successors CANDIDATE_PUSH = [PUBLISH]"
| "phase_successors PUBLISH = []"

definition completable_phases :: "run_phase list" where
  "completable_phases = [CANDIDATE_PUSH, PUBLISH, PLANNER]"

definition state_at :: "run_phase option \<Rightarrow> run_disposition \<Rightarrow> string option \<Rightarrow> machine_state" where
  "state_at p d r = \<lparr>ms_phase = p, ms_disposition = d, ms_reason = r\<rparr>"

definition spec_decision_required :: string where
  "spec_decision_required = ''SPEC_DECISION_REQUIRED''"

definition transition :: "machine_state \<Rightarrow> run_event \<Rightarrow> transition_error + machine_state" where
  "transition current event =
     (let phase = ms_phase current;
          disposition = ms_disposition current;
          resumable_failure = (ev_kind event = RESUME \<and> disposition = FAILED);
          approved_plan_gate = (ev_kind event = RESUME \<and> disposition = RUNNING
            \<and> phase = Some PLAN_APPROVAL)
      in if terminal disposition \<and> \<not> resumable_failure then Inl (Terminal_run disposition)
         else (case ev_kind event of
           ADVANCE \<Rightarrow>
             (case ev_target event of
                None \<Rightarrow> Inl Advance_without_target
              | Some target \<Rightarrow>
                  if disposition \<noteq> RUNNING then Inl (Must_resume_before_advance disposition)
                  else (case phase of
                      None \<Rightarrow> Inl Advance_without_phase
                    | Some p \<Rightarrow>
                        if target \<notin> set (phase_successors p) then Inl (Never_advances p target)
                        else Inr (state_at (Some target) RUNNING None)))
         | WAIT \<Rightarrow>
             (case ev_disposition event of
                None \<Rightarrow> Inl Wait_without_waiting_disposition
              | Some d \<Rightarrow>
                  if \<not> waiting d then Inl Wait_without_waiting_disposition
                  else if d = WAIT_HUMAN \<and> ev_reason event \<noteq> Some spec_decision_required
                  then Inl Wait_human_reserved
                  else Inr (state_at phase d (ev_reason event)))
         | FAIL \<Rightarrow> Inr (state_at phase FAILED (ev_reason event))
         | COMPLETE \<Rightarrow>
             if disposition \<noteq> RUNNING then Inl (Must_resume_before_complete disposition)
             else (case phase of
                 None \<Rightarrow> Inl (Not_completable None)
               | Some p \<Rightarrow>
                   if p \<notin> set completable_phases then Inl (Not_completable phase)
                   else Inr (state_at phase COMPLETED None))
         | RESUME \<Rightarrow>
             if \<not> waiting disposition \<and> \<not> resumable_failure \<and> \<not> approved_plan_gate
             then Inl (Not_waiting disposition)
             else Inr (state_at phase RUNNING None)))"

section \<open>The projection onto a status\<close>

record run_outcome =
  ro_phase :: "run_phase option"
  ro_disposition :: run_disposition
  ro_status :: run_status
  ro_resumable :: bool
  ro_resume_eligible :: bool

definition completed_status :: "run_phase option \<Rightarrow> run_status" where
  "completed_status p =
     (if p = Some PUBLISH then S_PUBLISHED else if p = Some PLANNER then S_PARTIAL else S_COMMITTED)"

definition project_run_outcome :: "machine_state \<Rightarrow> transition_error + run_outcome" where
  "project_run_outcome st =
     (let p = ms_phase st; d = ms_disposition st;
          out = (\<lambda>status resumable eligible.
            \<lparr>ro_phase = p, ro_disposition = d, ro_status = status,
             ro_resumable = resumable, ro_resume_eligible = eligible\<rparr>)
      in case d of
           RUNNING \<Rightarrow> Inr (out S_RUNNING False False)
         | COMPLETED \<Rightarrow> Inr (out (completed_status p) False False)
         | FAILED \<Rightarrow> Inr (out S_FAILED False True)
         | WAIT_EXTERNAL \<Rightarrow> Inr (out S_WAITING_EXTERNAL True True)
         | WAIT_HUMAN \<Rightarrow>
             if ms_reason st \<noteq> Some spec_decision_required then Inl Wait_human_reserved
             else Inr (out S_WAITING_HUMAN False False))"

definition status_dispositions :: "(string \<times> run_disposition) list" where
  "status_dispositions =
    [(''running'', RUNNING), (''waiting_human'', WAIT_HUMAN), (''waiting_external'', WAIT_EXTERNAL),
     (''published'', COMPLETED), (''committed'', COMPLETED), (''partial'', COMPLETED),
     (''failed'', FAILED), (''created'', RUNNING), (''planning'', RUNNING),
     (''awaiting_plan_approval'', RUNNING), (''preparing'', RUNNING), (''implementing'', RUNNING),
     (''validating'', RUNNING), (''revising'', RUNNING), (''approved'', RUNNING),
     (''publishing'', RUNNING), (''paused'', WAIT_EXTERNAL), (''waiting_remote'', WAIT_EXTERNAL),
     (''plan_rejected'', FAILED), (''interrupted'', FAILED)]"

definition disposition_for_status :: "pyval \<Rightarrow> transition_error + run_disposition" where
  "disposition_for_status status =
     (case status of
        PStr s \<Rightarrow> (case map_of status_dispositions (casefold s) of
            None \<Rightarrow> Inl Status_unknown
          | Some d \<Rightarrow> Inr d)
      | _ \<Rightarrow> Inl Status_unknown)"

definition assemble_run_state ::
  "pyval \<Rightarrow> pyval \<Rightarrow> pyval \<Rightarrow> pyval \<Rightarrow> pyval \<Rightarrow> transition_error + machine_state" where
  "assemble_run_state phase disposition status reason failure_reason =
     rbind (if disposition = PNone
            then (if status \<noteq> PNone
                  then rbind (disposition_for_status status) (\<lambda>d. Inr (PStr (disposition_value d)))
                  else Inr (PStr (disposition_value RUNNING)))
            else Inr disposition) (\<lambda>posture.
     case disposition_of posture of
       None \<Rightarrow> Inl Disposition_unknown
     | Some d \<Rightarrow>
         let resolved = (if truthy reason then reason else failure_reason);
             reason' = (case resolved of PStr s \<Rightarrow> if s = [] then PNone else resolved | _ \<Rightarrow> PNone)
         in mk_machine_state phase (PStr (disposition_value d)) reason')"

text \<open>The reason of a recorded \<open>failure\<close> mapping, \<open>None\<close> when there is none.\<close>

definition failure_reason_of :: "pyval \<Rightarrow> pyval" where
  "failure_reason_of failure = (case failure of PDict d \<Rightarrow> dget d ''reason'' | _ \<Rightarrow> PNone)"

definition status_of_run_state :: "(string \<times> pyval) list \<Rightarrow> transition_error + run_status" where
  "status_of_run_state st =
     rbind (assemble_run_state (dget st ''phase'') (dget st ''disposition'') (dget st ''status'')
              (dget st ''reason'') (failure_reason_of (dget st ''failure''))) (\<lambda>m.
     rbind (project_run_outcome m) (\<lambda>out. Inr (ro_status out)))"

section \<open>Values of the enumerations\<close>

lemma phase_of_value [simp]: "phase_of (PStr (phase_value p)) = Some p"
  by (cases p) (simp_all add: phase_of_def all_phases_def)

lemma phase_of_Some: "phase_of v = Some p \<Longrightarrow> v = PStr (phase_value p)"
  by (auto simp: phase_of_def find_Some_iff split: pyval.splits)

lemma disposition_of_value [simp]: "disposition_of (PStr (disposition_value d)) = Some d"
  by (cases d) (simp_all add: disposition_of_def)

lemma phase_value_inj [simp]: "phase_value p = phase_value q \<longleftrightarrow> p = q"
  by (metis option.inject phase_of_value)

lemma disposition_value_inj [simp]: "disposition_value d = disposition_value e \<longleftrightarrow> d = e"
  by (metis option.inject disposition_of_value)

lemma phase_of_PNone [simp]: "phase_of PNone = None"
  by (simp add: phase_of_def)

lemma disposition_of_PNone [simp]: "disposition_of PNone = None"
  by (simp add: disposition_of_def)

lemma all_phases_UNIV: "p \<in> set all_phases"
  by (cases p) (simp_all add: all_phases_def)

lemma state_at_sel [simp]:
  "ms_phase (state_at p d r) = p" "ms_disposition (state_at p d r) = d" "ms_reason (state_at p d r) = r"
  by (simp_all add: state_at_def)

section \<open>What a transition does\<close>

lemma transition_advance_iff:
  "transition m e = Inr m' \<and> ev_kind e = ADVANCE \<longleftrightarrow>
   (\<exists>p q. ev_kind e = ADVANCE \<and> ms_disposition m = RUNNING \<and> ms_phase m = Some p
      \<and> ev_target e = Some q \<and> q \<in> set (phase_successors p) \<and> m' = state_at (Some q) RUNNING None)"
  by (auto simp: transition_def Let_def terminal_def split: option.splits if_splits)

lemma transition_keeps_phase:
  "transition m e = Inr m' \<Longrightarrow> ev_kind e \<noteq> ADVANCE \<Longrightarrow> ms_phase m' = ms_phase m"
  by (cases "ev_kind e")
    (auto simp: transition_def Let_def split: option.splits if_splits)

lemma transition_completed: "ms_disposition m = COMPLETED \<Longrightarrow> \<exists>x. transition m e = Inl x"
  by (auto simp: transition_def Let_def terminal_def)

lemma transition_failed:
  "ms_disposition m = FAILED \<Longrightarrow> transition m e = Inr m' \<Longrightarrow>
     ev_kind e = RESUME \<and> m' = state_at (ms_phase m) RUNNING None"
  by (auto simp: transition_def Let_def terminal_def waiting_def split: if_splits)

text \<open>The invariant of every state the machine can be in.\<close>

definition machine_inv :: "machine_state \<Rightarrow> bool" where
  "machine_inv m \<longleftrightarrow>
     (case ms_disposition m of
        RUNNING \<Rightarrow> ms_reason m = None
      | COMPLETED \<Rightarrow> ms_reason m = None \<and> (\<exists>p \<in> set completable_phases. ms_phase m = Some p)
      | WAIT_HUMAN \<Rightarrow> ms_reason m = Some spec_decision_required
      | _ \<Rightarrow> True)"

lemma machine_inv_start: "machine_inv (state_at p RUNNING None)"
  by (simp add: machine_inv_def)

lemma transition_machine_inv: "transition m e = Inr m' \<Longrightarrow> machine_inv m'"
  by (cases "ev_kind e")
    (auto simp: transition_def machine_inv_def Let_def waiting_def
      split: option.splits if_splits run_disposition.splits)

interpretation machine: absorbing_machine transition machine_inv "\<lambda>m. ms_disposition m = COMPLETED"
  by unfold_locales (auto intro: transition_machine_inv transition_completed)

lemma project_total_on_inv: "machine_inv m \<Longrightarrow> \<exists>out. project_run_outcome m = Inr out"
  by (auto simp: project_run_outcome_def machine_inv_def Let_def split: run_disposition.splits)

lemma project_Inr_fields:
  "project_run_outcome m = Inr out \<Longrightarrow> ro_phase out = ms_phase m \<and> ro_disposition out = ms_disposition m"
  by (auto simp: project_run_outcome_def Let_def split: run_disposition.splits if_splits)

text \<open>The status determines the disposition it was projected from.\<close>

lemma project_status_disposition:
  "project_run_outcome m = Inr out \<Longrightarrow>
     disposition_for_status (PStr (status_value (ro_status out))) = Inr (ms_disposition m)"
  by (auto simp: project_run_outcome_def Let_def completed_status_def disposition_for_status_def
      status_dispositions_def casefold_def lower_char_def split: run_disposition.splits if_splits)

section \<open>Paths of the phase graph\<close>

text \<open>\<open>phase_path p ps\<close>: the phases \<open>ps\<close> can be entered one after the other from \<open>p\<close>.\<close>

fun phase_path :: "run_phase \<Rightarrow> run_phase list \<Rightarrow> bool" where
  "phase_path p [] = True"
| "phase_path p (q # qs) = (q \<in> set (phase_successors p) \<and> phase_path q qs)"

lemma phase_path_append:
  "phase_path p (qs @ rs) \<longleftrightarrow> phase_path p qs \<and> phase_path (last (p # qs)) rs"
  by (induction qs arbitrary: p) auto

definition advance_targets :: "run_event list \<Rightarrow> run_phase list" where
  "advance_targets es =
     concat (map (\<lambda>e. if ev_kind e = ADVANCE
       then (case ev_target e of None \<Rightarrow> [] | Some q \<Rightarrow> [q]) else []) es)"

lemma run_events_path:
  "run_events transition m es = Inr m' \<Longrightarrow> ms_phase m = Some p \<Longrightarrow>
     phase_path p (advance_targets es) \<and> ms_phase m' = Some (last (p # advance_targets es))"
proof (induction es arbitrary: m p)
  case Nil
  then show ?case by (simp add: advance_targets_def)
next
  case (Cons e es)
  from Cons.prems obtain m1 where m1: "transition m e = Inr m1"
    and run: "run_events transition m1 es = Inr m'" by auto
  show ?case
  proof (cases "ev_kind e = ADVANCE")
    case True
    with m1 transition_advance_iff [of m e m1] Cons.prems(2) obtain q where
      "ev_target e = Some q" "q \<in> set (phase_successors p)" "ms_phase m1 = Some q"
      by auto
    with Cons.IH [OF run] True show ?thesis by (auto simp: advance_targets_def)
  next
    case False
    with m1 Cons.prems(2) have "ms_phase m1 = Some p"
      using transition_keeps_phase by metis
    with Cons.IH [OF run] False show ?thesis by (auto simp: advance_targets_def)
  qed
qed

text \<open>Entering \<open>PUBLISH\<close> from anywhere before the candidate goes through its three last phases.\<close>

lemma path_to_push:
  "phase_path p ps \<Longrightarrow> last (p # ps) = CANDIDATE_PUSH \<Longrightarrow> p \<notin> {CANDIDATE_READY, CANDIDATE_PUSH} \<Longrightarrow>
     \<exists>pre. ps = pre @ [CANDIDATE_READY, CANDIDATE_PUSH]"
proof (induction ps arbitrary: p)
  case (Cons q qs)
  show ?case
  proof (cases "q \<in> {CANDIDATE_READY, CANDIDATE_PUSH}")
    case False
    with Cons show ?thesis by fastforce
  next
    case True
    with Cons.prems have q: "q = CANDIDATE_READY" by (cases p) auto
    with Cons.prems obtain r rs where "qs = r # rs" and "r = CANDIDATE_PUSH" by (cases qs) auto
    moreover from this Cons.prems have "rs = []"
      by (cases rs rule: rev_cases) (auto simp: phase_path_append neq_Nil_conv split: if_splits)
    ultimately show ?thesis using q by simp
  qed
qed simp


text \<open>From the publication phases on, the path is a prefix of the candidate's three last phases.\<close>

lemma path_to_publish:
  assumes "phase_path p ps" and "last (p # ps) = PUBLISH"
    and "p \<notin> {CANDIDATE_READY, CANDIDATE_PUSH, PUBLISH}"
  shows "\<exists>pre. ps = pre @ [CANDIDATE_READY, CANDIDATE_PUSH, PUBLISH]"
proof -
  from assms(2,3) have "ps \<noteq> []" by auto
  then have ps: "ps = butlast ps @ [PUBLISH]" using assms(2) by (metis append_butlast_last_id last_ConsR)
  with assms(1) have path: "phase_path p (butlast ps)"
    and "PUBLISH \<in> set (phase_successors (last (p # butlast ps)))"
    by (metis phase_path_append, metis phase_path.simps(2) phase_path_append)
  then have "last (p # butlast ps) = CANDIDATE_PUSH" by (cases "last (p # butlast ps)") auto
  with path_to_push [OF path] assms(3) obtain pre where "butlast ps = pre @ [CANDIDATE_READY, CANDIDATE_PUSH]"
    by auto
  with ps show ?thesis by (metis append.assoc append_Cons append_Nil)
qed

section \<open>Properties\<close>

definition new_run :: machine_state where
  "new_run = state_at (Some CONTEXT) RUNNING None"

text \<open>C9: every state a run can reach is consistent and has a status. Whatever accepted events follow
  each other from the start of a run, a completed run stopped at a completable phase, a human wait
  carries the SPEC decision, the projection onto a status never fails, and the status tells the
  disposition back.\<close>

theorem reachable_run_projects:
  assumes "run_events transition new_run es = Inr m"
  shows "machine_inv m \<and> (\<exists>out. project_run_outcome m = Inr out \<and> ro_phase out = ms_phase m
     \<and> disposition_for_status (PStr (status_value (ro_status out))) = Inr (ms_disposition m))"
proof -
  have inv: "machine_inv m"
    by (rule machine.run_inv [OF _ assms]) (simp add: new_run_def machine_inv_start)
  then obtain out where "project_run_outcome m = Inr out" using project_total_on_inv by blast
  with inv project_Inr_fields project_status_disposition show ?thesis by blast
qed

theorem reachable_run_projects_witness:
  "\<exists>out. project_run_outcome (state_at (Some CONTEXT) WAIT_HUMAN (Some spec_decision_required)) = Inr out
     \<and> disposition_for_status (PStr (status_value (ro_status out))) = Inr WAIT_HUMAN"
proof -
  have "run_events transition new_run
      [\<lparr>ev_kind = WAIT, ev_target = None, ev_disposition = Some WAIT_HUMAN, ev_reason = Some spec_decision_required\<rparr>]
    = Inr (state_at (Some CONTEXT) WAIT_HUMAN (Some spec_decision_required))"
    by code_simp
  from reachable_run_projects [OF this] show ?thesis by auto
qed

text \<open>C10: nothing is published that was not a candidate first. A run that reaches the publication phase
  entered, as its three last phases and in this order, the ready candidate, its push and the
  publication, whatever waits, failures and resumes happened in between.\<close>

theorem publication_follows_the_candidate:
  assumes "run_events transition new_run es = Inr m" and "ms_phase m = Some PUBLISH"
  shows "\<exists>pre. advance_targets es = pre @ [CANDIDATE_READY, CANDIDATE_PUSH, PUBLISH]
     \<and> phase_path CONTEXT pre"
proof -
  have "ms_phase new_run = Some CONTEXT" by (simp add: new_run_def)
  from run_events_path [OF assms(1) this] assms(2) have path: "phase_path CONTEXT (advance_targets es)"
    and "last (CONTEXT # advance_targets es) = PUBLISH" by auto
  then obtain pre where "advance_targets es = pre @ [CANDIDATE_READY, CANDIDATE_PUSH, PUBLISH]"
    using path_to_publish [OF path] by auto
  with path show ?thesis by (auto simp: phase_path_append)
qed

definition advance_to :: "run_phase \<Rightarrow> run_event" where
  "advance_to p = \<lparr>ev_kind = ADVANCE, ev_target = Some p, ev_disposition = None, ev_reason = None\<rparr>"

theorem publication_follows_the_candidate_witness:
  "\<exists>pre. advance_targets (map advance_to [PLANNER, PLAN_APPROVAL, WORKTREE_SETUP, IMPLEMENT_STEP,
      DETERMINISTIC_GATE, CANDIDATE_READY, CANDIDATE_PUSH, PUBLISH])
     = pre @ [CANDIDATE_READY, CANDIDATE_PUSH, PUBLISH]"
proof -
  have "run_events transition new_run (map advance_to [PLANNER, PLAN_APPROVAL, WORKTREE_SETUP, IMPLEMENT_STEP,
      DETERMINISTIC_GATE, CANDIDATE_READY, CANDIDATE_PUSH, PUBLISH]) = Inr (state_at (Some PUBLISH) RUNNING None)"
    by code_simp
  from publication_follows_the_candidate [OF this] show ?thesis by auto
qed

text \<open>C37: an ended run stays as it is. A completed run accepts no event at all; of a failed run the only
  event accepted is its resume, which brings it back to the phase it failed in.\<close>

theorem ended_run_is_final:
  assumes "run_events transition m es = Inr m'" and "terminal (ms_disposition m)"
  shows "es = [] \<and> m' = m \<or> ms_disposition m = FAILED
     \<and> (\<exists>e es'. es = e # es' \<and> ev_kind e = RESUME
          \<and> run_events transition (state_at (ms_phase m) RUNNING None) es' = Inr m')"
proof (cases "ms_disposition m = COMPLETED")
  case True
  then show ?thesis
  proof (cases es)
    case (Cons e es')
    from transition_completed [OF True] obtain x where "transition m e = Inl x" by blast
    with assms(1) Cons show ?thesis by simp
  qed (use assms in simp)
next
  case False
  with assms(2) have failed: "ms_disposition m = FAILED" by (simp add: terminal_def)
  show ?thesis
  proof (cases es)
    case (Cons e es')
    with assms(1) obtain m1 where "transition m e = Inr m1" "run_events transition m1 es' = Inr m'" by auto
    with transition_failed [OF failed] failed Cons show ?thesis by auto
  qed (use assms in simp)
qed

theorem ended_run_is_final_witness:
  "run_events transition (state_at (Some AUDIT) FAILED None) [event_resume] = Inr (state_at (Some AUDIT) RUNNING None)
   \<and> ms_disposition (state_at (Some AUDIT) FAILED None) = FAILED"
proof -
  have "run_events transition (state_at (Some AUDIT) FAILED None) [event_resume] = Inr (state_at (Some AUDIT) RUNNING None)"
    and "terminal (ms_disposition (state_at (Some AUDIT) FAILED None))" by code_simp+
  from ended_run_is_final [OF this] this show ?thesis by auto
qed

end
