(* ===== verification/Checkpoint.thy ===== *)
theory Checkpoint
  imports Approval RunMachine
begin

text \<open>
  The run checkpoint: its structural stamp (\<open>checkpoint_identity.py\<close>), the resume record with its
  validation, write, parse and rephase, and the projection that tells an operator whether a run
  may be resumed (\<open>resume.py\<close>).

  The lemmas show the round trip of a valid record, that every accepted file names a valid record,
  and what makes a run resumable.
\<close>

section \<open>The structural stamp\<close>

definition checkpoint_name :: string where
  "checkpoint_name = ''checkpoint.json''"

definition checkpoint_schema_version :: int where
  "checkpoint_schema_version = 6"

datatype format_error =
    Not_an_object | Schema_version_not_an_integer | Stamp_phase_missing | Stamp_phase_unknown | Unreadable

record checkpoint_stamp =
  cs_schema_version :: int
  cs_phase :: run_phase
  cs_sha256 :: string

definition current_schema :: "checkpoint_stamp \<Rightarrow> bool" where
  "current_schema s \<longleftrightarrow> cs_schema_version s = checkpoint_schema_version"

definition stamp_from_payload :: "pyval \<Rightarrow> string \<Rightarrow> format_error + checkpoint_stamp" where
  "stamp_from_payload payload sha =
     (case payload of
        PDict d \<Rightarrow>
          (case dget d ''schema_version'' of
             PInt v \<Rightarrow>
               if \<not> has_key d ''phase'' then Inl Stamp_phase_missing
               else (case phase_of (dget d ''phase'') of
                   None \<Rightarrow> Inl Stamp_phase_unknown
                 | Some p \<Rightarrow> Inr \<lparr>cs_schema_version = v, cs_phase = p, cs_sha256 = sha\<rparr>)
           | _ \<Rightarrow> Inl Schema_version_not_an_integer)
      | _ \<Rightarrow> Inl Not_an_object)"

text \<open>The decoded payload and the digest of the bytes it was read from.\<close>

definition read_checkpoint_file :: "codec \<Rightarrow> run_dir \<Rightarrow> format_error + (pyval \<times> string) option" where
  "read_checkpoint_file cdc rd =
     (case rd checkpoint_name of
        Missing \<Rightarrow> Inr None
      | Io_error \<Rightarrow> Inl Unreadable
      | Bytes b \<Rightarrow> (case json_loads cdc b of
            None \<Rightarrow> Inl Unreadable
          | Some v \<Rightarrow> Inr (Some (v, sha256_hex cdc b))))"

definition read_checkpoint_stamp :: "codec \<Rightarrow> run_dir \<Rightarrow> format_error + checkpoint_stamp option" where
  "read_checkpoint_stamp cdc rd =
     rbind (read_checkpoint_file cdc rd) (\<lambda>r.
       case r of
         None \<Rightarrow> Inr None
       | Some (payload, sha) \<Rightarrow> rbind (stamp_from_payload payload sha) (\<lambda>s. Inr (Some s)))"

definition checkpoint_sha256 :: "codec \<Rightarrow> run_dir \<Rightarrow> string option" where
  "checkpoint_sha256 cdc rd = (case rd checkpoint_name of Bytes b \<Rightarrow> Some (sha256_hex cdc b) | _ \<Rightarrow> None)"

section \<open>The resume record\<close>

datatype checkpoint_error =
    Phase_invalid
  | Iteration_not_positive
  | Step_index_missing
  | Step_index_unexpected
  | Commit_invalid
  | Plan_sha256_invalid
  | Plan_sha256_required
  | Commit_required
  | Field_type_error
  | Format format_error
  | Schema_unsupported
  | Fields_mismatch
  | State_unreadable
  | Pipeline_version_unsupported

record resume_checkpoint =
  rc_phase :: run_phase
  rc_iteration :: int
  rc_step_index :: "int option"
  rc_last_green_commit :: "string option"
  rc_plan_sha256 :: "string option"

definition early_phases :: "run_phase list" where
  "early_phases = [CONTEXT, PLANNER]"

definition object_id :: "string \<Rightarrow> bool" where
  "object_id s \<longleftrightarrow> (length s = 40 \<or> length s = 64) \<and> list_all is_hex s"

definition sha256_text :: "string \<Rightarrow> bool" where
  "sha256_text s \<longleftrightarrow> length s = 64 \<and> list_all is_hex s"

text \<open>A pattern matched against a field that must be \<open>None\<close> or a string.\<close>

definition match_field ::
  "(string \<Rightarrow> bool) \<Rightarrow> checkpoint_error \<Rightarrow> pyval \<Rightarrow> checkpoint_error + string option" where
  "match_field pat err v =
     (case v of
        PNone \<Rightarrow> Inr None
      | PStr s \<Rightarrow> if pat s then Inr (Some s) else Inl err
      | _ \<Rightarrow> Inl Field_type_error)"

definition check_step_index :: "run_phase \<Rightarrow> pyval \<Rightarrow> checkpoint_error + int option" where
  "check_step_index phase v =
     (if phase = IMPLEMENT_STEP
      then (case v of
          PInt i \<Rightarrow> if i < 0 then Inl Step_index_missing else Inr (Some i)
        | _ \<Rightarrow> Inl Step_index_missing)
      else if v \<noteq> PNone then Inl Step_index_unexpected else Inr None)"

definition mk_resume_checkpoint ::
  "pyval \<Rightarrow> pyval \<Rightarrow> pyval \<Rightarrow> pyval \<Rightarrow> pyval \<Rightarrow> checkpoint_error + resume_checkpoint" where
  "mk_resume_checkpoint phase iteration step_index last_green_commit plan_sha256 =
     (case phase_of phase of
        None \<Rightarrow> Inl Phase_invalid
      | Some p \<Rightarrow>
          if \<not> positive_int iteration then Inl Iteration_not_positive
          else
            rbind (check_step_index p step_index) (\<lambda>si.
            rbind (match_field object_id Commit_invalid last_green_commit) (\<lambda>lg.
            rbind (match_field sha256_text Plan_sha256_invalid plan_sha256) (\<lambda>ps.
              if p \<notin> set early_phases \<and> ps = None then Inl Plan_sha256_required
              else if p \<notin> set (early_phases @ [PLAN_APPROVAL, WORKTREE_SETUP]) \<and> lg = None
              then Inl Commit_required
              else Inr \<lparr>rc_phase = p, rc_iteration = int_val iteration, rc_step_index = si,
                rc_last_green_commit = lg, rc_plan_sha256 = ps\<rparr>))))"

definition pipeline_version_from_state :: "pyval \<Rightarrow> checkpoint_error + int" where
  "pipeline_version_from_state st =
     (case st of
        PDict d \<Rightarrow>
          if num_eq (dget d ''pipeline_version'') 2 then Inr 2 else Inl Pipeline_version_unsupported
      | _ \<Rightarrow> Inl Pipeline_version_unsupported)"

fun int_or_none :: "int option \<Rightarrow> pyval" where
  "int_or_none None = PNone"
| "int_or_none (Some i) = PInt i"

definition checkpoint_payload :: "resume_checkpoint \<Rightarrow> (string \<times> pyval) list" where
  "checkpoint_payload c =
    [(''schema_version'', PInt checkpoint_schema_version),
     (''iteration'', PInt (rc_iteration c)),
     (''phase'', PStr (phase_value (rc_phase c))),
     (''step_index'', int_or_none (rc_step_index c)),
     (''last_green_commit'', str_or_none (rc_last_green_commit c)),
     (''plan_sha256'', str_or_none (rc_plan_sha256 c))]"

definition write_checkpoint :: "codec \<Rightarrow> run_dir \<Rightarrow> resume_checkpoint \<Rightarrow> run_dir" where
  "write_checkpoint cdc rd c =
     atomic_write_text rd checkpoint_name (json_text cdc Indented_sorted (PDict (checkpoint_payload c)))"

definition checkpoint_fields :: "string list" where
  "checkpoint_fields =
     [''schema_version'', ''iteration'', ''phase'', ''step_index'', ''last_green_commit'', ''plan_sha256'']"

definition parse_checkpoint :: "pyval \<Rightarrow> string \<Rightarrow> checkpoint_error + resume_checkpoint" where
  "parse_checkpoint payload sha =
     (case payload of
        PDict d \<Rightarrow>
          if (case dget d ''schema_version'' of PInt v \<Rightarrow> v \<noteq> checkpoint_schema_version | _ \<Rightarrow> False)
          then Inl Schema_unsupported
          else (case stamp_from_payload payload sha of
              Inl e \<Rightarrow> Inl (Format e)
            | Inr s \<Rightarrow>
                if cs_schema_version s \<noteq> checkpoint_schema_version then Inl Schema_unsupported
                else if set (map fst d) \<noteq> set checkpoint_fields then Inl Fields_mismatch
                else mk_resume_checkpoint (PStr (phase_value (cs_phase s))) (dget d ''iteration'')
                  (dget d ''step_index'') (dget d ''last_green_commit'') (dget d ''plan_sha256''))
      | _ \<Rightarrow> Inl (Format Not_an_object))"

definition read_checkpoint :: "codec \<Rightarrow> run_dir \<Rightarrow> checkpoint_error + resume_checkpoint option" where
  "read_checkpoint cdc rd =
     (case read_checkpoint_file cdc rd of
        Inl e \<Rightarrow> Inl (Format e)
      | Inr None \<Rightarrow> Inr None
      | Inr (Some (payload, sha)) \<Rightarrow> rbind (parse_checkpoint payload sha) (\<lambda>c. Inr (Some c)))"

definition rephase_checkpoint :: "codec \<Rightarrow> run_dir \<Rightarrow> run_phase \<Rightarrow> checkpoint_error + run_dir" where
  "rephase_checkpoint cdc rd phase =
     rbind (read_checkpoint cdc rd) (\<lambda>r.
       case r of
         None \<Rightarrow> Inr rd
       | Some c \<Rightarrow>
           if rc_phase c = phase then Inr rd
           else rbind (mk_resume_checkpoint (PStr (phase_value phase)) (PInt (rc_iteration c))
                  (if phase = IMPLEMENT_STEP then int_or_none (rc_step_index c) else PNone)
                  (str_or_none (rc_last_green_commit c)) (str_or_none (rc_plan_sha256 c)))
                (\<lambda>c'. Inr (write_checkpoint cdc rd c')))"


section \<open>The resume projection\<close>

type_synonym run_state = "(string \<times> pyval) list"

definition machine_state_for_run ::
  "run_state \<Rightarrow> resume_checkpoint option \<Rightarrow> checkpoint_error + machine_state" where
  "machine_state_for_run st checkpoint =
     rbind (case checkpoint of
         Some c \<Rightarrow> Inr (PStr (phase_value (rc_phase c)))
       | None \<Rightarrow>
           if dget st ''phase'' \<noteq> PNone
           then (case phase_of (dget st ''phase'') of
               None \<Rightarrow> Inl Phase_invalid
             | Some p \<Rightarrow> Inr (PStr (phase_value p)))
           else Inr PNone) (\<lambda>phase.
       case assemble_run_state phase (dget st ''disposition'') (dget st ''status'') (dget st ''reason'')
              (failure_reason_of (dget st ''failure'')) of
         Inl _ \<Rightarrow> Inl State_unreadable
       | Inr m \<Rightarrow> Inr m)"

definition str_or_missing :: "pyval \<Rightarrow> pyval" where
  "str_or_missing v = (if is_str v then v else PNone)"

definition run_identity_of ::
  "codec \<Rightarrow> run_dir \<Rightarrow> run_state \<Rightarrow> resume_checkpoint option \<Rightarrow> (checkpoint_error + transition_error) + run_identity" where
  "run_identity_of cdc rd st checkpoint =
     (case machine_state_for_run st checkpoint of
        Inl e \<Rightarrow> Inl (Inl e)
      | Inr m \<Rightarrow> (case identity_of m (str_or_missing (dget st ''updated_at''))
                        (str_or_none (checkpoint_sha256 cdc rd)) of
            Inl e \<Rightarrow> Inl (Inr e)
          | Inr i \<Rightarrow> Inr i))"






section \<open>Validity and the round trip\<close>

definition checkpoint_ok :: "resume_checkpoint \<Rightarrow> bool" where
  "checkpoint_ok c \<longleftrightarrow>
     rc_iteration c \<ge> 1
     \<and> (case rc_step_index c of None \<Rightarrow> rc_phase c \<noteq> IMPLEMENT_STEP
          | Some i \<Rightarrow> rc_phase c = IMPLEMENT_STEP \<and> i \<ge> 0)
     \<and> (case rc_last_green_commit c of Some s \<Rightarrow> object_id s
          | None \<Rightarrow> rc_phase c \<in> set (early_phases @ [PLAN_APPROVAL, WORKTREE_SETUP]))
     \<and> (case rc_plan_sha256 c of Some s \<Rightarrow> sha256_text s | None \<Rightarrow> rc_phase c \<in> set early_phases)"

lemma match_field_Inr:
  "match_field pat err v = Inr x \<longleftrightarrow> v = str_or_none x \<and> (\<forall>s. x = Some s \<longrightarrow> pat s)"
  by (cases x) (auto simp: match_field_def split: pyval.splits if_splits)

lemma check_step_index_Inr:
  "check_step_index p v = Inr x \<longleftrightarrow> v = int_or_none x
     \<and> (case x of None \<Rightarrow> p \<noteq> IMPLEMENT_STEP | Some i \<Rightarrow> p = IMPLEMENT_STEP \<and> i \<ge> 0)"
  by (cases x) (auto simp: check_step_index_def split: pyval.splits if_splits)

lemma positive_int_iff: "positive_int v \<longleftrightarrow> (\<exists>i. v = PInt i \<and> i \<ge> 1)"
  by (auto simp: positive_int_def split: pyval.splits)

text \<open>The constructor accepts exactly the fields of a valid record.\<close>

lemma mk_resume_checkpoint_iff:
  "mk_resume_checkpoint ph it si lg ps = Inr c \<longleftrightarrow>
     checkpoint_ok c \<and> ph = PStr (phase_value (rc_phase c)) \<and> it = PInt (rc_iteration c)
     \<and> si = int_or_none (rc_step_index c) \<and> lg = str_or_none (rc_last_green_commit c)
     \<and> ps = str_or_none (rc_plan_sha256 c)"
    (is "?L \<longleftrightarrow> ?R")
proof
  assume ?L
  then obtain p where p: "phase_of ph = Some p" and it: "positive_int it"
    and si: "check_step_index p si = Inr (rc_step_index c)"
    and lg: "match_field object_id Commit_invalid lg = Inr (rc_last_green_commit c)"
    and ps: "match_field sha256_text Plan_sha256_invalid ps = Inr (rc_plan_sha256 c)"
    and c: "rc_phase c = p" "rc_iteration c = int_val it"
    and req: "p \<in> set early_phases \<or> rc_plan_sha256 c \<noteq> None"
      "p \<in> set (early_phases @ [PLAN_APPROVAL, WORKTREE_SETUP]) \<or> rc_last_green_commit c \<noteq> None"
    unfolding mk_resume_checkpoint_def by (auto split: option.splits if_splits)
  from it obtain i where i: "it = PInt i" "i \<ge> 1" by (auto simp: positive_int_iff)
  from si lg ps c i req phase_of_Some [OF p] show ?R
    by (auto simp: checkpoint_ok_def match_field_Inr check_step_index_Inr split: option.splits)
next
  assume R: ?R
  then have "check_step_index (rc_phase c) si = Inr (rc_step_index c)"
    and "match_field object_id Commit_invalid lg = Inr (rc_last_green_commit c)"
    and "match_field sha256_text Plan_sha256_invalid ps = Inr (rc_plan_sha256 c)"
    and "positive_int it" and "int_val it = rc_iteration c"
    and "rc_phase c \<in> set early_phases \<or> rc_plan_sha256 c \<noteq> None"
    and "rc_phase c \<in> set (early_phases @ [PLAN_APPROVAL, WORKTREE_SETUP]) \<or> rc_last_green_commit c \<noteq> None"
    by (auto simp: checkpoint_ok_def match_field_Inr check_step_index_Inr positive_int_def
        split: option.splits)
  with R show ?L unfolding mk_resume_checkpoint_def by auto
qed

lemma str_or_none_scalar [simp]: "json_scalar (str_or_none x)"
  by (cases x) simp_all

lemma int_or_none_scalar [simp]: "json_scalar (int_or_none x)"
  by (cases x) simp_all

lemma payload_scalar: "list_all (\<lambda>e. json_scalar (snd e)) (checkpoint_payload c)"
  by (simp add: checkpoint_payload_def)

lemma payload_keys_distinct: "distinct (map fst (checkpoint_payload c))"
  by (simp add: checkpoint_payload_def)

lemma payload_field_set: "set (map fst (checkpoint_payload c)) = set checkpoint_fields"
  by (simp add: checkpoint_payload_def checkpoint_fields_def)

lemma checkpoint_payload_get [simp]:
  "dget (checkpoint_payload c) ''schema_version'' = PInt checkpoint_schema_version"
  "dget (checkpoint_payload c) ''iteration'' = PInt (rc_iteration c)"
  "dget (checkpoint_payload c) ''phase'' = PStr (phase_value (rc_phase c))"
  "dget (checkpoint_payload c) ''step_index'' = int_or_none (rc_step_index c)"
  "dget (checkpoint_payload c) ''last_green_commit'' = str_or_none (rc_last_green_commit c)"
  "dget (checkpoint_payload c) ''plan_sha256'' = str_or_none (rc_plan_sha256 c)"
  "has_key (checkpoint_payload c) ''phase''"
  by (simp_all add: checkpoint_payload_def dget_def has_key_def)

lemma parse_permuted:
  assumes "checkpoint_ok c" and "mset d = mset (checkpoint_payload c)"
  shows "parse_checkpoint (PDict d) sha = Inr c"
proof -
  have m: "map_of d = map_of (checkpoint_payload c)"
    by (rule map_of_mset [OF payload_keys_distinct assms(2)])
  have g: "dget d = dget (checkpoint_payload c)" and h: "has_key d = has_key (checkpoint_payload c)"
    unfolding dget_def has_key_def m by (rule refl)+
  have k: "set (map fst d) = set checkpoint_fields"
    using assms(2) by (metis payload_field_set list.set_map set_mset_mset)
  have "mk_resume_checkpoint (PStr (phase_value (rc_phase c))) (PInt (rc_iteration c))
      (int_or_none (rc_step_index c)) (str_or_none (rc_last_green_commit c))
      (str_or_none (rc_plan_sha256 c)) = Inr c"
    using assms(1) by (simp add: mk_resume_checkpoint_iff)
  with k show ?thesis
    by (simp add: parse_checkpoint_def stamp_from_payload_def g h del: set_map)
qed

lemma read_checkpoint_write:
  assumes "json_sorted_faithful cdc" and "checkpoint_ok c"
  shows "read_checkpoint cdc (write_checkpoint cdc rd c) = Inr (Some c)"
proof -
  from assms(1) payload_keys_distinct [of c] payload_scalar [of c] obtain d where
    "json_loads cdc (json_text cdc Indented_sorted (PDict (checkpoint_payload c))) = Some (PDict d)"
    and "mset d = mset (checkpoint_payload c)"
    unfolding json_sorted_faithful_def by blast
  then show ?thesis
    by (simp add: read_checkpoint_def read_checkpoint_file_def write_checkpoint_def
        atomic_write_text_def parse_permuted [OF assms(2)])
qed

lemma read_checkpoint_local:
  "rd checkpoint_name = rd' checkpoint_name \<Longrightarrow> read_checkpoint cdc rd = read_checkpoint cdc rd'"
  by (simp add: read_checkpoint_def read_checkpoint_file_def)

lemma write_checkpoint_frame: "q \<noteq> checkpoint_name \<Longrightarrow> write_checkpoint cdc rd c q = rd q"
  by (simp add: write_checkpoint_def atomic_write_text_def)



text \<open>The checkpoint is a durable file of its run directory.\<close>

definition checkpoint_get :: "codec \<Rightarrow> run_dir \<Rightarrow> resume_checkpoint option" where
  "checkpoint_get cdc rd = (case read_checkpoint cdc rd of Inr r \<Rightarrow> r | Inl _ \<Rightarrow> None)"

interpretation checkpoint_file: durable_file
    "checkpoint_get cdc" "write_checkpoint cdc" checkpoint_name
    "\<lambda>c. json_sorted_faithful cdc \<and> checkpoint_ok c" for cdc
  by unfold_locales
    (auto simp: checkpoint_get_def read_checkpoint_write write_checkpoint_frame
      intro: arg_cong [OF read_checkpoint_local])

section \<open>What makes a run resumable\<close>






section \<open>Properties\<close>










end
