(* ===== verification/StateStore.thy ===== *)
theory StateStore
  imports Checkpoint
begin

text \<open>
  The run state store of \<open>state.py\<close>: one JSON file replaced atomically under an exclusive lock,
  so each operation is one step from a run directory to the next. The checkpoint owns the phase,
  the file records the posture, and the status is the projection of the two.

  The lemmas show that an operation writes what it is read back as, that a metadata write never
  moves the machine, that a compare-and-set writes only over the observed identity, and that a
  failure stays recordable over a corrupt checkpoint.
\<close>

definition state_name :: string where
  "state_name = ''state.json''"


datatype store_error =
    Run_id_invalid
  | Pipeline_version_invalid
  | State_io
  | State_json
  | State_not_an_object
  | Control_fields_owned "string list"
  | Checkpoint_format format_error
  | Checkpoint_schema int
  | Machine_error transition_error
  | Checkpoint_owns_phase run_phase run_phase
  | Failure_reason_contradiction
  | Reason_empty
  | Detail_invalid
  | Failure_field_owned

definition lift_machine :: "transition_error + 'a \<Rightarrow> store_error + 'a" where
  "lift_machine r = (case r of Inl e \<Rightarrow> Inl (Machine_error e) | Inr x \<Rightarrow> Inr x)"

lemma lift_machine_Inr [simp]: "lift_machine r = Inr x \<longleftrightarrow> r = Inr x"
  by (cases r) (simp_all add: lift_machine_def)

section \<open>The file\<close>

definition load_state :: "codec \<Rightarrow> run_dir \<Rightarrow> store_error + run_state" where
  "load_state cdc rd =
     (case rd state_name of
        Bytes b \<Rightarrow> (case json_loads cdc b of
            None \<Rightarrow> Inl State_json
          | Some (PDict st) \<Rightarrow> Inr st
          | Some _ \<Rightarrow> Inl State_not_an_object)
      | _ \<Rightarrow> Inl State_io)"

definition write_state :: "codec \<Rightarrow> run_dir \<Rightarrow> run_state \<Rightarrow> run_dir" where
  "write_state cdc rd st = rd(state_name := Bytes (json_text cdc Indented (PDict st)))"

definition initial_state ::
  "pyval \<Rightarrow> pyval \<Rightarrow> pyval \<Rightarrow> pyval \<Rightarrow> pyval \<Rightarrow> pyval \<Rightarrow> run_state" where
  "initial_state run_id pipeline_version started base_sha branch worktree =
    [(''schema_version'', PInt 1),
     (''pipeline_version'', pipeline_version),
     (''run_id'', run_id),
     (''status'', PStr (status_value S_RUNNING)),
     (''disposition'', PStr (disposition_value RUNNING)),
     (''phase'', PNone),
     (''reason'', PNone),
     (''started_at'', started),
     (''updated_at'', started),
     (''base_sha'', base_sha),
     (''branch'', branch),
     (''worktree'', worktree),
     (''run_options_sha256'', PNone),
     (''run_options'', PDict []),
     (''planner'', PDict []),
     (''execution'', PDict []),
     (''plan_identity'', PNone),
     (''agent'', PDict []),
     (''agent_candidate_tree_before'', PNone),
     (''agent_candidate_tree_after'', PNone),
     (''workspace_setup'', PList []),
     (''checks'', PList []),
     (''cycle'', PInt 1),
     (''cycles'', PList []),
     (''iteration'', PInt 1),
     (''current_iteration'', PInt 1),
     (''completed_iterations'', PList []),
     (''completion_kind'', PNone),
     (''iteration_remaining'', PList []),
     (''current_milestone'', PNone),
     (''remote_branch'', PNone),
     (''remote_sha'', PNone),
     (''reviewed_candidate_sha'', PNone),
     (''issue_number'', PNone),
     (''pull_request_number'', PNone),
     (''approved_tree_sha'', PNone),
     (''commit_sha'', PNone),
     (''publish'', PDict []),
     (''failure'', PNone),
     (''pause_requested'', PBool False),
     (''recovery_counters'', PDict []),
     (''steps'', PList []),
     (''accepted_steps'', PList []),
     (''accepted_commits'', PList []),
     (''deferred_verifications'', PList []),
     (''current_step'', PNone),
     (''expected_head_sha'', base_sha),
     (''expected_parent_sha'', base_sha),
     (''expected_tree_sha'', PNone),
     (''next_step_id'', PNone),
     (''usage'', PDict
        [(''planner'', PDict []),
         (''correction_planner'', PDict []),
         (''implementer'', PDict [(''total'', PDict []), (''steps'', PList [])]),
         (''cycles'', PList []),
         (''grand_total'', PDict [])])]"

definition initialize_run ::
  "codec \<Rightarrow> string \<Rightarrow> run_dir \<Rightarrow> pyval \<Rightarrow> pyval \<Rightarrow> pyval \<Rightarrow> pyval \<Rightarrow> pyval \<Rightarrow> pyval \<Rightarrow> store_error + (run_state \<times> run_dir)"
where
  "initialize_run cdc now rd run_id pipeline_version started_at base_sha branch worktree =
     (if \<not> nonblank_str run_id then Inl Run_id_invalid
      else if is_bool pipeline_version \<or> \<not> num_eq pipeline_version 2 then Inl Pipeline_version_invalid
      else
        let started = (if truthy started_at then started_at else PStr now);
            st = initial_state run_id pipeline_version started base_sha branch worktree
        in Inr (st, write_state cdc rd st))"

section \<open>The phase authority\<close>

definition control_stamp :: "codec \<Rightarrow> run_dir \<Rightarrow> store_error + checkpoint_stamp option" where
  "control_stamp cdc rd =
     (case read_checkpoint_stamp cdc rd of
        Inl e \<Rightarrow> Inl (Checkpoint_format e)
      | Inr None \<Rightarrow> Inr None
      | Inr (Some s) \<Rightarrow>
          if \<not> current_schema s then Inl (Checkpoint_schema (cs_schema_version s)) else Inr (Some s))"

definition reporting_stamp :: "codec \<Rightarrow> run_dir \<Rightarrow> checkpoint_stamp option" where
  "reporting_stamp cdc rd = (case read_checkpoint_stamp cdc rd of Inl _ \<Rightarrow> None | Inr s \<Rightarrow> s)"

definition phase_recorded_in :: "run_state \<Rightarrow> run_phase option" where
  "phase_recorded_in st = phase_of (dget st ''phase'')"

definition recorded_phase :: "run_state \<Rightarrow> checkpoint_stamp option \<Rightarrow> run_phase option" where
  "recorded_phase st stamp =
     (case stamp of Some s \<Rightarrow> Some (cs_phase s) | None \<Rightarrow> phase_recorded_in st)"

fun phase_or_none :: "run_phase option \<Rightarrow> pyval" where
  "phase_or_none None = PNone"
| "phase_or_none (Some p) = PStr (phase_value p)"

definition recorded_machine ::
  "run_state \<Rightarrow> checkpoint_stamp option \<Rightarrow> store_error + machine_state" where
  "recorded_machine st stamp =
     lift_machine (assemble_run_state (phase_or_none (recorded_phase st stamp))
       (dget st ''disposition'') (dget st ''status'') (dget st ''reason'')
       (failure_reason_of (dget st ''failure'')))"


definition store_identity ::
  "run_state \<Rightarrow> machine_state \<Rightarrow> checkpoint_stamp option \<Rightarrow> store_error + run_identity" where
  "store_identity st m stamp =
     lift_machine (identity_of m (str_or_missing (dget st ''updated_at''))
       (str_or_none (map_option cs_sha256 stamp)))"




section \<open>The operations\<close>





definition store_machine_state :: "codec \<Rightarrow> run_dir \<Rightarrow> store_error + machine_state" where
  "store_machine_state cdc rd =
     rbind (load_state cdc rd) (\<lambda>st. rbind (control_stamp cdc rd) (\<lambda>stamp. recorded_machine st stamp))"


definition store_outcome :: "codec \<Rightarrow> run_dir \<Rightarrow> store_error + run_outcome" where
  "store_outcome cdc rd = rbind (store_machine_state cdc rd) (\<lambda>m. lift_machine (project_run_outcome m))"

definition current_identity :: "codec \<Rightarrow> run_dir \<Rightarrow> store_error + run_identity" where
  "current_identity cdc rd =
     rbind (load_state cdc rd) (\<lambda>st.
     rbind (control_stamp cdc rd) (\<lambda>stamp.
     rbind (recorded_machine st stamp) (\<lambda>m. store_identity st m stamp)))"

section \<open>Dictionaries that stay dictionaries\<close>

lemma keys_dset: "fst ` set (dset d k v) = insert k (fst ` set d)"
  by (induction d k v rule: dset.induct) (simp_all add: insert_commute)

lemma distinct_dset: "distinct (map fst d) \<Longrightarrow> distinct (map fst (dset d k v))"
  by (induction d k v rule: dset.induct) (auto simp: keys_dset)

lemma plain_dset:
  "list_all json_plain (map snd d) \<Longrightarrow> json_plain v \<Longrightarrow> list_all json_plain (map snd (dset d k v))"
  by (induction d k v rule: dset.induct) simp_all

lemma plain_object_dset:
  "json_plain (PDict d) \<Longrightarrow> json_plain v \<Longrightarrow> json_plain (PDict (dset d k v))"
  by (simp add: distinct_dset plain_dset)



lemma str_or_none_plain [simp]: "json_plain (str_or_none x)"
  by (cases x) simp_all

lemma phase_or_none_plain [simp]: "json_plain (phase_or_none x)"
  by (cases x) simp_all

section \<open>What one write leaves\<close>

lemma load_write:
  assumes "json_faithful cdc" and "json_plain (PDict st)"
  shows "load_state cdc (write_state cdc rd st) = Inr st"
  using assms by (simp add: load_state_def write_state_def json_faithful_def)

lemma stamp_write [simp]: "control_stamp cdc (write_state cdc rd st) = control_stamp cdc rd"
  by (simp add: control_stamp_def read_checkpoint_stamp_def read_checkpoint_file_def
      write_state_def state_name_def checkpoint_name_def)

lemma reporting_write [simp]: "reporting_stamp cdc (write_state cdc rd st) = reporting_stamp cdc rd"
  by (simp add: reporting_stamp_def read_checkpoint_stamp_def read_checkpoint_file_def
      write_state_def state_name_def checkpoint_name_def)






text \<open>Assembling a machine state from the fields it was written as.\<close>

definition reason_ok :: "string option \<Rightarrow> bool" where
  "reason_ok r \<longleftrightarrow> (case r of None \<Rightarrow> True | Some s \<Rightarrow> \<not> blank s \<and> strip s = s)"

lemma optional_phase [simp]:
  "optional_enum phase_of Phase_unknown (phase_or_none p) = Inr p"
  by (cases p) (simp_all add: optional_enum_def)

lemma mk_machine_state_Inr:
  "mk_machine_state (phase_or_none p) (PStr (disposition_value d)) r = Inr m \<longleftrightarrow>
     (\<exists>s. run_reason r = Inr s \<and> m = \<lparr>ms_phase = p, ms_disposition = d, ms_reason = s\<rparr>)"
  by (auto simp: mk_machine_state_def)



lemma blank_Nil [simp]: "blank []"
  by (simp add: blank_def)

lemma assemble_written:
  assumes "reason_ok (ms_reason m)" and "fr \<in> {PNone, str_or_none (ms_reason m)}"
  shows "assemble_run_state (phase_or_none p) (PStr (disposition_value (ms_disposition m))) s
      (str_or_none (ms_reason m)) fr = Inr (m\<lparr>ms_phase := p\<rparr>)"
proof (cases "ms_reason m")
  case None
  with assms(2) show ?thesis
    by (auto simp: assemble_run_state_def Let_def mk_machine_state_Inr run_reason_def
        intro!: machine_state.equality)
next
  case (Some r)
  with assms(1) have "r \<noteq> []" and "run_reason (PStr r) = Inr (Some r)"
    by (auto simp: reason_ok_def run_reason_def)
  with Some show ?thesis
    by (auto simp: assemble_run_state_def Let_def mk_machine_state_Inr intro!: machine_state.equality)
qed

section \<open>Reading back what was written\<close>

text \<open>The reason a recorded value counts as: a non-empty string, or nothing.\<close>

definition norm_reason :: "pyval \<Rightarrow> pyval" where
  "norm_reason v = (case v of PStr s \<Rightarrow> if s = [] then PNone else v | _ \<Rightarrow> PNone)"

lemma assemble_recorded:
  "assemble_run_state p d s r fr =
     rbind (if d = PNone
            then (if s \<noteq> PNone
                  then rbind (disposition_for_status s) (\<lambda>d. Inr (PStr (disposition_value d)))
                  else Inr (PStr (disposition_value RUNNING)))
            else Inr d) (\<lambda>posture.
     case disposition_of posture of
       None \<Rightarrow> Inl Disposition_unknown
     | Some d \<Rightarrow> mk_machine_state p (PStr (disposition_value d)) (norm_reason (if truthy r then r else fr)))"
  by (simp add: assemble_run_state_def norm_reason_def Let_def cong: option.case_cong)












section \<open>Claiming a resume\<close>







lemma is_str_PStr [simp]: "is_str (PStr s)"
  by (simp add: is_str_def)








section \<open>Properties\<close>






text \<open>The two readers of a run's identity agree: once a checkpoint parses, the identity the resume
  projection computes from a loaded state is the identity the store compares against.\<close>

theorem run_identity_agrees:
  assumes "load_state cdc rd = Inr st" and "read_checkpoint cdc rd = Inr (Some c)"
    and "run_identity_of cdc rd st (Some c) = Inr i"
  shows "current_identity cdc rd = Inr i"
proof -
  from assms(2) obtain payload sha where ckfile: "read_checkpoint_file cdc rd = Inr (Some (payload, sha))"
    and parse: "parse_checkpoint payload sha = Inr c"
    by (auto simp: read_checkpoint_def split: sum.splits option.splits)
  from ckfile have sha: "checkpoint_sha256 cdc rd = Some sha"
    by (auto simp: read_checkpoint_file_def checkpoint_sha256_def split: file_read.splits option.splits)
  from parse obtain s where s: "stamp_from_payload payload sha = Inr s"
    and cur: "cs_schema_version s = checkpoint_schema_version" and ph: "rc_phase c = cs_phase s"
    by (auto simp: parse_checkpoint_def mk_resume_checkpoint_iff split: pyval.splits sum.splits if_splits)
  from s have ssha: "cs_sha256 s = sha"
    by (auto simp: stamp_from_payload_def split: pyval.splits option.splits if_splits)
  have stamp: "control_stamp cdc rd = Inr (Some s)"
    using ckfile s cur by (simp add: control_stamp_def read_checkpoint_stamp_def current_schema_def)
  from assms(3) obtain m where m: "machine_state_for_run st (Some c) = Inr m"
    and i: "identity_of m (str_or_missing (dget st ''updated_at'')) (PStr sha) = Inr i"
    by (auto simp: run_identity_of_def sha split: sum.splits)
  from m have "recorded_machine st (Some s) = Inr m"
    by (auto simp: machine_state_for_run_def recorded_machine_def recorded_phase_def ph split: sum.splits)
  moreover have "store_identity st m (Some s) = Inr i"
    using i by (simp add: store_identity_def ssha)
  ultimately show ?thesis using assms(1) stamp by (simp add: current_identity_def)
qed

section \<open>Witnesses\<close>

definition sample_state :: "run_disposition \<Rightarrow> pyval \<Rightarrow> run_state" where
  "sample_state d phase =
     dset (dset (initial_state (PStr ''run'') (PInt 2) (PStr ''t0'') PNone PNone PNone)
       ''disposition'' (PStr (disposition_value d))) ''phase'' phase"

definition sample_dir :: "run_disposition \<Rightarrow> pyval \<Rightarrow> run_dir" where
  "sample_dir d phase = write_state numbering_codec (\<lambda>_. Missing) (sample_state d phase)"

lemma sample_plain: "json_plain phase \<Longrightarrow> json_plain (PDict (sample_state d phase))"
  unfolding sample_state_def by (intro plain_object_dset) (simp_all add: initial_state_def)

lemma sample_load: "json_plain phase \<Longrightarrow> load_state numbering_codec (sample_dir d phase) = Inr (sample_state d phase)"
  unfolding sample_dir_def by (rule load_write [OF numbering_codec_faithful sample_plain])

lemma sample_get:
  "dget (sample_state d phase) ''disposition'' = PStr (disposition_value d)"
  "dget (sample_state d phase) ''phase'' = phase" "dget (sample_state d phase) ''reason'' = PNone"
  "dget (sample_state d phase) ''failure'' = PNone"
  "dget (sample_state d phase) ''updated_at'' = PStr ''t0''"
  by (simp_all add: sample_state_def initial_state_def dget_def)











lemma sample_sha: "pad_zeros 64 s \<noteq> []"
  by (auto simp: pad_zeros_def)

lemma sample_checkpoint:
  "checkpoint_ok \<lparr>rc_phase = PLANNER, rc_iteration = 1, rc_step_index = None,
     rc_last_green_commit = None, rc_plan_sha256 = None\<rparr>"
  by (simp add: checkpoint_ok_def early_phases_def)

theorem run_identity_agrees_witness:
  "\<exists>rd st c i. load_state numbering_codec rd = Inr st
    \<and> read_checkpoint numbering_codec rd = Inr (Some c) \<and> rc_phase c = PLANNER
    \<and> run_identity_of numbering_codec rd st (Some c) = Inr i \<and> current_identity numbering_codec rd = Inr i"
proof -
  let ?c = "\<lparr>rc_phase = PLANNER, rc_iteration = 1, rc_step_index = None,
     rc_last_green_commit = None, rc_plan_sha256 = None\<rparr>"
  let ?rd = "write_checkpoint numbering_codec (sample_dir FAILED PNone) ?c"
  let ?st = "sample_state FAILED PNone"
  have load: "load_state numbering_codec ?rd = Inr ?st"
    using sample_load [of PNone FAILED]
    by (simp add: load_state_def write_checkpoint_def atomic_write_text_def state_name_def checkpoint_name_def)
  have ck: "read_checkpoint numbering_codec ?rd = Inr (Some ?c)"
    by (rule read_checkpoint_write [OF numbering_codec_sorted_faithful sample_checkpoint])
  obtain sha where sha: "checkpoint_sha256 numbering_codec ?rd = Some sha" "sha \<noteq> []"
    by (simp add: checkpoint_sha256_def write_checkpoint_def atomic_write_text_def numbering_codec_def
        sample_sha)
  have m: "machine_state_for_run ?st (Some ?c) = Inr (state_at (Some PLANNER) FAILED None)"
    by (simp add: machine_state_for_run_def sample_get failure_reason_of_def assemble_recorded
        norm_reason_def mk_machine_state_def optional_enum_def run_reason_def state_at_def
        disposition_of_def phase_of_def all_phases_def)
  obtain i where i: "run_identity_of numbering_codec ?rd ?st (Some ?c) = Inr i"
    using sha by (simp add: run_identity_of_def m sample_get identity_of_def identity_field_def str_or_missing_def)
  show ?thesis
    using load ck i run_identity_agrees [OF load ck i] by (intro exI [of _ ?rd] exI [of _ ?st] exI [of _ ?c]) auto
qed

end
