(* ===== verification/Grammar.thy ===== *)
theory Grammar
  imports ConfigModels
begin

text \<open>
  The labeled-body grammar of META PLAN v2 (\<open>planning/grammar.py\<close>) and the step identifiers
  (\<open>step_ids.py\<close>): line normalisation, the inline and section forms, instruction lists and the
  repository path sets. The regular expressions of the source are written out as the deterministic
  recognisers they are; \<open>\d\<close> and the identifier classes are the ASCII ones.

  The lemmas show that an accepted path set is non-empty or the explicit NONE, duplicate-free and
  made of relative, wildcard-free, parent-free paths, that a read set keeps its bound and its
  paths, and the round trip of a rendered path set.
\<close>

datatype plan_error =
    V2_plan_error string
  | Unpack_error

abbreviation v2_error :: "string \<Rightarrow> plan_error + 'a" where
  "v2_error msg \<equiv> Inl (V2_plan_error msg)"

section \<open>Step identifiers\<close>

definition max_steps :: nat where
  "max_steps = 99"

definition step_id :: "nat \<Rightarrow> string" where
  "step_id n = ''S'' @ show02 n"

definition all_step_ids :: "string list" where
  "all_step_ids = map step_id [1..<Suc max_steps]"

definition is_step_id :: "pyval \<Rightarrow> bool" where
  "is_step_id v = (case v of PStr s \<Rightarrow> s \<in> set all_step_ids | _ \<Rightarrow> False)"

definition step_ids :: "pyval \<Rightarrow> string list option" where
  "step_ids count =
     (case count of
        PInt c \<Rightarrow> if 1 \<le> c \<and> c \<le> int max_steps then Some (map step_id [1..<Suc (nat c)]) else None
      | _ \<Rightarrow> None)"

section \<open>Lines and placeholders\<close>

fun normalize_newlines :: "string \<Rightarrow> string" where
  "normalize_newlines [] = []"
| "normalize_newlines (c # s) =
     (if c = CHR 0x0D
      then CHR 0x0A # (case s of [] \<Rightarrow> []
        | d # t \<Rightarrow> if d = CHR 0x0A then normalize_newlines t else normalize_newlines s)
      else c # normalize_newlines s)"

definition plan_lines :: "string \<Rightarrow> string list" where
  "plan_lines raw = split_on (CHR 0x0A) (normalize_newlines raw)"

definition em_dash :: string where
  "em_dash = [CHR 0xE2, CHR 0x80, CHR 0x94]"

definition placeholder :: "string \<Rightarrow> bool" where
  "placeholder s \<longleftrightarrow>
     casefold s \<in> set [''none'', ''n/a'', ''na'', ''-'', em_dash, ''nil'', ''tbd'']"

definition nonempty :: "string \<Rightarrow> string \<Rightarrow> plan_error + string" where
  "nonempty value name =
     (let v = strip value
      in if v = [] \<or> placeholder v then v2_error (name @ '' is missing or a placeholder'') else Inr v)"

section \<open>The inline form\<close>

definition label_char :: "char \<Rightarrow> bool" where
  "label_char c \<longleftrightarrow> is_upper c \<or> is_digit c \<or> c = CHR ''_''"

text \<open>\<open>^([A-Z][A-Z0-9_]*)\s*:\s*(.*)$\<close> against a whole line: the label and the value.\<close>

definition inline_match :: "string \<Rightarrow> (string \<times> string) option" where
  "inline_match s =
     (let name = takeWhile label_char s; rest = lstrip (dropWhile label_char s)
      in if name = [] \<or> \<not> is_upper (hd name) then None
         else (case rest of
             c # v \<Rightarrow> if c = CHR '':'' \<and> CHR 0x0A \<notin> set (lstrip v) then Some (name, lstrip v) else None
           | [] \<Rightarrow> None))"

section \<open>Instruction lists\<close>

text \<open>Blanks are the spaces and tabs the marker pattern allows around its parts.\<close>

definition blank_char :: "char \<Rightarrow> bool" where
  "blank_char c \<longleftrightarrow> c = CHR '' '' \<or> c = CHR 0x09"

record instruction_marker =
  im_indent :: string
  im_marker :: string
  im_content :: "string option"

text \<open>What follows the marker: nothing but blanks, or blanks and a content without outer white space.\<close>

definition marker_rest :: "string \<Rightarrow> string option option" where
  "marker_rest r =
     (let body = dropWhile blank_char r; content = rev (dropWhile blank_char (rev body))
      in if list_all blank_char r then Some None
         else if \<not> blank_char (hd r) \<or> ws (hd content) \<or> ws (last content) then None
         else Some (Some content))"

definition instruction_match :: "string \<Rightarrow> instruction_marker option" where
  "instruction_match line =
     (let indent = takeWhile blank_char line; r = dropWhile blank_char line;
          digits = takeWhile is_digit r; r' = dropWhile is_digit r;
          finish = (\<lambda>marker rest. case marker_rest rest of
              None \<Rightarrow> None
            | Some content \<Rightarrow> Some \<lparr>im_indent = indent, im_marker = marker, im_content = content\<rparr>)
      in if digits \<noteq> []
         then (case r' of
             c # rest \<Rightarrow> if c \<in> set ''.)'' then finish (digits @ [c]) rest else None
           | [] \<Rightarrow> None)
         else (case r of
             c # rest \<Rightarrow> if c \<in> set ''-*+'' then finish [c] rest else None
           | [] \<Rightarrow> None))"

type_synonym instruction_item = "instruction_marker \<times> string list"

text \<open>The items after the first marker line; \<open>None\<close> where a nested marker refuses the list.\<close>

fun gather_items :: "string \<Rightarrow> instruction_marker \<Rightarrow> string list \<Rightarrow> string list \<Rightarrow> instruction_item list option" where
  "gather_items base m cont [] = Some [(m, rev cont)]"
| "gather_items base m cont (l # ls) =
     (case instruction_match l of
        None \<Rightarrow> gather_items base m (l # cont) ls
      | Some m' \<Rightarrow>
          if im_indent m' = base
          then map_option (\<lambda>items. (m, rev cont) # items) (gather_items base m' [] ls)
          else None)"

definition split_instruction_items :: "string \<Rightarrow> instruction_item list option" where
  "split_instruction_items value =
     (case dropWhile blank (splitlines value) of
        [] \<Rightarrow> None
      | l # ls \<Rightarrow> (case instruction_match l of
          None \<Rightarrow> None
        | Some m \<Rightarrow> gather_items (im_indent m) m [] ls))"

definition canonical_instruction_continuation :: "string \<Rightarrow> string \<Rightarrow> string" where
  "canonical_instruction_continuation raw_line base_indent =
     (if blank raw_line then []
      else
        let remainder = (if base_indent \<noteq> [] \<and> starts base_indent raw_line
              then drop (length base_indent) raw_line else raw_line);
            remainder' = rstrip remainder
        in if remainder' = [] \<or> \<not> blank_char (hd remainder') then ''  '' @ lstrip remainder'
           else remainder')"

definition instruction_marker_kind :: "instruction_item list \<Rightarrow> string" where
  "instruction_marker_kind items =
     (let markers = map (im_marker \<circ> fst) items
      in if list_all (\<lambda>m. m \<in> set [''-'', ''*'', ''+'']) markers then ''unordered''
         else if list_all (ends '')'') markers then ''numbered_parenthesized''
         else if list_all (ends ''.'') markers then ''numbered''
         else ''mixed'')"

fun content_of :: "instruction_marker \<Rightarrow> string" where
  "content_of m = (case im_content m of None \<Rightarrow> [] | Some c \<Rightarrow> strip c)"

fun canonical_items :: "string \<Rightarrow> nat \<Rightarrow> instruction_item list \<Rightarrow> string list" where
  "canonical_items base n [] = []"
| "canonical_items base n ((m, cont) # items) =
     ((if content_of m \<noteq> [] then show_nat n @ ''. '' @ content_of m else show_nat n @ ''.'')
      # map (\<lambda>l. canonical_instruction_continuation l base) cont)
     @ canonical_items base (Suc n) items"

definition normalize_instruction_list :: "string \<Rightarrow> string \<times> string option" where
  "normalize_instruction_list value =
     (case split_instruction_items value of
        None \<Rightarrow> (value, None)
      | Some items \<Rightarrow>
          if items = [] then (value, None)
          else
            let canonical = strip (join newline (canonical_items (im_indent (fst (hd items))) 1 items))
            in (canonical, if canonical \<noteq> value then Some (instruction_marker_kind items) else None))"

definition max_step_instructions :: nat where
  "max_step_instructions = 12"

definition max_step_verify_lines :: nat where
  "max_step_verify_lines = 6"

definition max_step_pitfall_lines :: nat where
  "max_step_pitfall_lines = 6"

type_synonym plan_fields = "(string \<times> string) list"

text \<open>A value of a parsed body; the empty string where the source's \<open>get\<close> has that default.\<close>

definition field_of :: "plan_fields \<Rightarrow> string \<Rightarrow> string" where
  "field_of values name = (case map_of values name of None \<Rightarrow> [] | Some v \<Rightarrow> v)"

definition text_lines :: "string \<Rightarrow> string list" where
  "text_lines value = filter (\<lambda>l. \<not> blank l) (splitlines value)"

definition validate_step_text_limits :: "string \<Rightarrow> plan_fields \<Rightarrow> plan_error + unit" where
  "validate_step_text_limits sid values =
     (let operations = ''step '' @ sid @ '' INSTRUCTIONS must contain 1 to 12 numbered concrete operations''
      in if py_len (strip (field_of values ''TITLE'')) > 100
         then v2_error (''step '' @ sid @ '' TITLE exceeds 100 characters'')
         else (case split_instruction_items (field_of values ''INSTRUCTIONS'') of
             None \<Rightarrow> v2_error operations
           | Some items \<Rightarrow>
               if items = [] then v2_error operations
               else if length items > max_step_instructions
               then v2_error (''step '' @ sid @ '' INSTRUCTIONS exceeds 12 operations'')
               else if \<exists>(m, cont) \<in> set items. content_of m = [] \<and> list_all blank cont
               then v2_error operations
               else if length (text_lines (field_of values ''VERIFY'')) > max_step_verify_lines
               then v2_error (''step '' @ sid @ '' VERIFY exceeds 6 lines'')
               else if length (text_lines (field_of values ''PITFALLS'')) > max_step_pitfall_lines
               then v2_error (''step '' @ sid @ '' PITFALLS exceeds 6 entries'')
               else Inr ()))"

section \<open>Labeled bodies\<close>

definition drop_heading :: "string \<Rightarrow> string" where
  "drop_heading s =
     (let hashes = takeWhile (\<lambda>c. c = CHR ''#'') s; rest = dropWhile (\<lambda>c. c = CHR ''#'') s
      in if 1 \<le> length hashes \<and> length hashes \<le> 6 \<and> rest \<noteq> [] \<and> ws (hd rest) then lstrip rest else s)"

definition section_name :: "string \<Rightarrow> string list \<Rightarrow> string option" where
  "section_name line allowed =
     (let c0 = drop_heading (strip line);
          candidate = (if ends '':'' c0 then rstrip (butlast c0) else c0)
      in find (\<lambda>name. casefold candidate = casefold name) allowed)"

record body_state =
  bs_inline :: plan_fields
  bs_sections :: "(string \<times> string list) list"
  bs_current :: "string option"

text \<open>\<open>sections[name].append(line)\<close>.\<close>

definition section_append :: "body_state \<Rightarrow> string \<Rightarrow> string \<Rightarrow> body_state" where
  "section_append b name line =
     b\<lparr>bs_sections := map (\<lambda>(n, ls). if n = name then (n, ls @ [line]) else (n, ls)) (bs_sections b)\<rparr>"

definition body_line ::
  "string list \<Rightarrow> string list \<Rightarrow> string \<Rightarrow> body_state \<Rightarrow> string \<Rightarrow> plan_error + body_state" where
  "body_line inline_names section_names location b raw_line =
     (let stripped = strip raw_line; m = inline_match stripped
      in if stripped = []
         then Inr (case bs_current b of None \<Rightarrow> b | Some n \<Rightarrow> section_append b n [])
         else if (case m of Some (n, v) \<Rightarrow> n \<in> set inline_names | None \<Rightarrow> False)
         then (case m of
             Some (n, v) \<Rightarrow>
               if map_of (bs_inline b) n \<noteq> None
               then v2_error (''duplicate '' @ location @ '' field '' @ n)
               else Inr (b\<lparr>bs_inline := dset (bs_inline b) n (strip v), bs_current := None\<rparr>)
           | None \<Rightarrow> Inr b)
         else if (case m of Some (n, v) \<Rightarrow> n \<in> set section_names | None \<Rightarrow> False)
         then (case m of
             Some (n, v) \<Rightarrow>
               if map_of (bs_sections b) n \<noteq> None
               then v2_error (''duplicate '' @ location @ '' section '' @ n)
               else Inr (b\<lparr>bs_sections := dset (bs_sections b) n (if blank v then [] else [v]),
                       bs_current := (if blank v then Some n else None)\<rparr>)
           | None \<Rightarrow> Inr b)
         else (case section_name stripped section_names of
             Some n \<Rightarrow>
               if map_of (bs_sections b) n \<noteq> None
               then v2_error (''duplicate '' @ location @ '' section '' @ n)
               else Inr (b\<lparr>bs_sections := dset (bs_sections b) n [], bs_current := Some n\<rparr>)
           | None \<Rightarrow>
               (case bs_current b of
                  None \<Rightarrow> v2_error (''unexpected content in '' @ location)
                | Some n \<Rightarrow> Inr (section_append b n raw_line))))"

fun body_lines ::
  "string list \<Rightarrow> string list \<Rightarrow> string \<Rightarrow> body_state \<Rightarrow> string list \<Rightarrow> plan_error + body_state" where
  "body_lines inline_names section_names location b [] = Inr b"
| "body_lines inline_names section_names location b (l # ls) =
     rbind (body_line inline_names section_names location b l)
       (\<lambda>b'. body_lines inline_names section_names location b' ls)"

definition empty_body :: body_state where
  "empty_body = \<lparr>bs_inline = [], bs_sections = [], bs_current = None\<rparr>"

text \<open>All values, and the ones whose name is a section.\<close>

definition parse_labeled_body ::
  "string list \<Rightarrow> string list \<Rightarrow> string \<Rightarrow> string list \<Rightarrow> plan_error + (plan_fields \<times> plan_fields)" where
  "parse_labeled_body inline_names section_names location body =
     rbind (body_lines inline_names section_names location empty_body body) (\<lambda>b.
       let values = dupdate (map (\<lambda>(n, v). (n, strip v)) (bs_inline b))
             (map (\<lambda>(n, ls). (n, strip (join newline ls))) (bs_sections b))
       in Inr (values, filter (\<lambda>(n, v). n \<in> set section_names) values))"

section \<open>Repository paths\<close>

text \<open>The parts of a relative \<open>PurePosixPath\<close>: empty and single-dot components are dropped.\<close>

definition path_parts :: "string \<Rightarrow> string list" where
  "path_parts value = filter (\<lambda>p. p \<noteq> [] \<and> p \<noteq> ''.'') (split_on (CHR ''/'') value)"

definition drive_prefix :: "string \<Rightarrow> bool" where
  "drive_prefix value \<longleftrightarrow>
     (case value of c # d # _ \<Rightarrow> (is_upper c \<or> is_lower c) \<and> d = CHR '':'' | _ \<Rightarrow> False)"

definition repo_path :: "string \<Rightarrow> string \<Rightarrow> plan_error + string" where
  "repo_path value kind =
     (let unsafe = v2_error (''unsafe '' @ kind @ '' path'')
      in if value = [] \<or> CHR 0x00 \<in> set value \<or> CHR 0x5C \<in> set value then unsafe
         else if starts ''/'' value \<or> drive_prefix value then unsafe
         else if path_parts value = []
           \<or> list_ex (\<lambda>p. p \<in> set [[], ''.'', ''..'']) (path_parts value) then unsafe
         else if list_ex (\<lambda>c. c \<in> set value) ''*?['' then v2_error (''wildcard '' @ kind @ '' path'')
         else Inr value)"

definition anchor_sep :: string where
  "anchor_sep = '' :: ''"

definition read_set_line :: "(string \<times> string list) list \<Rightarrow> string \<Rightarrow> plan_error + (string \<times> string list) list" where
  "read_set_line acc line =
     (if blank line then Inr acc
      else if \<not> starts ''- '' line \<or> \<not> contains anchor_sep line
      then v2_error ''each READ_SET line must be - path :: anchor, or exactly NONE''
      else (case cut anchor_sep (drop 2 line) of
          None \<Rightarrow> Inl Unpack_error
        | Some (p, a) \<Rightarrow>
            rbind (repo_path (strip p) ''READ_SET'') (\<lambda>path.
              let anchor = strip a; known = (case map_of acc path of None \<Rightarrow> [] | Some xs \<Rightarrow> xs)
              in if anchor = [] then v2_error ''READ_SET anchor must not be empty''
                 else Inr (dset acc path (if anchor \<in> set known then known else known @ [anchor])))))"

fun read_set_lines ::
  "(string \<times> string list) list \<Rightarrow> string list \<Rightarrow> plan_error + (string \<times> string list) list" where
  "read_set_lines acc [] = Inr acc"
| "read_set_lines acc (l # ls) = rbind (read_set_line acc l) (\<lambda>acc'. read_set_lines acc' ls)"

definition parse_read_set :: "string \<Rightarrow> int \<Rightarrow> plan_error + string list" where
  "parse_read_set value max_paths =
     (if blank value then v2_error ''READ_SET is missing''
      else if strip value = ''NONE'' then Inr []
      else rbind (read_set_lines [] (splitlines value)) (\<lambda>acc.
        if acc = [] then v2_error ''READ_SET is missing''
        else if int (length acc) > max_paths then v2_error ''READ_SET contains too many unique paths''
        else Inr (map (\<lambda>(path, anchors). path @ anchor_sep @ join ''; '' anchors) acc)))"

definition read_set_paths :: "string list \<Rightarrow> string list" where
  "read_set_paths entries = map (head_of anchor_sep) entries"

definition path_set_line :: "string \<Rightarrow> string list \<Rightarrow> string \<Rightarrow> plan_error + string list" where
  "path_set_line name acc line =
     (if blank line then Inr acc
      else if \<not> starts ''- '' line \<or> contains anchor_sep line
      then v2_error (''each '' @ name @ '' line must be a - path line'')
      else rbind (repo_path (strip (drop 2 line)) name) (\<lambda>path.
        if path \<in> set acc then v2_error (''duplicate '' @ name @ '' path'') else Inr (acc @ [path])))"

fun path_set_lines :: "string \<Rightarrow> string list \<Rightarrow> string list \<Rightarrow> plan_error + string list" where
  "path_set_lines name acc [] = Inr acc"
| "path_set_lines name acc (l # ls) = rbind (path_set_line name acc l) (\<lambda>acc'. path_set_lines name acc' ls)"

definition path_set :: "string \<Rightarrow> string \<Rightarrow> plan_error + string list" where
  "path_set value name =
     (if blank value then v2_error (name @ '' is missing'')
      else if strip value = ''NONE'' then Inr []
      else rbind (path_set_lines name [] (splitlines value)) (\<lambda>result.
        if result = [] then v2_error (name @ '' is missing'') else Inr result))"

definition change_sets :: "plan_fields \<Rightarrow> plan_error + (string list \<times> string list \<times> string list)" where
  "change_sets values =
     rbind (path_set (field_of values ''WRITE_SET'') ''WRITE_SET'') (\<lambda>w.
     rbind (path_set (field_of values ''CREATE_SET'') ''CREATE_SET'') (\<lambda>c.
     rbind (path_set (field_of values ''DELETE_SET'') ''DELETE_SET'') (\<lambda>d.
       if w = [] \<and> c = [] \<and> d = [] then v2_error ''a step must write, create or delete at least one path''
       else Inr (w, c, d))))"

section \<open>Facts about paths and path sets\<close>

text \<open>A path the parser lets a step name: relative, parent-free, wildcard-free.\<close>

definition safe_path :: "string \<Rightarrow> bool" where
  "safe_path p \<longleftrightarrow> p \<noteq> [] \<and> hd p \<noteq> CHR ''/'' \<and> \<not> drive_prefix p
     \<and> path_parts p \<noteq> [] \<and> ''..'' \<notin> set (split_on (CHR ''/'') p)
     \<and> set p \<inter> {CHR 0x00, CHR 0x5C, CHR ''*'', CHR ''?'', CHR ''[''} = {}"

lemma repo_path_iff: "repo_path v kind = Inr p \<longleftrightarrow> p = v \<and> safe_path v"
proof -
  have "starts ''/'' v \<longleftrightarrow> v \<noteq> [] \<and> hd v = CHR ''/''" by (cases v) (auto simp: starts_def)
  then show ?thesis
    by (auto simp: repo_path_def safe_path_def list_ex_iff path_parts_def Let_def split: if_splits)
qed

lemma repo_path_error: "repo_path v kind = Inl e \<Longrightarrow> \<exists>msg. e = V2_plan_error msg"
  by (auto simp: repo_path_def Let_def split: if_splits)

lemma path_set_lines_Inr:
  "path_set_lines name acc ls = Inr r \<Longrightarrow> distinct acc \<Longrightarrow> \<forall>p \<in> set acc. safe_path p \<Longrightarrow>
     distinct r \<and> (\<forall>p \<in> set r. safe_path p)"
proof (induction ls arbitrary: acc)
  case (Cons l ls)
  from Cons.prems(1) obtain acc' where acc': "path_set_line name acc l = Inr acc'"
    and r: "path_set_lines name acc' ls = Inr r" by auto
  have "distinct acc' \<and> (\<forall>p \<in> set acc'. safe_path p)"
    using acc' Cons.prems(2,3)
    by (auto simp: path_set_line_def repo_path_iff split: if_splits)
  with Cons.IH [OF r] show ?case by blast
qed simp

lemma path_set_Inr:
  "path_set v name = Inr r \<Longrightarrow> distinct r \<and> (\<forall>p \<in> set r. safe_path p) \<and> (r = [] \<longleftrightarrow> strip v = ''NONE'')"
  using path_set_lines_Inr [of name "[]" "splitlines v" r]
  by (auto simp: path_set_def split: if_splits)

text \<open>The rendering of a path set in a step contract.\<close>

definition dash :: "string \<Rightarrow> string" where
  "dash p = ''- '' @ p"

definition render_paths :: "string list \<Rightarrow> string" where
  "render_paths ps = (if ps = [] then ''NONE'' else join newline (map dash ps))"

definition plain_path :: "string \<Rightarrow> bool" where
  "plain_path p \<longleftrightarrow> safe_path p \<and> strip p = p \<and> \<not> contains anchor_sep (''- '' @ p)
     \<and> (\<forall>c \<in> set p. \<not> line_end c)"

lemma path_set_lines_plain:
  "\<forall>p \<in> set ps. plain_path p \<Longrightarrow> distinct (acc @ ps) \<Longrightarrow>
     path_set_lines name acc (map dash ps) = Inr (acc @ ps)"
proof (induction ps arbitrary: acc)
  case (Cons p ps)
  then have p: "safe_path p" "strip p = p" "\<not> contains anchor_sep (''- '' @ p)"
    by (simp_all add: plain_path_def)
  have "\<not> blank (dash p)" by (simp add: blank_def ws_def dash_def)
  moreover have "repo_path (strip (drop 2 (dash p))) name = Inr p"
    using p by (simp add: repo_path_iff dash_def)
  ultimately have "path_set_line name acc (dash p) = Inr (acc @ [p])"
    using p(3) Cons.prems(2) by (simp add: path_set_line_def starts_def dash_def)
  with Cons show ?case by simp
qed simp

lemma join_dash_nonblank: "ps \<noteq> [] \<Longrightarrow> \<not> blank (join newline (map dash ps))"
  by (cases ps; cases "tl ps") (auto simp: blank_def ws_def dash_def)

lemma join_dash_hd: "ps \<noteq> [] \<Longrightarrow> \<exists>t. join newline (map dash ps) = CHR ''-'' # t"
  by (cases ps; cases "tl ps") (auto simp: dash_def)

lemma path_set_render:
  assumes "\<forall>p \<in> set ps. plain_path p" and "distinct ps"
  shows "path_set (render_paths ps) name = Inr ps"
proof (cases "ps = []")
  case True
  then show ?thesis by (simp add: path_set_def render_paths_def blank_def ws_def strip_def lstrip_def rstrip_def)
next
  case False
  let ?text = "join newline (map dash ps)"
  from join_dash_hd [OF False] obtain t where t: "?text = CHR ''-'' # t" by blast
  have "strip ?text \<noteq> ''NONE''"
  proof
    assume "strip ?text = ''NONE''"
    moreover have "strip ?text = CHR ''-'' # rstrip t"
      unfolding t strip_def by (subst lstrip_hd) (simp_all add: ws_def hd_rstrip)
    ultimately show False by simp
  qed
  moreover have "splitlines ?text = map dash ps"
    using assms(1) by (intro splitlines_join) (auto simp: plain_path_def line_end_def dash_def)
  moreover have "path_set_lines name [] (map dash ps) = Inr ps"
    using path_set_lines_plain [OF assms(1), of "[]"] assms(2) by simp
  ultimately show ?thesis
    using False join_dash_nonblank [OF False] by (simp add: path_set_def render_paths_def)
qed

lemma change_sets_Inr:
  assumes "change_sets values = Inr (w, c, d)"
  shows "distinct w" "distinct c" "distinct d" "\<forall>p \<in> set w \<union> set c \<union> set d. safe_path p"
    and "w \<noteq> [] \<or> c \<noteq> [] \<or> d \<noteq> []"
  using assms by (auto simp: change_sets_def split: if_splits dest!: path_set_Inr)

section \<open>Facts about read sets\<close>

lemma dset_keys: "map fst (dset d k v) = (if k \<in> set (map fst d) then map fst d else map fst d @ [k])"
  by (induction d k v rule: dset.induct) auto

definition anchors_ok :: "(string \<times> string list) list \<Rightarrow> bool" where
  "anchors_ok acc \<longleftrightarrow> distinct (map fst acc)
     \<and> (\<forall>(p, as) \<in> set acc. safe_path p \<and> strip p = p \<and> as \<noteq> [] \<and> distinct as \<and> (\<forall>a \<in> set as. a \<noteq> [] \<and> strip a = a))"

lemma set_dset: "set (dset d k v) \<subseteq> insert (k, v) (set d)"
  by (induction d k v rule: dset.induct) auto

lemma anchors_ok_dset:
  assumes "anchors_ok acc" and "safe_path p \<and> strip p = p"
    and "as \<noteq> [] \<and> distinct as \<and> (\<forall>a \<in> set as. a \<noteq> [] \<and> strip a = a)"
  shows "anchors_ok (dset acc p as)"
proof -
  have "distinct (map fst (dset acc p as))"
    using assms(1) unfolding anchors_ok_def dset_keys by (auto simp del: set_map)
  moreover have "safe_path q \<and> strip q = q \<and> bs \<noteq> [] \<and> distinct bs \<and> (\<forall>a \<in> set bs. a \<noteq> [] \<and> strip a = a)"
    if "(q, bs) \<in> set (dset acc p as)" for q bs
    using that set_dset [of acc p as] assms unfolding anchors_ok_def by blast
  ultimately show ?thesis unfolding anchors_ok_def by blast
qed

lemma read_set_line_ok:
  assumes "read_set_line acc l = Inr acc'" and "anchors_ok acc"
  shows "anchors_ok acc'"
proof (cases "blank l")
  case True
  with assms show ?thesis by (simp add: read_set_line_def)
next
  case False
  with assms(1) obtain p a where safe: "safe_path (strip p)" and a: "strip a \<noteq> []"
    and acc': "acc' = dset acc (strip p)
      (let known = (case map_of acc (strip p) of None \<Rightarrow> [] | Some xs \<Rightarrow> xs)
       in if strip a \<in> set known then known else known @ [strip a])"
    by (auto simp: read_set_line_def repo_path_iff Let_def split: if_splits option.splits)
  let ?known = "case map_of acc (strip p) of None \<Rightarrow> [] | Some xs \<Rightarrow> xs"
  have known: "distinct ?known \<and> (\<forall>x \<in> set ?known. x \<noteq> [] \<and> strip x = x)"
    using assms(2) by (auto simp: anchors_ok_def split: option.splits dest!: map_of_SomeD)
  let ?new = "if strip a \<in> set ?known then ?known else ?known @ [strip a]"
  have grow: "distinct k \<and> (\<forall>x \<in> set k. x \<noteq> [] \<and> strip x = x) \<Longrightarrow>
      (if strip a \<in> set k then k else k @ [strip a]) \<noteq> []
      \<and> distinct (if strip a \<in> set k then k else k @ [strip a])
      \<and> (\<forall>x \<in> set (if strip a \<in> set k then k else k @ [strip a]). x \<noteq> [] \<and> strip x = x)" for k
    using a by auto
  have eq: "acc' = dset acc (strip p) ?new" using acc' by (simp add: Let_def)
  have "safe_path (strip p) \<and> strip (strip p) = strip p" using safe by simp
  from anchors_ok_dset [OF assms(2) this grow [OF known]] show ?thesis unfolding eq .
qed

lemma read_set_lines_ok:
  "read_set_lines acc ls = Inr acc' \<Longrightarrow> anchors_ok acc \<Longrightarrow> anchors_ok acc'"
  by (induction ls arbitrary: acc) (auto dest: read_set_line_ok)

text \<open>An accepted read set names at most the bound of distinct safe paths.\<close>

lemma parse_read_set_Inr:
  assumes "parse_read_set v n = Inr r"
  shows "(r = [] \<longleftrightarrow> strip v = ''NONE'') \<and> (\<exists>acc. anchors_ok acc \<and>
      r = map (\<lambda>(path, anchors). path @ anchor_sep @ join ''; '' anchors) acc \<and>
      (r \<noteq> [] \<longrightarrow> int (length acc) \<le> n))"
proof (cases "strip v = ''NONE''")
  case True
  with assms show ?thesis
    by (intro conjI exI [of _ "[]"]) (auto simp: parse_read_set_def anchors_ok_def split: if_splits)
next
  case False
  with assms obtain acc where "read_set_lines [] (splitlines v) = Inr acc" "acc \<noteq> []"
    "int (length acc) \<le> n" "r = map (\<lambda>(path, anchors). path @ anchor_sep @ join ''; '' anchors) acc"
    by (auto simp: parse_read_set_def split: if_splits)
  with False read_set_lines_ok [of "[]" "splitlines v" acc] show ?thesis
    by (auto simp: anchors_ok_def)
qed

section \<open>Facts about lines and identifiers\<close>

lemma normalize_newlines_no_cr: "CHR 0x0D \<notin> set (normalize_newlines s)"
  by (induction s rule: normalize_newlines.induct) (auto split: list.splits)

lemma plan_lines_join: "join newline (plan_lines raw) = normalize_newlines raw"
  by (simp add: plan_lines_def join_split_on)

lemma step_id_inj: "step_id m = step_id n \<Longrightarrow> m = n"
  by (simp add: step_id_def show02_inj)

lemma step_ids_Some:
  "step_ids (PInt c) = Some ids \<Longrightarrow>
     length ids = nat c \<and> distinct ids \<and> set ids \<subseteq> set all_step_ids"
  by (auto simp: step_ids_def all_step_ids_def max_steps_def distinct_map inj_on_def
      split: if_splits dest!: step_id_inj)

end
