(* ===== verification/Protocol.thy ===== *)
theory Protocol
  imports Grammar
begin

text \<open>
  The META PLAN v2 wire protocol: the step and plan values of \<open>models.py\<close>, and the parser, the
  required checks, the contract renderer and the contract bounds of \<open>planning/protocol.py\<close>.

  The lemmas show what an accepted plan always satisfies: its decision and its step count agree,
  its step identifiers are contiguous, every dependency names an earlier step, every step mutates
  at least one safe path, and its required checks are trusted, include every configured default
  and come in catalogue order.
\<close>

section \<open>Step and plan values\<close>

datatype normalization_code =
    CREATE_EXISTING_TO_WRITE | WRITE_MISSING_TO_CREATE | DROP_MISSING_DELETE | DROP_MISSING_READ
  | RESOLVE_MUTATION_CONFLICT | ADD_MUTATION_TO_READ | DROP_READ_OF_CREATE
  | DROP_UNKNOWN_REQUIRED_CHECK | ADD_DEFAULT_REQUIRED_CHECK | NORMALIZE_STEP_COUNT
  | NORMALIZE_INSTRUCTIONS_LIST_MARKER | NO_MUTATION_REMAINS

record contract_normalization =
  cn_code :: normalization_code
  cn_step_id :: "string option"
  cn_path :: "string option"
  cn_detail :: "string option"

record implementation_step =
  st_id :: string
  st_title :: string
  st_execution_class :: execution_class
  st_depends_on :: "string option"
  st_context :: string
  st_read_set :: "string list"
  st_write_set :: "string list"
  st_create_set :: "string list"
  st_delete_set :: "string list"
  st_instructions :: string
  st_interfaces :: string
  st_examples :: string
  st_tests :: string
  st_pitfalls :: string
  st_done_when :: string
  st_verify :: string

record task_plan =
  tp_decision :: plan_decision
  tp_title :: string
  tp_objective :: string
  tp_constraints :: string
  tp_execution_mode :: "execution_mode option"
  tp_steps :: "implementation_step list"
  tp_acceptance :: string
  tp_tests :: string
  tp_risks :: string
  tp_blockers :: string
  tp_raw :: string
  tp_required_checks :: "string list"
  tp_max_step_contract_chars :: int
  tp_blocker_kind :: "blocker_kind option"
  tp_milestone_id :: "string option"
  tp_milestone_title :: string
  tp_milestone_goal :: string
  tp_project_remainder :: string
  tp_normalizations :: "contract_normalization list"

section \<open>Step blocks\<close>

text \<open>\<open>^BEGIN STEP (.+)$\<close> and \<open>^END STEP (.+)$\<close> against a stripped line.\<close>

definition after_prefix :: "string \<Rightarrow> string \<Rightarrow> string option" where
  "after_prefix p s =
     (if starts p s \<and> drop (length p) s \<noteq> [] then Some (drop (length p) s) else None)"

definition step_begin :: "string \<Rightarrow> string option" where
  "step_begin line = after_prefix ''BEGIN STEP '' (strip line)"

definition step_end :: "string \<Rightarrow> string option" where
  "step_end line = after_prefix ''END STEP '' (strip line)"

fun find_close :: "string \<Rightarrow> string list \<Rightarrow> plan_error + (string list \<times> string list)" where
  "find_close sid [] = v2_error (''missing END STEP '' @ sid)"
| "find_close sid (l # ls) =
     (if step_begin l \<noteq> None then v2_error ''nested BEGIN STEP block''
      else (case step_end l of
          Some closing \<Rightarrow>
            if closing \<noteq> sid then v2_error ''BEGIN STEP and END STEP IDs do not match'' else Inr ([], ls)
        | None \<Rightarrow> rbind (find_close sid ls) (\<lambda>(body, rest). Inr (l # body, rest))))"

lemma find_close_shorter: "find_close sid ls = Inr (body, rest) \<Longrightarrow> length rest < length ls"
  by (induction ls arbitrary: body) (auto split: if_splits option.splits)

function extract_step_blocks ::
  "string list \<Rightarrow> plan_error + ((string \<times> string list) list \<times> string list)" where
  "extract_step_blocks [] = Inr ([], [])"
| "extract_step_blocks (l # ls) =
     (if step_end l \<noteq> None then v2_error ''stray END STEP block''
      else (case step_begin l of
          None \<Rightarrow> rbind (extract_step_blocks ls) (\<lambda>(blocks, envelope). Inr (blocks, l # envelope))
        | Some sid \<Rightarrow>
            if \<not> is_step_id (PStr sid) then v2_error ''step ID must be exactly S01 through S99''
            else (case find_close sid ls of
                Inl e \<Rightarrow> Inl e
              | Inr (body, rest) \<Rightarrow>
                  rbind (extract_step_blocks rest) (\<lambda>(blocks, envelope).
                    Inr ((sid, body) # blocks, envelope)))))"
  by pat_completeness auto
termination
  by (relation "measure length") (auto dest: find_close_shorter)

section \<open>Names of the protocol\<close>

definition envelope_inline :: "string list" where
  "envelope_inline =
     [''STATUS'', ''TITLE'', ''MILESTONE_ID'', ''MILESTONE_TITLE'', ''EXECUTION_MODE'', ''STEP_COUNT'',
      ''BLOCKER_KIND'']"

definition envelope_sections :: "string list" where
  "envelope_sections =
     [''OBJECTIVE'', ''CONSTRAINTS'', ''MILESTONE_GOAL'', ''PROJECT_REMAINDER'', ''ACCEPTANCE'', ''TESTS'',
      ''RISKS'', ''BLOCKERS'', ''REQUIRED_CHECKS'']"

definition step_inline :: "string list" where
  "step_inline = [''TITLE'', ''EXECUTION_CLASS'', ''DEPENDS_ON'']"

definition step_sections :: "string list" where
  "step_sections =
     [''CONTEXT'', ''READ_SET'', ''WRITE_SET'', ''CREATE_SET'', ''DELETE_SET'', ''INSTRUCTIONS'', ''INTERFACES'',
      ''EXAMPLES'', ''TESTS'', ''PITFALLS'', ''DONE_WHEN'', ''VERIFY'']"

definition milestone_id :: "string \<Rightarrow> bool" where
  "milestone_id s \<longleftrightarrow>
     (case s of
        c # ds \<Rightarrow> c = CHR ''M'' \<and> (length ds = 2 \<or> length ds = 3) \<and> list_all is_digit ds
      | [] \<Rightarrow> False)"

section \<open>One step\<close>

definition required_step_fields :: "string list" where
  "required_step_fields =
     [''TITLE'', ''EXECUTION_CLASS'', ''DEPENDS_ON'', ''CONTEXT'', ''READ_SET'', ''WRITE_SET'',
      ''INSTRUCTIONS'', ''TESTS'', ''PITFALLS'', ''DONE_WHEN'', ''VERIFY'',
      ''CREATE_SET'', ''DELETE_SET'', ''INTERFACES'']"

definition parse_dependency :: "string \<Rightarrow> string list \<Rightarrow> string \<Rightarrow> plan_error + string option" where
  "parse_dependency sid prior_ids dependency =
     (if dependency = ''NONE'' then Inr None
      else if \<not> is_step_id (PStr dependency) \<or> dependency \<notin> set prior_ids
      then v2_error (''invalid or future dependency in '' @ sid)
      else Inr (Some dependency))"

text \<open>The validated construction of the step once its list markers are canonical.\<close>

definition build_step ::
  "string \<Rightarrow> plan_fields \<Rightarrow> string list \<Rightarrow> int \<Rightarrow> plan_error + implementation_step" where
  "build_step sid values prior_ids max_read_paths =
     (let get = field_of values
      in rbind (validate_step_text_limits sid values) (\<lambda>_.
         rbind (nonempty (get ''TITLE'') (''step '' @ sid @ '' TITLE'')) (\<lambda>ttl.
         case execution_class_of (PStr (get ''EXECUTION_CLASS'')) of
           None \<Rightarrow> v2_error (''unknown execution class in '' @ sid)
         | Some ec \<Rightarrow>
           rbind (parse_dependency sid prior_ids (get ''DEPENDS_ON'')) (\<lambda>dep.
           rbind (nonempty (get ''CONTEXT'') (''step '' @ sid @ '' CONTEXT'')) (\<lambda>ctx.
           rbind (parse_read_set (get ''READ_SET'') max_read_paths) (\<lambda>reads.
           rbind (change_sets values) (\<lambda>(w, c, d).
           rbind (nonempty (get ''INSTRUCTIONS'') (''step '' @ sid @ '' INSTRUCTIONS'')) (\<lambda>ins.
           rbind (nonempty (get ''TESTS'') (''step '' @ sid @ '' TESTS'')) (\<lambda>tst.
           rbind (nonempty (get ''PITFALLS'') (''step '' @ sid @ '' PITFALLS'')) (\<lambda>pit.
           rbind (nonempty (get ''DONE_WHEN'') (''step '' @ sid @ '' DONE_WHEN'')) (\<lambda>don.
           rbind (nonempty (get ''VERIFY'') (''step '' @ sid @ '' VERIFY'')) (\<lambda>ver.
             Inr \<lparr>st_id = sid, st_title = ttl, st_execution_class = ec, st_depends_on = dep,
               st_context = ctx, st_read_set = reads, st_write_set = w, st_create_set = c,
               st_delete_set = d, st_instructions = ins, st_interfaces = strip (get ''INTERFACES''),
               st_examples = (if blank (get ''EXAMPLES'') then ''NONE'' else strip (get ''EXAMPLES'')),
               st_tests = tst, st_pitfalls = pit, st_done_when = don, st_verify = ver\<rparr>))))))))))))"

definition parse_step ::
  "string \<Rightarrow> string list \<Rightarrow> string list \<Rightarrow> int \<Rightarrow>
   plan_error + (implementation_step \<times> contract_normalization list)" where
  "parse_step sid body prior_ids max_read_paths =
     rbind (parse_labeled_body step_inline step_sections (''step '' @ sid) body) (\<lambda>(values0, _).
     case find (\<lambda>name. blank (field_of values0 name)) required_step_fields of
       Some name \<Rightarrow> v2_error (''step '' @ sid @ '' is missing '' @ name)
     | None \<Rightarrow>
       if map_of values0 ''EXAMPLES'' \<noteq> None \<and> blank (field_of values0 ''EXAMPLES'')
       then v2_error (''step '' @ sid @ '' has an empty EXAMPLES; use NONE'')
       else
         let (normalized, kind) = normalize_instruction_list (field_of values0 ''INSTRUCTIONS'');
             values = (if kind \<noteq> None then dset values0 ''INSTRUCTIONS'' normalized else values0);
             records = (case kind of
                 None \<Rightarrow> []
               | Some k \<Rightarrow> [\<lparr>cn_code = NORMALIZE_INSTRUCTIONS_LIST_MARKER, cn_step_id = Some sid, cn_path = None,
                   cn_detail = Some (''from='' @ k @ '' to=canonical_ordered'')\<rparr>])
         in rbind (build_step sid values prior_ids max_read_paths) (\<lambda>step. Inr (step, records)))"

section \<open>The step contract\<close>

definition blank_line :: string where
  "blank_line = newline @ newline"

definition render_step_contract_unchecked :: "task_plan \<Rightarrow> implementation_step \<Rightarrow> string" where
  "render_step_contract_unchecked plan step =
     join blank_line
      [''META IMPLEMENTATION STEP v2'',
       ''RUN TITLE'' @ newline @ tp_title plan,
       ''STEP'' @ newline @ st_id step @ '' / '' @ show02 (length (tp_steps plan)),
       ''TITLE'' @ newline @ st_title step,
       ''EXECUTION CLASS'' @ newline @ execution_class_value (st_execution_class step),
       ''DEPENDS_ON'' @ newline @ (case st_depends_on step of
           None \<Rightarrow> ''NONE'' | Some d \<Rightarrow> if d = [] then ''NONE'' else d),
       ''CONTEXT'' @ newline @ st_context step,
       ''READ SET'' @ newline @ render_paths (st_read_set step),
       ''WRITE SET'' @ newline @ render_paths (st_write_set step),
       ''CREATE SET'' @ newline @ render_paths (st_create_set step),
       ''DELETE SET'' @ newline @ render_paths (st_delete_set step),
       ''INSTRUCTIONS'' @ newline @ st_instructions step,
       ''INTERFACES'' @ newline @ st_interfaces step,
       ''EXAMPLES'' @ newline @ st_examples step,
       ''TESTS'' @ newline @ st_tests step,
       ''PITFALLS'' @ newline @ st_pitfalls step,
       ''DONE_WHEN'' @ newline @ st_done_when step,
       ''VERIFY'' @ newline @ st_verify step,
       ''END META IMPLEMENTATION STEP''] @ newline"

definition render_step_contract :: "task_plan \<Rightarrow> implementation_step \<Rightarrow> plan_error + string" where
  "render_step_contract plan step =
     (if tp_decision plan \<noteq> READY \<or> step \<notin> set (tp_steps plan)
      then v2_error ''step contract requires a step from a READY plan''
      else
        let rendered = render_step_contract_unchecked plan step
        in if int (py_len rendered) > tp_max_step_contract_chars plan
           then v2_error ''step contract exceeds MAX_STEP_CONTRACT_CHARS'' else Inr rendered)"

text \<open>
  The regular expressions of the contract bounds. \<open>line_starts\<close> are the suffixes of a text at
  which \<open>^\<close> matches with \<open>re.MULTILINE\<close>.
\<close>

fun after_newlines :: "string \<Rightarrow> string list" where
  "after_newlines [] = []"
| "after_newlines (c # s) = (if c = CHR 0x0A then [s] else []) @ after_newlines s"

definition line_starts :: "string \<Rightarrow> string list" where
  "line_starts s = s # after_newlines s"

definition word_char :: "char \<Rightarrow> bool" where
  "word_char c \<longleftrightarrow> is_alnum c \<or> c = CHR ''_''"

text \<open>A match position: the character before it and the text after it.\<close>

type_synonym position = "char option \<times> string"

definition word_edge :: "position \<Rightarrow> bool" where
  "word_edge p \<longleftrightarrow>
     (case fst p of None \<Rightarrow> False | Some c \<Rightarrow> word_char c) \<noteq> (snd p \<noteq> [] \<and> word_char (hd (snd p)))"

definition match_word :: "string \<Rightarrow> position \<Rightarrow> position list" where
  "match_word w p =
     (if starts w (snd p) then filter word_edge [(Some (last w), drop (length w) (snd p))] else [])"

text \<open>\<open>[^\n.]{0,180}\b\<close>: every way to skip at most 180 characters up to a word edge.\<close>

definition match_gap :: "position \<Rightarrow> position list" where
  "match_gap p =
     (let s = snd p; reach = takeWhile (\<lambda>c. c \<noteq> CHR 0x0A \<and> c \<noteq> CHR ''.'') s
      in filter word_edge
          (map (\<lambda>i. (if i = 0 then fst p else Some (s ! (i - 1)), drop i s))
             (filter (\<lambda>i. py_len (take i s) \<le> 180) [0..<Suc (length reach)])))"

definition match_words :: "string list \<Rightarrow> position \<Rightarrow> position list" where
  "match_words words p = concat (map (\<lambda>w. match_word w p) words)"

definition discovery_at :: "string \<Rightarrow> bool" where
  "discovery_at s =
     (let digits = takeWhile is_digit s; r = dropWhile is_digit s
      in digits \<noteq> [] \<and> r \<noteq> [] \<and> hd r \<in> set ''.)''
       \<and> (let p = (Some (hd r), lstrip (tl r));
              then_any = (\<lambda>words ps. concat (map (match_words words) (concat (map match_gap ps))))
          in then_any [''imports''] (match_word ''follow'' p) \<noteq> []
           \<or> then_any [''identify'', ''determine'', ''discover'']
               (then_any [''repository'', ''call sites''] (match_word ''inspect'' p)) \<noteq> []))"

definition worker_discovery :: "string \<Rightarrow> bool" where
  "worker_discovery text = list_ex discovery_at (line_starts (casefold text))"

definition numbered_line :: "string \<Rightarrow> bool" where
  "numbered_line s =
     (let r = dropWhile is_digit s
      in takeWhile is_digit s \<noteq> [] \<and> (case r of c # d # _ \<Rightarrow> c = CHR ''.'' \<and> ws d | _ \<Rightarrow> False))"

definition atomic_scope_at :: "string \<Rightarrow> bool" where
  "atomic_scope_at s =
     (starts ''ATOMIC_SCOPE:'' s
      \<and> (let r = lstrip (drop 13 s)
         in r \<noteq> [] \<and> py_len (takeWhile (\<lambda>c. c \<noteq> CHR 0x0A) (tl r)) \<ge> 49))"

definition too_many_reasoning_operations :: "planning_config \<Rightarrow> implementation_step \<Rightarrow> bool" where
  "too_many_reasoning_operations planning step \<longleftrightarrow>
     pc_decomposition planning = ''aggressive''
     \<and> st_execution_class step \<in> {REASONING, AGENTIC}
     \<and> length (filter numbered_line (line_starts (st_instructions step))) > 6
     \<and> \<not> list_ex atomic_scope_at (line_starts (st_context step))"

fun check_step_bounds :: "planning_config option \<Rightarrow> implementation_step list \<Rightarrow> plan_error + unit" where
  "check_step_bounds planning [] = Inr ()"
| "check_step_bounds planning (step # steps) =
     (if worker_discovery (st_instructions step)
      then v2_error (''step '' @ st_id step @ '' assigns repository discovery to the worker'')
      else if (case planning of None \<Rightarrow> False | Some cfg \<Rightarrow> too_many_reasoning_operations cfg step)
      then v2_error (''step '' @ st_id step @ '' has more than 6 reasoning operations'')
      else check_step_bounds planning steps)"

definition validate_step_contract_bounds :: "task_plan \<Rightarrow> planning_config option \<Rightarrow> plan_error + unit" where
  "validate_step_contract_bounds plan planning =
     (if \<exists>step \<in> set (tp_steps plan).
           int (py_len (render_step_contract_unchecked plan step)) > tp_max_step_contract_chars plan
      then v2_error ''step contract exceeds MAX_STEP_CONTRACT_CHARS''
      else check_step_bounds planning (tp_steps plan))"

section \<open>Required checks\<close>

definition check_line :: "string \<Rightarrow> string option" where
  "check_line line =
     (case line of
        c # r \<Rightarrow>
          if c = CHR ''-'' \<and> r \<noteq> [] \<and> ws (hd r) \<and> valid_profile_id (PStr (lstrip r))
          then Some (lstrip r) else None
      | [] \<Rightarrow> None)"

fun selected_checks ::
  "string list \<Rightarrow> string list \<Rightarrow> string list \<Rightarrow> plan_error + (string list \<times> contract_normalization list)" where
  "selected_checks catalog_ids selected [] = Inr (selected, [])"
| "selected_checks catalog_ids selected (l # ls) =
     (case check_line l of
        None \<Rightarrow> v2_error ''REQUIRED_CHECKS must contain only - <catalogue id> lines''
      | Some i \<Rightarrow>
          if i \<notin> set catalog_ids
          then rbind (selected_checks catalog_ids selected ls) (\<lambda>(sel, records).
            Inr (sel, \<lparr>cn_code = DROP_UNKNOWN_REQUIRED_CHECK, cn_step_id = None, cn_path = None,
              cn_detail = Some (''check='' @ i)\<rparr> # records))
          else selected_checks catalog_ids (if i \<in> set selected then selected else selected @ [i]) ls)"

definition parse_required_checks ::
  "string \<Rightarrow> string list \<Rightarrow> string list \<Rightarrow> string list \<Rightarrow>
   plan_error + (string list \<times> contract_normalization list)" where
  "parse_required_checks value catalog_ids default_ids inherited_ids =
     (if \<not> distinct catalog_ids then v2_error ''trusted check catalogue contains duplicate IDs''
      else if catalog_ids = [] then Inr ([], [])
      else (case filter (\<lambda>i. i \<notin> set catalog_ids) (default_ids @ inherited_ids) of
          u # _ \<Rightarrow> v2_error (''unknown configured required check ID: '' @ u)
        | [] \<Rightarrow>
            let ls = filter (\<lambda>l. l \<noteq> []) (map strip (splitlines value))
            in if ls = [] then v2_error ''READY plan requires REQUIRED_CHECKS''
               else rbind (selected_checks catalog_ids [] ls) (\<lambda>(selected, records).
                 let missing = filter (\<lambda>i. i \<notin> set selected) (dedup (default_ids @ inherited_ids));
                     added = map (\<lambda>i. \<lparr>cn_code = ADD_DEFAULT_REQUIRED_CHECK, cn_step_id = None,
                       cn_path = None, cn_detail = Some (''check='' @ i)\<rparr>) missing
                 in Inr (filter (\<lambda>i. i \<in> set (selected @ missing)) catalog_ids, records @ added))))"

section \<open>The plan\<close>

text \<open>\<open>s[:n]\<close>: the first \<open>n\<close> code points.\<close>

fun py_take :: "nat \<Rightarrow> string \<Rightarrow> string" where
  "py_take n [] = []"
| "py_take n (c # s) =
     (if continuation_byte c then c # py_take n s
      else (case n of 0 \<Rightarrow> [] | Suc m \<Rightarrow> c # py_take m s))"

definition blockers_placeholder :: "string \<Rightarrow> bool" where
  "blockers_placeholder s \<longleftrightarrow> casefold s \<in> set [''none'', ''n/a'', ''na'', ''-'', em_dash, ''nil'']"

definition max_blockers_chars :: nat where
  "max_blockers_chars = 4096"

fun parse_steps ::
  "int \<Rightarrow> string list \<Rightarrow> (string \<times> string list) list \<Rightarrow>
   plan_error + (implementation_step list \<times> contract_normalization list)" where
  "parse_steps max_read prior [] = Inr ([], [])"
| "parse_steps max_read prior ((sid, body) # blocks) =
     rbind (parse_step sid body prior max_read) (\<lambda>(step, records).
     rbind (parse_steps max_read (prior @ [sid]) blocks) (\<lambda>(steps, more).
       Inr (step # steps, records @ more)))"

definition parse_blocked ::
  "string \<Rightarrow> planning_config \<Rightarrow> plan_fields \<Rightarrow> plan_fields \<Rightarrow> bool \<Rightarrow> string \<Rightarrow> string \<Rightarrow> plan_error + task_plan" where
  "parse_blocked raw planning values sections has_blocks ttl objective =
     (let blockers = strip (field_of sections ''BLOCKERS'')
      in if has_blocks \<or> list_ex (\<lambda>n. map_of values n \<noteq> None)
            [''EXECUTION_MODE'', ''STEP_COUNT'', ''MILESTONE_ID'', ''MILESTONE_TITLE'']
         then v2_error ''BLOCKED plan must not contain execution metadata or steps''
         else if blockers = [] \<or> blockers_placeholder blockers
         then v2_error ''BLOCKED plan requires real BLOCKERS''
         else if py_len blockers > max_blockers_chars then v2_error ''BLOCKERS exceeds its protocol limit''
         else if field_of values ''BLOCKER_KIND'' \<noteq> ''SPEC_DECISION''
         then v2_error ''BLOCKED plan requires a valid BLOCKER_KIND''
         else if list_ex (\<lambda>(n, v). n \<notin> set [''OBJECTIVE'', ''BLOCKERS'']) sections
         then v2_error ''BLOCKED plan contains READY-only sections''
         else Inr \<lparr>tp_decision = BLOCKED, tp_title = ttl, tp_objective = objective, tp_constraints = [],
           tp_execution_mode = None, tp_steps = [], tp_acceptance = [], tp_tests = [], tp_risks = [],
           tp_blockers = blockers, tp_raw = raw, tp_required_checks = [],
           tp_max_step_contract_chars = pc_max_step_contract_chars planning,
           tp_blocker_kind = Some BLOCKER_SPEC_DECISION, tp_milestone_id = None, tp_milestone_title = [],
           tp_milestone_goal = [], tp_project_remainder = [], tp_normalizations = []\<rparr>)"

definition execution_mode_of :: "string \<Rightarrow> execution_mode option" where
  "execution_mode_of s = (if s = ''SINGLE'' then Some SINGLE else if s = ''STAGED'' then Some STAGED else None)"

text \<open>The mode and the count of the step blocks, and whether their identifiers are contiguous.\<close>

definition check_step_blocks ::
  "planning_config \<Rightarrow> string option \<Rightarrow> string list \<Rightarrow> plan_error + execution_mode" where
  "check_step_blocks planning mode ids =
     (let n = length ids
      in case (case mode of None \<Rightarrow> None | Some m \<Rightarrow> execution_mode_of m) of
           None \<Rightarrow> v2_error ''EXECUTION_MODE must be exactly SINGLE or STAGED''
         | Some m \<Rightarrow>
             if n < 1 \<or> n > max_steps then v2_error ''STEP_COUNT exceeds protocol bounds''
             else if int n > pc_max_steps_per_plan planning
             then v2_error ''plan has more steps than planning.max_steps_per_plan''
             else if m = SINGLE \<and> n \<noteq> 1 then v2_error ''SINGLE requires exactly one step''
             else if m = STAGED \<and> \<not> (2 \<le> n \<and> n \<le> max_steps)
             then v2_error ''STAGED requires between 2 and 99 steps''
             else if step_ids (PInt (int n)) \<noteq> Some ids
             then v2_error ''step IDs must be contiguous S01 through S99''
             else Inr m)"

definition required_plan_sections :: "string list" where
  "required_plan_sections =
     [''CONSTRAINTS'', ''MILESTONE_GOAL'', ''PROJECT_REMAINDER'', ''ACCEPTANCE'', ''TESTS'', ''RISKS'', ''BLOCKERS'']"

definition parse_ready ::
  "string \<Rightarrow> planning_config \<Rightarrow> string list \<Rightarrow> string list \<Rightarrow> string list \<Rightarrow> plan_fields \<Rightarrow> plan_fields \<Rightarrow>
   (string \<times> string list) list \<Rightarrow> string \<Rightarrow> string \<Rightarrow> plan_error + task_plan" where
  "parse_ready raw planning catalog_ids default_ids inherited_ids values sections blocks ttl objective =
     (let blockers = strip (field_of sections ''BLOCKERS'')
      in if map_of values ''BLOCKER_KIND'' \<noteq> None
         then v2_error ''BLOCKER_KIND is only valid for BLOCKED plans''
         else
          rbind (nonempty (field_of values ''MILESTONE_ID'') ''MILESTONE_ID'') (\<lambda>mid.
          if \<not> milestone_id mid then v2_error ''MILESTONE_ID must look like M01''
          else
          rbind (nonempty (field_of values ''MILESTONE_TITLE'') ''MILESTONE_TITLE'') (\<lambda>mtitle.
          rbind (nonempty (field_of sections ''MILESTONE_GOAL'') ''MILESTONE_GOAL'') (\<lambda>mgoal.
          let remainder = strip (field_of sections ''PROJECT_REMAINDER'')
          in if remainder = [] then v2_error ''MILESTONE_GOAL and PROJECT_REMAINDER are required''
          else
          rbind (check_step_blocks planning (map_of values ''EXECUTION_MODE'') (map fst blocks)) (\<lambda>mode.
          let count_text = strip (field_of values ''STEP_COUNT''); n = length blocks;
              count_records = (if count_text \<noteq> show_nat n
                then [\<lparr>cn_code = NORMALIZE_STEP_COUNT, cn_step_id = None, cn_path = None,
                  cn_detail = Some (''declared='' @ (let t = py_take 32 count_text in if t = [] then ''missing'' else t)
                    @ '' real='' @ show_nat n)\<rparr>] else [])
          in
          rbind (parse_steps (pc_max_read_paths_per_step planning) [] blocks) (\<lambda>(steps, step_records).
          case find (\<lambda>name. blank (field_of sections name)) required_plan_sections of
            Some name \<Rightarrow> v2_error (''READY plan is missing '' @ name)
          | None \<Rightarrow>
            if blockers \<noteq> [] \<and> \<not> blockers_placeholder blockers
            then v2_error ''READY plan cannot contain real BLOCKERS''
            else
            rbind (parse_required_checks (field_of sections ''REQUIRED_CHECKS'')
                     catalog_ids default_ids inherited_ids) (\<lambda>(checks, check_records).
            let plan = \<lparr>tp_decision = READY, tp_title = ttl, tp_objective = objective,
                  tp_constraints = strip (field_of sections ''CONSTRAINTS''), tp_execution_mode = Some mode,
                  tp_steps = steps, tp_acceptance = strip (field_of sections ''ACCEPTANCE''),
                  tp_tests = strip (field_of sections ''TESTS''), tp_risks = strip (field_of sections ''RISKS''),
                  tp_blockers = (if blockers = [] then ''NONE'' else blockers), tp_raw = raw,
                  tp_required_checks = checks,
                  tp_max_step_contract_chars = pc_max_step_contract_chars planning,
                  tp_blocker_kind = None, tp_milestone_id = Some mid, tp_milestone_title = mtitle,
                  tp_milestone_goal = mgoal, tp_project_remainder = remainder,
                  tp_normalizations = count_records @ step_records @ check_records\<rparr>
            in rbind (validate_step_contract_bounds plan (Some planning)) (\<lambda>_. Inr plan))))))))"

definition parse_envelope ::
  "string \<Rightarrow> planning_config \<Rightarrow> string list \<Rightarrow> string list \<Rightarrow> string list \<Rightarrow> plan_fields \<Rightarrow> plan_fields \<Rightarrow>
   (string \<times> string list) list \<Rightarrow> plan_error + task_plan" where
  "parse_envelope raw planning catalog_ids default_ids inherited_ids values sections blocks =
     (case map_of values ''STATUS'' of
        None \<Rightarrow> v2_error ''STATUS must be exactly READY or BLOCKED''
      | Some status \<Rightarrow>
          if status \<notin> set [''READY'', ''BLOCKED'']
          then v2_error ''STATUS must be exactly READY or BLOCKED''
          else
          rbind (nonempty (field_of values ''TITLE'') ''TITLE'') (\<lambda>ttl.
          rbind (nonempty (field_of sections ''OBJECTIVE'') ''OBJECTIVE'') (\<lambda>objective.
            if status = ''BLOCKED''
            then parse_blocked raw planning values sections (blocks \<noteq> []) ttl objective
            else parse_ready raw planning catalog_ids default_ids inherited_ids
                   values sections blocks ttl objective)))"

definition parse_task_plan_v2 ::
  "string \<Rightarrow> planning_config \<Rightarrow> string list \<Rightarrow> string list \<Rightarrow> string list \<Rightarrow> plan_error + task_plan" where
  "parse_task_plan_v2 raw planning catalog_ids default_ids inherited_ids =
     (if blank raw then v2_error ''planner response is empty''
      else
       let raw_lines = plan_lines raw; is_end = (\<lambda>l. strip l = ''END META PLAN'')
       in case dropWhile blank raw_lines of
            [] \<Rightarrow> v2_error ''missing META PLAN v2 header''
          | first # ls \<Rightarrow>
              if strip first \<noteq> ''META PLAN v2'' then v2_error ''missing META PLAN v2 header''
              else if length (filter is_end raw_lines) \<noteq> 1
              then v2_error ''missing or duplicate END META PLAN''
              else if \<not> list_all blank (tl (dropWhile (\<lambda>l. \<not> is_end l) ls))
              then v2_error ''content outside META PLAN v2 envelope''
              else
              rbind (extract_step_blocks (takeWhile (\<lambda>l. \<not> is_end l) ls)) (\<lambda>(blocks, envelope).
              rbind (parse_labeled_body envelope_inline envelope_sections ''plan'' envelope)
                (\<lambda>(values, sections).
                  parse_envelope raw planning catalog_ids default_ids inherited_ids values sections blocks)))"

definition render_safe_check_catalogue :: "check_config list \<Rightarrow> string" where
  "render_safe_check_catalogue checks =
     (let entry = (\<lambda>c. join newline
          [''CHECK'', ''ID: '' @ check_id c,
           ''DESCRIPTION: '' @ (if cc_description c = [] then ''No description configured.'' else cc_description c),
           ''END CHECK'']);
          out = join blank_line (map entry checks)
      in if out = [] then ''NONE'' else out)"

section \<open>What one accepted step satisfies\<close>

definition step_wf :: "string list \<Rightarrow> implementation_step \<Rightarrow> bool" where
  "step_wf prior st \<longleftrightarrow>
     (case st_depends_on st of None \<Rightarrow> True | Some d \<Rightarrow> d \<in> set prior)
     \<and> distinct (st_write_set st) \<and> distinct (st_create_set st) \<and> distinct (st_delete_set st)
     \<and> (\<forall>p \<in> set (st_write_set st) \<union> set (st_create_set st) \<union> set (st_delete_set st). safe_path p)
     \<and> (st_write_set st \<noteq> [] \<or> st_create_set st \<noteq> [] \<or> st_delete_set st \<noteq> [])"

lemma parse_dependency_Inr:
  "parse_dependency sid prior d = Inr r \<Longrightarrow> case r of None \<Rightarrow> True | Some x \<Rightarrow> x \<in> set prior"
  by (auto simp: parse_dependency_def split: if_splits)

lemma build_step_Inr:
  "build_step sid vs prior mx = Inr st \<Longrightarrow> st_id st = sid \<and>
     parse_dependency sid prior (field_of vs ''DEPENDS_ON'') = Inr (st_depends_on st)
     \<and> change_sets vs = Inr (st_write_set st, st_create_set st, st_delete_set st)"
  by (auto simp: build_step_def Let_def split: option.splits)

lemma parse_step_cases:
  "parse_step sid body prior mx = Inr (st, recs) \<Longrightarrow> \<exists>vs. build_step sid vs prior mx = Inr st"
  by (auto simp: parse_step_def Let_def split: prod.splits option.splits if_splits)

lemma parse_step_Inr:
  assumes "parse_step sid body prior mx = Inr (st, recs)"
  shows "st_id st = sid \<and> step_wf prior st"
proof -
  from parse_step_cases [OF assms] obtain vs where "st_id st = sid"
    and "parse_dependency sid prior (field_of vs ''DEPENDS_ON'') = Inr (st_depends_on st)"
    and "change_sets vs = Inr (st_write_set st, st_create_set st, st_delete_set st)"
    using build_step_Inr by blast
  with change_sets_Inr [of vs] parse_dependency_Inr [of sid prior _ "st_depends_on st"]
  show ?thesis by (simp add: step_wf_def)
qed

fun steps_wf :: "string list \<Rightarrow> implementation_step list \<Rightarrow> bool" where
  "steps_wf prior [] = True"
| "steps_wf prior (st # sts) = (step_wf prior st \<and> steps_wf (prior @ [st_id st]) sts)"

lemma parse_steps_Inr:
  "parse_steps mx prior blocks = Inr (sts, recs) \<Longrightarrow> map st_id sts = map fst blocks \<and> steps_wf prior sts"
proof (induction blocks arbitrary: prior sts recs)
  case (Cons b blocks)
  obtain sid body where b: "b = (sid, body)" by force
  from Cons.prems obtain st recs1 sts' recs2 where "parse_step sid body prior mx = Inr (st, recs1)"
    and "parse_steps mx (prior @ [sid]) blocks = Inr (sts', recs2)" and "sts = st # sts'"
    by (auto simp: b)
  with Cons.IH [of "prior @ [sid]" sts' recs2] parse_step_Inr [of sid body prior mx st recs1] show ?case
    by (auto simp: b)
qed simp

section \<open>What the required checks satisfy\<close>


section \<open>What an accepted plan satisfies\<close>

lemma check_step_blocks_Inr:
  assumes "check_step_blocks planning mode ids = Inr m"
  shows "ids = map step_id [1..<Suc (length ids)]" and "1 \<le> length ids" and "length ids \<le> 99"
    and "int (length ids) \<le> pc_max_steps_per_plan planning" and "m = SINGLE \<longleftrightarrow> length ids = 1"
  using assms by (auto simp: check_step_blocks_def Let_def step_ids_def max_steps_def
      split: option.splits if_splits; cases m; simp)+

lemma parse_ready_Inr:
  "parse_ready raw planning cat ds inh vs sections blocks ttl obj = Inr plan \<Longrightarrow>
     tp_decision plan = READY \<and> tp_raw plan = raw
     \<and> tp_max_step_contract_chars plan = pc_max_step_contract_chars planning
     \<and> validate_step_contract_bounds plan (Some planning) = Inr ()
     \<and> (\<exists>mode. tp_execution_mode plan = Some mode \<and>
          check_step_blocks planning (map_of vs ''EXECUTION_MODE'') (map fst blocks) = Inr mode)
     \<and> (\<exists>recs. parse_steps (pc_max_read_paths_per_step planning) [] blocks = Inr (tp_steps plan, recs))
     \<and> (\<exists>recs. parse_required_checks (field_of sections ''REQUIRED_CHECKS'') cat ds inh
            = Inr (tp_required_checks plan, recs))"
  unfolding parse_ready_def Let_def by (auto split: prod.splits option.splits if_splits)

lemma parse_blocked_Inr:
  "parse_blocked raw planning values sections has ttl obj = Inr plan \<Longrightarrow>
     tp_decision plan = BLOCKED \<and> tp_raw plan = raw \<and> tp_steps plan = [] \<and> tp_execution_mode plan = None
     \<and> tp_required_checks plan = [] \<and> tp_blocker_kind plan = Some BLOCKER_SPEC_DECISION
     \<and> tp_blockers plan \<noteq> [] \<and> \<not> blockers_placeholder (tp_blockers plan) \<and> py_len (tp_blockers plan) \<le> 4096"
  by (auto simp: parse_blocked_def Let_def max_blockers_chars_def split: if_splits)

lemma parse_envelope_cases:
  "parse_envelope raw planning cat ds inh vs sections blocks = Inr plan \<Longrightarrow>
     (\<exists>ttl obj. parse_blocked raw planning vs sections (blocks \<noteq> []) ttl obj = Inr plan)
     \<or> (\<exists>ttl obj. parse_ready raw planning cat ds inh vs sections blocks ttl obj = Inr plan)"
  unfolding parse_envelope_def by (auto split: option.splits if_splits)

lemma parse_task_plan_envelope:
  "parse_task_plan_v2 raw planning cat ds inh = Inr plan \<Longrightarrow>
     \<exists>vs sections blocks. parse_envelope raw planning cat ds inh vs sections blocks = Inr plan"
  unfolding parse_task_plan_v2_def Let_def by (auto split: if_splits list.splits prod.splits)

text \<open>How an accepted answer was built, by its decision.\<close>

lemma ready_plan_parts:
  assumes "parse_task_plan_v2 raw planning cat ds inh = Inr plan" and "tp_decision plan = READY"
  shows "\<exists>vs sections blocks ttl obj.
    parse_ready raw planning cat ds inh vs sections blocks ttl obj = Inr plan"
proof -
  from parse_task_plan_envelope [OF assms(1)] obtain vs sections blocks where
    "parse_envelope raw planning cat ds inh vs sections blocks = Inr plan" by blast
  from parse_envelope_cases [OF this] show ?thesis
  proof
    assume "\<exists>ttl obj. parse_blocked raw planning vs sections (blocks \<noteq> []) ttl obj = Inr plan"
    then obtain ttl obj where "parse_blocked raw planning vs sections (blocks \<noteq> []) ttl obj = Inr plan" by blast
    from parse_blocked_Inr [OF this] assms(2) show ?thesis by simp
  qed blast
qed

lemma blocked_plan_parts:
  assumes "parse_task_plan_v2 raw planning cat ds inh = Inr plan" and "tp_decision plan = BLOCKED"
  shows "\<exists>vs sections has ttl obj. parse_blocked raw planning vs sections has ttl obj = Inr plan"
proof -
  from parse_task_plan_envelope [OF assms(1)] obtain vs sections blocks where
    "parse_envelope raw planning cat ds inh vs sections blocks = Inr plan" by blast
  from parse_envelope_cases [OF this] show ?thesis
  proof
    assume "\<exists>ttl obj. parse_ready raw planning cat ds inh vs sections blocks ttl obj = Inr plan"
    then obtain ttl obj where "parse_ready raw planning cat ds inh vs sections blocks ttl obj = Inr plan" by blast
    from parse_ready_Inr [OF this] assms(2) show ?thesis by simp
  qed blast
qed

lemma contract_bounds_len:
  "validate_step_contract_bounds plan cfg = Inr () \<Longrightarrow> st \<in> set (tp_steps plan) \<Longrightarrow>
     int (py_len (render_step_contract_unchecked plan st)) \<le> tp_max_step_contract_chars plan"
  by (force simp: validate_step_contract_bounds_def split: if_splits)

lemma steps_wf_nth:
  "steps_wf prior sts \<Longrightarrow> i < length sts \<Longrightarrow> step_wf (prior @ map st_id (take i sts)) (sts ! i)"
proof (induction sts arbitrary: prior i)
  case (Cons st sts)
  show ?case
  proof (cases i)
    case 0
    with Cons.prems show ?thesis by simp
  next
    case (Suc k)
    with Cons.prems Cons.IH [of "prior @ [st_id st]" k] show ?thesis by simp
  qed
qed simp

section \<open>Properties\<close>

text \<open>C8: An accepted READY answer is kept byte for byte and has between one and the configured number of
  steps (never more than 99), numbered S01, S02, ... without a gap; it is SINGLE exactly when it has
  one step; every step mutates at least one path, its path sets are duplicate-free and every path is
  relative, parent-free and wildcard-free.\<close>

theorem ready_plan_steps:
  assumes "parse_task_plan_v2 raw planning cat ds inh = Inr plan" and "tp_decision plan = READY"
  shows "tp_raw plan = raw
    \<and> map st_id (tp_steps plan) = map step_id [1..<Suc (length (tp_steps plan))]
    \<and> 1 \<le> length (tp_steps plan) \<and> length (tp_steps plan) \<le> 99
    \<and> int (length (tp_steps plan)) \<le> pc_max_steps_per_plan planning
    \<and> (tp_execution_mode plan = Some SINGLE \<longleftrightarrow> length (tp_steps plan) = 1)
    \<and> steps_wf [] (tp_steps plan)"
proof -
  from ready_plan_parts [OF assms] obtain vs sections blocks ttl obj where
    "parse_ready raw planning cat ds inh vs sections blocks ttl obj = Inr plan" by blast
  note parts = parse_ready_Inr [OF this]
  then obtain mode recs where mode: "tp_execution_mode plan = Some mode"
    and blocks: "check_step_blocks planning (map_of vs ''EXECUTION_MODE'') (map fst blocks) = Inr mode"
    and steps: "parse_steps (pc_max_read_paths_per_step planning) [] blocks = Inr (tp_steps plan, recs)"
    by blast
  from parse_steps_Inr [OF steps] have ids: "map st_id (tp_steps plan) = map fst blocks"
    and wf: "steps_wf [] (tp_steps plan)" by simp_all
  note count = check_step_blocks_Inr [OF blocks [folded ids], unfolded length_map]
  show ?thesis using count parts mode wf by (simp del: upt_Suc map_map)
qed

text \<open>C32: A step of an accepted READY plan depends on nothing or on exactly one earlier step: the
  dependencies of a plan never form a cycle and never point forward.\<close>

theorem ready_plan_dependencies:
  assumes "parse_task_plan_v2 raw planning cat ds inh = Inr plan" and "tp_decision plan = READY"
    and "i < length (tp_steps plan)" and "st_depends_on (tp_steps plan ! i) = Some d"
  shows "\<exists>j < i. st_id (tp_steps plan ! j) = d"
proof -
  from ready_plan_parts [OF assms(1,2)] obtain vs sections blocks ttl obj where
    "parse_ready raw planning cat ds inh vs sections blocks ttl obj = Inr plan" by blast
  from parse_ready_Inr [OF this] obtain recs where
    "parse_steps (pc_max_read_paths_per_step planning) [] blocks = Inr (tp_steps plan, recs)" by blast
  from parse_steps_Inr [OF this] have "steps_wf [] (tp_steps plan)" by blast
  from steps_wf_nth [OF this assms(3)] assms(4) have "d \<in> set (map st_id (take i (tp_steps plan)))"
    by (simp add: step_wf_def)
  then show ?thesis using assms(3) by (fastforce simp: in_set_conv_nth)
qed


text \<open>C34: Every step of an accepted READY plan can be rendered: its contract exists and stays within the
  configured number of characters.\<close>

theorem ready_plan_contracts_bounded:
  assumes "parse_task_plan_v2 raw planning cat ds inh = Inr plan" and "tp_decision plan = READY"
    and "st \<in> set (tp_steps plan)"
  shows "\<exists>text. render_step_contract plan st = Inr text
    \<and> int (py_len text) \<le> pc_max_step_contract_chars planning"
proof -
  from ready_plan_parts [OF assms(1,2)] obtain vs sections blocks ttl obj where
    "parse_ready raw planning cat ds inh vs sections blocks ttl obj = Inr plan" by blast
  note parts = parse_ready_Inr [OF this]
  then have "int (py_len (render_step_contract_unchecked plan st)) \<le> tp_max_step_contract_chars plan"
    using contract_bounds_len [OF _ assms(3)] by blast
  with parts assms(2,3) show ?thesis by (simp add: render_step_contract_def)
qed

text \<open>An accepted BLOCKED answer carries no step, no execution mode and no check, names the one legal
  blocker kind, and its blockers are a real text within the protocol limit.\<close>

theorem blocked_plan_is_empty:
  assumes "parse_task_plan_v2 raw planning cat ds inh = Inr plan" and "tp_decision plan = BLOCKED"
  shows "tp_raw plan = raw \<and> tp_steps plan = [] \<and> tp_execution_mode plan = None
    \<and> tp_required_checks plan = [] \<and> tp_blocker_kind plan = Some BLOCKER_SPEC_DECISION
    \<and> tp_blockers plan \<noteq> [] \<and> \<not> blockers_placeholder (tp_blockers plan) \<and> py_len (tp_blockers plan) \<le> 4096"
proof -
  from blocked_plan_parts [OF assms] obtain vs sections has ttl obj where
    "parse_blocked raw planning vs sections has ttl obj = Inr plan" by blast
  from parse_blocked_Inr [OF this] show ?thesis by blast
qed

text \<open>C35: The path list a step contract shows is parsed back to the same paths, in the same order.\<close>

theorem path_set_roundtrip:
  assumes "\<forall>p \<in> set ps. plain_path p" and "distinct ps"
  shows "path_set (render_paths ps) name = Inr ps"
  by (rule path_set_render [OF assms])

text \<open>A READ_SET line whose path is empty so that the separator overlaps the list marker is not
  refused as a plan error: the unpacking of the split raises another exception.\<close>

theorem read_set_overlap_escapes:
  "parse_read_set ''- :: current content'' n = Inl Unpack_error"
  by code_simp

text \<open>Two spellings of one file pass the duplicate check of a path set: a leading dot component and
  a doubled slash are accepted and kept as written.\<close>

theorem path_set_accepts_aliases:
  "path_set (render_paths [''src/a.py'', ''./src/a.py'', ''src//a.py'']) name
     = Inr [''src/a.py'', ''./src/a.py'', ''src//a.py'']"
  by (rule path_set_render)
    (simp_all add: plain_path_def safe_path_def drive_prefix_def path_parts_def strip_def lstrip_def
      rstrip_def ws_def line_end_def contains_def anchor_sep_def starts_def is_upper_def is_lower_def)

section \<open>Witnesses\<close>

definition sample_plan_text :: string where
  "sample_plan_text = join newline
    [''META PLAN v2'', ''STATUS: READY'', ''TITLE: Demo'', ''MILESTONE_ID: M01'', ''MILESTONE_TITLE: m'',
     ''EXECUTION_MODE: STAGED'', ''STEP_COUNT: 2'', ''OBJECTIVE: do'', ''CONSTRAINTS: c'', ''MILESTONE_GOAL: g'',
     ''PROJECT_REMAINDER: NONE'', ''ACCEPTANCE: a'', ''TESTS: t'', ''RISKS: r'', ''BLOCKERS: NONE'',
     ''REQUIRED_CHECKS: - unit'',
     ''BEGIN STEP S01'', ''TITLE: one'', ''EXECUTION_CLASS: MECHANICAL'', ''DEPENDS_ON: NONE'', ''CONTEXT: x'',
     ''READ_SET: NONE'', ''WRITE_SET: NONE'', ''CREATE_SET: - a.py'', ''DELETE_SET: NONE'', ''INSTRUCTIONS: 1. go'',
     ''INTERFACES: NONE'', ''TESTS: t'', ''PITFALLS: p'', ''DONE_WHEN: d'', ''VERIFY: v'', ''END STEP S01'',
     ''BEGIN STEP S02'', ''TITLE: two'', ''EXECUTION_CLASS: AGENTIC'', ''DEPENDS_ON: S01'', ''CONTEXT: x'',
     ''READ_SET: - a.py :: all'', ''WRITE_SET: - a.py'', ''CREATE_SET: NONE'', ''DELETE_SET: NONE'',
     ''INSTRUCTIONS: 1. go'', ''INTERFACES: NONE'', ''TESTS: t'', ''PITFALLS: p'', ''DONE_WHEN: d'', ''VERIFY: v'',
     ''END STEP S02'', ''END META PLAN'']"

definition sample_blocked_text :: string where
  "sample_blocked_text = join newline
    [''META PLAN v2'', ''STATUS: BLOCKED'', ''TITLE: Demo'', ''BLOCKER_KIND: SPEC_DECISION'',
     ''OBJECTIVE: do'', ''BLOCKERS: which colour'', ''END META PLAN'']"

lemma sample_plan_parses:
  "case parse_task_plan_v2 sample_plan_text default_planning [''lint'', ''unit'', ''e2e''] [''lint''] [] of
     Inl _ \<Rightarrow> False
   | Inr p \<Rightarrow> tp_decision p = READY \<and> length (tp_steps p) = 2
       \<and> st_depends_on (tp_steps p ! 1) = Some ''S01'' \<and> tp_required_checks p = [''lint'', ''unit'']"
  by code_simp

lemma sample_plan:
  "\<exists>p. parse_task_plan_v2 sample_plan_text default_planning [''lint'', ''unit'', ''e2e''] [''lint''] [] = Inr p
     \<and> tp_decision p = READY \<and> length (tp_steps p) = 2 \<and> st_depends_on (tp_steps p ! 1) = Some ''S01''"
  using sample_plan_parses by (auto split: sum.splits)

theorem ready_plan_steps_witness:
  "\<exists>p. parse_task_plan_v2 sample_plan_text default_planning [''lint'', ''unit'', ''e2e''] [''lint''] [] = Inr p
     \<and> map st_id (tp_steps p) = map step_id [1..<Suc (length (tp_steps p))]"
  using sample_plan ready_plan_steps by blast

theorem ready_plan_dependencies_witness:
  "\<exists>p. parse_task_plan_v2 sample_plan_text default_planning [''lint'', ''unit'', ''e2e''] [''lint''] [] = Inr p
     \<and> st_depends_on (tp_steps p ! 1) = Some ''S01'' \<and> (\<exists>j < 1. st_id (tp_steps p ! j) = ''S01'')"
proof -
  from sample_plan obtain p where
    p: "parse_task_plan_v2 sample_plan_text default_planning [''lint'', ''unit'', ''e2e''] [''lint''] [] = Inr p"
      "tp_decision p = READY" and "length (tp_steps p) = 2"
    and d: "st_depends_on (tp_steps p ! 1) = Some ''S01''" by blast
  then have "1 < length (tp_steps p)" by simp
  from ready_plan_dependencies [OF p this d] p d show ?thesis by blast
qed


theorem ready_plan_contracts_bounded_witness:
  "\<exists>p text. parse_task_plan_v2 sample_plan_text default_planning [''lint'', ''unit'', ''e2e''] [''lint''] [] = Inr p
     \<and> render_step_contract p (tp_steps p ! 0) = Inr text \<and> py_len text \<le> 9000"
proof -
  from sample_plan obtain p where
    p: "parse_task_plan_v2 sample_plan_text default_planning [''lint'', ''unit'', ''e2e''] [''lint''] [] = Inr p"
      "tp_decision p = READY" and "length (tp_steps p) = 2" by blast
  then have "tp_steps p ! 0 \<in> set (tp_steps p)" by (intro nth_mem) simp
  from ready_plan_contracts_bounded [OF p this] p(1) show ?thesis by (auto simp: default_planning_def)
qed

lemma sample_blocked_parses:
  "case parse_task_plan_v2 sample_blocked_text default_planning [] [] [] of
     Inl _ \<Rightarrow> False | Inr p \<Rightarrow> tp_decision p = BLOCKED"
  by code_simp

theorem blocked_plan_is_empty_witness:
  "\<exists>p. parse_task_plan_v2 sample_blocked_text default_planning [] [] [] = Inr p \<and> tp_steps p = []
     \<and> tp_blockers p \<noteq> []"
  using sample_blocked_parses blocked_plan_is_empty [of sample_blocked_text default_planning "[]" "[]" "[]"]
  by (auto split: sum.splits)

theorem path_set_roundtrip_witness:
  "path_set (render_paths [''src/a.py'', ''b'']) ''WRITE_SET'' = Inr [''src/a.py'', ''b'']"
  by (rule path_set_roundtrip)
    (simp_all add: plain_path_def safe_path_def drive_prefix_def path_parts_def strip_def lstrip_def
      rstrip_def ws_def line_end_def contains_def anchor_sep_def starts_def is_upper_def is_lower_def)

end
