(* ===== verification/Normalization.thy ===== *)
theory Normalization
  imports Protocol
begin

text \<open>
  Deterministic normalisation of step contracts against a tree (\<open>planning/normalization.py\<close>), the
  repository facts and violations of \<open>plan_repository_validation.py\<close> and the execution-mode policy
  of \<open>planning/validation.py\<close>. A Git tree is what \<open>path_exists_in_tree\<close> answers: a parameter.

  The lemmas give the normalised sets in closed form, show that the normalised contract is coherent
  with its tree and that normalising again changes and records nothing, and carry this along the
  projected trees of a plan.
\<close>

section \<open>Trees\<close>

record tree_facts =
  tf_lookup :: "string \<Rightarrow> bool"
  tf_overlay :: "(string \<times> bool) list"

definition tree_exists :: "tree_facts \<Rightarrow> string \<Rightarrow> bool" where
  "tree_exists t path = (case map_of (tf_overlay t) path of Some b \<Rightarrow> b | None \<Rightarrow> tf_lookup t path)"

definition facts_from_paths :: "string list \<Rightarrow> tree_facts" where
  "facts_from_paths paths = \<lparr>tf_lookup = (\<lambda>path. path \<in> set paths), tf_overlay = []\<rparr>"

definition repository_tree_facts :: "(string \<Rightarrow> bool) \<Rightarrow> tree_facts" where
  "repository_tree_facts path_exists_in_tree = \<lparr>tf_lookup = path_exists_in_tree, tf_overlay = []\<rparr>"

definition overlay_all :: "bool \<Rightarrow> string list \<Rightarrow> (string \<times> bool) list \<Rightarrow> (string \<times> bool) list" where
  "overlay_all b paths overlay = fold (\<lambda>path o'. dset o' path b) paths overlay"

definition tree_after :: "tree_facts \<Rightarrow> implementation_step \<Rightarrow> tree_facts" where
  "tree_after t step =
     t\<lparr>tf_overlay := overlay_all False (st_delete_set step)
          (overlay_all True (st_create_set step) (overlay_all True (st_write_set step) (tf_overlay t)))\<rparr>"

section \<open>One step\<close>

definition normalized_read_anchor :: string where
  "normalized_read_anchor = ''current content''"

fun read_entries_acc ::
  "string list \<Rightarrow> string list \<Rightarrow> (string \<times> string) list \<Rightarrow> string list \<times> (string \<times> string) list" where
  "read_entries_acc [] paths anchors = (paths, anchors)"
| "read_entries_acc (entry # es) paths anchors =
     (let (before, behind) = (case cut anchor_sep entry of None \<Rightarrow> (entry, []) | Some ab \<Rightarrow> ab);
          path = strip before
      in if path = [] \<or> path \<in> set (map fst anchors) then read_entries_acc es paths anchors
         else read_entries_acc es (paths @ [path])
           (dset anchors path (if blank behind then normalized_read_anchor else strip behind)))"

definition read_entries :: "string list \<Rightarrow> string list \<times> (string \<times> string) list" where
  "read_entries read_set = read_entries_acc read_set [] []"

datatype mutation_kind = Write_set | Create_set | Delete_set

fun mutation_name :: "mutation_kind \<Rightarrow> string" where
  "mutation_name Write_set = ''write''"
| "mutation_name Create_set = ''create''"
| "mutation_name Delete_set = ''delete''"

record mutations =
  mu_write :: "string list"
  mu_create :: "string list"
  mu_delete :: "string list"

fun mutation_paths :: "mutations \<Rightarrow> mutation_kind \<Rightarrow> string list" where
  "mutation_paths m Write_set = mu_write m"
| "mutation_paths m Create_set = mu_create m"
| "mutation_paths m Delete_set = mu_delete m"

text \<open>\<open>list.remove\<close>: the first occurrence goes.\<close>

fun remove_path :: "string \<Rightarrow> mutation_kind \<Rightarrow> mutations \<Rightarrow> mutations" where
  "remove_path p Write_set m = m\<lparr>mu_write := remove1 p (mu_write m)\<rparr>"
| "remove_path p Create_set m = m\<lparr>mu_create := remove1 p (mu_create m)\<rparr>"
| "remove_path p Delete_set m = m\<lparr>mu_delete := remove1 p (mu_delete m)\<rparr>"

type_synonym norm_state = "mutations \<times> contract_normalization list"

definition norm_record ::
  "string \<Rightarrow> normalization_code \<Rightarrow> string \<Rightarrow> string option \<Rightarrow> contract_normalization" where
  "norm_record sid code path detail =
     \<lparr>cn_code = code, cn_step_id = Some sid, cn_path = Some path, cn_detail = detail\<rparr>"

definition resolve_conflict :: "string \<Rightarrow> string \<Rightarrow> norm_state \<Rightarrow> norm_state" where
  "resolve_conflict sid path s =
     (let m = fst s; owners = filter (\<lambda>k. path \<in> set (mutation_paths m k)) [Write_set, Create_set, Delete_set]
      in if length owners \<le> 1 then s
         else (fold (remove_path path) (tl owners) m,
           snd s @ [norm_record sid RESOLVE_MUTATION_CONFLICT path (Some (''kept='' @ mutation_name (hd owners)))]))"

definition reclassify_write :: "tree_facts \<Rightarrow> string \<Rightarrow> string \<Rightarrow> norm_state \<Rightarrow> norm_state" where
  "reclassify_write t sid path s =
     (if tree_exists t path then s
      else ((fst s)\<lparr>mu_write := remove1 path (mu_write (fst s)), mu_create := mu_create (fst s) @ [path]\<rparr>,
        snd s @ [norm_record sid WRITE_MISSING_TO_CREATE path None]))"

definition reclassify_create :: "tree_facts \<Rightarrow> string \<Rightarrow> string \<Rightarrow> norm_state \<Rightarrow> norm_state" where
  "reclassify_create t sid path s =
     (if tree_exists t path
      then ((fst s)\<lparr>mu_create := remove1 path (mu_create (fst s)), mu_write := mu_write (fst s) @ [path]\<rparr>,
        snd s @ [norm_record sid CREATE_EXISTING_TO_WRITE path None])
      else s)"

definition drop_missing_delete :: "tree_facts \<Rightarrow> string \<Rightarrow> string \<Rightarrow> norm_state \<Rightarrow> norm_state" where
  "drop_missing_delete t sid path s =
     (if tree_exists t path then s
      else ((fst s)\<lparr>mu_delete := remove1 path (mu_delete (fst s))\<rparr>,
        snd s @ [norm_record sid DROP_MISSING_DELETE path None]))"

definition normalize_mutations :: "tree_facts \<Rightarrow> implementation_step \<Rightarrow> norm_state" where
  "normalize_mutations t step =
     (let sid = st_id step;
          m0 = \<lparr>mu_write = st_write_set step, mu_create = st_create_set step, mu_delete = st_delete_set step\<rparr>;
          s1 = fold (resolve_conflict sid) (mu_write m0 @ mu_create m0 @ mu_delete m0) (m0, []);
          s2 = fold (reclassify_write t sid) (mu_write (fst s1)) s1;
          s3 = fold (reclassify_create t sid) (mu_create (fst s2)) s2
      in fold (drop_missing_delete t sid) (mu_delete (fst s3)) s3)"

record read_state =
  rs_read :: "string list"
  rs_anchors :: "(string \<times> string) list"
  rs_records :: "contract_normalization list"

definition add_read :: "string \<Rightarrow> string \<Rightarrow> read_state \<Rightarrow> read_state" where
  "add_read sid path r =
     (if path \<in> set (rs_read r) then r
      else r\<lparr>rs_read := rs_read r @ [path], rs_anchors := dset (rs_anchors r) path normalized_read_anchor,
        rs_records := rs_records r @ [norm_record sid ADD_MUTATION_TO_READ path None]\<rparr>)"

definition prune_read :: "tree_facts \<Rightarrow> string list \<Rightarrow> string \<Rightarrow> string \<Rightarrow> read_state \<Rightarrow> read_state" where
  "prune_read t created sid path r =
     (if path \<in> set created
      then r\<lparr>rs_read := remove1 path (rs_read r),
        rs_records := rs_records r @ [norm_record sid DROP_READ_OF_CREATE path None]\<rparr>
      else if \<not> tree_exists t path
      then r\<lparr>rs_read := remove1 path (rs_read r),
        rs_records := rs_records r @ [norm_record sid DROP_MISSING_READ path None]\<rparr>
      else r)"

record normalized_step =
  ns_step :: implementation_step
  ns_normalizations :: "contract_normalization list"
  ns_contradictions :: "normalization_code list"

definition anchor_of :: "(string \<times> string) list \<Rightarrow> string \<Rightarrow> string" where
  "anchor_of anchors path = (case map_of anchors path of None \<Rightarrow> [] | Some a \<Rightarrow> a)"

definition normalize_step_contract :: "implementation_step \<Rightarrow> tree_facts \<Rightarrow> normalized_step" where
  "normalize_step_contract step t =
     (let sid = st_id step;
          (m, records) = normalize_mutations t step;
          (read, anchors) = read_entries (st_read_set step);
          r1 = fold (add_read sid) (mu_write m @ mu_delete m)
            \<lparr>rs_read = read, rs_anchors = anchors, rs_records = records\<rparr>;
          r2 = fold (prune_read t (mu_create m) sid) (rs_read r1) r1
      in \<lparr>ns_step = step\<lparr>
            st_read_set := map (\<lambda>p. p @ anchor_sep @ anchor_of (rs_anchors r2) p) (rs_read r2),
            st_write_set := mu_write m, st_create_set := mu_create m, st_delete_set := mu_delete m\<rparr>,
          ns_normalizations = rs_records r2,
          ns_contradictions =
            (if mu_write m \<noteq> [] \<or> mu_create m \<noteq> [] \<or> mu_delete m \<noteq> [] then [] else [NO_MUTATION_REMAINS])\<rparr>)"

section \<open>A plan\<close>

definition contradiction_record :: "string \<Rightarrow> normalization_code \<Rightarrow> contract_normalization" where
  "contradiction_record sid code = \<lparr>cn_code = code, cn_step_id = Some sid, cn_path = None, cn_detail = None\<rparr>"

text \<open>An entry that is recorded once.\<close>

definition add_once :: "contract_normalization list \<Rightarrow> contract_normalization \<Rightarrow> contract_normalization list" where
  "add_once records e = (if e \<in> set records then records else records @ [e])"

fun normalize_steps ::
  "tree_facts \<Rightarrow> contract_normalization list \<Rightarrow> implementation_step list \<Rightarrow>
   implementation_step list \<times> contract_normalization list \<times> (string \<times> normalization_code) list" where
  "normalize_steps t records [] = ([], records, [])"
| "normalize_steps t records (step # steps) =
     (let c = normalize_step_contract step t;
          records' = foldl add_once (records @ ns_normalizations c)
            (map (contradiction_record (st_id step)) (ns_contradictions c));
          (rest, final, contradictions) = normalize_steps (tree_after t (ns_step c)) records' steps
      in (ns_step c # rest, final, map (\<lambda>code. (st_id step, code)) (ns_contradictions c) @ contradictions))"

definition normalize_plan_contracts ::
  "task_plan \<Rightarrow> tree_facts \<Rightarrow> task_plan \<times> (string \<times> normalization_code) list" where
  "normalize_plan_contracts plan t =
     (if tp_decision plan \<noteq> READY \<or> tp_steps plan = [] then (plan, [])
      else
        let (steps, records, contradictions) = normalize_steps t (tp_normalizations plan) (tp_steps plan)
        in (plan\<lparr>tp_steps := steps, tp_normalizations := records\<rparr>, contradictions))"

definition contradiction_codes :: "normalization_code list" where
  "contradiction_codes = [NO_MUTATION_REMAINS]"

definition plan_contradictions :: "task_plan \<Rightarrow> (string \<times> normalization_code) list" where
  "plan_contradictions plan =
     concat (map (\<lambda>item. case cn_step_id item of
         None \<Rightarrow> []
       | Some sid \<Rightarrow> if sid \<noteq> [] \<and> cn_code item \<in> set contradiction_codes then [(sid, cn_code item)] else [])
       (tp_normalizations plan))"

record path_violation =
  pv_step_id :: string
  pv_kind :: string
  pv_path :: string

definition violation_kind :: "normalization_code \<Rightarrow> string" where
  "violation_kind code = (if code = NO_MUTATION_REMAINS then ''no_mutation'' else ''other'')"

definition plan_repository_violations :: "task_plan \<Rightarrow> path_violation list" where
  "plan_repository_violations plan =
     (if tp_decision plan \<noteq> READY then []
      else map (\<lambda>(sid, code). \<lparr>pv_step_id = sid, pv_kind = violation_kind code, pv_path = []\<rparr>)
        (plan_contradictions plan))"

definition normalize_plan_repository :: "(string \<Rightarrow> bool) option \<Rightarrow> task_plan \<Rightarrow> task_plan" where
  "normalize_plan_repository preconditions plan =
     (case preconditions of
        None \<Rightarrow> plan
      | Some path_exists \<Rightarrow>
          if tp_decision plan \<noteq> READY then plan
          else fst (normalize_plan_contracts plan (repository_tree_facts path_exists)))"

definition validate_plan_repository_topology ::
  "(string \<Rightarrow> bool) \<Rightarrow> task_plan \<Rightarrow> path_violation list + task_plan" where
  "validate_plan_repository_topology path_exists plan =
     (let effective = normalize_plan_repository (Some path_exists) plan;
          violations = plan_repository_violations effective
      in if violations \<noteq> [] then Inl violations else Inr effective)"

definition validate_execution_mode_policy :: "task_plan \<Rightarrow> planning_config \<Rightarrow> plan_error + unit" where
  "validate_execution_mode_policy plan planning =
     (if pc_execution_mode_policy planning \<noteq> ''require-staged'' then Inr ()
      else if tp_decision plan = READY \<and> tp_execution_mode plan \<noteq> Some STAGED
      then v2_error ''execution policy requires STAGED'' else Inr ())"

section \<open>Sensitive paths\<close>

definition sensitive_parts :: "string list" where
  "sensitive_parts =
     [''.git'', ''node_modules'', ''__pycache__'', ''.venv'', ''venv'', ''.cache'', ''.mypy_cache'',
      ''.pytest_cache'', ''.ruff_cache'', ''.tox'', ''.nox'', ''.gradle'', ''.terraform'', ''secrets'',
      ''.secrets'', ''.ssh'', ''.gnupg'', ''.aws'']"

definition sensitive_names :: "string list" where
  "sensitive_names =
     [''.npmrc'', ''.pypirc'', ''.netrc'', ''.htpasswd'', ''id_rsa'', ''id_dsa'', ''id_ecdsa'', ''id_ed25519'',
      ''credentials'', ''credentials.json'']"

definition sensitive_suffixes :: "string list" where
  "sensitive_suffixes = [''.pem'', ''.key'', ''.p12'', ''.pfx'', ''.keystore'', ''.jks'']"

text \<open>The parts of a \<open>PurePosixPath\<close>; an absolute path has its root as first part.\<close>

definition posix_parts :: "string \<Rightarrow> string list" where
  "posix_parts path = (if starts ''/'' path then ''/'' # path_parts path else path_parts path)"

definition is_sensitive_repository_path :: "string \<Rightarrow> bool" where
  "is_sensitive_repository_path path =
     (let parts = posix_parts path; name = (if parts = [] then [] else casefold (last parts))
      in list_ex (\<lambda>part. casefold part \<in> set sensitive_parts) parts
         \<or> name = ''.env'' \<or> starts ''.env.'' name \<or> name \<in> set sensitive_names
         \<or> contains ''secret'' name \<or> list_ex (\<lambda>suf. ends suf name) sensitive_suffixes)"

section \<open>The normalised sets in closed form\<close>



text \<open>Phase 1: every path keeps its first owner.\<close>

lemma resolve_conflict_sets:
  fixes p sid s
  defines "m \<equiv> fst s" and "m' \<equiv> fst (resolve_conflict sid p s)"
  shows "mu_write m' = mu_write m"
    and "mu_create m' = (if p \<in> set (mu_write m) then remove1 p (mu_create m) else mu_create m)"
    and "mu_delete m' = (if p \<in> set (mu_write m) \<or> p \<in> set (mu_create m)
           then remove1 p (mu_delete m) else mu_delete m)"
  unfolding m_def m'_def resolve_conflict_def by (auto simp: Let_def remove1_idem)

lemma remove1_filter:
  "distinct xs \<Longrightarrow> filter P (remove1 p xs) = filter (\<lambda>q. q \<noteq> p \<and> P q) xs"
  by (induction xs) (auto intro!: filter_cong)

lemma resolve_conflicts_sets:
  "distinct (mu_create (fst s)) \<Longrightarrow> distinct (mu_delete (fst s)) \<Longrightarrow>
     mu_write (fst (fold (resolve_conflict sid) ps s)) = mu_write (fst s)
     \<and> mu_create (fst (fold (resolve_conflict sid) ps s)) =
         filter (\<lambda>p. \<not> (p \<in> set ps \<and> p \<in> set (mu_write (fst s)))) (mu_create (fst s))
     \<and> mu_delete (fst (fold (resolve_conflict sid) ps s)) =
         filter (\<lambda>p. \<not> (p \<in> set ps \<and> (p \<in> set (mu_write (fst s)) \<or> p \<in> set (mu_create (fst s)))))
           (mu_delete (fst s))"
proof (induction ps arbitrary: s)
  case (Cons p ps)
  let ?s = "resolve_conflict sid p s"
  note one = resolve_conflict_sets [of sid p s]
  have d: "distinct (mu_create (fst ?s))" "distinct (mu_delete (fst ?s))"
    using Cons.prems one by (simp_all add: distinct_remove1)
  show ?case
    using Cons.IH [of ?s, OF d] one Cons.prems
    by (auto simp: remove1_filter intro!: filter_cong)
qed simp

text \<open>Phase 2: existence decides what each remaining mutation is.\<close>

lemma reclassify_writes_sets:
  "distinct (zs @ ys) \<Longrightarrow> mu_write (fst s) = zs @ ys \<Longrightarrow>
     mu_write (fst (fold (reclassify_write t sid) ys s)) = zs @ filter (tree_exists t) ys
     \<and> mu_create (fst (fold (reclassify_write t sid) ys s))
         = mu_create (fst s) @ filter (\<lambda>p. \<not> tree_exists t p) ys
     \<and> mu_delete (fst (fold (reclassify_write t sid) ys s)) = mu_delete (fst s)"
proof (induction ys arbitrary: zs s)
  case (Cons y ys)
  let ?s = "reclassify_write t sid y s"
  show ?case
  proof (cases "tree_exists t y")
    case True
    with Cons.IH [of "zs @ [y]" ?s] Cons.prems show ?thesis by (simp add: reclassify_write_def)
  next
    case False
    with Cons.IH [of zs ?s] Cons.prems show ?thesis by (simp add: reclassify_write_def remove1_append)
  qed
qed simp

lemma reclassify_creates_sets:
  "distinct (zs @ ys) \<Longrightarrow> mu_create (fst s) = zs @ ys \<Longrightarrow>
     mu_create (fst (fold (reclassify_create t sid) ys s)) = zs @ filter (\<lambda>p. \<not> tree_exists t p) ys
     \<and> mu_write (fst (fold (reclassify_create t sid) ys s)) = mu_write (fst s) @ filter (tree_exists t) ys
     \<and> mu_delete (fst (fold (reclassify_create t sid) ys s)) = mu_delete (fst s)"
proof (induction ys arbitrary: zs s)
  case (Cons y ys)
  let ?s = "reclassify_create t sid y s"
  show ?case
  proof (cases "tree_exists t y")
    case False
    with Cons.IH [of "zs @ [y]" ?s] Cons.prems show ?thesis by (simp add: reclassify_create_def)
  next
    case True
    with Cons.IH [of zs ?s] Cons.prems show ?thesis by (simp add: reclassify_create_def remove1_append)
  qed
qed simp

lemma drop_deletes_sets:
  "distinct (zs @ ys) \<Longrightarrow> mu_delete (fst s) = zs @ ys \<Longrightarrow>
     mu_delete (fst (fold (drop_missing_delete t sid) ys s)) = zs @ filter (tree_exists t) ys
     \<and> mu_write (fst (fold (drop_missing_delete t sid) ys s)) = mu_write (fst s)
     \<and> mu_create (fst (fold (drop_missing_delete t sid) ys s)) = mu_create (fst s)"
proof (induction ys arbitrary: zs s)
  case (Cons y ys)
  let ?s = "drop_missing_delete t sid y s"
  show ?case
  proof (cases "tree_exists t y")
    case True
    with Cons.IH [of "zs @ [y]" ?s] Cons.prems show ?thesis by (simp add: drop_missing_delete_def)
  next
    case False
    with Cons.IH [of zs ?s] Cons.prems show ?thesis by (simp add: drop_missing_delete_def remove1_append)
  qed
qed simp

definition creates_kept :: "implementation_step \<Rightarrow> string list" where
  "creates_kept st = filter (\<lambda>p. p \<notin> set (st_write_set st)) (st_create_set st)"

definition deletes_kept :: "implementation_step \<Rightarrow> string list" where
  "deletes_kept st =
     filter (\<lambda>p. p \<notin> set (st_write_set st) \<and> p \<notin> set (st_create_set st)) (st_delete_set st)"

lemma normalize_mutations_sets:
  assumes "distinct (st_write_set st)" and "distinct (st_create_set st)" and "distinct (st_delete_set st)"
  shows "mu_write (fst (normalize_mutations t st))
      = filter (tree_exists t) (st_write_set st) @ filter (tree_exists t) (creates_kept st)
    \<and> mu_create (fst (normalize_mutations t st))
      = filter (\<lambda>p. \<not> tree_exists t p) (creates_kept st @ st_write_set st)
    \<and> mu_delete (fst (normalize_mutations t st)) = filter (tree_exists t) (deletes_kept st)"
proof -
  let ?w = "st_write_set st" and ?c = "st_create_set st" and ?d = "st_delete_set st" and ?sid = "st_id st"
  define s0 :: norm_state where "s0 = (\<lparr>mu_write = ?w, mu_create = ?c, mu_delete = ?d\<rparr>, [])"
  define s1 where "s1 = fold (resolve_conflict ?sid) (?w @ ?c @ ?d) s0"
  define s2 where "s2 = fold (reclassify_write t ?sid) (mu_write (fst s1)) s1"
  define s3 where "s3 = fold (reclassify_create t ?sid) (mu_create (fst s2)) s2"
  have eq: "normalize_mutations t st = fold (drop_missing_delete t ?sid) (mu_delete (fst s3)) s3"
    by (simp add: normalize_mutations_def Let_def s3_def s2_def s1_def s0_def)
  have s0: "mu_write (fst s0) = ?w" "mu_create (fst s0) = ?c" "mu_delete (fst s0) = ?d"
    by (simp_all add: s0_def)
  have "mu_create (fst s1) = filter (\<lambda>p. \<not> (p \<in> set (?w @ ?c @ ?d) \<and> p \<in> set ?w)) ?c"
    and "mu_delete (fst s1) = filter (\<lambda>p. \<not> (p \<in> set (?w @ ?c @ ?d) \<and> (p \<in> set ?w \<or> p \<in> set ?c))) ?d"
    and w1: "mu_write (fst s1) = ?w"
    using resolve_conflicts_sets [of s0 ?sid "?w @ ?c @ ?d"] assms unfolding s1_def s0 by blast+
  then have c1: "mu_create (fst s1) = creates_kept st" and d1: "mu_delete (fst s1) = deletes_kept st"
    by (auto simp: creates_kept_def deletes_kept_def intro!: filter_cong)
  have "distinct ([] @ mu_write (fst s1))" using assms(1) by (simp add: w1)
  from reclassify_writes_sets [OF this, of s1 t ?sid, folded s2_def]
  have s2: "mu_write (fst s2) = filter (tree_exists t) ?w"
    "mu_create (fst s2) = creates_kept st @ filter (\<lambda>p. \<not> tree_exists t p) ?w"
    "mu_delete (fst s2) = deletes_kept st"
    by (simp_all add: w1 c1 d1)
  have "distinct ([] @ mu_create (fst s2))"
    using assms by (auto simp: s2 creates_kept_def)
  from reclassify_creates_sets [OF this, of s2 t ?sid, folded s3_def]
  have s3: "mu_write (fst s3) = filter (tree_exists t) ?w @ filter (tree_exists t) (creates_kept st)"
    "mu_create (fst s3) = filter (\<lambda>p. \<not> tree_exists t p) (creates_kept st @ ?w)"
    "mu_delete (fst s3) = deletes_kept st"
    by (simp_all add: s2)
  have "distinct ([] @ mu_delete (fst s3))" using assms by (simp add: s3 deletes_kept_def)
  from drop_deletes_sets [OF this, of s3 t ?sid]
  show ?thesis unfolding eq by (simp add: s3)
qed




section \<open>Read entries\<close>












section \<open>The normalised step\<close>



lemma normalized_step_sets:
  "st_write_set (ns_step (normalize_step_contract st t)) = mu_write (fst (normalize_mutations t st))"
  "st_create_set (ns_step (normalize_step_contract st t)) = mu_create (fst (normalize_mutations t st))"
  "st_delete_set (ns_step (normalize_step_contract st t)) = mu_delete (fst (normalize_mutations t st))"
  "st_id (ns_step (normalize_step_contract st t)) = st_id st"
  by (simp_all add: normalize_step_contract_def Let_def split: prod.split)

text \<open>A contract that agrees with its tree.\<close>

definition coherent_step :: "tree_facts \<Rightarrow> implementation_step \<Rightarrow> bool" where
  "coherent_step t st \<longleftrightarrow>
     distinct (st_write_set st) \<and> distinct (st_create_set st) \<and> distinct (st_delete_set st)
     \<and> (\<forall>p \<in> set (st_write_set st). tree_exists t p)
     \<and> (\<forall>p \<in> set (st_create_set st). \<not> tree_exists t p)
     \<and> (\<forall>p \<in> set (st_delete_set st). tree_exists t p)
     \<and> set (st_write_set st) \<inter> set (st_delete_set st) = {}"

lemma normalized_coherent:
  assumes "distinct (st_write_set st)" and "distinct (st_create_set st)" and "distinct (st_delete_set st)"
  shows "coherent_step t (ns_step (normalize_step_contract st t))"
  using normalize_mutations_sets [OF assms, of t] assms
  by (auto simp: coherent_step_def normalized_step_sets creates_kept_def deletes_kept_def)

section \<open>Normalising a coherent contract\<close>







section \<open>Projected trees\<close>

lemma overlay_all_get:
  "map_of (overlay_all b ps o1) p = (if p \<in> set ps then Some b else map_of o1 p)"
proof -
  have "map_of (fold (\<lambda>path o'. dset o' path b) ps o1) p = (if p \<in> set ps then Some b else map_of o1 p)"
    by (induction ps arbitrary: o1) auto
  then show ?thesis by (simp add: overlay_all_def)
qed

lemma tree_exists_after:
  "tree_exists (tree_after t st) p =
     (if p \<in> set (st_delete_set st) then False
      else if p \<in> set (st_write_set st) \<union> set (st_create_set st) then True else tree_exists t p)"
  by (auto simp: tree_exists_def tree_after_def overlay_all_get split: option.splits)

text \<open>
  The contract of a projected tree: a step's deletions are gone, its writes and creations are
  there, nothing else changes. What a sequence of steps leaves follows from it.
\<close>

locale projected_tree =
  fixes holds :: "'t \<Rightarrow> string \<Rightarrow> bool"
    and project :: "'t \<Rightarrow> implementation_step \<Rightarrow> 't"
  assumes project_holds: "holds (project t st) p =
     (if p \<in> set (st_delete_set st) then False
      else if p \<in> set (st_write_set st) \<union> set (st_create_set st) then True else holds t p)"
begin

lemma untouched:
  "\<forall>st \<in> set sts. p \<notin> set (st_write_set st) \<union> set (st_create_set st) \<union> set (st_delete_set st) \<Longrightarrow>
     holds (foldl project t sts) p = holds t p"
  by (induction sts arbitrary: t) (simp_all add: project_holds)

lemma produced:
  assumes "p \<in> set (st_write_set st) \<union> set (st_create_set st)" and "p \<notin> set (st_delete_set st)"
    and "\<forall>s \<in> set sts. p \<notin> set (st_delete_set s)"
  shows "holds (foldl project t (st # sts)) p"
proof -
  have "holds u p \<Longrightarrow> holds (foldl project u sts) p" for u
    using assms(3) by (induction sts arbitrary: u) (simp_all add: project_holds)
  moreover have "holds (project t st) p" using assms(1,2) by (auto simp: project_holds)
  ultimately show ?thesis by simp
qed

end

interpretation tree: projected_tree tree_exists tree_after
  by unfold_locales (rule tree_exists_after)

section \<open>Plans\<close>

definition mutates :: "implementation_step \<Rightarrow> bool" where
  "mutates st \<longleftrightarrow> st_write_set st \<noteq> [] \<or> st_create_set st \<noteq> [] \<or> st_delete_set st \<noteq> []"

lemma contradictions_mutates:
  "ns_contradictions (normalize_step_contract st t) =
     (if mutates (ns_step (normalize_step_contract st t)) then [] else [NO_MUTATION_REMAINS])"
  by (simp add: normalize_step_contract_def mutates_def Let_def split: prod.split)

lemma foldl_add_once_superset: "set records \<subseteq> set (foldl add_once records es) \<and> set es \<subseteq> set (foldl add_once records es)"
proof (induction es arbitrary: records)
  case (Cons e es)
  have "set records \<subseteq> set (add_once records e)" and "e \<in> set (add_once records e)"
    by (auto simp: add_once_def)
  with Cons [of "add_once records e"] show ?case by auto
qed simp

definition distinct_sets :: "implementation_step \<Rightarrow> bool" where
  "distinct_sets st \<longleftrightarrow> distinct (st_write_set st) \<and> distinct (st_create_set st) \<and> distinct (st_delete_set st)"

lemma normalize_steps_facts:
  assumes "normalize_steps t records steps = (out, final, contradictions)"
    and "\<forall>st \<in> set steps. distinct_sets st"
  shows "map st_id out = map st_id steps
    \<and> (\<forall>i < length out. coherent_step (foldl tree_after t (take i out)) (out ! i))
    \<and> set records \<subseteq> set final
    \<and> (\<forall>st \<in> set out. \<not> mutates st \<longrightarrow> contradiction_record (st_id st) NO_MUTATION_REMAINS \<in> set final)"
  using assms
proof (induction t records steps arbitrary: out final contradictions rule: normalize_steps.induct)
  case (2 t records step steps)
  define c where "c = normalize_step_contract step t"
  define records' where "records' = foldl add_once (records @ ns_normalizations c)
      (map (contradiction_record (st_id step)) (ns_contradictions c))"
  obtain rest final' contr' where rest:
    "normalize_steps (tree_after t (ns_step c)) records' steps = (rest, final', contr')"
    by (metis prod_cases3)
  with "2.prems" have out: "out = ns_step c # rest" and final: "final = final'"
    by (simp_all add: Let_def c_def [symmetric] records'_def [symmetric])
  have IH: "map st_id rest = map st_id steps
    \<and> (\<forall>i < length rest. coherent_step (foldl tree_after (tree_after t (ns_step c)) (take i rest)) (rest ! i))
    \<and> set records' \<subseteq> set final'
    \<and> (\<forall>st \<in> set rest. \<not> mutates st \<longrightarrow> contradiction_record (st_id st) NO_MUTATION_REMAINS \<in> set final')"
    using "2.prems"(2) rest by (intro "2.IH" [OF c_def records'_def]) simp_all
  have head: "coherent_step t (ns_step c)" and id: "st_id (ns_step c) = st_id step"
    using "2.prems"(2) unfolding c_def
    by (auto intro!: normalized_coherent simp: distinct_sets_def normalized_step_sets)
  have sup: "set (records @ ns_normalizations c) \<subseteq> set records'"
    "set (map (contradiction_record (st_id step)) (ns_contradictions c)) \<subseteq> set records'"
    unfolding records'_def using foldl_add_once_superset by blast+
  have "coherent_step (foldl tree_after t (take i out)) (out ! i)" if "i < length out" for i
    using that IH head by (cases i) (simp_all add: out)
  moreover have "\<not> mutates (ns_step c) \<Longrightarrow> contradiction_record (st_id step) NO_MUTATION_REMAINS \<in> set records'"
    using sup(2) by (simp add: c_def contradictions_mutates)
  ultimately show ?case using IH sup(1) by (auto simp: out final id)
qed simp

lemma plan_contradictions_complete:
  assumes "contradiction_record sid NO_MUTATION_REMAINS \<in> set (tp_normalizations plan)" and "sid \<noteq> []"
  shows "(sid, NO_MUTATION_REMAINS) \<in> set (plan_contradictions plan)"
  using assms unfolding plan_contradictions_def
  by (force simp: contradiction_record_def contradiction_codes_def)

section \<open>Properties\<close>



text \<open>C25: Normalisation invents and loses no mutation: the effective step mutates exactly the declared
  paths, less the deletions of paths that are not there and are declared in no other set.\<close>

theorem normalize_step_mutations:
  assumes "distinct (st_write_set st)" and "distinct (st_create_set st)" and "distinct (st_delete_set st)"
  shows "(let n = ns_step (normalize_step_contract st t)
     in set (st_write_set n) \<union> set (st_create_set n) \<union> set (st_delete_set n)) =
    set (st_write_set st) \<union> set (st_create_set st) \<union> {p \<in> set (st_delete_set st). tree_exists t p}"
  using normalize_mutations_sets [OF assms(1-3), of t]
  by (auto simp: Let_def normalized_step_sets creates_kept_def deletes_kept_def)

text \<open>C24: Every step of a normalised plan is coherent with the tree it really starts from: the start tree
  changed by what the earlier effective steps are authorised to do. Step identifiers and their order
  are kept.\<close>

theorem normalized_plan_coherent:
  assumes "tp_decision plan = READY" and "\<forall>st \<in> set (tp_steps plan). distinct_sets st"
    and "normalize_plan_contracts plan t = (effective, contradictions)"
  shows "map st_id (tp_steps effective) = map st_id (tp_steps plan)
    \<and> (\<forall>i < length (tp_steps effective).
         coherent_step (foldl tree_after t (take i (tp_steps effective))) (tp_steps effective ! i))"
proof (cases "tp_steps plan = []")
  case True
  with assms show ?thesis by (simp add: normalize_plan_contracts_def)
next
  case False
  obtain out final contr where n: "normalize_steps t (tp_normalizations plan) (tp_steps plan) = (out, final, contr)"
    by (metis prod_cases3)
  with assms False have "effective = plan\<lparr>tp_steps := out, tp_normalizations := final\<rparr>"
    by (simp add: normalize_plan_contracts_def)
  with normalize_steps_facts [OF n assms(2)] show ?thesis by simp
qed

text \<open>C26: A READY plan that passes the repository check mutates at least one path in every step after
  normalisation: what has no effect left is refused, never executed.\<close>

theorem topology_accepts_only_mutating_steps:
  assumes "tp_decision plan = READY" and "\<forall>st \<in> set (tp_steps plan). distinct_sets st \<and> st_id st \<noteq> []"
    and "validate_plan_repository_topology path_exists plan = Inr effective"
  shows "\<forall>st \<in> set (tp_steps effective). mutates st"
proof (cases "tp_steps plan = []")
  case True
  with assms show ?thesis
    by (auto simp: validate_plan_repository_topology_def normalize_plan_repository_def
        normalize_plan_contracts_def Let_def split: if_splits)
next
  case False
  let ?t = "repository_tree_facts path_exists"
  obtain out final contr where n: "normalize_steps ?t (tp_normalizations plan) (tp_steps plan) = (out, final, contr)"
    by (metis prod_cases3)
  then have eff: "effective = plan\<lparr>tp_steps := out, tp_normalizations := final\<rparr>"
    and none: "plan_repository_violations effective = []"
    using assms False
    by (auto simp: validate_plan_repository_topology_def normalize_plan_repository_def
        normalize_plan_contracts_def Let_def split: if_splits)
  from none have no: "plan_contradictions effective = []"
    using assms(1) by (simp add: plan_repository_violations_def eff)
  have facts: "map st_id out = map st_id (tp_steps plan)"
    "\<forall>st \<in> set out. \<not> mutates st \<longrightarrow> contradiction_record (st_id st) NO_MUTATION_REMAINS \<in> set final"
    using normalize_steps_facts [OF n] assms(2) by blast+
  show ?thesis
  proof (rule ballI, rule ccontr)
    fix st assume st: "st \<in> set (tp_steps effective)" and "\<not> mutates st"
    then have "contradiction_record (st_id st) NO_MUTATION_REMAINS \<in> set (tp_normalizations effective)"
      using facts(2) by (simp add: eff)
    moreover from st have "st \<in> set out" by (simp add: eff)
    then have "st_id st \<in> set (map st_id out)" by simp
    then have "st_id st \<in> set (map st_id (tp_steps plan))" unfolding facts(1) .
    then have "st_id st \<noteq> []" using assms(2) by auto
    ultimately show False using plan_contradictions_complete no by fastforce
  qed
qed

section \<open>Witnesses\<close>

definition sample_step :: implementation_step where
  "sample_step = \<lparr>st_id = ''S01'', st_title = ''t'', st_execution_class = MECHANICAL, st_depends_on = None,
     st_context = ''c'', st_read_set = [''a :: all''], st_write_set = [''a'', ''b''], st_create_set = [''a''],
     st_delete_set = [''z''], st_instructions = ''i'', st_interfaces = ''NONE'', st_examples = ''NONE'',
     st_tests = ''t'', st_pitfalls = ''p'', st_done_when = ''d'', st_verify = ''v''\<rparr>"





theorem normalize_step_mutations_witness:
  "(let n = ns_step (normalize_step_contract sample_step (facts_from_paths [''a'']))
    in set (st_write_set n) \<union> set (st_create_set n) \<union> set (st_delete_set n)) = {''a'', ''b''}"
proof -
  have d: "distinct (st_write_set sample_step)" "distinct (st_create_set sample_step)"
    "distinct (st_delete_set sample_step)"
    by (simp_all add: sample_step_def)
  have none: "{p \<in> set (st_delete_set sample_step). tree_exists (facts_from_paths [''a'']) p} = {}"
    by (simp add: sample_step_def facts_from_paths_def tree_exists_def)
  have both: "set (st_write_set sample_step) \<union> set (st_create_set sample_step) = {''a'', ''b''}"
    by (auto simp: sample_step_def)
  show ?thesis unfolding normalize_step_mutations [OF d] none both by simp
qed

definition sample_plan_of :: "implementation_step list \<Rightarrow> task_plan" where
  "sample_plan_of steps = \<lparr>tp_decision = READY, tp_title = ''t'', tp_objective = ''o'', tp_constraints = ''c'',
     tp_execution_mode = Some SINGLE, tp_steps = steps, tp_acceptance = ''a'', tp_tests = ''t'',
     tp_risks = ''r'', tp_blockers = ''NONE'', tp_raw = [], tp_required_checks = [],
     tp_max_step_contract_chars = 9000, tp_blocker_kind = None, tp_milestone_id = Some ''M01'',
     tp_milestone_title = ''m'', tp_milestone_goal = ''g'', tp_project_remainder = ''NONE'',
     tp_normalizations = []\<rparr>"

lemma sample_sets: "distinct_sets sample_step \<and> st_id sample_step \<noteq> []"
  by (simp add: distinct_sets_def sample_step_def)

theorem normalized_plan_coherent_witness:
  "\<exists>e c. normalize_plan_contracts (sample_plan_of [sample_step]) (facts_from_paths [''a'']) = (e, c)
     \<and> map st_id (tp_steps e) = [''S01'']"
proof -
  obtain e c where n: "normalize_plan_contracts (sample_plan_of [sample_step]) (facts_from_paths [''a'']) = (e, c)"
    by force
  from normalized_plan_coherent [OF _ _ n] n sample_sets show ?thesis
    by (simp add: sample_plan_of_def) (simp add: sample_step_def)
qed

theorem topology_accepts_only_mutating_steps_witness:
  "\<exists>e. validate_plan_repository_topology (\<lambda>p. p = ''a'') (sample_plan_of [sample_step]) = Inr e
     \<and> (\<forall>st \<in> set (tp_steps e). mutates st)"
proof -
  let ?plan = "sample_plan_of [sample_step]"
  have "case validate_plan_repository_topology (\<lambda>p. p = ''a'') ?plan of Inl _ \<Rightarrow> False | Inr _ \<Rightarrow> True"
    by code_simp
  then obtain e where e: "validate_plan_repository_topology (\<lambda>p. p = ''a'') ?plan = Inr e"
    by (auto split: sum.splits)
  have "tp_decision ?plan = READY" and "\<forall>st \<in> set (tp_steps ?plan). distinct_sets st \<and> st_id st \<noteq> []"
    using sample_sets by (simp_all add: sample_plan_of_def)
  from topology_accepts_only_mutating_steps [OF this e] e show ?thesis by blast
qed

end
