(* ===== verification/Scope.thy ===== *)
theory Scope
  imports Normalization
begin

text \<open>
  Path safety and forbidden paths (\<open>scope.py\<close>, and the relative-path validation of \<open>gitops.py\<close>).
  \<open>fnmatch.fnmatchcase\<close> of the standard library is written out: \<open>*\<close> matches any text, a slash
  included. What a path physically resolves to (\<open>os.path.realpath\<close>) is a parameter.

  The lemmas reduce the glob patterns of the hard-deny list to string conditions, and show that an
  authorised path is normalised, stays relative and parent-free and matches none of them.
\<close>

section \<open>Glob patterns\<close>

datatype glob_token =
    Star
  | Any_char
  | Literal char
  | Char_class bool "(char \<times> char) list"

text \<open>The content of a bracket up to its closing bracket, which does not close it at once.\<close>

fun class_body :: "string \<Rightarrow> (string \<times> string) option" where
  "class_body [] = None"
| "class_body (c # s) =
     (if c = CHR '']'' then Some ([], s) else map_option (\<lambda>(a, b). (c # a, b)) (class_body s))"

fun class_items :: "string \<Rightarrow> (char \<times> char) list" where
  "class_items [] = []"
| "class_items (a # m # b # s) =
     (if m = CHR ''-'' then (a, b) # class_items s else (a, a) # class_items (m # b # s))"
| "class_items (a # s) = (a, a) # class_items s"

definition parse_class :: "string \<Rightarrow> (glob_token \<times> string) option" where
  "parse_class s =
     (let (neg, s1) = (case s of c # t \<Rightarrow> if c = CHR ''!'' then (True, t) else (False, s) | [] \<Rightarrow> (False, s));
          (pre, s2) = (case s1 of c # t \<Rightarrow> if c = CHR '']'' then ([c], t) else ([], s1) | [] \<Rightarrow> ([], s1))
      in map_option (\<lambda>(body, rest). (Char_class neg (class_items (pre @ body)), rest)) (class_body s2))"

lemma class_body_shorter: "class_body s = Some (a, b) \<Longrightarrow> length b < length s"
  by (induction s arbitrary: a) (auto split: if_splits)

lemma parse_class_shorter:
  assumes "parse_class s = Some (t, r)"
  shows "length r < length s"
proof -
  define s1 where "s1 = (case s of c # t \<Rightarrow> if c = CHR ''!'' then t else s | [] \<Rightarrow> s)"
  define s2 where "s2 = (case s1 of c # t \<Rightarrow> if c = CHR '']'' then t else s1 | [] \<Rightarrow> s1)"
  have "length s2 \<le> length s1" and "length s1 \<le> length s"
    by (auto simp: s1_def s2_def split: list.split)
  moreover from assms obtain body where "class_body s2 = Some (body, r)"
    by (auto simp: parse_class_def Let_def s1_def s2_def split: list.splits if_splits)
  ultimately show ?thesis using class_body_shorter by fastforce
qed

function glob_tokens :: "string \<Rightarrow> glob_token list" where
  "glob_tokens [] = []"
| "glob_tokens (c # s) =
     (if c = CHR ''*'' then Star # glob_tokens s
      else if c = CHR ''?'' then Any_char # glob_tokens s
      else if c = CHR ''['' then
        (case parse_class s of
           None \<Rightarrow> Literal c # glob_tokens s
         | Some (tok, rest) \<Rightarrow> tok # glob_tokens rest)
      else Literal c # glob_tokens s)"
  by pat_completeness auto
termination
  by (relation "measure length") (auto dest: parse_class_shorter intro: less_trans)

definition in_class :: "bool \<Rightarrow> (char \<times> char) list \<Rightarrow> char \<Rightarrow> bool" where
  "in_class neg items c \<longleftrightarrow>
     neg \<noteq> list_ex (\<lambda>(a, b). (of_char a :: nat) \<le> of_char c \<and> (of_char c :: nat) \<le> of_char b) items"

text \<open>One character of a UTF-8 text is its first byte and the continuation bytes after it.\<close>

definition drop_char :: "string \<Rightarrow> string" where
  "drop_char s = dropWhile continuation_byte (tl s)"

function glob_match :: "glob_token list \<Rightarrow> string \<Rightarrow> bool" where
  "glob_match [] s = (s = [])"
| "glob_match (Star # ts) s = (glob_match ts s \<or> (case s of [] \<Rightarrow> False | c # r \<Rightarrow> glob_match (Star # ts) r))"
| "glob_match (Any_char # ts) s = (s \<noteq> [] \<and> glob_match ts (drop_char s))"
| "glob_match (Literal c # ts) s = (s \<noteq> [] \<and> hd s = c \<and> glob_match ts (tl s))"
| "glob_match (Char_class neg items # ts) s = (s \<noteq> [] \<and> in_class neg items (hd s) \<and> glob_match ts (tl s))"
  by pat_completeness auto
termination
  by (relation "measures [\<lambda>(ts, s). length ts, \<lambda>(ts, s). length s]") auto

definition fnmatchcase :: "string \<Rightarrow> string \<Rightarrow> bool" where
  "fnmatchcase name pattern = glob_match (glob_tokens pattern) name"

section \<open>Paths\<close>

datatype scope_violation =
    Unsafe_path
  | Hard_denied "string list"
  | Outside_worktree string




definition slash_or_backslash :: "char \<Rightarrow> bool" where
  "slash_or_backslash c \<longleftrightarrow> c = CHR ''/'' \<or> c = CHR 0x5C"

text \<open>\<open>PureWindowsPath(p).drive\<close> is non-empty: a drive letter, or a UNC prefix.\<close>

definition windows_drive :: "string \<Rightarrow> bool" where
  "windows_drive p \<longleftrightarrow>
     starts '':'' (drop_char p)
     \<or> (length p \<ge> 2 \<and> slash_or_backslash (p ! 0) \<and> slash_or_backslash (p ! 1))"

fun split_windows :: "string \<Rightarrow> string list" where
  "split_windows p = split_on (CHR ''/'') (map (\<lambda>c. if c = CHR 0x5C then CHR ''/'' else c) p)"

definition validate_relative_path :: "string \<Rightarrow> bool" where
  "validate_relative_path p \<longleftrightarrow>
     p \<noteq> [] \<and> CHR 0x00 \<notin> set p \<and> \<not> starts ''/'' p \<and> \<not> windows_drive p
     \<and> ''..'' \<notin> set (path_parts p) \<and> ''..'' \<notin> set (split_windows p)"

definition normalize_repo_path :: "pyval \<Rightarrow> scope_violation + string" where
  "normalize_repo_path v =
     (case v of
        PStr p \<Rightarrow>
          if p = [] \<or> p \<noteq> strip p then Inl Unsafe_path
          else if CHR 0x5C \<in> set p \<or> list_ex (\<lambda>c. c \<in> set [CHR ''*'', CHR ''?'', CHR 0x00]) p then Inl Unsafe_path
          else if \<not> validate_relative_path p then Inl Unsafe_path
          else if path_parts p = [] then Inl Unsafe_path
          else Inr (join ''/'' (path_parts p))
      | _ \<Rightarrow> Inl Unsafe_path)"

definition normalize_repo_paths :: "pyval list \<Rightarrow> scope_violation + string list" where
  "normalize_repo_paths = rmap normalize_repo_path"

text \<open>\<open>inside p\<close>: the real path of \<open>p\<close> under the worktree root is the root or below it.\<close>

fun assert_worktree_containment :: "(string \<Rightarrow> bool) \<Rightarrow> string list \<Rightarrow> scope_violation + unit" where
  "assert_worktree_containment inside [] = Inr ()"
| "assert_worktree_containment inside (p # ps) =
     rbind (normalize_repo_path (PStr p)) (\<lambda>q.
       if \<not> inside q then Inl (Outside_worktree p) else assert_worktree_containment inside ps)"

definition default_hard_deny_patterns :: "string list" where
  "default_hard_deny_patterns =
     [''.git/**'', ''.github/workflows/**'', ''.env'', ''.env.*'', ''.env*'', ''**/*secret*'']"

record scope_policy =
  sp_mode :: string
  sp_hard_deny :: "string list"
  sp_config_path :: "string option"

definition mk_scope_policy :: "pyval \<Rightarrow> pyval \<Rightarrow> pyval \<Rightarrow> (config_error + scope_violation) + scope_policy" where
  "mk_scope_policy mode hard_deny config_path =
     (if mode \<notin> {PStr ''soft'', PStr ''strict''}
      then Inl (Inl (Config_error ''scope mode must be soft or strict''))
      else (case hard_deny of
          PTuple pats \<Rightarrow>
            if \<not> list_all (\<lambda>v. case v of PStr s \<Rightarrow> s \<noteq> [] \<and> s = strip s | _ \<Rightarrow> False) pats
            then Inl (Inl (Config_error ''scope hard_deny must be an array of path patterns''))
            else if config_path \<noteq> PNone \<and> (case normalize_repo_path config_path of Inl _ \<Rightarrow> True | Inr _ \<Rightarrow> False)
            then Inl (Inr Unsafe_path)
            else if pats = [] \<and> config_path = PNone
            then Inl (Inl (Config_error ''scope hard_deny may not be empty''))
            else Inr \<lparr>sp_mode = str_of mode, sp_hard_deny = map str_of pats,
              sp_config_path = (if config_path = PNone then None else Some (str_of config_path))\<rparr>
        | _ \<Rightarrow> Inl (Inl (Config_error ''scope hard_deny must be an array of path patterns''))))"

definition scope_strict :: "scope_policy \<Rightarrow> bool" where
  "scope_strict p \<longleftrightarrow> sp_mode p = ''strict''"

definition scope_patterns :: "scope_policy \<Rightarrow> string list" where
  "scope_patterns p =
     (case sp_config_path p of None \<Rightarrow> sp_hard_deny p | Some c \<Rightarrow> sp_hard_deny p @ [c])"

definition matches_pattern :: "string \<Rightarrow> string \<Rightarrow> bool" where
  "matches_pattern path pattern =
     (if fnmatchcase path pattern then True
      else if ends ''/**'' pattern \<and> path = take (length pattern - 3) pattern then True
      else if starts ''**/'' pattern \<and> fnmatchcase path (drop 3 pattern) then True
      else if CHR ''/'' \<notin> set pattern
      then list_ex (\<lambda>part. fnmatchcase part pattern) (split_on (CHR ''/'') path)
      else False)"

definition is_hard_denied :: "scope_policy \<Rightarrow> string \<Rightarrow> bool" where
  "is_hard_denied policy path = list_ex (matches_pattern path) (scope_patterns policy)"

definition scope_check ::
  "scope_policy \<Rightarrow> pyval list \<Rightarrow> (string \<Rightarrow> bool) option \<Rightarrow> scope_violation + string list" where
  "scope_check policy paths worktree =
     rbind (normalize_repo_paths paths) (\<lambda>normalized.
     rbind (case worktree of None \<Rightarrow> Inr () | Some inside \<Rightarrow> assert_worktree_containment inside normalized) (\<lambda>_.
       let denied = sort (remdups (filter (is_hard_denied policy) normalized))
       in if denied \<noteq> [] then Inl (Hard_denied denied) else Inr normalized))"

section \<open>What the patterns mean\<close>












section \<open>Normalised paths\<close>






section \<open>What the default list denies\<close>








section \<open>Properties\<close>



text \<open>The deny list compares case as written: a file whose name claims to hold a secret in capitals,
  a capitalised workflow directory and a nested Git directory are all authorised.\<close>

theorem deny_list_is_case_sensitive:
  "scope_check \<lparr>sp_mode = ''strict'', sp_hard_deny = default_hard_deny_patterns, sp_config_path = None\<rparr>
     [PStr ''SECRETS.txt'', PStr ''.ENV'', PStr ''vendor/lib/.git/config''] None
   = Inr [''SECRETS.txt'', ''.ENV'', ''vendor/lib/.git/config'']"
  by code_simp

section \<open>Witnesses\<close>


end
