(* ===== verification/GitBoundary.thy ===== *)
theory GitBoundary
  imports Scope
begin

text \<open>
  The Git boundary of \<open>gitops.py\<close>: run branch names, the accepted-commit chain, the commit
  primitive, the fast-forward publication and the deletion of a run branch. Git itself is a record of
  functions on a repository state, one per command the source runs; \<open>git_laws\<close> states what their
  documentation promises (a compare-and-swap \<open>update-ref\<close>, a push that moves no local branch).

  The lemmas show that a validated chain is linear and agrees with its records, and that publication
  moves the base branch only by a compare-and-swap from the reviewed base to the reviewed commit.
\<close>

datatype git_error =
    Git_error string
  | Base_moved string
  | Base_push_failed bool
  | Chain_too_long

section \<open>Run branch names\<close>

definition is_object_id :: "string \<Rightarrow> bool" where
  "is_object_id s \<longleftrightarrow> (length s = 40 \<or> length s = 64) \<and> list_all is_hex s"

definition branch_char :: "char \<Rightarrow> bool" where
  "branch_char c \<longleftrightarrow> is_alnum c \<or> c \<in> set ''_.-''"

definition branch_component :: "string \<Rightarrow> bool" where
  "branch_component s \<longleftrightarrow> s \<noteq> [] \<and> is_alnum (hd s) \<and> length s \<le> 60 \<and> list_all branch_char s"

definition validate_run_branch :: "string \<Rightarrow> string option \<Rightarrow> git_error + string" where
  "validate_run_branch branch base_ref =
     (if (case split_on (CHR ''/'') branch of
            [h, a, b] \<Rightarrow> h = ''harness'' \<and> branch_component a \<and> branch_component b
          | _ \<Rightarrow> False)
      then (if branch \<in> set [''main'', ''master'', ''tag'']
              \<or> (case base_ref of None \<Rightarrow> False | Some b \<Rightarrow> b \<noteq> [] \<and> branch = b)
            then Inl (Git_error ''run branch is a protected branch name'') else Inr branch)
      else Inl (Git_error ''run branch is outside the MetaHarness namespace''))"

text \<open>\<open>re.sub(r"[^...]+", "-", s)\<close>: every maximal run of other characters becomes one dash.\<close>

fun squeeze :: "(char \<Rightarrow> bool) \<Rightarrow> bool \<Rightarrow> string \<Rightarrow> string" where
  "squeeze keep after_run [] = []"
| "squeeze keep after_run (c # s) =
     (if keep c then c # squeeze keep False s
      else if after_run then squeeze keep True s
      else CHR ''-'' # squeeze keep True s)"

definition strip_chars :: "string \<Rightarrow> string \<Rightarrow> string" where
  "strip_chars cs s = rev (dropWhile (\<lambda>c. c \<in> set cs) (rev (dropWhile (\<lambda>c. c \<in> set cs) s)))"

definition rstrip_chars :: "string \<Rightarrow> string \<Rightarrow> string" where
  "rstrip_chars cs s = rev (dropWhile (\<lambda>c. c \<in> set cs) (rev s))"

definition plan_slug_component :: "string \<Rightarrow> string" where
  "plan_slug_component slug =
     (let s = take 60 (strip_chars ''-'' (squeeze is_alnum False (casefold slug)))
      in if s = [] then ''task'' else s)"

definition run_id_component :: "(string \<Rightarrow> string) \<Rightarrow> string \<Rightarrow> string" where
  "run_id_component sha256 run_id =
     (let raw = strip run_id;
          c0 = strip_chars ''.-'' (squeeze branch_char False raw);
          c1 = (if c0 = [] then ''run'' else c0)
      in if length c1 > 60 \<or> c1 \<noteq> raw \<or> c1 \<in> set [''.'', ''..''] \<or> ends ''.lock'' c1
         then
           let digest = take 12 (sha256 run_id);
               c2 = rstrip_chars ''.-'' (take 47 c1) @ ''-'' @ digest;
               c3 = dropWhile (\<lambda>c. c \<in> set ''.-'') c2
           in (if c3 = [] then ''run-'' @ digest else c3)
         else c1)"

definition build_run_branch :: "(string \<Rightarrow> string) \<Rightarrow> string \<Rightarrow> string \<Rightarrow> git_error + string" where
  "build_run_branch sha256 plan_slug run_id =
     (if blank plan_slug then Inl (Git_error ''plan slug must be a non-empty string'')
      else if blank run_id then Inl (Git_error ''run id must be a non-empty string'')
      else validate_run_branch
        (''harness/'' @ plan_slug_component plan_slug @ ''/'' @ run_id_component sha256 run_id) None)"

section \<open>Git as a parameter\<close>

record 'g git =
  g_ref_commit :: "'g \<Rightarrow> string \<Rightarrow> string option"
  g_parents :: "'g \<Rightarrow> string \<Rightarrow> string list option"
  g_tree :: "'g \<Rightarrow> string \<Rightarrow> string option"
  g_is_ancestor :: "'g \<Rightarrow> string \<Rightarrow> string \<Rightarrow> bool"
  g_is_tree_object :: "'g \<Rightarrow> string \<Rightarrow> bool"
  g_head :: "'g \<Rightarrow> string"
  g_symbolic_head :: "'g \<Rightarrow> string option"
  g_commit_tree :: "'g \<Rightarrow> string \<Rightarrow> string \<Rightarrow> string \<Rightarrow> string \<Rightarrow> ('g \<times> string) option"
  g_update_ref :: "'g \<Rightarrow> string \<Rightarrow> string \<Rightarrow> string \<Rightarrow> 'g option"
  g_push :: "'g \<Rightarrow> string \<Rightarrow> string \<Rightarrow> string \<Rightarrow> 'g option"
  g_remote_tip :: "'g \<Rightarrow> string \<Rightarrow> string \<Rightarrow> string option"
  g_delete_remote :: "'g \<Rightarrow> string \<Rightarrow> string \<Rightarrow> 'g option"
  g_valid_remote :: "'g \<Rightarrow> string \<Rightarrow> bool"
  g_valid_branch :: "'g \<Rightarrow> string \<Rightarrow> bool"

definition heads :: "string \<Rightarrow> string" where
  "heads branch = ''refs/heads/'' @ branch"

text \<open>What the Git documentation promises of the three commands that write something.\<close>

definition git_laws :: "'g git \<Rightarrow> bool" where
  "git_laws git \<longleftrightarrow>
     (\<forall>g ref new old g'. g_update_ref git g ref new old = Some g' \<longrightarrow>
        g_ref_commit git g ref = Some old \<and> g_ref_commit git g' ref = Some new)
     \<and> (\<forall>g b new old g'. g_update_ref git g (heads b) new old = Some g' \<longrightarrow>
        (\<forall>b'. b' \<noteq> b \<longrightarrow> g_ref_commit git g' (heads b') = g_ref_commit git g (heads b')))
     \<and> (\<forall>g remote c ref g'. g_push git g remote c ref = Some g' \<longrightarrow>
        (\<forall>b. g_ref_commit git g' (heads b) = g_ref_commit git g (heads b)))
     \<and> (\<forall>g t p s b g' c. g_commit_tree git g t p s b = Some (g', c) \<longrightarrow>
        (\<forall>r. g_ref_commit git g' r = g_ref_commit git g r))"

section \<open>The accepted chain\<close>

text \<open>
  The walk from the tip back to the base, oldest commit first in the result. The fuel bounds the
  number of commits: the commit graph of a repository is finite and acyclic.
\<close>

fun walk_chain :: "'g git \<Rightarrow> 'g \<Rightarrow> string \<Rightarrow> nat \<Rightarrow> string \<Rightarrow> string list \<Rightarrow> git_error + string list" where
  "walk_chain git g base fuel current acc =
     (if current = base then Inr acc
      else (case fuel of
          0 \<Rightarrow> Inl Chain_too_long
        | Suc n \<Rightarrow> (case g_parents git g current of
            None \<Rightarrow> Inl (Git_error ''commit object is unreadable'')
          | Some [p] \<Rightarrow> walk_chain git g base n p (current # acc)
          | Some _ \<Rightarrow> Inl (Git_error ''accepted chain contains a merge commit or root''))))"

declare walk_chain.simps [simp del]

text \<open>The fields of one durable record; \<open>tree_after\<close> is preferred to \<open>tree_sha\<close> when it is present.\<close>

record commit_record =
  cr_commit_sha :: pyval
  cr_tree :: pyval
  cr_parent_sha :: pyval
  cr_tree_before :: pyval

definition commit_record_of :: "pyval \<Rightarrow> commit_record option" where
  "commit_record_of item =
     (case item of
        PDict d \<Rightarrow> Some \<lparr>cr_commit_sha = dget d ''commit_sha'',
          cr_tree = dget_or d ''tree_after'' (dget d ''tree_sha''),
          cr_parent_sha = dget d ''parent_sha'', cr_tree_before = dget d ''tree_before''\<rparr>
      | _ \<Rightarrow> None)"

definition object_id_value :: "pyval \<Rightarrow> bool" where
  "object_id_value v \<longleftrightarrow> (case v of PStr s \<Rightarrow> is_object_id s | _ \<Rightarrow> False)"

definition check_record ::
  "'g git \<Rightarrow> 'g \<Rightarrow> string \<Rightarrow> string list \<Rightarrow> commit_record \<Rightarrow> git_error + string" where
  "check_record git g parent expected r =
     (if \<not> object_id_value (cr_commit_sha r) then Inl (Git_error ''accepted commit record has an invalid commit SHA'')
      else if \<not> object_id_value (cr_tree r) then Inl (Git_error ''accepted commit record has an invalid tree SHA'')
      else
        let c = str_of (cr_commit_sha r)
        in if cr_parent_sha r \<noteq> PStr parent \<or> (case expected of [] \<Rightarrow> True | e # _ \<Rightarrow> c \<noteq> e)
           then Inl (Git_error ''accepted commit record does not match the durable chain'')
           else if g_parents git g c \<noteq> Some [parent] \<or> g_tree git g c \<noteq> Some (str_of (cr_tree r))
           then Inl (Git_error ''accepted commit record has the wrong parent or tree'')
           else if cr_tree_before r \<noteq> PNone
             \<and> (case g_tree git g parent of None \<Rightarrow> True | Some t \<Rightarrow> cr_tree_before r \<noteq> PStr t)
           then Inl (Git_error ''accepted commit record has the wrong tree_before'')
           else Inr c)"

text \<open>The records are followed along the chain; what is left of it must be used up.\<close>

fun check_records ::
  "'g git \<Rightarrow> 'g \<Rightarrow> string \<Rightarrow> string list \<Rightarrow> pyval list \<Rightarrow> git_error + unit" where
  "check_records git g parent expected [] =
     (if expected = [] then Inr ()
      else Inl (Git_error ''durable accepted records do not cover the complete chain''))"
| "check_records git g parent expected (item # items) =
     (case commit_record_of item of
        None \<Rightarrow> Inl (Git_error ''accepted commit record is malformed'')
      | Some r \<Rightarrow> rbind (check_record git g parent expected r) (\<lambda>c.
          check_records git g c (tl expected) items))"

definition validate_linear_commit_chain ::
  "'g git \<Rightarrow> nat \<Rightarrow> 'g \<Rightarrow> string \<Rightarrow> string \<Rightarrow> pyval list \<Rightarrow> string option \<Rightarrow> git_error + string list" where
  "validate_linear_commit_chain git fuel g base_sha tip_sha records approved_tree =
     (if \<not> is_object_id base_sha then Inl (Git_error ''base_sha must be a complete object ID'')
      else if \<not> is_object_id tip_sha then Inl (Git_error ''tip_sha must be a complete object ID'')
      else if \<not> g_is_ancestor git g base_sha tip_sha
      then Inl (Git_error ''base commit is not an ancestor of the accepted tip'')
      else
        rbind (walk_chain git g base_sha fuel tip_sha []) (\<lambda>commits.
        rbind (if records = [] then Inr () else check_records git g base_sha commits records) (\<lambda>_.
        case approved_tree of
          None \<Rightarrow> Inr commits
        | Some t \<Rightarrow>
            if \<not> is_object_id t then Inl (Git_error ''approved_tree_sha must be a complete object ID'')
            else if g_tree git g tip_sha \<noteq> Some t
            then Inl (Git_error ''accepted tip tree differs from the approved tree'')
            else Inr commits)))"

section \<open>Committing a tree\<close>

definition commit_tree ::
  "'g git \<Rightarrow> 'g \<Rightarrow> string \<Rightarrow> string \<Rightarrow> string \<Rightarrow> string \<Rightarrow> string \<Rightarrow> git_error + ('g \<times> string)" where
  "commit_tree git g tree_sha parent_sha subject body reflog_message =
     (let s = strip subject; r = strip reflog_message
      in if \<not> is_object_id tree_sha then Inl (Git_error ''tree_sha must be a complete object ID'')
         else if \<not> is_object_id parent_sha then Inl (Git_error ''parent_sha must be a complete object ID'')
         else if s = [] then Inl (Git_error ''commit subject must be non-empty'')
         else if CHR 0x0A \<in> set s \<or> py_len s > 72
         then Inl (Git_error ''commit subject must be one line of at most 72 characters'')
         else if r = [] \<or> CHR 0x0A \<in> set r
         then Inl (Git_error ''reflog message must be a non-empty single line'')
         else if \<not> g_is_tree_object git g tree_sha then Inl (Git_error ''accepted tree object does not exist'')
         else if g_tree git g parent_sha = None then Inl (Git_error ''git command failed'')
         else if g_tree git g parent_sha = Some tree_sha
         then Inl (Git_error ''no changes to commit for accepted tree'')
         else (case g_commit_tree git g tree_sha parent_sha s body of
             None \<Rightarrow> Inl (Git_error ''git command failed'')
           | Some (g1, c) \<Rightarrow>
               if \<not> is_object_id c then Inl (Git_error ''git commit-tree returned no commit object ID'')
               else (case g_update_ref git g1 ''HEAD'' c parent_sha of
                   None \<Rightarrow> Inl (Git_error ''git command failed'')
                 | Some g2 \<Rightarrow>
                     if g_head git g2 \<noteq> c then Inl (Git_error ''HEAD does not point to the harness commit'')
                     else if g_tree git g2 c \<noteq> Some tree_sha
                     then Inl (Git_error ''committed tree differs from the candidate tree'')
                     else Inr (g2, c))))"

definition commit_step_tree ::
  "'g git \<Rightarrow> 'g \<Rightarrow> string \<Rightarrow> string \<Rightarrow> string \<Rightarrow> string \<Rightarrow> string \<Rightarrow> git_error + ('g \<times> string)" where
  "commit_step_tree git g tree_sha parent_sha sid title body =
     commit_tree git g tree_sha parent_sha (py_take 72 (''metaharness('' @ sid @ ''): '' @ title)) body
       (''metaharness: accept step '' @ sid)"

section \<open>Publishing\<close>

definition push_run_branch ::
  "'g git \<Rightarrow> 'g \<Rightarrow> string \<Rightarrow> string \<Rightarrow> string \<Rightarrow> git_error + 'g" where
  "push_run_branch git g remote branch commit_sha =
     (if \<not> g_valid_remote git g remote then Inl (Git_error ''remote is invalid'')
      else rbind (validate_run_branch branch None) (\<lambda>_.
        if \<not> is_object_id commit_sha then Inl (Git_error ''commit_sha must be a complete object ID'')
        else if g_symbolic_head git g \<noteq> Some (heads branch)
        then Inl (Git_error ''current branch does not match the run branch'')
        else if g_head git g \<noteq> commit_sha then Inl (Git_error ''HEAD does not match the commit to publish'')
        else (case g_push git g remote commit_sha (heads branch) of
            None \<Rightarrow> Inl (Git_error ''git push failed'') | Some g' \<Rightarrow> Inr g')))"

definition delete_run_branch ::
  "'g git \<Rightarrow> 'g \<Rightarrow> string \<Rightarrow> string \<Rightarrow> string \<Rightarrow> string option \<Rightarrow> git_error + ('g \<times> string)" where
  "delete_run_branch git g remote branch expected_sha base_ref =
     (if \<not> g_valid_remote git g remote then Inl (Git_error ''remote is invalid'')
      else rbind (validate_run_branch branch base_ref) (\<lambda>_.
        if \<not> is_object_id expected_sha then Inl (Git_error ''expected_commit_sha must be a complete object ID'')
        else (case g_remote_tip git g remote branch of
            None \<Rightarrow> Inr (g, ''already_absent'')
          | Some tip \<Rightarrow>
              if tip \<noteq> expected_sha
              then Inl (Git_error ''remote run branch no longer points to the published candidate'')
              else (case g_delete_remote git g remote branch of
                  None \<Rightarrow> Inl (Git_error ''git push --delete failed'')
                | Some g' \<Rightarrow>
                    if g_remote_tip git g' remote branch \<noteq> None
                    then Inl (Git_error ''remote run branch was not deleted'')
                    else Inr (g', ''success'')))))"

definition base_branch_name :: "string \<Rightarrow> bool" where
  "base_branch_name b \<longleftrightarrow>
     b \<noteq> [] \<and> b \<noteq> ''HEAD'' \<and> \<not> starts ''-'' b \<and> \<not> starts ''refs/'' b \<and> CHR 0x00 \<notin> set b \<and> \<not> list_ex ws b"

text \<open>The parent contract of a publication without accepted records.\<close>

definition check_direct_parent ::
  "'g git \<Rightarrow> 'g \<Rightarrow> string \<Rightarrow> string \<Rightarrow> string \<Rightarrow> string \<Rightarrow> git_error + unit" where
  "check_direct_parent git g base_sha commit_sha approved_tree parent =
     (if g_parents git g commit_sha \<noteq> Some [parent] then Inl (Git_error ''run commit parent is not the expected parent'')
      else if parent \<noteq> base_sha \<and> g_parents git g parent \<noteq> Some [base_sha]
      then Inl (Git_error ''expected candidate parent is not a direct child of the run base'')
      else if g_tree git g commit_sha \<noteq> Some approved_tree
      then Inl (Git_error ''run commit tree is not the approved tree'') else Inr ())"

record publish_request =
  pr_remote :: string
  pr_base_branch :: string
  pr_base_sha :: string
  pr_commit_sha :: string
  pr_approved_tree :: string
  pr_run_branch :: string
  pr_expected_parent :: "string option"
  pr_accepted_commits :: "pyval list option"

definition check_publication :: "'g git \<Rightarrow> nat \<Rightarrow> 'g \<Rightarrow> publish_request \<Rightarrow> git_error + unit" where
  "check_publication git fuel g req =
     (case pr_accepted_commits req of
        Some records \<Rightarrow>
          rbind (validate_linear_commit_chain git fuel g (pr_base_sha req) (pr_commit_sha req) records
                   (Some (pr_approved_tree req))) (\<lambda>chain.
            if chain = [] then Inl (Git_error ''accepted chain is empty'') else Inr ())
      | None \<Rightarrow>
          check_direct_parent git g (pr_base_sha req) (pr_commit_sha req) (pr_approved_tree req)
            (case pr_expected_parent req of None \<Rightarrow> pr_base_sha req | Some p \<Rightarrow> p))"

definition check_publish_request :: "'g git \<Rightarrow> 'g \<Rightarrow> publish_request \<Rightarrow> git_error + unit" where
  "check_publish_request git g req =
     (if \<not> g_valid_remote git g (pr_remote req) then Inl (Git_error ''remote is invalid'')
      else if \<not> base_branch_name (pr_base_branch req) \<or> \<not> g_valid_branch git g (pr_base_branch req)
      then Inl (Git_error ''base branch name is invalid'')
      else rbind (validate_run_branch (pr_run_branch req) (Some (pr_base_branch req))) (\<lambda>_.
        if \<not> list_all is_object_id [pr_base_sha req, pr_commit_sha req, pr_approved_tree req]
          \<or> (case pr_expected_parent req of None \<Rightarrow> False | Some p \<Rightarrow> \<not> is_object_id p)
        then Inl (Git_error ''must be a complete object ID'') else Inr ()))"

definition local_base :: "publish_request \<Rightarrow> string" where
  "local_base req = heads (pr_base_branch req)"

definition tracking_base :: "publish_request \<Rightarrow> string" where
  "tracking_base req = ''refs/remotes/'' @ pr_remote req @ ''/'' @ pr_base_branch req"

text \<open>Moving the local base branch and pushing it; every error carries the repository it leaves.\<close>

definition push_base :: "'g git \<Rightarrow> 'g \<Rightarrow> publish_request \<Rightarrow> (git_error \<times> 'g) + ('g \<times> bool)" where
  "push_base git g req =
     (case g_push git g (pr_remote req) (pr_commit_sha req) (local_base req) of
        None \<Rightarrow> Inl (Base_push_failed True, g)
      | Some g' \<Rightarrow> Inr (g', True))"

definition move_base ::
  "'g git \<Rightarrow> 'g \<Rightarrow> publish_request \<Rightarrow> string \<Rightarrow> string \<Rightarrow> (git_error \<times> 'g) + ('g \<times> bool)" where
  "move_base git g req local tracking =
     (if local \<noteq> pr_commit_sha req \<and> local \<noteq> pr_base_sha req
      then Inl (Base_moved ''local base branch moved since the run started'', g)
      else if local = pr_commit_sha req \<and> tracking = pr_commit_sha req then Inr (g, False)
      else if tracking \<noteq> pr_base_sha req
      then Inl (Base_moved ''remote base branch moved since the run started'', g)
      else if local = pr_commit_sha req then push_base git g req
      else (case g_update_ref git g (local_base req) (pr_commit_sha req) (pr_base_sha req) of
          None \<Rightarrow> Inl (Base_moved ''local base branch moved since the run started'', g)
        | Some g1 \<Rightarrow>
            if g_ref_commit git g1 (local_base req) \<noteq> Some (pr_commit_sha req)
            then Inl (Base_moved ''local base branch moved since the run started'', g1)
            else push_base git g1 req))"

text \<open>\<open>Inr (g', pushed)\<close> is the result of a publication.\<close>

definition publish_fast_forward_base ::
  "'g git \<Rightarrow> nat \<Rightarrow> 'g \<Rightarrow> publish_request \<Rightarrow> (git_error \<times> 'g) + ('g \<times> bool)" where
  "publish_fast_forward_base git fuel g req =
     (case check_publish_request git g req of
        Inl e \<Rightarrow> Inl (e, g)
      | Inr _ \<Rightarrow> (case g_ref_commit git g (local_base req) of
          None \<Rightarrow> Inl (Git_error ''local base branch does not exist'', g)
        | Some local \<Rightarrow> (case g_ref_commit git g (tracking_base req) of
            None \<Rightarrow> Inl (Git_error ''remote-tracking base branch is unavailable'', g)
          | Some tracking \<Rightarrow> (case check_publication git fuel g req of
              Inl e \<Rightarrow> Inl (e, g)
            | Inr _ \<Rightarrow>
                if g_ref_commit git g (heads (pr_run_branch req)) \<noteq> Some (pr_commit_sha req)
                then Inl (Git_error ''run branch does not point to the run commit'', g)
                else move_base git g req local tracking))))"

section \<open>Status records\<close>

text \<open>The entries of \<open>git status --porcelain=v1 -z\<close>; a rename or a copy is followed by its source.\<close>

fun status_entries :: "string list \<Rightarrow> (string \<times> string) list \<Rightarrow> (string \<times> string) list" where
  "status_entries [] acc = acc"
| "status_entries (r # rs) acc =
     (if length r < 4 then status_entries rs acc
      else
        let code = take 2 r; acc' = dset acc (drop 3 r) code
        in if CHR ''R'' \<in> set code \<or> CHR ''C'' \<in> set code
           then (case rs of [] \<Rightarrow> acc' | src # rs' \<Rightarrow> status_entries rs' (dset acc' src code))
           else status_entries rs acc')"

definition status_changed_paths :: "string list \<Rightarrow> string list \<Rightarrow> string set" where
  "status_changed_paths before behind =
     (let b = map_of (status_entries before []); a = map_of (status_entries behind [])
      in {p \<in> dom b \<union> dom a. b p \<noteq> a p})"

record candidate_state =
  cd_head :: string
  cd_head_ref :: "string option"
  cd_index_tree :: string
  cd_candidate_tree :: string
  cd_status :: "string list"
  cd_branches :: "string set"
  cd_worktrees :: "string set"

definition candidate_ownership_matches :: "candidate_state \<Rightarrow> candidate_state \<Rightarrow> bool" where
  "candidate_ownership_matches b a \<longleftrightarrow>
     cd_head b = cd_head a \<and> cd_head_ref b = cd_head_ref a \<and> cd_branches b = cd_branches a
     \<and> cd_worktrees b = cd_worktrees a"

section \<open>Lemmas of branch names\<close>

text \<open>The reference form of a branch name: the namespace and its two components.\<close>

definition harness_branch :: "string \<Rightarrow> bool" where
  "harness_branch b \<longleftrightarrow>
     (\<exists>a c. b = ''harness/'' @ a @ ''/'' @ c \<and> branch_component a \<and> branch_component c)"

lemma squeeze_chars: "c \<in> set (squeeze keep r s) \<Longrightarrow> keep c \<or> c = CHR ''-''"
  by (induction keep r s rule: squeeze.induct) (auto split: if_splits)

lemma squeeze_id: "list_all keep s \<Longrightarrow> squeeze keep r s = s"
  by (induction s arbitrary: r) auto

lemma set_strip_chars: "set (strip_chars cs s) \<subseteq> set s"
  unfolding strip_chars_def by (metis set_dropWhileD set_rev subsetI)

lemma set_rstrip_chars: "set (rstrip_chars cs s) \<subseteq> set s"
  unfolding rstrip_chars_def by (metis set_dropWhileD set_rev subsetI)

lemma hd_rev_dropWhile_rev:
  "xs \<noteq> [] \<Longrightarrow> \<not> P (hd xs) \<Longrightarrow>
   rev (dropWhile P (rev xs)) \<noteq> [] \<and> hd (rev (dropWhile P (rev xs))) = hd xs"
  by (cases xs) (auto simp: dropWhile_append)

lemma hd_strip_chars:
  assumes "strip_chars cs s \<noteq> []"
  shows "hd (strip_chars cs s) \<notin> set cs"
proof -
  let ?t = "dropWhile (\<lambda>c. c \<in> set cs) s"
  from assms have "?t \<noteq> []" by (auto simp: strip_chars_def dest: set_dropWhileD)
  moreover from this have "hd ?t \<notin> set cs" using hd_dropWhile[of "\<lambda>c. c \<in> set cs" s] by simp
  ultimately show ?thesis
    using hd_rev_dropWhile_rev[of ?t "\<lambda>c. c \<in> set cs"] by (simp add: strip_chars_def)
qed

lemma hd_strip_chars_keep:
  "s \<noteq> [] \<Longrightarrow> hd s \<notin> set cs \<Longrightarrow> strip_chars cs s \<noteq> [] \<and> hd (strip_chars cs s) = hd s"
  using hd_rev_dropWhile_rev[of s "\<lambda>c. c \<in> set cs"]
  by (cases s) (simp_all add: strip_chars_def)

lemma hd_rstrip_chars_keep:
  "s \<noteq> [] \<Longrightarrow> hd s \<notin> set cs \<Longrightarrow> rstrip_chars cs s \<noteq> [] \<and> hd (rstrip_chars cs s) = hd s"
  unfolding rstrip_chars_def by (rule hd_rev_dropWhile_rev)

lemma dash_not_alnum: "\<not> is_alnum (CHR ''-'')"
  by (simp add: is_alnum_def is_digit_def is_upper_def is_lower_def)

lemma branch_char_not_slash: "branch_char c \<Longrightarrow> c \<noteq> CHR ''/''"
  by (auto simp: branch_char_def is_alnum_def is_digit_def is_upper_def is_lower_def)

lemma alnum_branch_char: "is_alnum c \<Longrightarrow> branch_char c"
  by (simp add: branch_char_def)

lemma branch_char_dash: "branch_char (CHR ''-'')" "branch_char (CHR ''.'')"
  by (simp_all add: branch_char_def)

lemma component_no_slash: "branch_component a \<Longrightarrow> CHR ''/'' \<notin> set a"
  by (auto simp: branch_component_def list_all_iff dest: branch_char_not_slash)

lemma slug_component:
  assumes "\<not> blank s"
  shows "branch_component (plan_slug_component s)"
proof -
  let ?t = "strip_chars ''-'' (squeeze is_alnum False (casefold s))"
  have chars: "c \<in> set ?t \<Longrightarrow> is_alnum c \<or> c = CHR ''-''" for c
    using set_strip_chars[of "''-''"] squeeze_chars[of c is_alnum] by blast
  show ?thesis
  proof (cases "?t = []")
    case True
    then show ?thesis
      by (simp add: plan_slug_component_def branch_component_def branch_char_def is_alnum_def
          is_digit_def is_upper_def is_lower_def)
  next
    case False
    then have "hd ?t \<noteq> CHR ''-''" using hd_strip_chars by fastforce
    with False have "is_alnum (hd ?t)" using chars[OF hd_in_set] by blast
    then show ?thesis using False chars
      by (auto simp: plan_slug_component_def branch_component_def list_all_iff hd_take
          dest!: in_set_takeD intro: alnum_branch_char branch_char_dash)
  qed
qed


lemma validate_run_branch_ok:
  assumes "branch_component a" and "branch_component b"
  shows "validate_run_branch (''harness/'' @ a @ ''/'' @ b) None = Inr (''harness/'' @ a @ ''/'' @ b)"
proof -
  have "split_on (CHR ''/'') (''harness'' @ CHR ''/'' # a @ CHR ''/'' # b) = [''harness'', a, b]"
    using assms split_on_append[of "CHR ''/''"] component_no_slash by (simp add: split_on_plain)
  then show ?thesis using assms by (simp add: validate_run_branch_def)
qed

text \<open>The digest is the hexadecimal text \<open>hashlib.sha256\<close> documents.\<close>

definition hex_digest :: "(string \<Rightarrow> string) \<Rightarrow> bool" where
  "hex_digest sha256 \<longleftrightarrow> (\<forall>s. length (sha256 s) = 64 \<and> list_all is_hex (sha256 s))"

lemma hex_alnum: "is_hex c \<Longrightarrow> is_alnum c"
  by (auto simp: is_hex_def is_alnum_def is_digit_def is_lower_def)

lemma run_component:
  assumes sha: "hex_digest sha256" and id: "\<not> blank run_id" "is_alnum (hd (strip run_id))"
  shows "branch_component (run_id_component sha256 run_id)"
proof -
  let ?raw = "strip run_id" and ?d = "take 12 (sha256 run_id)"
  let ?core = "strip_chars ''.-'' (squeeze branch_char False (strip run_id))"
  from id have raw: "?raw \<noteq> []" by simp
  then have sq: "squeeze branch_char False ?raw \<noteq> []" "hd (squeeze branch_char False ?raw) = hd ?raw"
    using id(2) alnum_branch_char by (cases ?raw; simp)+
  have nd: "hd ?raw \<notin> set ''.-''"
    using id(2) by (auto simp: is_alnum_def is_digit_def is_upper_def is_lower_def)
  have c0: "?core \<noteq> []" "hd ?core = hd ?raw"
    using hd_strip_chars_keep[of "squeeze branch_char False ?raw" "''.-''"] sq nd by auto
  have chars: "c \<in> set ?core \<Longrightarrow> branch_char c" for c
    using set_strip_chars[of "''.-''"] squeeze_chars[of c branch_char False ?raw] branch_char_dash(1) by blast
  have dig: "list_all branch_char ?d" "length ?d = 12"
    using sha by (auto simp: hex_digest_def list_all_iff dest!: in_set_takeD intro: alnum_branch_char hex_alnum)
  let ?c = "rstrip_chars ''.-'' (take 47 ?core)"
  have t47: "take 47 ?core \<noteq> []" "hd (take 47 ?core) = hd ?raw"
    using c0 by (simp_all only: hd_take) simp_all
  from hd_rstrip_chars_keep[OF t47(1)] t47(2) nd
  have c47: "?c \<noteq> []" "hd ?c = hd ?raw" by metis+
  have "length ?c \<le> 47" unfolding rstrip_chars_def using length_dropWhile_le order_trans
    by (metis length_rev length_take min.cobounded2)
  moreover have "list_all branch_char ?c"
    using set_rstrip_chars[of "''.-''" "take 47 ?core"] chars in_set_takeD by (fastforce simp: list_all_iff)
  ultimately have digested: "branch_component (?c @ ''-'' @ ?d)"
    using c47 id(2) dig branch_char_dash(1) by (simp add: branch_component_def)
  have dw: "dropWhile (\<lambda>c. c \<in> set ''.-'') (?c @ ''-'' @ ?d) = ?c @ ''-'' @ ?d"
    using c47 nd by (cases ?c) auto
  have short: "length ?core \<le> 60 \<Longrightarrow> branch_component ?core"
    using c0 chars id(2) by (auto simp: branch_component_def list_all_iff)
  have "run_id_component sha256 run_id =
      (if length ?core > 60 \<or> ?core \<noteq> ?raw \<or> ?core \<in> set [''.'', ''..''] \<or> ends ''.lock'' ?core
       then ?c @ ''-'' @ ?d else ?core)"
    unfolding run_id_component_def Let_def
    by (simp only: c0(1) dw append_is_Nil_conv c47(1) if_False simp_thms)
  then have "run_id_component sha256 run_id = ?c @ ''-'' @ ?d
      \<or> length ?core \<le> 60 \<and> run_id_component sha256 run_id = ?core"
    by (metis not_less)
  then show ?thesis using digested short by metis
qed


text \<open>A run identifier that starts with an underscore is kept, and the branch is then refused.\<close>

lemma leading_underscore_is_refused:
  "build_run_branch sha256 ''task'' ''_run'' = Inl (Git_error ''run branch is outside the MetaHarness namespace'')"
  by code_simp

section \<open>Lemmas of the chain\<close>

text \<open>The specification: every commit of the list has the one before it as its only parent.\<close>

fun linear_chain :: "'g git \<Rightarrow> 'g \<Rightarrow> string \<Rightarrow> string list \<Rightarrow> string \<Rightarrow> bool" where
  "linear_chain git g from [] tip = (from = tip)"
| "linear_chain git g from (c # cs) tip = (g_parents git g c = Some [from] \<and> linear_chain git g c cs tip)"

lemma linear_chain_append:
  "linear_chain git g a (xs @ ys) c \<longleftrightarrow> (\<exists>b. linear_chain git g a xs b \<and> linear_chain git g b ys c)"
  by (induction xs arbitrary: a) auto

lemma linear_chain_last: "linear_chain git g a xs b \<Longrightarrow> xs \<noteq> [] \<Longrightarrow> last xs = b"
  by (induction xs arbitrary: a) (auto split: if_splits)

lemma walk_chain_sound:
  "walk_chain git g base fuel current acc = Inr cs \<Longrightarrow> linear_chain git g current acc tip \<Longrightarrow>
   linear_chain git g base cs tip"
  by (induction fuel arbitrary: current acc)
     (auto simp: walk_chain.simps[of git g base _ current] walk_chain.simps
       split: if_splits option.splits list.splits)

lemma walk_chain_base: "walk_chain git g base fuel base acc = Inr acc"
  by (simp add: walk_chain.simps)

lemma walk_chain_complete:
  "linear_chain git g base xs current \<Longrightarrow> base \<notin> set xs \<Longrightarrow> length xs \<le> fuel \<Longrightarrow>
   walk_chain git g base fuel current acc = Inr (xs @ acc)"
proof (induction xs arbitrary: current acc fuel rule: rev_induct)
  case Nil
  then show ?case by (simp add: walk_chain_base)
next
  case (snoc c xs)
  then obtain p where p: "linear_chain git g base xs p" "g_parents git g c = Some [p]" "current = c"
    by (auto simp: linear_chain_append)
  obtain n where n: "fuel = Suc n" using snoc.prems(3) by (cases fuel) auto
  have "walk_chain git g base n p (c # acc) = Inr (xs @ c # acc)"
    using snoc p(1) n by auto
  then show ?case using p n snoc.prems(2) by (subst walk_chain.simps) auto
qed

definition recorded_commit :: "pyval \<Rightarrow> string" where
  "recorded_commit item = (case commit_record_of item of None \<Rightarrow> [] | Some r \<Rightarrow> str_of (cr_commit_sha r))"

definition recorded_tree :: "pyval \<Rightarrow> string" where
  "recorded_tree item = (case commit_record_of item of None \<Rightarrow> [] | Some r \<Rightarrow> str_of (cr_tree r))"

lemma check_record_Inr:
  "check_record git g parent expected r = Inr c \<Longrightarrow>
     c = str_of (cr_commit_sha r) \<and> (\<exists>es. expected = c # es) \<and> g_tree git g c = Some (str_of (cr_tree r))"
  by (cases expected) (auto simp: check_record_def Let_def split: if_splits)

lemma check_records_sound:
  "check_records git g parent expected items = Inr () \<Longrightarrow>
     map recorded_commit items = expected
   \<and> (\<forall>i \<in> set items. g_tree git g (recorded_commit i) = Some (recorded_tree i))"
proof (induction items arbitrary: parent expected)
  case (Cons i items)
  then obtain r c where r: "commit_record_of i = Some r" "check_record git g parent expected r = Inr c"
    and rest: "check_records git g c (tl expected) items = Inr ()"
    by (auto split: option.splits)
  from check_record_Inr [OF r(2)] Cons.IH [OF rest] r(1) show ?case
    by (auto simp: recorded_commit_def recorded_tree_def)
qed (simp split: if_splits)

lemma validated_chain:
  "validate_linear_commit_chain git fuel g base tip rs approved = Inr cs \<longleftrightarrow>
     is_object_id base \<and> is_object_id tip \<and> g_is_ancestor git g base tip
   \<and> walk_chain git g base fuel tip [] = Inr cs
   \<and> (rs = [] \<or> check_records git g base cs rs = Inr ())
   \<and> (\<forall>t. approved = Some t \<longrightarrow> is_object_id t \<and> g_tree git g tip = Some t)"
  by (auto simp: validate_linear_commit_chain_def split: if_splits option.splits)


section \<open>Lemmas of publication\<close>

lemma update_ref_law:
  "git_laws git \<Longrightarrow> g_update_ref git g ref new old = Some g' \<Longrightarrow>
     g_ref_commit git g ref = Some old \<and> g_ref_commit git g' ref = Some new"
  unfolding git_laws_def by metis

lemma update_head_law:
  "git_laws git \<Longrightarrow> g_update_ref git g (heads b) new old = Some g' \<Longrightarrow> b' \<noteq> b \<Longrightarrow>
     g_ref_commit git g' (heads b') = g_ref_commit git g (heads b')"
  unfolding git_laws_def by metis

lemma push_law:
  "git_laws git \<Longrightarrow> g_push git g remote c ref = Some g' \<Longrightarrow>
     g_ref_commit git g' (heads b) = g_ref_commit git g (heads b)"
  unfolding git_laws_def by metis

lemma commit_tree_law:
  "git_laws git \<Longrightarrow> g_commit_tree git g t p s b = Some (g', c) \<Longrightarrow>
     g_ref_commit git g' r = g_ref_commit git g r"
  unfolding git_laws_def by metis

lemma commit_then_swap:
  "git_laws git \<Longrightarrow> g_commit_tree git g t p s b = Some (g1, c) \<Longrightarrow> g_update_ref git g1 ref new old = Some g2 \<Longrightarrow>
     g_ref_commit git g ref = Some old \<and> g_ref_commit git g2 ref = Some new"
  by (metis commit_tree_law update_ref_law)

lemma heads_inj [simp]: "heads a = heads b \<longleftrightarrow> a = b"
  by (simp add: heads_def)

lemma move_base_Inr:
  "git_laws git \<Longrightarrow> g_ref_commit git g (local_base req) = Some local \<Longrightarrow>
   move_base git g req local tracking = Inr (g', pushed) \<Longrightarrow>
     local \<in> {pr_base_sha req, pr_commit_sha req} \<and> tracking \<in> {pr_base_sha req, pr_commit_sha req}
   \<and> g_ref_commit git g' (local_base req) = Some (pr_commit_sha req)
   \<and> (\<forall>b. b \<noteq> pr_base_branch req \<longrightarrow> g_ref_commit git g' (heads b) = g_ref_commit git g (heads b))"
  by (auto simp: move_base_def push_base_def local_base_def push_law update_head_law
      dest: update_ref_law split: if_splits option.splits)

lemma move_base_Inl:
  "git_laws git \<Longrightarrow> g_ref_commit git g (local_base req) = Some local \<Longrightarrow>
   move_base git g req local tracking = Inl (e, g') \<Longrightarrow>
     g' = g \<and> (\<exists>m. e = Base_moved m)
   \<or> e = Base_push_failed True \<and> g_ref_commit git g' (local_base req) = Some (pr_commit_sha req)
     \<and> local \<in> {pr_base_sha req, pr_commit_sha req}
     \<and> (\<forall>b. b \<noteq> pr_base_branch req \<longrightarrow> g_ref_commit git g' (heads b) = g_ref_commit git g (heads b))"
  by (auto simp: move_base_def push_base_def local_base_def update_head_law
      dest: update_ref_law split: if_splits option.splits)

lemma publish_Inr:
  "publish_fast_forward_base git fuel g req = Inr (g', pushed) \<longleftrightarrow>
     (\<exists>local tracking. check_publish_request git g req = Inr ()
   \<and> g_ref_commit git g (local_base req) = Some local
   \<and> g_ref_commit git g (tracking_base req) = Some tracking
   \<and> check_publication git fuel g req = Inr ()
   \<and> g_ref_commit git g (heads (pr_run_branch req)) = Some (pr_commit_sha req)
   \<and> move_base git g req local tracking = Inr (g', pushed))"
  by (auto simp: publish_fast_forward_base_def split: if_splits option.splits sum.splits)

lemma publish_Inl:
  "publish_fast_forward_base git fuel g req = Inl (e, g') \<Longrightarrow>
     g' = g \<or> (\<exists>local tracking. g_ref_commit git g (local_base req) = Some local
        \<and> check_publication git fuel g req = Inr ()
        \<and> g_ref_commit git g (heads (pr_run_branch req)) = Some (pr_commit_sha req)
        \<and> move_base git g req local tracking = Inl (e, g'))"
  by (auto simp: publish_fast_forward_base_def split: if_splits option.splits sum.splits)

lemma publication_chain:
  "check_publication git fuel g req = Inr () \<Longrightarrow>
     g_tree git g (pr_commit_sha req) = Some (pr_approved_tree req)
   \<and> (\<exists>cs. cs \<noteq> [] \<and> linear_chain git g (pr_base_sha req) cs (pr_commit_sha req))"
proof (cases "pr_accepted_commits req")
  case None
  assume "check_publication git fuel g req = Inr ()"
  moreover define p where "p = (case pr_expected_parent req of None \<Rightarrow> pr_base_sha req | Some p \<Rightarrow> p)"
  ultimately have "check_direct_parent git g (pr_base_sha req) (pr_commit_sha req) (pr_approved_tree req) p = Inr ()"
    using None by (simp add: check_publication_def)
  then have "g_tree git g (pr_commit_sha req) = Some (pr_approved_tree req)
    \<and> linear_chain git g (pr_base_sha req)
        (if p = pr_base_sha req then [pr_commit_sha req] else [p, pr_commit_sha req]) (pr_commit_sha req)"
    by (auto simp: check_direct_parent_def split: if_splits)
  then show ?thesis by (metis list.discI)
next
  case (Some records)
  assume "check_publication git fuel g req = Inr ()"
  with Some obtain cs where "cs \<noteq> []" and v: "validate_linear_commit_chain git fuel g
      (pr_base_sha req) (pr_commit_sha req) records (Some (pr_approved_tree req)) = Inr cs"
    by (auto simp: check_publication_def split: if_splits)
  then show ?thesis
    using walk_chain_sound[of git g _ fuel _ "[]"] by (auto simp: validated_chain)
qed


text \<open>A commit lands on HEAD by a compare-and-swap from its parent, with the tree that was asked for.\<close>

lemma commit_tree_Inr:
  "git_laws git \<Longrightarrow> commit_tree git g tree parent subject body reflog = Inr (g', c) \<Longrightarrow>
     g_ref_commit git g ''HEAD'' = Some parent \<and> g_ref_commit git g' ''HEAD'' = Some c
   \<and> g_tree git g' c = Some tree \<and> g_tree git g parent \<noteq> Some tree \<and> is_object_id c"
  unfolding commit_tree_def Let_def
  by (auto dest: commit_then_swap split: if_splits option.splits)

text \<open>The durable records the run writes for a chain of its own commits.\<close>

fun records_of :: "'g git \<Rightarrow> 'g \<Rightarrow> string \<Rightarrow> string list \<Rightarrow> pyval list" where
  "records_of git g parent [] = []"
| "records_of git g parent (c # cs) =
     PDict [(''commit_sha'', PStr c),
       (''tree_after'', PStr (case g_tree git g c of None \<Rightarrow> [] | Some t \<Rightarrow> t)),
       (''parent_sha'', PStr parent),
       (''tree_before'', case g_tree git g parent of None \<Rightarrow> PNone | Some t \<Rightarrow> PStr t)]
     # records_of git g c cs"

definition commit_objects :: "'g git \<Rightarrow> 'g \<Rightarrow> string list \<Rightarrow> bool" where
  "commit_objects git g cs \<longleftrightarrow>
     list_all (\<lambda>c. is_object_id c \<and> (case g_tree git g c of None \<Rightarrow> False | Some t \<Rightarrow> is_object_id t)) cs"

lemma check_records_of:
  "linear_chain git g parent cs tip \<Longrightarrow> commit_objects git g cs \<Longrightarrow>
   check_records git g parent cs (records_of git g parent cs) = Inr ()"
  by (induction cs arbitrary: parent)
     (auto simp: commit_objects_def object_id_value_def commit_record_of_def check_record_def Let_def
       dget_def dget_or_def split: option.splits)

section \<open>A small repository\<close>

text \<open>
  A repository for the witnesses: three commits in a line, the references as a map, a swap that
  compares, and a remote that takes every push.
\<close>

definition oid :: "char \<Rightarrow> string" where
  "oid c = replicate 40 c"

definition small_parents :: "(string \<times> string list) list" where
  "small_parents = [(oid (CHR ''1''), []), (oid (CHR ''2''), [oid (CHR ''1'')]), (oid (CHR ''3''), [oid (CHR ''2'')])]"

definition small_trees :: "(string \<times> string) list" where
  "small_trees = [(oid (CHR ''1''), oid (CHR ''a'')), (oid (CHR ''2''), oid (CHR ''b'')),
     (oid (CHR ''3''), oid (CHR ''c''))]"

definition small_git :: "bool \<Rightarrow> (string \<Rightarrow> string option) git" where
  "small_git online =
     \<lparr>g_ref_commit = (\<lambda>g r. g r), g_parents = (\<lambda>g c. map_of small_parents c),
      g_tree = (\<lambda>g c. map_of small_trees c), g_is_ancestor = (\<lambda>g a b. True),
      g_is_tree_object = (\<lambda>g t. t \<in> set (map snd small_trees)),
      g_head = (\<lambda>g. case g ''HEAD'' of None \<Rightarrow> [] | Some c \<Rightarrow> c),
      g_symbolic_head = (\<lambda>g. None), g_commit_tree = (\<lambda>g t p s b. None),
      g_update_ref = (\<lambda>g r new old. if g r = Some old then Some (g(r \<mapsto> new)) else None),
      g_push = (\<lambda>g remote c r. if online then Some g else None),
      g_remote_tip = (\<lambda>g remote b. None), g_delete_remote = (\<lambda>g remote b. None),
      g_valid_remote = (\<lambda>g remote. remote = ''origin''), g_valid_branch = (\<lambda>g b. b = ''main'')\<rparr>"

lemma small_git_laws: "git_laws (small_git online)"
  by (auto simp: git_laws_def small_git_def split: if_splits)

definition small_refs :: "string \<Rightarrow> string option" where
  "small_refs = [heads ''main'' \<mapsto> oid (CHR ''1''), ''refs/remotes/origin/main'' \<mapsto> oid (CHR ''1''),
     heads ''harness/task/run'' \<mapsto> oid (CHR ''3'')]"

definition small_request :: publish_request where
  "small_request =
     \<lparr>pr_remote = ''origin'', pr_base_branch = ''main'', pr_base_sha = oid (CHR ''1''),
      pr_commit_sha = oid (CHR ''3''), pr_approved_tree = oid (CHR ''c''),
      pr_run_branch = ''harness/task/run'', pr_expected_parent = None,
      pr_accepted_commits =
        Some (records_of (small_git True) small_refs (oid (CHR ''1'')) [oid (CHR ''2''), oid (CHR ''3'')])\<rparr>"

lemma small_publication_runs:
  "(case publish_fast_forward_base (small_git True) 8 small_refs small_request of
      Inl _ \<Rightarrow> False | Inr (_, pushed) \<Rightarrow> pushed)"
  by code_simp

lemma small_publication:
  "\<exists>g'. publish_fast_forward_base (small_git True) 8 small_refs small_request = Inr (g', True)"
  using small_publication_runs by (auto split: sum.splits)

lemma small_failure_runs:
  "(case publish_fast_forward_base (small_git False) 8 small_refs small_request of
      Inl (Base_push_failed b, _) \<Rightarrow> b | _ \<Rightarrow> False)"
  by code_simp

lemma small_failure:
  "\<exists>g'. publish_fast_forward_base (small_git False) 8 small_refs small_request = Inl (Base_push_failed True, g')"
  using small_failure_runs by (auto split: sum.splits git_error.splits)

section \<open>Properties\<close>

text \<open>C20: an accepted chain is linear. Whatever records it is given, a chain that
  \<open>validate_linear_commit_chain\<close> returns leads from the base to the tip by single parents, oldest
  first; when records are given they are exactly its commits in order with the trees Git holds; and
  an approved tree is the tree of the tip.\<close>

theorem validated_chain_is_linear:
  assumes "validate_linear_commit_chain git fuel g base tip records approved = Inr cs"
  shows "linear_chain git g base cs tip
    \<and> (records \<noteq> [] \<longrightarrow> map recorded_commit records = cs
        \<and> (\<forall>r \<in> set records. g_tree git g (recorded_commit r) = Some (recorded_tree r)))
    \<and> (\<forall>t. approved = Some t \<longrightarrow> g_tree git g tip = Some t)"
  using assms walk_chain_sound[of git g base fuel tip "[]" cs tip] check_records_sound[of git g base cs records]
  by (auto simp: validated_chain)

theorem validated_chain_is_linear_witness:
  "linear_chain (small_git True) small_refs (oid (CHR ''1'')) [oid (CHR ''2''), oid (CHR ''3'')] (oid (CHR ''3''))"
proof -
  have "validate_linear_commit_chain (small_git True) 8 small_refs (oid (CHR ''1'')) (oid (CHR ''3''))
      (the (pr_accepted_commits small_request)) (Some (oid (CHR ''c''))) = Inr [oid (CHR ''2''), oid (CHR ''3'')]"
    by code_simp
  then show ?thesis by (rule validated_chain_is_linear[THEN conjunct1])
qed

text \<open>C21: every linear chain is accepted with the records of its own commits. When the base is an
  ancestor of the tip by single parents and the objects are complete, the walk reaches the base
  within as many steps as the chain has commits, and the records written for these commits agree.\<close>

theorem own_chain_validates:
  assumes "is_object_id base" and "is_object_id tip" and "g_is_ancestor git g base tip"
    and "linear_chain git g base cs tip" and "base \<notin> set cs" and "length cs \<le> fuel"
    and "commit_objects git g cs" and "\<forall>t. approved = Some t \<longrightarrow> is_object_id t \<and> g_tree git g tip = Some t"
  shows "validate_linear_commit_chain git fuel g base tip (records_of git g base cs) approved = Inr cs"
  using assms walk_chain_complete[of git g base cs tip fuel "[]"] check_records_of[of git g base cs tip]
  by (cases approved) (auto simp: validated_chain validate_linear_commit_chain_def)

theorem own_chain_validates_witness:
  "validate_linear_commit_chain (small_git True) 2 small_refs (oid (CHR ''1'')) (oid (CHR ''3''))
     (records_of (small_git True) small_refs (oid (CHR ''1'')) [oid (CHR ''2''), oid (CHR ''3'')])
     (Some (oid (CHR ''c''))) = Inr [oid (CHR ''2''), oid (CHR ''3'')]"
  by (rule own_chain_validates; (simp only: option.inject simp_thms)?; code_simp)

text \<open>C3: what publication promises when it returns. The local base branch then points to the reviewed
  commit; before, it pointed to the reviewed base or already to that commit; the commit has the
  approved tree and leads back to the base by single parents; the run branch points to it; and no
  other local branch moved.\<close>

theorem publication_moves_only_the_base:
  assumes "git_laws git"
    and "publish_fast_forward_base git fuel g req = Inr (g', pushed)"
  shows "g_ref_commit git g' (local_base req) = Some (pr_commit_sha req)
    \<and> g_ref_commit git g (local_base req) \<in> {Some (pr_base_sha req), Some (pr_commit_sha req)}
    \<and> g_tree git g (pr_commit_sha req) = Some (pr_approved_tree req)
    \<and> (\<exists>cs. cs \<noteq> [] \<and> linear_chain git g (pr_base_sha req) cs (pr_commit_sha req))
    \<and> g_ref_commit git g (heads (pr_run_branch req)) = Some (pr_commit_sha req)
    \<and> (\<forall>b. b \<noteq> pr_base_branch req \<longrightarrow> g_ref_commit git g' (heads b) = g_ref_commit git g (heads b))"
proof -
  from assms(2) obtain local tracking where local: "g_ref_commit git g (local_base req) = Some local"
    and checked: "check_publication git fuel g req = Inr ()"
    and run: "g_ref_commit git g (heads (pr_run_branch req)) = Some (pr_commit_sha req)"
    and moved: "move_base git g req local tracking = Inr (g', pushed)"
    by (auto simp: publish_Inr)
  show ?thesis
    using move_base_Inr[OF assms(1) local moved] publication_chain[OF checked] local run by auto
qed

theorem publication_moves_only_the_base_witness:
  "\<exists>g'. publish_fast_forward_base (small_git True) 8 small_refs small_request = Inr (g', True)
     \<and> g_ref_commit (small_git True) g' (heads ''main'') = Some (oid (CHR ''3''))"
proof -
  obtain g' where run: "publish_fast_forward_base (small_git True) 8 small_refs small_request = Inr (g', True)"
    using small_publication by blast
  have "g_ref_commit (small_git True) g' (local_base small_request) = Some (pr_commit_sha small_request)"
    using publication_moves_only_the_base[OF small_git_laws run] by blast
  with run show ?thesis by (auto simp: local_base_def small_request_def)
qed

text \<open>C4: what publication leaves behind when it raises. Either nothing moved, or only the push failed:
  then the local base points to the reviewed commit, moved there from the reviewed base or found
  there, and no other local branch moved.\<close>

theorem failed_publication_keeps_branches:
  assumes "git_laws git"
    and "publish_fast_forward_base git fuel g req = Inl (e, g')"
  shows "g' = g \<or> e = Base_push_failed True
     \<and> g_ref_commit git g (local_base req) \<in> {Some (pr_base_sha req), Some (pr_commit_sha req)}
     \<and> g_ref_commit git g' (local_base req) = Some (pr_commit_sha req)
     \<and> (\<forall>b. b \<noteq> pr_base_branch req \<longrightarrow> g_ref_commit git g' (heads b) = g_ref_commit git g (heads b))"
proof (cases "g' = g")
  case False
  with publish_Inl[OF assms(2)] obtain local tracking
    where local: "g_ref_commit git g (local_base req) = Some local"
      and moved: "move_base git g req local tracking = Inl (e, g')"
    by blast
  show ?thesis using move_base_Inl[OF assms(1) local moved] False local by auto
qed simp

theorem failed_publication_keeps_branches_witness:
  "\<exists>g'. publish_fast_forward_base (small_git False) 8 small_refs small_request = Inl (Base_push_failed True, g')
     \<and> g_ref_commit (small_git False) g' (heads ''harness/task/run'') = Some (oid (CHR ''3''))"
proof -
  obtain g' where run: "publish_fast_forward_base (small_git False) 8 small_refs small_request
      = Inl (Base_push_failed True, g')"
    using small_failure by blast
  have "g' = small_refs \<or> g_ref_commit (small_git False) g' (heads ''harness/task/run'')
      = g_ref_commit (small_git False) small_refs (heads ''harness/task/run'')"
    using failed_publication_keeps_branches[OF small_git_laws run]
    by (auto simp: small_request_def)
  then have "g_ref_commit (small_git False) g' (heads ''harness/task/run'') = Some (oid (CHR ''3''))"
    by (auto simp: small_git_def small_refs_def heads_def)
  with run show ?thesis by blast
qed

end
