(* ===== verification/CommitGate.thy ===== *)
theory CommitGate
  imports GitBoundary
begin

text \<open>
  The commit gate of \<open>commit_gate.py\<close>: the verification decision of a worker attempt, the explicit
  deferral of a verification to a later step, the safety gate every accepted commit passes, the record
  of an accepted step and the deferrals that are still open.

  The worktree is a record of the Git readings the gate makes; the security scanner is a function of
  it. The lemmas show what a passed gate has checked, that a deferral names a later step, that a
  verification survives its record, and that the open deferrals are exactly the ones whose steps did
  not all pass.
\<close>

datatype gate_code = COMMIT_GATE_FAILED | COMMIT_SECURITY_FAILURE

fun gate_code_value :: "gate_code \<Rightarrow> string" where
  "gate_code_value COMMIT_GATE_FAILED = ''COMMIT_GATE_FAILED''"
| "gate_code_value COMMIT_SECURITY_FAILURE = ''COMMIT_SECURITY_FAILURE''"

record gate_error =
  ge_message :: string
  ge_code :: gate_code
  ge_paths :: "string list"

definition refuse :: "string \<Rightarrow> gate_code \<Rightarrow> gate_error + 'a" where
  "refuse msg code = Inl \<lparr>ge_message = msg, ge_code = code, ge_paths = []\<rparr>"

record deferred_verification =
  dv_reason :: string
  dv_dependent_step_ids :: "string list"
  dv_command_or_contract :: string

section \<open>Reading a deferral from a report\<close>

text \<open>\<open>_STEP_ID.findall\<close>: a step ID between word edges; two of them never overlap.\<close>

definition step_id_at :: "position \<Rightarrow> bool" where
  "step_id_at p \<longleftrightarrow>
     (case snd p of
        c # d # e # rest \<Rightarrow>
          c = CHR ''S'' \<and> is_digit d \<and> is_digit e \<and> (d \<noteq> CHR ''0'' \<or> e \<noteq> CHR ''0'')
          \<and> (case fst p of None \<Rightarrow> True | Some x \<Rightarrow> \<not> word_char x)
          \<and> (rest = [] \<or> \<not> word_char (hd rest))
      | _ \<Rightarrow> False)"

fun find_step_ids :: "char option \<Rightarrow> string \<Rightarrow> string list" where
  "find_step_ids before [] = []"
| "find_step_ids before (c # s) =
     (if step_id_at (before, c # s) then take 3 (c # s) # find_step_ids (Some c) s
      else find_step_ids (Some c) s)"

definition deferred_marker :: "string \<Rightarrow> bool" where
  "deferred_marker line \<longleftrightarrow>
     casefold (rstrip_chars '':'' (strip line)) = casefold ''DEFERRED VERIFY DEPENDENCY''"

definition py_drop :: "nat \<Rightarrow> string \<Rightarrow> string" where
  "py_drop n s = drop (length (py_take n s)) s"

definition command_line :: "string \<Rightarrow> string" where
  "command_line line =
     (if starts ''-'' (strip line) then strip (py_drop 2 (strip line)) else strip line)"

definition parse_deferred_verification ::
  "string \<Rightarrow> string \<Rightarrow> string list \<Rightarrow> gate_error + deferred_verification option" where
  "parse_deferred_verification report current future =
     (case dropWhile (\<lambda>l. \<not> deferred_marker l) (splitlines report) of
        [] \<Rightarrow> Inr None
      | _ # rest \<Rightarrow>
          let body = strip (join newline rest);
              dependents = filter (\<lambda>i. i \<in> set future \<and> i \<noteq> current) (dedup (find_step_ids None body));
              command = join newline (map command_line (filter (\<lambda>l. \<not> blank l) (splitlines body)))
          in if body = [] then refuse ''deferred verification has no reason or contract'' COMMIT_GATE_FAILED
             else if dependents = []
             then refuse ''deferred verification does not name a future dependent step'' COMMIT_GATE_FAILED
             else if command = [] then refuse ''deferred verification command/contract is empty'' COMMIT_GATE_FAILED
             else Inr (Some \<lparr>dv_reason = py_take 2048 body, dv_dependent_step_ids = dependents,
               dv_command_or_contract = py_take 4096 command\<rparr>))"

section \<open>The verification of an attempt\<close>

text \<open>
  \<open>_VERIFY_FAILED\<close> and \<open>_ENVIRONMENT_VERIFY_FAILED\<close> on the case-folded report, tried at every line
  start; white space of a pattern may cross lines.
\<close>

definition after_word :: "string \<Rightarrow> string \<Rightarrow> string list" where
  "after_word w s = (if starts w s then [drop (length w) s] else [])"

definition verify_heads :: "string \<Rightarrow> string list" where
  "verify_heads s =
     concat (map (\<lambda>w. concat (map (\<lambda>t. case lstrip t of
          [] \<Rightarrow> []
        | c # rest \<Rightarrow> if c = CHR '':'' \<or> c = CHR ''='' then [rest] else [])
       (after_word w (lstrip s)))) [''verify'', ''verification''])"

definition red_words :: "string list" where
  "red_words = [''fail'', ''failed'', ''red'']"

text \<open>What follows a red word that ends at a word edge.\<close>

definition after_red :: "string \<Rightarrow> string list" where
  "after_red s = filter (\<lambda>t. t = [] \<or> \<not> word_char (hd t)) (concat (map (\<lambda>w. after_word w s) red_words))"

definition verify_failed_at :: "string \<Rightarrow> bool" where
  "verify_failed_at s \<longleftrightarrow> list_ex (\<lambda>t. after_red (lstrip t) \<noteq> []) (verify_heads s)"

definition environment_suffix :: "string \<Rightarrow> bool" where
  "environment_suffix s \<longleftrightarrow>
     (case lstrip s of
        c # t \<Rightarrow> c = CHR ''('' \<and> list_ex (\<lambda>r. starts '':'' (lstrip r)) (after_word ''environment'' (lstrip t))
      | [] \<Rightarrow> False)"

fun red_in_line :: "bool \<Rightarrow> string \<Rightarrow> bool" where
  "red_in_line after_word_char [] = False"
| "red_in_line after_word_char (c # s) =
     ((\<not> after_word_char \<and> list_ex environment_suffix (after_red (c # s)))
      \<or> (c \<noteq> CHR 0x0A \<and> red_in_line (word_char c) s))"

definition environment_failed_at :: "string \<Rightarrow> bool" where
  "environment_failed_at s \<longleftrightarrow> list_ex (red_in_line False) (verify_heads s)"

definition verify_failed :: "string \<Rightarrow> bool" where
  "verify_failed report \<longleftrightarrow> list_ex verify_failed_at (line_starts (casefold report))"

definition environment_verify_failed :: "string \<Rightarrow> bool" where
  "environment_verify_failed report \<longleftrightarrow> list_ex environment_failed_at (line_starts (casefold report))"

text \<open>\<open>StepVerification\<close>: its status and, for a deferred one, what it depends on.\<close>

datatype verification = Passed | Deferred deferred_verification

definition step_verification ::
  "string \<Rightarrow> string \<Rightarrow> string list \<Rightarrow> pyval \<Rightarrow> bool \<Rightarrow> gate_error + verification" where
  "step_verification report sid future reported deferred_requested =
     (if (case reported of PStr s \<Rightarrow> casefold s \<in> set [''failed'', ''fail'', ''red''] | _ \<Rightarrow> False)
      then refuse ''step VERIFY did not pass'' COMMIT_GATE_FAILED
      else if verify_failed report \<and> \<not> environment_verify_failed report
      then refuse ''step VERIFY did not pass'' COMMIT_GATE_FAILED
      else if \<not> deferred_requested then Inr Passed
      else rbind (parse_deferred_verification report sid future) (\<lambda>d.
        case d of
          None \<Rightarrow> refuse ''a deferred step must provide the explicit DEFERRED VERIFY DEPENDENCY contract'' COMMIT_GATE_FAILED
        | Some dv \<Rightarrow> Inr (Deferred dv)))"

fun verification_status :: "verification \<Rightarrow> string" where
  "verification_status Passed = ''passed''"
| "verification_status (Deferred dv) = ''deferred''"

fun verification_payload :: "verification \<Rightarrow> (string \<times> pyval) list" where
  "verification_payload Passed =
     [(''status'', PStr ''passed''), (''deferred_reason'', PNone),
      (''dependent_step_ids'', PList []), (''deferred_command_or_contract'', PNone)]"
| "verification_payload (Deferred dv) =
     [(''status'', PStr ''deferred''), (''deferred_reason'', PStr (dv_reason dv)),
      (''dependent_step_ids'', PList (map PStr (dv_dependent_step_ids dv))),
      (''deferred_command_or_contract'', PStr (dv_command_or_contract dv))]"

definition filled_str :: "pyval \<Rightarrow> bool" where
  "filled_str v \<longleftrightarrow> (case v of PStr s \<Rightarrow> s \<noteq> [] | _ \<Rightarrow> False)"

definition verification_from_payload :: "pyval \<Rightarrow> verification option" where
  "verification_from_payload v =
     (case v of
        PDict d \<Rightarrow>
          if dget d ''status'' = PStr ''passed''
          then (if dget d ''deferred_reason'' \<noteq> PNone \<or> truthy (dget d ''dependent_step_ids'') then None
                else Some Passed)
          else if dget d ''status'' = PStr ''deferred''
          then (case dget d ''dependent_step_ids'' of
              PList ids \<Rightarrow>
                if filled_str (dget d ''deferred_reason'') \<and> ids \<noteq> [] \<and> list_all is_str ids
                  \<and> filled_str (dget d ''deferred_command_or_contract'')
                then Some (Deferred \<lparr>dv_reason = str_of (dget d ''deferred_reason''),
                  dv_dependent_step_ids = map str_of ids,
                  dv_command_or_contract = str_of (dget d ''deferred_command_or_contract'')\<rparr>)
                else None
            | _ \<Rightarrow> None)
          else None
      | _ \<Rightarrow> None)"


section \<open>The safety gate\<close>

text \<open>What the gate reads of the worktree; none of the readings changes it.\<close>

record gate_view =
  gv_head :: string
  gv_index_tree :: string
  gv_candidate_tree :: string
  gv_status :: "string list"
  gv_tree_of :: "string \<Rightarrow> string"
  gv_changed_paths :: "string \<Rightarrow> string \<Rightarrow> string list"
  gv_security_failures :: "string list"

record gate_request =
  gr_tree_sha :: string
  gr_parent_sha :: string
  gr_mutable_scope :: "string list"
  gr_verification_status :: string
  gr_deferred_reason :: "string option"
  gr_dependent_step_ids :: "string list"
  gr_deferred_command :: "string option"
  gr_security_passed :: bool

record commit_safety_result =
  sr_parent_sha :: string
  sr_tree_sha :: string
  sr_changed_paths :: "string list"
  sr_verification_status :: string
  sr_deferred :: "deferred_verification option"

definition dirty_line :: "string \<Rightarrow> bool" where
  "dirty_line line \<longleftrightarrow> length line < 2 \<or> line ! 1 \<noteq> CHR '' '' \<or> starts ''??'' line"

definition or_empty :: "string option \<Rightarrow> string" where
  "or_empty v = (case v of None \<Rightarrow> [] | Some s \<Rightarrow> s)"

definition check_boundary :: "gate_view \<Rightarrow> gate_request \<Rightarrow> gate_error + string list" where
  "check_boundary v req =
     (if gv_head v \<noteq> gr_parent_sha req then refuse ''parent HEAD changed before commit'' COMMIT_GATE_FAILED
      else if gv_index_tree v \<noteq> gr_tree_sha req \<or> gv_candidate_tree v \<noteq> gr_tree_sha req
      then refuse ''working tree or index differs from the accepted tree'' COMMIT_GATE_FAILED
      else if filter dirty_line (gv_status v) \<noteq> []
      then refuse ''worktree has unstaged or untracked changes'' COMMIT_GATE_FAILED
      else
        let changed = gv_changed_paths v (gv_tree_of v (gr_parent_sha req)) (gr_tree_sha req);
            unexpected = filter (\<lambda>p. p \<notin> set (gr_mutable_scope req)) changed
        in if gr_mutable_scope req \<noteq> [] \<and> unexpected \<noteq> []
           then Inl \<lparr>ge_message = ''mutable scope violation: '' @ join '', '' (take 20 unexpected), ge_code = COMMIT_GATE_FAILED,
                  ge_paths = take 20 unexpected\<rparr>
           else if gv_security_failures v \<noteq> []
           then refuse (''security/integrity gate failed: '' @ join '', '' (take 20 (gv_security_failures v)))
                  COMMIT_SECURITY_FAILURE
           else Inr changed)"

definition gate_deferral :: "gate_request \<Rightarrow> gate_error + deferred_verification option" where
  "gate_deferral req =
     (if gr_verification_status req = ''deferred''
      then
        let reason = strip (or_empty (gr_deferred_reason req));
            dependents = dedup (gr_dependent_step_ids req);
            contract = strip (or_empty (gr_deferred_command req))
        in if reason = [] \<or> dependents = [] \<or> contract = []
           then refuse ''deferred verification requires reason, dependent_step_ids and command/contract''
             COMMIT_GATE_FAILED
           else Inr (Some \<lparr>dv_reason = py_take 2048 reason, dv_dependent_step_ids = dependents,
             dv_command_or_contract = py_take 4096 contract\<rparr>)
      else if or_empty (gr_deferred_reason req) \<noteq> [] \<or> gr_dependent_step_ids req \<noteq> []
        \<or> or_empty (gr_deferred_command req) \<noteq> []
      then refuse ''deferred metadata is present for a passed verification'' COMMIT_GATE_FAILED
      else Inr None)"

definition commit_safety_gate :: "gate_view \<Rightarrow> gate_request \<Rightarrow> gate_error + commit_safety_result" where
  "commit_safety_gate v req =
     (if gr_verification_status req \<notin> set [''passed'', ''deferred'']
      then refuse ''verification did not pass'' COMMIT_GATE_FAILED
      else if \<not> gr_security_passed req then refuse ''security gate did not pass'' COMMIT_SECURITY_FAILURE
      else rbind (check_boundary v req) (\<lambda>changed. rbind (gate_deferral req) (\<lambda>deferred.
        Inr \<lparr>sr_parent_sha = gr_parent_sha req, sr_tree_sha = gr_tree_sha req, sr_changed_paths = changed,
          sr_verification_status = gr_verification_status req, sr_deferred = deferred\<rparr>)))"

section \<open>Accepted steps and open deferrals\<close>

definition authority_keys :: "string list" where
  "authority_keys = [''effective_authority_sha256'', ''effective_contract_sha256'', ''approved_contract_sha256'']"

record accepted_step =
  as_step_id :: string
  as_verification_status :: string
  as_parent_sha :: string
  as_commit_sha :: string
  as_tree_before :: string
  as_tree_after :: string
  as_changed_paths :: "string list"
  as_deferred :: "deferred_verification option"
  as_authority :: "(string \<times> pyval) list option"

definition deferral_fields :: "deferred_verification option \<Rightarrow> (string \<times> pyval) list" where
  "deferral_fields d =
     (case d of
        None \<Rightarrow> [(''dependent_step_ids'', PList [])]
      | Some dv \<Rightarrow> [(''deferred_reason'', PStr (dv_reason dv)),
          (''dependent_step_ids'', PList (map PStr (dv_dependent_step_ids dv))),
          (''deferred_verify_command_or_contract'', PStr (dv_command_or_contract dv))])"

definition authority_fields :: "(string \<times> pyval) list option \<Rightarrow> (string \<times> pyval) list" where
  "authority_fields authority =
     (case authority of None \<Rightarrow> [] | Some a \<Rightarrow> map (\<lambda>k. (k, dget a k)) authority_keys)"

definition accepted_step_record :: "accepted_step \<Rightarrow> (string \<times> pyval) list" where
  "accepted_step_record a =
     [(''step_id'', PStr (as_step_id a)),
      (''verification_status'', PStr (as_verification_status a)),
      (''parent_sha'', PStr (as_parent_sha a)),
      (''commit_sha'', PStr (as_commit_sha a)),
      (''tree_before'', PStr (as_tree_before a)),
      (''tree_after'', PStr (as_tree_after a)),
      (''changed_paths'', PList (map PStr (sorted_list_of_set (set (as_changed_paths a)))))]
     @ deferral_fields (as_deferred a) @ authority_fields (as_authority a)"

definition rows_of :: "pyval list \<Rightarrow> (string \<times> pyval) list list" where
  "rows_of records = concat (map (\<lambda>r. case r of PDict d \<Rightarrow> [d] | _ \<Rightarrow> []) records)"

definition passed_ids :: "(string \<times> pyval) list list \<Rightarrow> pyval list" where
  "passed_ids rows =
     map (\<lambda>d. dget d ''step_id'') (filter (\<lambda>d. dget d ''verification_status'' = PStr ''passed'') rows)"

definition deferral_open :: "pyval list \<Rightarrow> (string \<times> pyval) list \<Rightarrow> bool" where
  "deferral_open passed d \<longleftrightarrow>
     dget d ''verification_status'' = PStr ''deferred''
     \<and> (case dget d ''dependent_step_ids'' of
          PList ids \<Rightarrow> list_ex (\<lambda>i. i \<notin> set passed) ids
        | _ \<Rightarrow> True)"

definition unresolved_deferred_verifications :: "pyval list \<Rightarrow> (string \<times> pyval) list list" where
  "unresolved_deferred_verifications records =
     (let rows = rows_of records in filter (deferral_open (passed_ids rows)) rows)"

definition assert_deferred_verifications_resolved :: "pyval list \<Rightarrow> gate_error + unit" where
  "assert_deferred_verifications_resolved records =
     (if unresolved_deferred_verifications records \<noteq> []
      then refuse ''candidate is forbidden while deferred verifications remain'' COMMIT_GATE_FAILED
      else Inr ())"

section \<open>Lemmas\<close>

lemma refuse_not_Inr [simp]: "refuse m c \<noteq> Inr x" "Inr x \<noteq> refuse m c"
  by (simp_all add: refuse_def)

lemma py_take_eq_Nil: "s \<noteq> [] \<Longrightarrow> n > 0 \<Longrightarrow> py_take n s \<noteq> []"
  by (cases s; cases n) auto

lemma parse_deferred_Some:
  assumes "parse_deferred_verification report sid future = Inr (Some dv)"
  shows "dv_dependent_step_ids dv \<noteq> [] \<and> distinct (dv_dependent_step_ids dv)
    \<and> set (dv_dependent_step_ids dv) \<subseteq> set future - {sid}
    \<and> dv_reason dv \<noteq> [] \<and> dv_command_or_contract dv \<noteq> []"
  using assms
  by (auto simp: parse_deferred_verification_def Let_def py_take_eq_Nil split: list.splits if_splits)

lemma payload_deferred_roundtrip:
  assumes "dv_dependent_step_ids dv \<noteq> []" and "dv_reason dv \<noteq> []" and "dv_command_or_contract dv \<noteq> []"
  shows "verification_from_payload (PDict (verification_payload (Deferred dv))) = Some (Deferred dv)"
  using assms by (simp add: verification_from_payload_def dget_def filled_str_def is_str_def comp_def list_all_iff)

lemma payload_passed_roundtrip:
  "verification_from_payload (PDict (verification_payload Passed)) = Some Passed"
  by (simp add: verification_from_payload_def dget_def)

lemma check_boundary_Inr:
  "check_boundary v req = Inr changed \<Longrightarrow>
     gv_head v = gr_parent_sha req \<and> gv_index_tree v = gr_tree_sha req \<and> gv_candidate_tree v = gr_tree_sha req
   \<and> list_all (\<lambda>l. \<not> dirty_line l) (gv_status v) \<and> gv_security_failures v = []
   \<and> changed = gv_changed_paths v (gv_tree_of v (gr_parent_sha req)) (gr_tree_sha req)
   \<and> (gr_mutable_scope req = [] \<or> set changed \<subseteq> set (gr_mutable_scope req))"
  by (auto simp: check_boundary_def Let_def filter_empty_conv list_all_iff split: if_splits)

lemma gate_deferral_Inr:
  "gate_deferral req = Inr d \<Longrightarrow>
     (case d of None \<Rightarrow> gr_verification_status req \<noteq> ''deferred'' \<and> gr_dependent_step_ids req = []
      | Some dv \<Rightarrow> gr_verification_status req = ''deferred''
          \<and> set (dv_dependent_step_ids dv) = set (gr_dependent_step_ids req) \<and> dv_dependent_step_ids dv \<noteq> [])"
  by (auto simp: gate_deferral_def Let_def split: if_splits)

lemma resolved_iff:
  "assert_deferred_verifications_resolved records = Inr () \<longleftrightarrow>
     (\<forall>d \<in> set (rows_of records). \<not> deferral_open (passed_ids (rows_of records)) d)"
  by (simp add: assert_deferred_verifications_resolved_def unresolved_deferred_verifications_def Let_def
      filter_empty_conv)


text \<open>The records of accepted steps as the deferral check reads them.\<close>

definition dependents_of :: "accepted_step \<Rightarrow> string list" where
  "dependents_of a = (case as_deferred a of None \<Rightarrow> [] | Some dv \<Rightarrow> dv_dependent_step_ids dv)"

lemma step_record_fields:
  "dget (accepted_step_record a) ''step_id'' = PStr (as_step_id a)"
  "dget (accepted_step_record a) ''verification_status'' = PStr (as_verification_status a)"
  "dget (accepted_step_record a) ''dependent_step_ids'' = PList (map PStr (dependents_of a))"
  by (cases "as_deferred a"; simp add: accepted_step_record_def dget_def deferral_fields_def dependents_of_def)+

lemma rows_of_records: "rows_of (map (\<lambda>a. PDict (accepted_step_record a)) steps) = map accepted_step_record steps"
  by (induction steps) (auto simp: rows_of_def)

lemma passed_step_ids:
  "PStr i \<in> set (passed_ids (map accepted_step_record steps)) \<longleftrightarrow>
     list_ex (\<lambda>b. as_verification_status b = ''passed'' \<and> as_step_id b = i) steps"
proof -
  have "passed_ids (map accepted_step_record steps)
      = map (\<lambda>b. PStr (as_step_id b)) (filter (\<lambda>b. as_verification_status b = ''passed'') steps)"
    by (induction steps) (simp_all add: passed_ids_def step_record_fields)
  then show ?thesis by (auto simp: list_ex_iff)
qed

definition sample_deferred_step :: accepted_step where
  "sample_deferred_step = \<lparr>as_step_id = ''S01'', as_verification_status = ''deferred'', as_parent_sha = ''p'',
     as_commit_sha = ''c'', as_tree_before = ''t0'', as_tree_after = ''t1'', as_changed_paths = [''a.py''],
     as_deferred = Some \<lparr>dv_reason = ''r'', dv_dependent_step_ids = [''S02''], dv_command_or_contract = ''c''\<rparr>,
     as_authority = None\<rparr>"

text \<open>A list dash without a space after it takes the first character of the command with it.\<close>

lemma dash_without_space_eats_a_character: "command_line ''-pytest -q'' = ''ytest -q''"
  by code_simp

section \<open>Properties\<close>

text \<open>C11: what a passed commit gate has checked. The parent is still HEAD, the index and the worktree are
  exactly the accepted tree, nothing is unstaged or untracked, no path outside a given scope changed,
  the scanner found nothing, and a deferral is recorded exactly for a deferred verification, with the
  steps it was asked for.\<close>

theorem passed_gate_is_safe:
  assumes "commit_safety_gate v req = Inr res"
  shows "gv_head v = sr_parent_sha res \<and> gv_index_tree v = sr_tree_sha res \<and> gv_candidate_tree v = sr_tree_sha res
    \<and> list_all (\<lambda>l. \<not> dirty_line l) (gv_status v) \<and> gv_security_failures v = []
    \<and> sr_changed_paths res = gv_changed_paths v (gv_tree_of v (gv_head v)) (sr_tree_sha res)
    \<and> (gr_mutable_scope req = [] \<or> set (sr_changed_paths res) \<subseteq> set (gr_mutable_scope req))
    \<and> sr_verification_status res \<in> {''passed'', ''deferred''}
    \<and> (sr_deferred res = None \<longleftrightarrow> sr_verification_status res = ''passed'')
    \<and> (\<forall>dv. sr_deferred res = Some dv \<longrightarrow> set (dv_dependent_step_ids dv) = set (gr_dependent_step_ids req))"
proof -
  from assms obtain changed d where status: "gr_verification_status req \<in> {''passed'', ''deferred''}"
    and b: "check_boundary v req = Inr changed" and d: "gate_deferral req = Inr d"
    and res: "res = \<lparr>sr_parent_sha = gr_parent_sha req, sr_tree_sha = gr_tree_sha req, sr_changed_paths = changed,
      sr_verification_status = gr_verification_status req, sr_deferred = d\<rparr>"
    by (auto simp: commit_safety_gate_def split: if_splits)
  show ?thesis
    using check_boundary_Inr [OF b] gate_deferral_Inr [OF d] status by (cases d) (auto simp: res)
qed

definition clean_view :: gate_view where
  "clean_view = \<lparr>gv_head = ''p'', gv_index_tree = ''t'', gv_candidate_tree = ''t'', gv_status = [''M  a.py''],
     gv_tree_of = (\<lambda>c. ''t0''), gv_changed_paths = (\<lambda>a b. [''a.py'']), gv_security_failures = []\<rparr>"

definition clean_request :: gate_request where
  "clean_request = \<lparr>gr_tree_sha = ''t'', gr_parent_sha = ''p'', gr_mutable_scope = [''a.py''],
     gr_verification_status = ''deferred'', gr_deferred_reason = Some ''needs S02'',
     gr_dependent_step_ids = [''S02''], gr_deferred_command = Some ''pytest'', gr_security_passed = True\<rparr>"

theorem passed_gate_is_safe_witness:
  "\<exists>res. commit_safety_gate clean_view clean_request = Inr res \<and> set (sr_changed_paths res) \<subseteq> {''a.py''}"
proof -
  have "(case commit_safety_gate clean_view clean_request of Inl _ \<Rightarrow> False | Inr _ \<Rightarrow> True)" by code_simp
  then obtain res where r: "commit_safety_gate clean_view clean_request = Inr res" by (auto split: sum.splits)
  from passed_gate_is_safe [OF r] r show ?thesis by (auto simp: clean_request_def)
qed

text \<open>C29: a verification is deferred only to later steps, and its record keeps it. An attempt passes or,
  when it asked for it, is deferred to at least one step that is still to come and is not itself; and
  the durable record of either verification reads back as the same verification.\<close>

theorem verification_record_roundtrip:
  assumes "step_verification report sid future reported requested = Inr v"
  shows "verification_from_payload (PDict (verification_payload v)) = Some v
    \<and> (v = Passed \<and> \<not> requested
       \<or> requested \<and> (\<exists>dv. v = Deferred dv \<and> dv_dependent_step_ids dv \<noteq> []
            \<and> set (dv_dependent_step_ids dv) \<subseteq> set future - {sid}))"
proof -
  from assms consider "v = Passed" "\<not> requested"
    | dv where "requested" "v = Deferred dv" "parse_deferred_verification report sid future = Inr (Some dv)"
    by (auto simp: step_verification_def split: if_splits option.splits)
  then show ?thesis
  proof cases
    case 1
    then show ?thesis by (simp only: payload_passed_roundtrip simp_thms)
  next
    case 2
    with parse_deferred_Some [OF 2(3)] payload_deferred_roundtrip [of dv] show ?thesis by auto
  qed
qed

definition sample_report :: string where
  "sample_report = ''Deferred verify dependency:'' @ newline @ ''- pytest once S02 and S01 are there''"

theorem verification_record_roundtrip_witness:
  "\<exists>dv. step_verification sample_report ''S01'' [''S02'', ''S03''] PNone True = Inr (Deferred dv)
     \<and> dv_dependent_step_ids dv = [''S02'']
     \<and> verification_from_payload (PDict (verification_payload (Deferred dv))) = Some (Deferred dv)"
proof -
  have r: "step_verification sample_report ''S01'' [''S02'', ''S03''] PNone True = Inr (Deferred
      \<lparr>dv_reason = ''- pytest once S02 and S01 are there'', dv_dependent_step_ids = [''S02''],
       dv_command_or_contract = ''pytest once S02 and S01 are there''\<rparr>)"
    by code_simp
  from verification_record_roundtrip [OF r] r show ?thesis by auto
qed

text \<open>C28: a candidate carries no open deferral. Over the durable records of the accepted steps, the check
  before the candidate passes exactly when every step each deferred step depends on has an accepted
  record with a passed verification of its own.\<close>

theorem candidate_has_no_open_deferral:
  "assert_deferred_verifications_resolved (map (\<lambda>a. PDict (accepted_step_record a)) steps) = Inr ()
    \<longleftrightarrow> list_all (\<lambda>a. as_verification_status a = ''deferred'' \<longrightarrow>
          list_all (\<lambda>i. list_ex (\<lambda>b. as_verification_status b = ''passed'' \<and> as_step_id b = i) steps)
            (dependents_of a)) steps"
proof -
  have "deferral_open (passed_ids (map accepted_step_record steps)) (accepted_step_record a)
    \<longleftrightarrow> \<not> (as_verification_status a = ''deferred'' \<longrightarrow>
          list_all (\<lambda>i. list_ex (\<lambda>b. as_verification_status b = ''passed'' \<and> as_step_id b = i) steps) (dependents_of a))"
    for a by (auto simp: deferral_open_def step_record_fields passed_step_ids list_ex_iff list_all_iff)
  then show ?thesis by (simp add: resolved_iff rows_of_records list_all_iff)
qed

theorem candidate_has_no_open_deferral_witness:
  "\<exists>e. assert_deferred_verifications_resolved [PDict (accepted_step_record sample_deferred_step)] = Inl e"
proof -
  have "\<not> list_all (\<lambda>a. as_verification_status a = ''deferred'' \<longrightarrow>
          list_all (\<lambda>i. list_ex (\<lambda>b. as_verification_status b = ''passed'' \<and> as_step_id b = i) [sample_deferred_step])
            (dependents_of a)) [sample_deferred_step]" by code_simp
  with candidate_has_no_open_deferral [of "[sample_deferred_step]"]
  have "assert_deferred_verifications_resolved [PDict (accepted_step_record sample_deferred_step)] \<noteq> Inr ()" by simp
  then show ?thesis by (cases "assert_deferred_verifications_resolved [PDict (accepted_step_record sample_deferred_step)]") auto
qed

end
