(* ===== verification/Actions.thy ===== *)
theory Actions
  imports Py_Prelude
begin

text \<open>
  Stateful code that may raise: an action reads and updates a state and returns a value or the
  exception. The state an exception leaves behind is kept, as Python keeps it. The combinators are the
  sequencing of statements, \<open>raise\<close>, a call that cannot raise, and a \<open>for\<close> loop whose body may return.

  \<open>hoare P m Q E\<close> states that the action \<open>m\<close>, run in a state where \<open>P\<close> holds, ends in a state where
  \<open>Q\<close> holds of the returned value or \<open>E\<close> of the exception. The rules of the collection \<open>hoare\<close> compute
  such statements backwards over the combinators.
\<close>

type_synonym ('s, 'e, 'a) act = "'s \<Rightarrow> ('e + 'a) \<times> 's"

definition ret :: "'a \<Rightarrow> ('s, 'e, 'a) act" where
  "ret x s = (Inr x, s)"

definition raise :: "'e \<Rightarrow> ('s, 'e, 'a) act" where
  "raise e s = (Inl e, s)"

definition bnd :: "('s, 'e, 'a) act \<Rightarrow> ('a \<Rightarrow> ('s, 'e, 'b) act) \<Rightarrow> ('s, 'e, 'b) act" where
  "bnd m f s = (case m s of (Inl e, s') \<Rightarrow> (Inl e, s') | (Inr x, s') \<Rightarrow> f x s')"

definition modify :: "('s \<Rightarrow> 's) \<Rightarrow> ('s, 'e, unit) act" where
  "modify f s = (Inr (), f s)"

definition gets :: "('s \<Rightarrow> 'a) \<Rightarrow> ('s, 'e, 'a) act" where
  "gets f s = (Inr (f s), s)"

text \<open>An expression over the state that may raise and changes nothing.\<close>

definition reads :: "('s \<Rightarrow> 'e + 'a) \<Rightarrow> ('s, 'e, 'a) act" where
  "reads f s = (f s, s)"

text \<open>A \<open>for\<close> loop whose body returns early with \<open>Some\<close> value.\<close>

fun for_return :: "'i list \<Rightarrow> ('i \<Rightarrow> ('s, 'e, 'a option) act) \<Rightarrow> ('s, 'e, 'a option) act" where
  "for_return [] body = ret None"
| "for_return (i # rest) body =
     bnd (body i) (\<lambda>r. case r of Some x \<Rightarrow> ret (Some x) | None \<Rightarrow> for_return rest body)"

section \<open>Reasoning\<close>

named_theorems hoare

definition hoare ::
  "('s \<Rightarrow> bool) \<Rightarrow> ('s, 'e, 'a) act \<Rightarrow> ('a \<Rightarrow> 's \<Rightarrow> bool) \<Rightarrow> ('e \<Rightarrow> 's \<Rightarrow> bool) \<Rightarrow> bool" where
  "hoare P m Q E \<longleftrightarrow>
     (\<forall>s. P s \<longrightarrow> (case m s of (Inl e, s') \<Rightarrow> E e s' | (Inr x, s') \<Rightarrow> Q x s'))"

lemma hoareD:
  assumes "hoare P m Q E" and "P s"
  shows "m s = (Inr x, s') \<Longrightarrow> Q x s'" and "m s = (Inl e, s') \<Longrightarrow> E e s'"
  using assms by (force simp: hoare_def)+

lemma hoareI:
  assumes "\<And>s s' x. P s \<Longrightarrow> m s = (Inr x, s') \<Longrightarrow> Q x s'" and "\<And>s s' e. P s \<Longrightarrow> m s = (Inl e, s') \<Longrightarrow> E e s'"
  shows "hoare P m Q E"
  using assms by (auto simp: hoare_def split: prod.splits sum.splits)

lemma hoare_weaken:
  assumes "hoare P' m Q' E'" and "\<And>s. P s \<Longrightarrow> P' s"
    and "\<And>x s. Q' x s \<Longrightarrow> Q x s" and "\<And>e s. E' e s \<Longrightarrow> E e s"
  shows "hoare P m Q E"
  using assms by (fastforce simp: hoare_def split: prod.splits sum.splits)

lemma hoare_pre: "hoare P' m Q E \<Longrightarrow> (\<And>s. P s \<Longrightarrow> P' s) \<Longrightarrow> hoare P m Q E"
  by (auto simp: hoare_def)

lemma hoare_bnd [hoare]:
  "hoare P m R E \<Longrightarrow> (\<And>x. hoare (R x) (f x) Q E) \<Longrightarrow> hoare P (bnd m f) Q E"
  by (fastforce simp: hoare_def bnd_def split: prod.splits sum.splits)

lemma hoare_ret [hoare]: "(\<And>s. P s \<Longrightarrow> Q x s) \<Longrightarrow> hoare P (ret x) Q E"
  by (simp add: hoare_def ret_def)

lemma hoare_raise [hoare]: "(\<And>s. P s \<Longrightarrow> E e s) \<Longrightarrow> hoare P (raise e) Q E"
  by (simp add: hoare_def raise_def)

lemma hoare_modify [hoare]: "(\<And>s. P s \<Longrightarrow> Q () (f s)) \<Longrightarrow> hoare P (modify f) Q E"
  by (simp add: hoare_def modify_def)

lemma hoare_gets [hoare]: "(\<And>s. P s \<Longrightarrow> Q (f s) s) \<Longrightarrow> hoare P (gets f) Q E"
  by (simp add: hoare_def gets_def)

lemma hoare_reads [hoare]:
  "(\<And>s x. P s \<Longrightarrow> f s = Inr x \<Longrightarrow> Q x s) \<Longrightarrow> (\<And>s e. P s \<Longrightarrow> f s = Inl e \<Longrightarrow> E e s) \<Longrightarrow> hoare P (reads f) Q E"
  by (auto simp: hoare_def reads_def split: sum.splits)

lemma hoare_if [hoare]:
  "(b \<Longrightarrow> hoare P m Q E) \<Longrightarrow> (\<not> b \<Longrightarrow> hoare P n Q E) \<Longrightarrow> hoare P (if b then m else n) Q E"
  by simp

lemma hoare_option [hoare]:
  "(x = None \<Longrightarrow> hoare P m Q E) \<Longrightarrow> (\<And>y. x = Some y \<Longrightarrow> hoare P (f y) Q E) \<Longrightarrow>
     hoare P (case x of None \<Rightarrow> m | Some y \<Rightarrow> f y) Q E"
  by (cases x) simp_all

lemma hoare_for_return:
  assumes "\<And>pre i rest. is = pre @ i # rest \<Longrightarrow>
      hoare (I pre) (body i) (\<lambda>r s. case r of None \<Rightarrow> I (pre @ [i]) s | Some x \<Rightarrow> Q (Some x) s) E"
    and "\<And>s. I is s \<Longrightarrow> Q None s"
  shows "hoare (I []) (for_return is body) Q E"
proof -
  have "hoare (I pre) (for_return rest body) Q E" if "is = pre @ rest" for pre rest
    using that
  proof (induction rest arbitrary: pre)
    case Nil
    then show ?case using assms(2) by (auto intro!: hoare_ret)
  next
    case (Cons i rest)
    show ?case
      unfolding for_return.simps
      by (rule hoare_bnd [OF assms(1) [OF Cons.prems]], rule hoare_option)
         (use Cons in \<open>auto intro!: hoare_ret hoare_pre [OF Cons.IH]\<close>)
  qed
  then show ?thesis by simp
qed

end
