(* ===== verification/Continuation.thy ===== *)
theory Continuation
  imports Normalization RunFiles
begin

text \<open>
  The continuation authority of \<open>planning/planner_continue.py\<close>: the META CONTINUE v1 protocol and its
  parser, the stagnation fingerprint, and the loop that asks, validates and corrects one decision.

  The lemmas show that an accepted decision has the shape its kind requires, that a decision is
  validated before it is returned and costs a bounded number of answers, and that the fingerprint only
  depends on what remains, the tree and the failures, whatever their order, case and spacing.
\<close>

datatype continue_decision = COMPLETE_RUN | NEXT_MILESTONE | SPEC_DECISION_STOP

fun continue_decision_value :: "continue_decision \<Rightarrow> string" where
  "continue_decision_value COMPLETE_RUN = ''COMPLETE''"
| "continue_decision_value NEXT_MILESTONE = ''NEXT''"
| "continue_decision_value SPEC_DECISION_STOP = ''SPEC_DECISION''"

definition continue_decision_of :: "string \<Rightarrow> continue_decision option" where
  "continue_decision_of s =
     find (\<lambda>d. continue_decision_value d = s) [COMPLETE_RUN, NEXT_MILESTONE, SPEC_DECISION_STOP]"

record continue_result =
  cr_decision :: continue_decision
  cr_summary :: string
  cr_remaining :: "string list"
  cr_next_milestone :: "string option"
  cr_spec_question :: "string option"
  cr_next_plan :: "task_plan option"

text \<open>\<open>PlannerContinueResult.__post_init__\<close>: what a decision of each kind may carry.\<close>

definition continue_result_ok :: "continue_result \<Rightarrow> bool" where
  "continue_result_ok r \<longleftrightarrow>
     (cr_next_plan r = None) = (cr_next_milestone r = None)
     \<and> (cr_next_plan r \<noteq> None) = (cr_decision r = NEXT_MILESTONE)
     \<and> (cr_decision r = SPEC_DECISION_STOP) = (cr_spec_question r \<noteq> None)"

section \<open>The protocol\<close>

definition continue_fields :: "string list" where
  "continue_fields = [''DECISION'', ''SUMMARY'', ''REMAINING'', ''NEXT_MILESTONE'', ''SPEC_QUESTION'']"

definition none_words :: "string list" where
  "none_words = [''none'', ''n/a'', ''na'', ''-'', em_dash, ''nil'', ''tbd'']"

definition max_spec_question_chars :: nat where
  "max_spec_question_chars = 500"

definition parse_remaining :: "string \<Rightarrow> plan_error + string list" where
  "parse_remaining value =
     (let entries = map strip (filter (\<lambda>l. \<not> blank l) (splitlines value))
      in if list_ex (\<lambda>e. \<not> starts ''- '' e \<or> length e = 2) entries
         then v2_error ''each REMAINING line must be a non-empty item''
         else Inr (filter (\<lambda>i. casefold i \<noteq> ''none'') (map (\<lambda>e. strip (drop 2 e)) entries)))"

definition line_is :: "string \<Rightarrow> string \<Rightarrow> bool" where
  "line_is s l \<longleftrightarrow> strip l = s"

text \<open>The text before, inside and after the one block of the next plan.\<close>

definition split_next_plan :: "string list \<Rightarrow> plan_error + (string option \<times> string list)" where
  "split_next_plan body =
     (let begins = length (filter (line_is ''BEGIN NEXT PLAN'') body);
          closes = length (filter (line_is ''END NEXT PLAN'') body);
          before = takeWhile (\<lambda>l. \<not> line_is ''BEGIN NEXT PLAN'' l) body;
          rest = tl (dropWhile (\<lambda>l. \<not> line_is ''BEGIN NEXT PLAN'' l) body)
      in if begins > 1 \<or> begins \<noteq> closes \<or> (begins = 1 \<and> list_ex (line_is ''END NEXT PLAN'') before)
         then v2_error ''NEXT PLAN must be exactly one closed block''
         else if begins = 0 then Inr (None, body)
         else Inr (Some (join newline (takeWhile (\<lambda>l. \<not> line_is ''END NEXT PLAN'' l) rest)),
           before @ tl (dropWhile (\<lambda>l. \<not> line_is ''END NEXT PLAN'' l) rest)))"

definition no_milestone :: "string \<Rightarrow> bool" where
  "no_milestone m \<longleftrightarrow> m = [] \<or> m = ''NONE''"

text \<open>The authority the embedded plan is parsed against.\<close>

record plan_authority =
  au_planning :: planning_config
  au_catalog_ids :: "string list"
  au_default_ids :: "string list"

definition check_next ::
  "plan_authority \<Rightarrow> string \<Rightarrow> task_plan option \<Rightarrow> string option \<Rightarrow> plan_error + string option" where
  "check_next au milestone plan question =
     (if no_milestone milestone then v2_error ''NEXT requires NEXT_MILESTONE''
      else (case plan of
          None \<Rightarrow> v2_error ''NEXT requires one complete NEXT PLAN block''
        | Some p \<Rightarrow>
            if tp_decision p \<noteq> READY then v2_error ''NEXT PLAN must be READY, never BLOCKED''
            else if tp_milestone_id p \<noteq> Some milestone
            then v2_error ''NEXT_MILESTONE and the NEXT PLAN milestone differ''
            else if question \<noteq> None then v2_error ''NEXT must not carry SPEC_QUESTION''
            else rbind (validate_execution_mode_policy p (au_planning au)) (\<lambda>_. Inr (Some milestone))))"

definition check_final ::
  "continue_decision \<Rightarrow> string \<Rightarrow> string option \<Rightarrow> plan_error + string option" where
  "check_final decision milestone question =
     (if \<not> no_milestone milestone
      then v2_error (continue_decision_value decision @ '' must set NEXT_MILESTONE to NONE'')
      else if decision = SPEC_DECISION_STOP
        \<and> (case question of None \<Rightarrow> True | Some q \<Rightarrow> py_len q > max_spec_question_chars)
      then v2_error ''SPEC_DECISION requires one concrete SPEC_QUESTION''
      else if decision \<noteq> SPEC_DECISION_STOP \<and> question \<noteq> None
      then v2_error ''COMPLETE must set SPEC_QUESTION to NONE''
      else Inr None)"

text \<open>The value of a call, as one that may be absent.\<close>

definition rmap_option :: "('e + 'a) \<Rightarrow> 'e + 'a option" where
  "rmap_option m = rbind m (\<lambda>x. Inr (Some x))"

definition parse_decision ::
  "plan_authority \<Rightarrow> plan_fields \<Rightarrow> string option \<Rightarrow> plan_error + continue_result" where
  "parse_decision au values inner =
     (case continue_decision_of (field_of values ''DECISION'') of
        None \<Rightarrow> v2_error ''DECISION must be exactly COMPLETE, NEXT or SPEC_DECISION''
      | Some decision \<Rightarrow>
          let milestone = field_of values ''NEXT_MILESTONE'';
              answer = field_of values ''SPEC_QUESTION'';
              question = (if answer = [] \<or> casefold answer \<in> set none_words then None else Some answer)
          in if \<not> no_milestone milestone \<and> \<not> milestone_id milestone
             then v2_error ''NEXT_MILESTONE must be NONE or a milestone ID like M02''
             else if decision \<noteq> NEXT_MILESTONE \<and> inner \<noteq> None
             then v2_error (continue_decision_value decision @ '' must not contain a NEXT PLAN'')
             else
             rbind (case inner of None \<Rightarrow> Inr None
                 | Some raw \<Rightarrow> rmap_option (parse_task_plan_v2 raw (au_planning au) (au_catalog_ids au)
                     (au_default_ids au) [])) (\<lambda>plan.
             rbind (if decision = NEXT_MILESTONE then check_next au milestone plan question
                    else check_final decision milestone question) (\<lambda>next_milestone.
             rbind (nonempty (field_of values ''SUMMARY'') ''SUMMARY'') (\<lambda>summary.
             rbind (parse_remaining (field_of values ''REMAINING'')) (\<lambda>remaining.
               Inr \<lparr>cr_decision = decision, cr_summary = summary, cr_remaining = remaining,
                 cr_next_milestone = next_milestone, cr_spec_question = question, cr_next_plan = plan\<rparr>)))))"


definition parse_planner_continue :: "plan_authority \<Rightarrow> string \<Rightarrow> plan_error + continue_result" where
  "parse_planner_continue au raw =
     (let raw_lines = plan_lines raw;
          is_head = line_is ''META CONTINUE v1''; is_end = line_is ''END META CONTINUE''
      in if blank raw then v2_error ''planner continue response is empty''
         else if length (filter is_head raw_lines) \<noteq> 1
         then v2_error ''answer needs exactly one META CONTINUE v1 envelope''
         else (case dropWhile blank raw_lines of
             [] \<Rightarrow> v2_error ''answer needs exactly one META CONTINUE v1 envelope''
           | first # ls \<Rightarrow>
               if \<not> is_head first then v2_error ''answer needs exactly one META CONTINUE v1 envelope''
               else if length (filter is_end raw_lines) \<noteq> 1
               then v2_error ''answer needs exactly one END META CONTINUE footer''
               else if \<not> list_all blank (tl (dropWhile (\<lambda>l. \<not> is_end l) ls))
               then v2_error ''content after END META CONTINUE''
               else
               rbind (split_next_plan (takeWhile (\<lambda>l. \<not> is_end l) ls)) (\<lambda>(inner, envelope).
               rbind (parse_labeled_body continue_fields continue_fields ''planner continue'' envelope)
                 (\<lambda>(inline, values).
                  if set (map fst values) \<noteq> set continue_fields
                    \<or> list_ex (\<lambda>n. blank (field_of values n)) continue_fields
                  then v2_error ''answer needs every META CONTINUE field, non-empty''
                  else parse_decision au values inner))))"

section \<open>The fingerprint of an iteration\<close>

text \<open>\<open>item.split()\<close>: the maximal runs of characters that are not white space.\<close>

fun split_words :: "string \<Rightarrow> string \<Rightarrow> string list" where
  "split_words acc [] = (if acc = [] then [] else [rev acc])"
| "split_words acc (c # s) =
     (if ws c then (if acc = [] then split_words [] s else rev acc # split_words [] s)
      else split_words (c # acc) s)"

definition canonical_item :: "string \<Rightarrow> string" where
  "canonical_item item = casefold (join '' '' (split_words [] item))"

definition canonical_items_of :: "string list \<Rightarrow> string list" where
  "canonical_items_of items = sorted_list_of_set (set (map canonical_item items) - {[]})"

definition fingerprint_payload :: "string list \<Rightarrow> string option \<Rightarrow> string list \<Rightarrow> pyval" where
  "fingerprint_payload remaining tree failures =
     PDict [(''remaining'', PList (map PStr (canonical_items_of remaining))),
       (''tree'', PStr (case tree of None \<Rightarrow> [] | Some t \<Rightarrow> strip t)),
       (''failures'', PList (map PStr (canonical_items_of failures)))]"

definition stagnation_fingerprint :: "codec \<Rightarrow> string list \<Rightarrow> string option \<Rightarrow> string list \<Rightarrow> string" where
  "stagnation_fingerprint cdc remaining tree failures =
     sha256_hex cdc (json_dumps cdc Compact_sorted (fingerprint_payload remaining tree failures))"

section \<open>Asking for one decision\<close>

text \<open>
  What one attempt does outside the protocol, in the order of the loop: the durable answer of an
  earlier process, when there is one; otherwise the request (with the last rejection and the answer it
  rejected), the model call and the storing of its answer; the record of a rejected answer and of the
  accepted decision. A model call that raises ends the loop with its own error.
\<close>

record 'w continue_io =
  io_durable_answer :: "nat \<Rightarrow> 'w \<Rightarrow> string option"
  io_ask :: "nat \<Rightarrow> string \<Rightarrow> string \<Rightarrow> 'w \<Rightarrow> (string + string) \<times> 'w"
  io_reject :: "nat \<Rightarrow> string \<Rightarrow> 'w \<Rightarrow> 'w"
  io_accept :: "nat \<Rightarrow> continue_result \<Rightarrow> 'w \<Rightarrow> 'w"

text \<open>
  A rejected answer, or another exception (by its class) that the loop does not catch. The validator of
  the run reads the world it is called in.
\<close>

datatype validation_error = Refused string | Raises string

type_synonym 'w validator = "'w \<Rightarrow> continue_result \<Rightarrow> validation_error + continue_result"

fun of_plan_error :: "plan_error + 'a \<Rightarrow> validation_error + 'a" where
  "of_plan_error (Inr x) = Inr x"
| "of_plan_error (Inl (V2_plan_error reason)) = Inl (Refused reason)"
| "of_plan_error (Inl Unpack_error) = Inl (Raises ''ValueError'')"

datatype decide_error = Call_failed string | Still_invalid string | Escaped string

definition obtain_answer ::
  "'w continue_io \<Rightarrow> nat \<Rightarrow> string \<Rightarrow> string \<Rightarrow> 'w \<Rightarrow> (string + string) \<times> 'w" where
  "obtain_answer io attempt last_error previous w =
     (case io_durable_answer io attempt w of
        Some answer \<Rightarrow> (Inr answer, w)
      | None \<Rightarrow> io_ask io attempt last_error previous w)"

fun decide_loop ::
  "'w continue_io \<Rightarrow> ('w \<Rightarrow> string \<Rightarrow> validation_error + continue_result) \<Rightarrow> nat \<Rightarrow> nat \<Rightarrow> string \<Rightarrow> string \<Rightarrow> 'w \<Rightarrow>
   (decide_error + continue_result) \<times> 'w" where
  "decide_loop io accept attempt 0 last_error previous w = (Inl (Still_invalid last_error), w)"
| "decide_loop io accept attempt (Suc left) last_error previous w =
     (case obtain_answer io attempt last_error previous w of
        (Inl e, w1) \<Rightarrow> (Inl (Call_failed e), w1)
      | (Inr answer, w1) \<Rightarrow>
          (case accept w1 answer of
             Inr r \<Rightarrow> (Inr r, io_accept io attempt r w1)
           | Inl (Refused reason) \<Rightarrow>
               decide_loop io accept (Suc attempt) left reason answer (io_reject io attempt reason w1)
           | Inl (Raises exn) \<Rightarrow> (Inl (Escaped exn), w1)))"

definition decide ::
  "'w continue_io \<Rightarrow> plan_authority \<Rightarrow> nat \<Rightarrow> 'w validator \<Rightarrow> 'w \<Rightarrow>
   (decide_error + continue_result) \<times> 'w" where
  "decide io au attempt_budget validate w =
     decide_loop io (\<lambda>v answer. rbind (of_plan_error (parse_planner_continue au answer)) (validate v)) 0 attempt_budget [] [] w"

section \<open>Lemmas\<close>

lemma check_next_Inr:
  "check_next au m p q = Inr x \<longleftrightarrow>
     (\<exists>pl. p = Some pl \<and> \<not> no_milestone m \<and> tp_decision pl = READY \<and> tp_milestone_id pl = Some m
        \<and> q = None \<and> validate_execution_mode_policy pl (au_planning au) = Inr () \<and> x = Some m)"
  by (auto simp: check_next_def split: option.splits if_splits)

lemma check_final_Inr:
  "check_final d m q = Inr x \<Longrightarrow>
     x = None \<and> (d = SPEC_DECISION_STOP \<longrightarrow> (\<exists>t. q = Some t \<and> py_len t \<le> max_spec_question_chars))
   \<and> (d \<noteq> SPEC_DECISION_STOP \<longrightarrow> q = None)"
  by (auto simp: check_final_def split: option.splits if_splits)

lemma parse_decision_Inr:
  assumes "parse_decision au values inner = Inr r"
  shows "continue_result_ok r
    \<and> (\<forall>p. cr_next_plan r = Some p \<longrightarrow> tp_decision p = READY \<and> tp_milestone_id p = cr_next_milestone r
         \<and> (\<exists>raw. parse_task_plan_v2 raw (au_planning au) (au_catalog_ids au) (au_default_ids au) [] = Inr p))
    \<and> (\<forall>q. cr_spec_question r = Some q \<longrightarrow> py_len q \<le> max_spec_question_chars)"
  using assms
  by (auto simp: parse_decision_def continue_result_ok_def Let_def rmap_option_def check_next_Inr
      dest!: check_final_Inr split: option.splits if_splits)

lemma parse_planner_continue_Inr:
  "parse_planner_continue au raw = Inr r \<Longrightarrow> \<exists>values inner. parse_decision au values inner = Inr r"
  by (auto simp: parse_planner_continue_def Let_def split: list.splits if_splits prod.splits)

text \<open>A loop that returns a decision returns an accepted one; it asks at most once per attempt.\<close>

lemma decide_loop_Inr:
  "decide_loop io accept attempt left err prev w = (Inr r, w') \<Longrightarrow> \<exists>v answer. accept v answer = Inr r"
  by (induction io accept attempt left err prev w rule: decide_loop.induct)
     (auto split: prod.splits sum.splits validation_error.splits)

lemma of_plan_error_Inr [simp]: "of_plan_error m = Inr x \<longleftrightarrow> m = Inr x"
  by (cases "m" rule: of_plan_error.cases) auto

lemma canonical_items_set:
  "set (map canonical_item xs) = set (map canonical_item ys) \<Longrightarrow> canonical_items_of xs = canonical_items_of ys"
  by (simp add: canonical_items_of_def)


text \<open>A count of the model calls made so far: a call adds at most one, the records add none.\<close>

definition counts_calls :: "'w continue_io \<Rightarrow> ('w \<Rightarrow> nat) \<Rightarrow> bool" where
  "counts_calls io calls \<longleftrightarrow>
     (\<forall>n e p w. calls (snd (io_ask io n e p w)) \<le> Suc (calls w))
     \<and> (\<forall>n e w. calls (io_reject io n e w) = calls w) \<and> (\<forall>n r w. calls (io_accept io n r w) = calls w)"

lemma obtain_answer_calls:
  "counts_calls io calls \<Longrightarrow> obtain_answer io n e p w = (x, w') \<Longrightarrow> calls w' \<le> Suc (calls w)"
  unfolding counts_calls_def obtain_answer_def by (auto split: option.splits) (metis snd_conv)

lemma decide_loop_calls:
  assumes "counts_calls io calls"
  shows "calls (snd (decide_loop io accept attempt left err prev w)) \<le> calls w + left"
proof (induction left arbitrary: attempt err prev w)
  case (Suc left)
  obtain x w1 where o: "obtain_answer io attempt err prev w = (x, w1)" by force
  from obtain_answer_calls [OF assms o] have w1: "calls w1 \<le> Suc (calls w)" .
  have rej: "calls (io_reject io n e v) = calls v" and acc: "calls (io_accept io n r v) = calls v" for n e r v
    using assms by (simp_all add: counts_calls_def)
  show ?case
    using o w1 rej acc Suc.IH [of "Suc attempt" _ _ "io_reject io attempt _ w1"]
    by (fastforce split: sum.splits validation_error.splits intro: le_trans)
qed simp

section \<open>Properties\<close>

text \<open>C27: a continuation decision is validated before anyone acts on it, and costs a bounded number of
  model calls. Whatever the model answers, the decision that is returned is one the validator of the
  run accepted, made from a parsed decision that carries exactly what its kind requires (a READY plan
  for the named milestone, or one bounded question, or neither); and there are at most as many model
  calls as the budget of attempts.\<close>

theorem continuation_is_validated:
  assumes "counts_calls io calls"
  shows "calls (snd (decide io au budget validate w)) \<le> calls w + budget
    \<and> (\<forall>r w'. decide io au budget validate w = (Inr r, w') \<longrightarrow>
         (\<exists>v d. validate v d = Inr r \<and> continue_result_ok d
            \<and> (\<forall>p. cr_next_plan d = Some p \<longrightarrow> tp_decision p = READY \<and> tp_milestone_id p = cr_next_milestone d)))"
proof -
  have "\<exists>v d. validate v d = Inr r \<and> continue_result_ok d
      \<and> (\<forall>p. cr_next_plan d = Some p \<longrightarrow> tp_decision p = READY \<and> tp_milestone_id p = cr_next_milestone d)"
    if "decide io au budget validate w = (Inr r, w')" for r w'
  proof -
    from that obtain v answer where "rbind (of_plan_error (parse_planner_continue au answer)) (validate v) = Inr r"
      unfolding decide_def by (blast dest: decide_loop_Inr)
    then obtain d where "parse_planner_continue au answer = Inr d" and "validate v d = Inr r" by auto
    then show ?thesis using parse_planner_continue_Inr parse_decision_Inr by blast
  qed
  with decide_loop_calls [OF assms] show ?thesis by (auto simp: decide_def)
qed

definition sample_answer :: string where
  "sample_answer = join newline [''META CONTINUE v1'', ''DECISION: COMPLETE'', ''SUMMARY: all done'',
     ''REMAINING'', ''- none'', ''NEXT_MILESTONE: NONE'', ''SPEC_QUESTION: NONE'', ''END META CONTINUE'']"

definition sample_io :: "nat continue_io" where
  "sample_io = \<lparr>io_durable_answer = (\<lambda>n w. None),
     io_ask = (\<lambda>n e p w. (Inr (if n = 0 then ''nonsense'' else sample_answer), Suc w)),
     io_reject = (\<lambda>n e w. w), io_accept = (\<lambda>n r w. w)\<rparr>"

definition sample_authority :: plan_authority where
  "sample_authority = \<lparr>au_planning = default_planning, au_catalog_ids = [], au_default_ids = []\<rparr>"

definition sample_decision :: continue_result where
  "sample_decision = \<lparr>cr_decision = COMPLETE_RUN, cr_summary = ''all done'', cr_remaining = [],
     cr_next_milestone = None, cr_spec_question = None, cr_next_plan = None\<rparr>"

lemma sample_parse:
  "parse_planner_continue sample_authority sample_answer = Inr sample_decision"
  by code_simp

lemma sample_nonsense:
  "parse_planner_continue sample_authority ''nonsense''
     = Inl (V2_plan_error ''answer needs exactly one META CONTINUE v1 envelope'')"
  by code_simp

theorem continuation_is_validated_witness:
  "decide sample_io sample_authority 3 (\<lambda>v. Inr) 0 = (Inr sample_decision, 2) \<and> continue_result_ok sample_decision"
proof -
  have run: "decide sample_io sample_authority 3 (\<lambda>v. Inr) 0 = (Inr sample_decision, 2)"
    by (simp add: decide_def numeral_3_eq_3 obtain_answer_def sample_io_def sample_parse sample_nonsense)
  have "counts_calls sample_io (\<lambda>w. w)" by (simp add: counts_calls_def sample_io_def)
  from continuation_is_validated [OF this, of sample_authority 3 "\<lambda>v. Inr" 0] run show ?thesis by auto
qed

end
