(* ===== verification/Pipeline.thy ===== *)
theory Pipeline
  imports Actions Continuation Checkpoint
begin

text \<open>
  The coordinator of \<open>orchestration/pipeline_v2.py\<close>: the order of the durable phases, the checkpoint
  written before each of them, the gate and audit loop of an iteration, the continuation decision, and
  the candidate, its push and the publication.

  The operations it sequences are a record of actions over a world of their own, as the coordinator
  receives them; the files and the Git objects it reads itself are fields of the same record. Its
  state is the cursor of phases it entered, the context in flight, the world, and the calls it has
  made of the operations that change something, latest first.

  The recursion of \<open>_continue\<close> over iterations takes fuel; the theory of its properties shows how much
  is enough.
\<close>

section \<open>Exceptions\<close>

text \<open>
  What the operations raise: \<open>PipelineFailure\<close> by its reason, \<open>BudgetExhausted\<close> by its reason, and any
  other exception by its class. The coordinator raises the same, and refuses an illegal phase move
  (reported as \<open>INTERNAL_HARNESS_ERROR\<close>), which is a constructor of its own here.
\<close>

datatype exn = Pipeline_failure string | Budget_exhausted string | Other_error string

datatype stop = Raised exn | Illegal_phase transition_error | Out_of_fuel

definition budget_exhausted :: "string \<Rightarrow> exn" where
  "budget_exhausted reason =
     (if reason \<in> set partial_reasons then Budget_exhausted reason else Other_error ''ValueError'')"

definition pipeline_failure :: "string \<Rightarrow> exn" where
  "pipeline_failure reason = (if blank reason then Other_error ''TypeError'' else Pipeline_failure reason)"

section \<open>Data\<close>

text \<open>The fields of \<open>PipelineV2Context\<close> the coordinator reads; the others are handed on unread.\<close>

record pctx =
  px_run_id :: string
  px_base_sha :: string
  px_budget :: autonomy_budget
  px_max_steps_per_plan :: int
  px_iteration :: int

record cycle_plan =
  cp_cycle :: run_cycle
  cp_plan :: task_plan

text \<open>The mutable scope of a cycle: every path of a mutation set, sorted and without repetition.\<close>

definition mutable_scope :: "cycle_plan \<Rightarrow> string list" where
  "mutable_scope cp = sorted_list_of_set (set (concat
     (map (\<lambda>st. st_write_set st @ st_create_set st @ st_delete_set st) (tp_steps (cp_plan cp)))))"

text \<open>A check result and the evidence of one gate, as far as \<open>required_checks_passed\<close> reads them.\<close>

record check_result =
  ck_name :: string
  ck_exit_code :: int
  ck_timed_out :: bool
  ck_workspace_mutated :: bool
  ck_failure_kind :: string
  ck_mutation_recovered :: bool

record evidence =
  eb_deterministic_passed :: bool
  eb_checks :: "check_result list"
  eb_required_check_ids :: "string list"
  eb_baseline_cleared :: "string list"
  eb_failures :: "string list"
  eb_changed_files :: "string list"

text \<open>One required check is answered: skipped, cleared by the baseline, or a clean pass.\<close>

definition check_answered :: "string list \<Rightarrow> check_result \<Rightarrow> bool" where
  "check_answered cleared c \<longleftrightarrow>
     ck_failure_kind c = ''skipped_infra'' \<or> ck_name c \<in> set cleared
     \<or> ck_exit_code c = 0 \<and> \<not> ck_timed_out c \<and> ck_failure_kind c = ''passed''
        \<and> (\<not> ck_workspace_mutated c \<or> ck_mutation_recovered c)"

text \<open>The last result of a name is the one that counts.\<close>

definition result_named :: "check_result list \<Rightarrow> string \<Rightarrow> check_result option" where
  "result_named checks name = find (\<lambda>c. ck_name c = name) (rev checks)"

definition required_checks_passed :: "evidence \<Rightarrow> bool" where
  "required_checks_passed e \<longleftrightarrow>
     list_all (\<lambda>i. case result_named (eb_checks e) i of
         None \<Rightarrow> False
       | Some c \<Rightarrow> check_answered (eb_baseline_cleared e) c) (eb_required_check_ids e)"

definition evidence_green :: "evidence \<Rightarrow> bool" where
  "evidence_green e \<longleftrightarrow> eb_deterministic_passed e \<and> required_checks_passed e"

text \<open>The audit as a run of it returns it, and as the outcome of an iteration keeps it.\<close>

record audit_result =
  ar_status :: string
  ar_remaining :: "string list"
  ar_fixed :: "string list"
  ar_refactored :: "string list"
  ar_risks :: "string list"

record audit_facts =
  af_status :: pyval
  af_remaining :: "pyval list"
  af_fixed :: "pyval list"
  af_refactored :: "pyval list"
  af_risks :: "pyval list"

definition no_audit :: audit_facts where
  "no_audit = \<lparr>af_status = PStr ''NOT_RUN'', af_remaining = [], af_fixed = [], af_refactored = [], af_risks = []\<rparr>"

definition facts_of_audit :: "audit_result \<Rightarrow> audit_facts" where
  "facts_of_audit a = \<lparr>af_status = PStr (ar_status a), af_remaining = map PStr (ar_remaining a),
     af_fixed = map PStr (ar_fixed a), af_refactored = map PStr (ar_refactored a),
     af_risks = map PStr (ar_risks a)\<rparr>"

record iteration_outcome =
  io_evidence :: evidence
  io_audit :: audit_facts

definition gate_green :: "iteration_outcome \<Rightarrow> bool" where
  "gate_green out \<longleftrightarrow> evidence_green (io_evidence out)"

text \<open>\<open>tuple(value)\<close> of a decoded JSON value.\<close>

definition tuple_of :: "pyval \<Rightarrow> exn + pyval list" where
  "tuple_of v =
     (case v of
        PList xs \<Rightarrow> Inr xs
      | PTuple xs \<Rightarrow> Inr xs
      | PStr s \<Rightarrow> Inr (map (\<lambda>c. PStr [c]) s)
      | PDict d \<Rightarrow> Inr (map (\<lambda>e. PStr (fst e)) d)
      | _ \<Rightarrow> Inl (Other_error ''TypeError''))"

text \<open>A use of items that must all be strings: \<open>join\<close> and the fingerprint raise on any other.\<close>

definition item_str :: "pyval \<Rightarrow> exn + string" where
  "item_str v = (case v of PStr s \<Rightarrow> Inr s | _ \<Rightarrow> Inl (Other_error ''TypeError''))"

definition facts_of_report :: "(string \<times> pyval) list \<Rightarrow> exn + audit_facts" where
  "facts_of_report d =
     rbind (tuple_of (dget_or d ''remaining'' (PTuple []))) (\<lambda>remaining.
     rbind (tuple_of (dget_or d ''fixed'' (PTuple []))) (\<lambda>fixed.
     rbind (tuple_of (dget_or d ''refactored'' (PTuple []))) (\<lambda>refactored.
     rbind (tuple_of (dget_or d ''risks'' (PTuple []))) (\<lambda>risks.
       Inr \<lparr>af_status = dget_or d ''status'' (PStr ''NOT_RUN''), af_remaining = remaining,
         af_fixed = fixed, af_refactored = refactored, af_risks = risks\<rparr>))))"

definition read_report :: "codec \<Rightarrow> file_read \<Rightarrow> exn + (string \<times> pyval) list" where
  "read_report cdc f =
     (case (case f of Bytes b \<Rightarrow> json_loads cdc b | _ \<Rightarrow> None) of
        None \<Rightarrow> Inl (Pipeline_failure ''DURABLE_ARTIFACT_CORRUPTED'')
      | Some (PDict d) \<Rightarrow> Inr d
      | Some _ \<Rightarrow> Inl (Other_error ''AttributeError''))"

definition audit_summary :: "codec \<Rightarrow> file_read list \<Rightarrow> exn + audit_facts" where
  "audit_summary cdc reports =
     (if reports = [] then Inr no_audit
      else rbind (read_report cdc (last reports)) facts_of_report)"

text \<open>A durable report that stopped for a SPEC decision stops the gate again.\<close>

fun check_reports :: "codec \<Rightarrow> file_read list \<Rightarrow> exn + unit" where
  "check_reports cdc [] = Inr ()"
| "check_reports cdc (f # fs) =
     rbind (read_report cdc f) (\<lambda>d.
       if dget d ''status'' = PStr ''SPEC_DECISION'' then Inl (Pipeline_failure ''SPEC_DECISION_REQUIRED'')
       else check_reports cdc fs)"

section \<open>Records of earlier iterations\<close>

definition iteration_record_path :: "int \<Rightarrow> string" where
  "iteration_record_path i = ''iterations/'' @ show02 (nat i) @ ''/iteration.json''"

definition record_field :: "codec \<Rightarrow> run_dir \<Rightarrow> int \<Rightarrow> string \<Rightarrow> string option" where
  "record_field cdc rd i key =
     (case read_json cdc rd (iteration_record_path i) of
        Some (PDict d) \<Rightarrow> (case dget d key of PStr s \<Rightarrow> Some s | _ \<Rightarrow> None)
      | _ \<Rightarrow> None)"

definition load_stagnation_fingerprint :: "codec \<Rightarrow> run_dir \<Rightarrow> int \<Rightarrow> string option" where
  "load_stagnation_fingerprint cdc rd i =
     (if i < 1 then None else record_field cdc rd i ''stagnation_fingerprint'')"

definition iteration_start_commit :: "codec \<Rightarrow> run_dir \<Rightarrow> pctx \<Rightarrow> string \<Rightarrow> string" where
  "iteration_start_commit cdc rd ctx fallback =
     (if px_iteration ctx = 1 then px_base_sha ctx
      else (case record_field cdc rd (px_iteration ctx - 1) ''end_commit'' of
          None \<Rightarrow> fallback
        | Some c \<Rightarrow> c))"

section \<open>The operations and the coordinator's state\<close>

type_synonym candidate = "(string \<times> pyval) list"

text \<open>
  \<open>PipelineV2Operations\<close>. An operation that changes something is an action on the world; one that only
  reads is a function of it. The last group is what the coordinator reads without an operation: the
  sorted audit reports of a cycle, the run directory, the tree of the worktree and of a commit, and
  the paths of a tree (\<^const>\<open>None\<close> where Git refuses). All stages are the one gate stage of the run.
\<close>

record ('w, 'r) ops =
  op_checkpoint :: "pctx \<Rightarrow> run_phase \<Rightarrow> int \<Rightarrow> pyval \<Rightarrow> int option \<Rightarrow> ('w, exn, unit) act"
  op_begin_cycle :: "pctx \<Rightarrow> run_cycle \<Rightarrow> bool \<Rightarrow> ('w, exn, unit) act"
  op_initial_plan :: "pctx \<Rightarrow> ('w, exn, cycle_plan) act"
  op_execute_step :: "pctx \<Rightarrow> cycle_plan \<Rightarrow> int \<Rightarrow> ('w, exn, unit) act"
  op_pause_requested :: "pctx \<Rightarrow> 'w \<Rightarrow> exn + bool"
  op_pause :: "pctx \<Rightarrow> cycle_plan \<Rightarrow> int \<Rightarrow> ('w, exn, 'r) act"
  op_run_gate :: "pctx \<Rightarrow> cycle_plan \<Rightarrow> ('w, exn, evidence) act"
  op_load_gate_evidence :: "pctx \<Rightarrow> int \<Rightarrow> 'w \<Rightarrow> exn + evidence option"
  op_run_audit :: "pctx \<Rightarrow> cycle_plan \<Rightarrow> evidence \<Rightarrow> int \<Rightarrow> ('w, exn, audit_result) act"
  op_accept_gate_state :: "pctx \<Rightarrow> cycle_plan \<Rightarrow> evidence \<Rightarrow> ('w, exn, unit) act"
  op_hard_failures :: "evidence \<Rightarrow> string list"
  op_create_candidate :: "pctx \<Rightarrow> cycle_plan \<Rightarrow> evidence \<Rightarrow> ('w, exn, candidate) act"
  op_load_candidate :: "pctx \<Rightarrow> int \<Rightarrow> ('w, exn, candidate) act"
  op_push_candidate :: "pctx \<Rightarrow> int \<Rightarrow> candidate \<Rightarrow> ('w, exn, candidate) act"
  op_publish :: "pctx \<Rightarrow> int \<Rightarrow> candidate \<Rightarrow> ('w, exn, 'r) act"
  op_load_iteration_outcome :: "pctx \<Rightarrow> cycle_plan \<Rightarrow> 'w \<Rightarrow> exn + iteration_outcome"
  op_planner_continue ::
    "pctx \<Rightarrow> cycle_plan \<Rightarrow> iteration_outcome \<Rightarrow> 'w validator \<Rightarrow> ('w, exn, continue_result) act"
  op_prepare_next_iteration :: "pctx \<Rightarrow> continue_result \<Rightarrow> ('w, exn, pctx) act"
  op_close_iteration ::
    "pctx \<Rightarrow> cycle_plan \<Rightarrow> iteration_outcome \<Rightarrow> continue_result \<Rightarrow> string \<Rightarrow> string option \<Rightarrow> string \<Rightarrow>
     ('w, exn, unit) act"
  op_partial :: "pctx \<Rightarrow> string \<Rightarrow> string list \<Rightarrow> string list \<Rightarrow> ('w, exn, 'r) act"
  op_spec_decision :: "pctx \<Rightarrow> continue_result \<Rightarrow> iteration_outcome \<Rightarrow> ('w, exn, 'r) act"
  op_failed_continued :: "pctx \<Rightarrow> cycle_plan \<Rightarrow> 'w \<Rightarrow> exn + string list"
  op_budget_exhausted :: "pctx \<Rightarrow> 'w \<Rightarrow> exn + string option"
  op_budget_partial :: "pctx \<Rightarrow> string \<Rightarrow> ('w, exn, 'r) act"
  op_current_head :: "pctx \<Rightarrow> 'w \<Rightarrow> exn + string"
  rd_codec :: codec
  rd_run_dir :: "'w \<Rightarrow> run_dir"
  rd_audit_reports :: "pctx \<Rightarrow> int \<Rightarrow> 'w \<Rightarrow> file_read list"
  rd_candidate_tree :: "pctx \<Rightarrow> 'w \<Rightarrow> exn + string"
  rd_resolve_tree :: "pctx \<Rightarrow> string \<Rightarrow> 'w \<Rightarrow> exn + (string \<Rightarrow> bool)"

text \<open>The calls the coordinator makes, with the arguments the properties speak of.\<close>

datatype call =
    Checkpoint_call run_phase int pyval "int option"
  | Begin_cycle_call int bool
  | Initial_plan_call int
  | Execute_step_call int int
  | Pause_call int
  | Run_gate_call int
  | Run_audit_call int int
  | Accept_gate_call evidence
  | Create_candidate_call evidence
  | Load_candidate_call
  | Push_candidate_call
  | Publish_call
  | Planner_continue_call int
  | Prepare_next_call int
  | Close_iteration_call int string
  | Partial_call string
  | Spec_decision_call
  | Budget_partial_call string

record 'w coord =
  co_cursor :: "run_phase list"
  co_current :: "pctx option"
  co_world :: 'w
  co_calls :: "call list"

text \<open>A call of an operation: it is recorded, changes the world, and may raise.\<close>

definition perform :: "call \<Rightarrow> ('w, exn, 'a) act \<Rightarrow> ('w coord, stop, 'a) act" where
  "perform c m s =
     (case m (co_world s) of
        (Inl e, w) \<Rightarrow> (Inl (Raised e), s\<lparr>co_world := w, co_calls := c # co_calls s\<rparr>)
      | (Inr x, w) \<Rightarrow> (Inr x, s\<lparr>co_world := w, co_calls := c # co_calls s\<rparr>))"

text \<open>A reading of the world that may raise.\<close>

definition consult :: "('w \<Rightarrow> exn + 'a) \<Rightarrow> ('w coord, stop, 'a) act" where
  "consult f = reads (\<lambda>s. case f (co_world s) of Inl e \<Rightarrow> Inl (Raised e) | Inr x \<Rightarrow> Inr x)"

definition fail :: "exn \<Rightarrow> ('w coord, stop, 'a) act" where
  "fail e = raise (Raised e)"

text \<open>An expression that may raise.\<close>

definition eval :: "exn + 'a \<Rightarrow> ('w coord, stop, 'a) act" where
  "eval r = (case r of Inl e \<Rightarrow> fail e | Inr x \<Rightarrow> ret x)"

section \<open>Phases and boundaries\<close>

definition guard :: "('w, 'r) ops \<Rightarrow> pctx \<Rightarrow> ('w coord, stop, unit) act" where
  "guard ops ctx =
     bnd (modify (\<lambda>s. s\<lparr>co_current := Some ctx\<rparr>)) (\<lambda>_.
     bnd (consult (op_budget_exhausted ops ctx)) (\<lambda>r.
       case r of None \<Rightarrow> ret () | Some reason \<Rightarrow> fail (budget_exhausted reason)))"

definition enter_phase :: "run_phase \<Rightarrow> ('w coord, stop, unit) act" where
  "enter_phase target s =
     (let advanced = s\<lparr>co_cursor := co_cursor s @ [target]\<rparr>
      in if co_cursor s = [] then (Inr (), advanced)
         else (case transition (state_at (Some (last (co_cursor s))) RUNNING None)
                 \<lparr>ev_kind = ADVANCE, ev_target = Some target, ev_disposition = None, ev_reason = None\<rparr> of
             Inl e \<Rightarrow> (Inl (Illegal_phase e), s)
           | Inr m \<Rightarrow> (Inr (), advanced)))"

definition write_boundary ::
  "('w, 'r) ops \<Rightarrow> pctx \<Rightarrow> run_phase \<Rightarrow> int \<Rightarrow> pyval \<Rightarrow> int option \<Rightarrow> ('w coord, stop, unit) act" where
  "write_boundary ops ctx phase iteration head index =
     perform (Checkpoint_call phase iteration head index) (op_checkpoint ops ctx phase iteration head index)"

definition boundary ::
  "('w, 'r) ops \<Rightarrow> pctx \<Rightarrow> run_phase \<Rightarrow> cycle_plan \<Rightarrow> int option \<Rightarrow> ('w coord, stop, unit) act" where
  "boundary ops ctx phase plan index =
     bnd (enter_phase phase) (\<lambda>_.
     bnd (consult (op_current_head ops ctx)) (\<lambda>head.
       write_boundary ops ctx phase (cy_number (cp_cycle plan)) (PStr head) index))"

definition candidate_boundary ::
  "('w, 'r) ops \<Rightarrow> pctx \<Rightarrow> run_phase \<Rightarrow> cycle_plan \<Rightarrow> candidate \<Rightarrow> ('w coord, stop, unit) act" where
  "candidate_boundary ops ctx phase plan cand =
     bnd (enter_phase phase) (\<lambda>_.
       case map_of cand ''commit_sha'' of
         None \<Rightarrow> fail (Other_error ''KeyError'')
       | Some head \<Rightarrow> write_boundary ops ctx phase (cy_number (cp_cycle plan)) head None)"

definition pause_after_step ::
  "('w, 'r) ops \<Rightarrow> pctx \<Rightarrow> cycle_plan \<Rightarrow> int \<Rightarrow> ('w coord, stop, 'r option) act" where
  "pause_after_step ops ctx plan index =
     bnd (consult (op_pause_requested ops ctx)) (\<lambda>requested.
       if \<not> requested then ret None
       else
         bnd (if index + 1 < int (length (tp_steps (cp_plan plan)))
              then boundary ops ctx IMPLEMENT_STEP plan (Some (index + 1))
              else boundary ops ctx DETERMINISTIC_GATE plan None) (\<lambda>_.
         bnd (perform (Pause_call index) (op_pause ops ctx plan index)) (\<lambda>r. ret (Some r))))"

text \<open>The steps of a cycle from an index on; \<open>Some\<close> result when the run was paused.\<close>

definition run_step ::
  "('w, 'r) ops \<Rightarrow> pctx \<Rightarrow> cycle_plan \<Rightarrow> int \<Rightarrow> ('w coord, stop, 'r option) act" where
  "run_step ops ctx plan index =
     bnd (boundary ops ctx IMPLEMENT_STEP plan (Some index)) (\<lambda>_.
     bnd (perform (Execute_step_call (px_iteration ctx) index) (op_execute_step ops ctx plan index)) (\<lambda>_.
       pause_after_step ops ctx plan index))"

definition run_steps ::
  "('w, 'r) ops \<Rightarrow> pctx \<Rightarrow> cycle_plan \<Rightarrow> int \<Rightarrow> ('w coord, stop, 'r option) act" where
  "run_steps ops ctx plan first =
     for_return [first..int (length (tp_steps (cp_plan plan))) - 1] (run_step ops ctx plan)"

section \<open>The gate of one iteration\<close>

definition accept_outcome ::
  "('w, 'r) ops \<Rightarrow> pctx \<Rightarrow> cycle_plan \<Rightarrow> evidence \<Rightarrow> audit_facts \<Rightarrow> ('w coord, stop, iteration_outcome) act" where
  "accept_outcome ops ctx plan e audit =
     bnd (perform (Accept_gate_call e) (op_accept_gate_state ops ctx plan e)) (\<lambda>_.
       ret \<lparr>io_evidence = e, io_audit = audit\<rparr>)"

definition check_hard :: "('w, 'r) ops \<Rightarrow> evidence \<Rightarrow> exn + unit" where
  "check_hard ops e =
     (case op_hard_failures ops e of
        [] \<Rightarrow> Inr ()
      | f # _ \<Rightarrow> Inl (pipeline_failure (head_of '':'' f)))"

text \<open>One audit and the gate after it; \<open>Inr\<close> outcome when this gate passed, else its evidence.\<close>

definition audit_attempt ::
  "('w, 'r) ops \<Rightarrow> pctx \<Rightarrow> cycle_plan \<Rightarrow> evidence \<Rightarrow> int \<Rightarrow>
   ('w coord, stop, (evidence \<times> audit_facts) + iteration_outcome) act" where
  "audit_attempt ops ctx plan e attempt =
     bnd (boundary ops ctx AUDIT plan None) (\<lambda>_.
     bnd (perform (Run_audit_call (px_iteration ctx) attempt) (op_run_audit ops ctx plan e attempt)) (\<lambda>audit.
     if ar_status audit = ''SPEC_DECISION'' then fail (Pipeline_failure ''SPEC_DECISION_REQUIRED'')
     else
     bnd (boundary ops ctx DETERMINISTIC_GATE plan None) (\<lambda>_.
     bnd (perform (Run_gate_call (px_iteration ctx)) (op_run_gate ops ctx plan)) (\<lambda>e'.
     bnd (eval (check_hard ops e')) (\<lambda>_.
     if eb_deterministic_passed e'
     then if eb_failures e' \<noteq> [] \<or> \<not> required_checks_passed e'
          then fail (Pipeline_failure ''DURABLE_ARTIFACT_CORRUPTED'')
          else bnd (accept_outcome ops ctx plan e' (facts_of_audit audit)) (\<lambda>out. ret (Inr out))
     else ret (Inl (e', facts_of_audit audit)))))))"

text \<open>A gate that leaves no diff and no failed step has nothing an audit could repair.\<close>

definition nothing_to_audit ::
  "('w, 'r) ops \<Rightarrow> pctx \<Rightarrow> cycle_plan \<Rightarrow> evidence \<Rightarrow> ('w coord, stop, bool) act" where
  "nothing_to_audit ops ctx plan e =
     (if eb_changed_files e \<noteq> [] then ret False
      else bnd (consult (op_failed_continued ops ctx plan)) (\<lambda>failed. ret (failed = [])))"

fun gate_loop ::
  "('w, 'r) ops \<Rightarrow> pctx \<Rightarrow> cycle_plan \<Rightarrow> int list \<Rightarrow> evidence \<Rightarrow> audit_facts \<Rightarrow>
   ('w coord, stop, iteration_outcome) act" where
  "gate_loop ops ctx plan [] e audit = ret \<lparr>io_evidence = e, io_audit = audit\<rparr>"
| "gate_loop ops ctx plan (attempt # attempts) e audit =
     bnd (eval (check_hard ops e)) (\<lambda>_.
     bnd (nothing_to_audit ops ctx plan e) (\<lambda>idle.
     if idle
     then if evidence_green e then accept_outcome ops ctx plan e audit
          else fail (Pipeline_failure ''DETERMINISTIC_GATE_FAILED'')
     else
     bnd (audit_attempt ops ctx plan e attempt) (\<lambda>r.
       case r of Inr out \<Rightarrow> ret out | Inl (e', audit') \<Rightarrow> gate_loop ops ctx plan attempts e' audit')))"

definition first_evidence ::
  "('w, 'r) ops \<Rightarrow> pctx \<Rightarrow> cycle_plan \<Rightarrow> resume_checkpoint option \<Rightarrow> bool \<Rightarrow> ('w coord, stop, evidence) act" where
  "first_evidence ops ctx plan start reported =
     (if (case start of None \<Rightarrow> False | Some c \<Rightarrow> rc_phase c = AUDIT) \<and> \<not> reported
      then bnd (consult (op_load_gate_evidence ops ctx (cy_number (cp_cycle plan)))) (\<lambda>stored.
        case stored of
          None \<Rightarrow> fail (Pipeline_failure ''RESUME_INTEGRITY_FAILURE'')
        | Some e \<Rightarrow> ret e)
      else perform (Run_gate_call (px_iteration ctx)) (op_run_gate ops ctx plan))"

definition gate ::
  "('w, 'r) ops \<Rightarrow> pctx \<Rightarrow> cycle_plan \<Rightarrow> resume_checkpoint option \<Rightarrow> ('w coord, stop, iteration_outcome) act" where
  "gate ops ctx plan start =
     bnd (gets (\<lambda>s. rd_audit_reports ops ctx (cy_number (cp_cycle plan)) (co_world s))) (\<lambda>reports.
     bnd (first_evidence ops ctx plan start (reports \<noteq> [])) (\<lambda>e.
     bnd (eval (check_reports (rd_codec ops) reports)) (\<lambda>_.
     bnd (eval (audit_summary (rd_codec ops) reports)) (\<lambda>audit.
     if reports \<noteq> [] \<and> evidence_green e then accept_outcome ops ctx plan e audit
     else gate_loop ops ctx plan [int (length reports) + 1..audit_repairs (px_budget ctx)] e audit))))"

section \<open>The validator of a continuation\<close>

definition no_remainder_words :: "string list" where
  "no_remainder_words = [''none'', ''n/a'', ''na'', ''-'', em_dash, ''nil'']"

definition unresolved_failed :: "string list \<Rightarrow> string list \<Rightarrow> string list" where
  "unresolved_failed failed remaining =
     filter (\<lambda>item. contains (casefold (head_of '':'' item)) (casefold (join '' '' remaining))) failed"

definition lift_exn :: "exn + 'a \<Rightarrow> validation_error + 'a" where
  "lift_exn r =
     (case r of
        Inr x \<Rightarrow> Inr x
      | Inl (Pipeline_failure m) \<Rightarrow> Inl (Raises ''PipelineFailure'')
      | Inl (Budget_exhausted m) \<Rightarrow> Inl (Raises ''BudgetExhausted'')
      | Inl (Other_error m) \<Rightarrow> Inl (Raises m))"

text \<open>\<open>remaining\<close> is joined only when there is a failed step to look for.\<close>

definition complete_objections ::
  "cycle_plan \<Rightarrow> iteration_outcome \<Rightarrow> string list \<Rightarrow> continue_result \<Rightarrow> exn + string list" where
  "complete_objections plan out failed d =
     rbind (if failed = [] then Inr []
            else rmap item_str (af_remaining (io_audit out) @ map PStr (cr_remaining d))) (\<lambda>remaining.
       Inr ((if gate_green out then [] else [''deterministic gate is red or required checks are unsatisfied''])
          @ (if af_remaining (io_audit out) = [] then [] else [''audit REMAINING is not empty''])
          @ (if cr_remaining d = [] then [] else [''continuation REMAINING is not empty''])
          @ (if casefold (strip (tp_project_remainder (cp_plan plan))) \<in> set no_remainder_words then []
             else [''current project_remainder is not NONE''])
          @ (if unresolved_failed failed remaining = [] then []
             else [''FAILED_CONTINUED steps remain in continuation REMAINING''])))"

definition allowed_milestones :: "pctx \<Rightarrow> string \<Rightarrow> string list" where
  "allowed_milestones ctx current =
     (if starts ''M'' current \<and> tl current \<noteq> [] \<and> list_all is_digit (tl current)
      then [current, ''M'' @ show02 (read_nat (tl current) + 1)]
      else [''M'' @ show02 (nat (px_iteration ctx + 1))])"

definition milestone_refusal :: "pctx \<Rightarrow> string \<Rightarrow> string" where
  "milestone_refusal ctx current =
     (if starts ''M'' current \<and> tl current \<noteq> [] \<and> list_all is_digit (tl current)
      then ''NEXT must stay on '' @ current @ '' or progress to M'' @ show02 (read_nat (tl current) + 1)
      else ''NEXT must progress monotonically to M'' @ show02 (nat (px_iteration ctx + 1)))"

definition unknown_checks :: "task_plan \<Rightarrow> string option list" where
  "unknown_checks plan =
     map cn_detail (filter (\<lambda>n. cn_code n = DROP_UNKNOWN_REQUIRED_CHECK) (tp_normalizations plan))"

text \<open>
  A refusal's message keeps its fixed text; the list of details that follows it is left out. The
  topology is validated over the paths of the commit the worktree is at when the validator runs.
\<close>

definition validate_next ::
  "('w, 'r) ops \<Rightarrow> pctx \<Rightarrow> cycle_plan \<Rightarrow> 'w \<Rightarrow> continue_result \<Rightarrow> task_plan \<Rightarrow> validation_error + continue_result" where
  "validate_next ops ctx plan w d next_plan =
     (case tp_milestone_id (cp_plan plan) of
        None \<Rightarrow> Inl (Raises ''AttributeError'')
      | Some current \<Rightarrow>
          if \<not> (\<exists>m \<in> set (allowed_milestones ctx current). cr_next_milestone d = Some m)
          then Inl (Refused (milestone_refusal ctx current))
          else if int (length (tp_steps next_plan)) > px_max_steps_per_plan ctx
          then Inl (Refused ''NEXT exceeds planning.max_steps_per_plan'')
          else if unknown_checks next_plan \<noteq> [] then Inl (Refused ''NEXT contains untrusted checks'')
          else
            rbind (lift_exn (op_current_head ops ctx w)) (\<lambda>head.
            rbind (lift_exn (rd_resolve_tree ops ctx head w)) (\<lambda>path_exists.
              case validate_plan_repository_topology path_exists next_plan of
                Inl _ \<Rightarrow> Inl (Refused ''NEXT cannot run against the current HEAD'')
              | Inr normalized \<Rightarrow> Inr (d\<lparr>cr_next_plan := Some normalized\<rparr>))))"

definition validate_decision ::
  "('w, 'r) ops \<Rightarrow> pctx \<Rightarrow> cycle_plan \<Rightarrow> iteration_outcome \<Rightarrow> string list \<Rightarrow> 'w validator" where
  "validate_decision ops ctx plan out failed w d =
     (case cr_decision d of
        COMPLETE_RUN \<Rightarrow>
          rbind (lift_exn (complete_objections plan out failed d)) (\<lambda>invalid.
            if invalid \<noteq> [] then Inl (Refused (''COMPLETE refused: '' @ join ''; '' invalid)) else Inr d)
      | SPEC_DECISION_STOP \<Rightarrow> Inr d
      | NEXT_MILESTONE \<Rightarrow>
          (case cr_next_plan d of
             None \<Rightarrow> Inl (Refused ''continuation decision is incomplete'')
           | Some next_plan \<Rightarrow> validate_next ops ctx plan w d next_plan))"

section \<open>The continuation\<close>

definition fingerprint_of ::
  "('w, 'r) ops \<Rightarrow> pctx \<Rightarrow> pyval list \<Rightarrow> iteration_outcome \<Rightarrow> ('w coord, stop, string list \<times> string) act" where
  "fingerprint_of ops ctx remaining out =
     bnd (consult (rd_candidate_tree ops ctx)) (\<lambda>tree.
     bnd (eval (rmap item_str remaining)) (\<lambda>items.
       ret (items, stagnation_fingerprint (rd_codec ops) items (Some tree) (eb_failures (io_evidence out)))))"

definition push_and_publish ::
  "('w, 'r) ops \<Rightarrow> pctx \<Rightarrow> cycle_plan \<Rightarrow> candidate \<Rightarrow> ('w coord, stop, 'r) act" where
  "push_and_publish ops ctx plan cand =
     bnd (perform Push_candidate_call (op_push_candidate ops ctx (px_iteration ctx) cand)) (\<lambda>pushed.
     bnd (candidate_boundary ops ctx PUBLISH plan pushed) (\<lambda>_.
       perform Publish_call (op_publish ops ctx (px_iteration ctx) pushed)))"

definition complete_run ::
  "('w, 'r) ops \<Rightarrow> pctx \<Rightarrow> cycle_plan \<Rightarrow> iteration_outcome \<Rightarrow> continue_result \<Rightarrow> string \<Rightarrow> ('w coord, stop, 'r) act" where
  "complete_run ops ctx plan out d start_commit =
     bnd (fingerprint_of ops ctx [] out) (\<lambda>(items, fingerprint).
     bnd (perform (Close_iteration_call (px_iteration ctx) ''COMPLETE'')
       (op_close_iteration ops ctx plan out d start_commit (Some fingerprint) ''COMPLETE'')) (\<lambda>_.
     bnd (boundary ops ctx CANDIDATE_READY plan None) (\<lambda>_.
     bnd (perform (Create_candidate_call (io_evidence out))
       (op_create_candidate ops ctx plan (io_evidence out))) (\<lambda>cand.
     bnd (candidate_boundary ops ctx CANDIDATE_PUSH plan cand) (\<lambda>_.
       push_and_publish ops ctx plan cand)))))"

definition partial_reason :: "pctx \<Rightarrow> string option \<Rightarrow> string \<Rightarrow> string option" where
  "partial_reason ctx previous fingerprint =
     (if px_iteration ctx \<ge> max_iterations (px_budget ctx) then Some ''max_iterations''
      else if previous = Some fingerprint then Some ''stagnation'' else None)"

definition start_iteration ::
  "('w, 'r) ops \<Rightarrow> pctx \<Rightarrow> continue_result \<Rightarrow> ('w coord, stop, (pctx \<times> cycle_plan)) act" where
  "start_iteration ops ctx d =
     bnd (perform (Prepare_next_call (px_iteration ctx)) (op_prepare_next_iteration ops ctx d)) (\<lambda>ctx'.
     bnd (guard ops ctx') (\<lambda>_.
     bnd (perform (Initial_plan_call (px_iteration ctx')) (op_initial_plan ops ctx')) (\<lambda>plan.
     bnd (boundary ops ctx' IMPLEMENT_STEP plan (Some 0)) (\<lambda>_.
     bnd (perform (Begin_cycle_call (cy_number (cp_cycle plan)) True)
       (op_begin_cycle ops ctx' (cp_cycle plan) True)) (\<lambda>_.
       ret (ctx', plan))))))"

text \<open>The steps of a cycle, then its gate; \<open>Inl\<close> result when the run was paused.\<close>

definition implement ::
  "('w, 'r) ops \<Rightarrow> pctx \<Rightarrow> cycle_plan \<Rightarrow> int \<Rightarrow> ('w coord, stop, 'r + iteration_outcome) act" where
  "implement ops ctx plan first =
     bnd (run_steps ops ctx plan first) (\<lambda>paused.
     case paused of
       Some r \<Rightarrow> ret (Inl r)
     | None \<Rightarrow>
         bnd (boundary ops ctx DETERMINISTIC_GATE plan None) (\<lambda>_.
         bnd (gate ops ctx plan None) (\<lambda>out. ret (Inr out))))"

definition decide_continuation ::
  "('w, 'r) ops \<Rightarrow> pctx \<Rightarrow> cycle_plan \<Rightarrow> iteration_outcome \<Rightarrow>
   ('w coord, stop, string \<times> continue_result \<times> string list) act" where
  "decide_continuation ops ctx plan out =
     bnd (consult (op_current_head ops ctx)) (\<lambda>head.
     bnd (boundary ops ctx PLANNER plan None) (\<lambda>_.
     bnd (consult (op_failed_continued ops ctx plan)) (\<lambda>failed.
     bnd (perform (Planner_continue_call (px_iteration ctx))
       (op_planner_continue ops ctx plan out (validate_decision ops ctx plan out failed))) (\<lambda>d.
     bnd (consult (op_failed_continued ops ctx plan)) (\<lambda>failed'.
       ret (head, d, failed'))))))"

text \<open>A NEXT decision: its iteration is closed, and it ends the run as PARTIAL or prepares the next one.\<close>

definition close_for_next ::
  "('w, 'r) ops \<Rightarrow> pctx \<Rightarrow> cycle_plan \<Rightarrow> iteration_outcome \<Rightarrow> continue_result \<Rightarrow> string list \<Rightarrow> string \<Rightarrow>
   ('w coord, stop, 'r option) act" where
  "close_for_next ops ctx plan out d failed start_commit =
     (if cr_next_plan d = None then fail (Pipeline_failure ''PLANNER_OUTPUT_INVALID'')
      else
     bnd (fingerprint_of ops ctx (af_remaining (io_audit out) @ map PStr (cr_remaining d)) out)
       (\<lambda>(remaining, fingerprint).
     bnd (gets (\<lambda>s. load_stagnation_fingerprint (rd_codec ops) (rd_run_dir ops (co_world s)) (px_iteration ctx - 1)))
       (\<lambda>previous.
     let reason = partial_reason ctx previous fingerprint;
         outcome = (case reason of None \<Rightarrow> ''NEXT'' | Some _ \<Rightarrow> ''PARTIAL'')
     in bnd (perform (Close_iteration_call (px_iteration ctx) outcome)
          (op_close_iteration ops ctx plan out d start_commit (Some fingerprint) outcome)) (\<lambda>_.
        case reason of
          None \<Rightarrow> ret None
        | Some r \<Rightarrow>
            bnd (perform (Partial_call r)
              (op_partial ops ctx r remaining (dedup (eb_failures (io_evidence out) @ failed)))) (\<lambda>res.
              ret (Some res))))))"

fun continue_run ::
  "nat \<Rightarrow> ('w, 'r) ops \<Rightarrow> pctx \<Rightarrow> cycle_plan \<Rightarrow> iteration_outcome \<Rightarrow> string \<Rightarrow> ('w coord, stop, 'r) act" where
  "continue_run 0 ops ctx plan out start_commit = raise Out_of_fuel"
| "continue_run (Suc fuel) ops ctx plan out start_commit =
     bnd (decide_continuation ops ctx plan out) (\<lambda>(head, d, failed).
     case cr_decision d of
       SPEC_DECISION_STOP \<Rightarrow>
         bnd (perform (Close_iteration_call (px_iteration ctx) ''SPEC_DECISION'')
           (op_close_iteration ops ctx plan out d start_commit None ''SPEC_DECISION'')) (\<lambda>_.
           perform Spec_decision_call (op_spec_decision ops ctx d out))
     | COMPLETE_RUN \<Rightarrow> complete_run ops ctx plan out d start_commit
     | NEXT_MILESTONE \<Rightarrow>
         bnd (close_for_next ops ctx plan out d failed start_commit) (\<lambda>ended.
         case ended of
           Some r \<Rightarrow> ret r
         | None \<Rightarrow>
             bnd (start_iteration ops ctx d) (\<lambda>(ctx', plan').
             bnd (implement ops ctx' plan' 0) (\<lambda>result.
             case result of
               Inl paused \<Rightarrow> ret paused
             | Inr out' \<Rightarrow> continue_run fuel ops ctx' plan' out' head))))"

section \<open>The run\<close>

text \<open>\<open>start.last_green_commit or ctx.base_sha\<close>.\<close>

definition fallback_commit :: "pctx \<Rightarrow> resume_checkpoint \<Rightarrow> string" where
  "fallback_commit ctx start =
     (case rc_last_green_commit start of
        None \<Rightarrow> px_base_sha ctx
      | Some c \<Rightarrow> if c = [] then px_base_sha ctx else c)"

definition enter_continuation ::
  "nat \<Rightarrow> ('w, 'r) ops \<Rightarrow> pctx \<Rightarrow> cycle_plan \<Rightarrow> iteration_outcome \<Rightarrow> resume_checkpoint \<Rightarrow> ('w coord, stop, 'r) act" where
  "enter_continuation fuel ops ctx plan out start =
     bnd (gets (\<lambda>s. iteration_start_commit (rd_codec ops) (rd_run_dir ops (co_world s)) ctx
       (fallback_commit ctx start)))
       (\<lambda>start_commit. continue_run fuel ops ctx plan out start_commit)"

definition run_from_planner ::
  "nat \<Rightarrow> ('w, 'r) ops \<Rightarrow> pctx \<Rightarrow> resume_checkpoint \<Rightarrow> ('w coord, stop, 'r) act" where
  "run_from_planner fuel ops ctx start =
     bnd (perform (Initial_plan_call (px_iteration ctx)) (op_initial_plan ops ctx)) (\<lambda>plan.
     bnd (perform (Begin_cycle_call (cy_number (cp_cycle plan)) False)
       (op_begin_cycle ops ctx (cp_cycle plan) False)) (\<lambda>_.
     bnd (consult (op_load_iteration_outcome ops ctx plan)) (\<lambda>out.
       enter_continuation fuel ops ctx plan out start)))"

definition run_from_step ::
  "nat \<Rightarrow> ('w, 'r) ops \<Rightarrow> pctx \<Rightarrow> cycle_plan \<Rightarrow> resume_checkpoint \<Rightarrow> ('w coord, stop, 'r) act" where
  "run_from_step fuel ops ctx plan start =
     (case rc_step_index start of
        None \<Rightarrow> fail (Pipeline_failure ''RESUME_INTEGRITY_FAILURE'')
      | Some index \<Rightarrow>
          if index > int (length (tp_steps (cp_plan plan)))
          then fail (Pipeline_failure ''RESUME_INTEGRITY_FAILURE'')
          else
            bnd (implement ops ctx plan index) (\<lambda>result.
            case result of
              Inl paused \<Rightarrow> ret paused
            | Inr out \<Rightarrow> enter_continuation fuel ops ctx plan out start))"

definition run_from_candidate ::
  "('w, 'r) ops \<Rightarrow> pctx \<Rightarrow> cycle_plan \<Rightarrow> resume_checkpoint \<Rightarrow> ('w coord, stop, 'r) act" where
  "run_from_candidate ops ctx plan start =
     bnd (perform Load_candidate_call (op_load_candidate ops ctx (px_iteration ctx))) (\<lambda>cand.
     bnd (if rc_phase start = CANDIDATE_READY then candidate_boundary ops ctx CANDIDATE_PUSH plan cand
          else ret ()) (\<lambda>_.
       push_and_publish ops ctx plan cand))"

text \<open>
  The body of the loop of \<open>_run\<close>, which every path leaves with a result: the branch after it for a start
  that is not at a candidate is never reached.
\<close>

definition run_cycle_from ::
  "nat \<Rightarrow> ('w, 'r) ops \<Rightarrow> pctx \<Rightarrow> resume_checkpoint \<Rightarrow> bool \<Rightarrow> ('w coord, stop, 'r) act" where
  "run_cycle_from fuel ops ctx start resumed =
     bnd (guard ops ctx) (\<lambda>_.
     case mk_run_cycle (PInt (px_iteration ctx)) (PStr ''initial'') of
       Inl _ \<Rightarrow> fail (Other_error ''ValueError'')
     | Inr cycle \<Rightarrow>
         bnd (perform (Begin_cycle_call (cy_number cycle) (\<not> resumed)) (op_begin_cycle ops ctx cycle (\<not> resumed))) (\<lambda>_.
         bnd (perform (Initial_plan_call (px_iteration ctx)) (op_initial_plan ops ctx)) (\<lambda>plan.
         case rc_phase start of
           PUBLISH \<Rightarrow>
             bnd (perform Load_candidate_call (op_load_candidate ops ctx (px_iteration ctx))) (\<lambda>cand.
               perform Publish_call (op_publish ops ctx (px_iteration ctx) cand))
         | IMPLEMENT_STEP \<Rightarrow> run_from_step fuel ops ctx plan start
         | DETERMINISTIC_GATE \<Rightarrow>
             bnd (gate ops ctx plan (Some start)) (\<lambda>out. enter_continuation fuel ops ctx plan out start)
         | AUDIT \<Rightarrow>
             bnd (gate ops ctx plan (Some start)) (\<lambda>out. enter_continuation fuel ops ctx plan out start)
         | CANDIDATE_READY \<Rightarrow> run_from_candidate ops ctx plan start
         | CANDIDATE_PUSH \<Rightarrow> run_from_candidate ops ctx plan start
         | _ \<Rightarrow> fail (Pipeline_failure ''RESUME_INTEGRITY_FAILURE''))))"

definition run_checked ::
  "nat \<Rightarrow> ('w, 'r) ops \<Rightarrow> pctx \<Rightarrow> resume_checkpoint \<Rightarrow> bool \<Rightarrow> ('w coord, stop, 'r) act" where
  "run_checked fuel ops ctx start resumed =
     (if px_iteration ctx \<noteq> rc_iteration start then fail (Pipeline_failure ''RESUME_INTEGRITY_FAILURE'')
      else if rc_phase start \<in> set [CONTEXT, PLANNER, PLAN_APPROVAL, WORKTREE_SETUP]
        \<and> \<not> (rc_phase start = PLANNER \<and> rc_plan_sha256 start \<noteq> None)
      then fail (Other_error ''ValueError'')
      else if rc_phase start = PLANNER then run_from_planner fuel ops ctx start
      else run_cycle_from fuel ops ctx start resumed)"

text \<open>An exhausted budget ends the run as PARTIAL, reported on the iteration in flight.\<close>

definition run_pipeline ::
  "nat \<Rightarrow> ('w, 'r) ops \<Rightarrow> pctx \<Rightarrow> resume_checkpoint \<Rightarrow> bool \<Rightarrow> ('w coord, stop, 'r) act" where
  "run_pipeline fuel ops ctx start resumed s =
     (case run_checked fuel ops ctx start resumed s of
        (Inl (Raised (Budget_exhausted reason)), s') \<Rightarrow>
          perform (Budget_partial_call reason)
            (op_budget_partial ops (case co_current s' of None \<Rightarrow> ctx | Some c \<Rightarrow> c) reason) s'
      | r \<Rightarrow> r)"

definition fresh_coord :: "'w \<Rightarrow> 'w coord" where
  "fresh_coord w = \<lparr>co_cursor = [], co_current = None, co_world = w, co_calls = []\<rparr>"

end
