(* ===== verification/PipelineProofs.thy ===== *)
theory PipelineProofs
  imports Pipeline
begin

text \<open>
  What the coordinator guarantees, whatever its operations do: every phase move is one the run machine
  allows; an operation that acts on the outside is preceded by the durable checkpoint of its phase; a
  candidate is created from green evidence and pushed before it is published; and the iterations of a
  run end within its budget.

  The lemmas are triples over the combinators of the coordinator, one group per guarantee.
\<close>

section \<open>Triples of the basic actions\<close>

lemma hoare_perform:
  assumes "\<And>s x w. P s \<Longrightarrow> m (co_world s) = (Inr x, w) \<Longrightarrow> Q x (s\<lparr>co_world := w, co_calls := c # co_calls s\<rparr>)"
    and "\<And>s e w. P s \<Longrightarrow> m (co_world s) = (Inl e, w) \<Longrightarrow> E (Raised e) (s\<lparr>co_world := w, co_calls := c # co_calls s\<rparr>)"
  shows "hoare P (perform c m) Q E"
  using assms by (auto simp: hoare_def perform_def split: prod.splits sum.splits)

lemma hoare_consult:
  assumes "\<And>s x. P s \<Longrightarrow> f (co_world s) = Inr x \<Longrightarrow> Q x s" and "\<And>s e. P s \<Longrightarrow> E (Raised e) s"
  shows "hoare P (consult f) Q E"
  unfolding consult_def using assms by (intro hoare_reads) (auto split: sum.splits)

lemma hoare_fail: "(\<And>s. P s \<Longrightarrow> E (Raised e) s) \<Longrightarrow> hoare P (fail e) Q E"
  unfolding fail_def by (rule hoare_raise)

lemma hoare_eval:
  assumes "\<And>s x. P s \<Longrightarrow> r = Inr x \<Longrightarrow> Q x s" and "\<And>s e. P s \<Longrightarrow> E (Raised e) s"
  shows "hoare P (eval r) Q E"
  using assms by (cases r) (auto simp: eval_def intro!: hoare_fail hoare_ret)

lemma hoare_case_sum:
  "(\<And>a. r = Inl a \<Longrightarrow> hoare P (f a) Q E) \<Longrightarrow> (\<And>b. r = Inr b \<Longrightarrow> hoare P (g b) Q E) \<Longrightarrow>
     hoare P (case r of Inl a \<Rightarrow> f a | Inr b \<Rightarrow> g b) Q E"
  by (cases r) simp_all

lemma hoare_case_prod:
  "(\<And>a b. p = (a, b) \<Longrightarrow> hoare P (f a b) Q E) \<Longrightarrow> hoare P (case p of (a, b) \<Rightarrow> f a b) Q E"
  by (cases p) simp

section \<open>Legal moves\<close>

definition legal :: "'w coord \<Rightarrow> bool" where
  "legal s \<longleftrightarrow> (case co_cursor s of [] \<Rightarrow> True | p # ps \<Rightarrow> phase_path p ps)"

text \<open>The cursor is legal and at one of some phases, or the run has not entered a phase yet.\<close>

definition at_phase :: "run_phase list \<Rightarrow> 'w coord \<Rightarrow> bool" where
  "at_phase ps s \<longleftrightarrow> legal s \<and> (co_cursor s = [] \<or> last (co_cursor s) \<in> set ps)"

definition legal_stop :: "stop \<Rightarrow> 'w coord \<Rightarrow> bool" where
  "legal_stop e s \<longleftrightarrow> legal s \<and> (\<forall>x. e \<noteq> Illegal_phase x)"

lemma at_phase_legal [simp]: "at_phase ps s \<Longrightarrow> legal s"
  by (simp add: at_phase_def)

lemma legal_frame [simp]:
  "legal (s\<lparr>co_world := w, co_calls := cs\<rparr>) = legal s" "legal (s\<lparr>co_current := c\<rparr>) = legal s"
  by (simp_all add: legal_def)

lemma at_phase_frame [simp]:
  "at_phase ps (s\<lparr>co_world := w, co_calls := cs\<rparr>) = at_phase ps s"
  "at_phase ps (s\<lparr>co_current := c\<rparr>) = at_phase ps s"
  by (simp_all add: at_phase_def)

lemma legal_stop_raised [simp]: "legal s \<Longrightarrow> legal_stop (Raised e) s"
  by (simp add: legal_stop_def)

lemma legal_snoc:
  assumes "legal s" and "co_cursor s = [] \<or> t \<in> set (phase_successors (last (co_cursor s)))"
  shows "legal (s\<lparr>co_cursor := co_cursor s @ [t]\<rparr>)"
  using assms by (cases "co_cursor s") (auto simp: legal_def phase_path_append split: if_splits)

lemma enter_legal:
  assumes "\<And>q. q \<in> set ps \<Longrightarrow> t \<in> set (phase_successors q)"
  shows "hoare (at_phase ps) (enter_phase t) (\<lambda>_. at_phase [t]) legal_stop"
proof -
  have "transition (state_at (Some q) RUNNING None)
      \<lparr>ev_kind = ADVANCE, ev_target = Some t, ev_disposition = None, ev_reason = None\<rparr>
      = Inr (state_at (Some t) RUNNING None)" if "q \<in> set ps" for q
    using assms [OF that] by (simp add: transition_def state_at_def terminal_def)
  with assms legal_snoc show ?thesis
    by (fastforce simp: hoare_def enter_phase_def Let_def at_phase_def split: sum.splits)
qed

text \<open>Everything but entering a phase leaves the cursor as it is.\<close>

lemma still_at:
  "hoare (at_phase ps) (perform c m) (\<lambda>_. at_phase ps) legal_stop"
  "hoare (at_phase ps) (consult f) (\<lambda>_. at_phase ps) legal_stop"
  "hoare (at_phase ps) (eval r) (\<lambda>_. at_phase ps) legal_stop"
  "hoare (at_phase ps) (fail e) Q legal_stop"
  "hoare (at_phase ps) (gets g) (\<lambda>_. at_phase ps) legal_stop"
  "hoare (at_phase ps) (ret x) (\<lambda>_. at_phase ps) legal_stop"
  by (auto intro!: hoare_perform hoare_consult hoare_eval hoare_fail hoare_gets hoare_ret)

lemma current_at:
  "hoare (at_phase ps) (modify (\<lambda>s. s\<lparr>co_current := c\<rparr>)) (\<lambda>_. at_phase ps) legal_stop"
  by (rule hoare_modify) simp

lemma guard_at: "hoare (at_phase ps) (guard ops ctx) (\<lambda>_. at_phase ps) legal_stop"
  unfolding guard_def by (rule hoare_bnd hoare_option current_at still_at)+

lemma boundary_at:
  "(\<And>q. q \<in> set ps \<Longrightarrow> t \<in> set (phase_successors q)) \<Longrightarrow>
     hoare (at_phase ps) (boundary ops ctx t plan i) (\<lambda>_. at_phase [t]) legal_stop"
  unfolding boundary_def write_boundary_def by (rule hoare_bnd enter_legal still_at | assumption)+

lemma candidate_boundary_at:
  "(\<And>q. q \<in> set ps \<Longrightarrow> t \<in> set (phase_successors q)) \<Longrightarrow>
     hoare (at_phase ps) (candidate_boundary ops ctx t plan cand) (\<lambda>_. at_phase [t]) legal_stop"
  unfolding candidate_boundary_def write_boundary_def
  by (rule hoare_bnd enter_legal hoare_option still_at | assumption)+

text \<open>A paused run is only legal; one that goes on is at a phase.\<close>

definition goes_on :: "run_phase list \<Rightarrow> 'r option \<Rightarrow> 'w coord \<Rightarrow> bool" where
  "goes_on ps r s \<longleftrightarrow> legal s \<and> (r = None \<longrightarrow> at_phase ps s)"

lemma goes_on_simps [simp]:
  "goes_on ps None s = at_phase ps s" "goes_on ps (Some x) s = legal s"
  by (auto simp: goes_on_def)

lemma pause_at:
  "hoare (at_phase [IMPLEMENT_STEP]) (pause_after_step ops ctx plan index) (goes_on [IMPLEMENT_STEP]) legal_stop"
proof -
  have b: "hoare (at_phase [IMPLEMENT_STEP])
      (if index + 1 < int (length (tp_steps (cp_plan plan))) then boundary ops ctx IMPLEMENT_STEP plan (Some (index + 1))
       else boundary ops ctx DETERMINISTIC_GATE plan None)
      (\<lambda>_. at_phase [IMPLEMENT_STEP, DETERMINISTIC_GATE]) legal_stop"
    by (intro hoare_if hoare_weaken [OF boundary_at [of "[IMPLEMENT_STEP]"]]) (auto simp: at_phase_def)
  show ?thesis
    unfolding pause_after_step_def
    by (rule hoare_bnd still_at(1-3) b hoare_if hoare_ret | simp)+
qed

lemma run_step_at:
  "hoare (at_phase [IMPLEMENT_STEP]) (run_step ops ctx plan index) (goes_on [IMPLEMENT_STEP]) legal_stop"
  unfolding run_step_def by (rule hoare_bnd boundary_at still_at pause_at | simp)+

lemma run_steps_at:
  "hoare (at_phase [IMPLEMENT_STEP]) (run_steps ops ctx plan first) (goes_on [IMPLEMENT_STEP]) legal_stop"
  unfolding run_steps_def
  by (rule hoare_for_return, rule hoare_weaken [OF run_step_at]) (auto split: option.splits)

lemma accept_at: "hoare (at_phase ps) (accept_outcome ops ctx plan e a) (\<lambda>_. at_phase ps) legal_stop"
  unfolding accept_outcome_def by (rule hoare_bnd still_at)+

lemma audit_attempt_at:
  "hoare (at_phase [DETERMINISTIC_GATE]) (audit_attempt ops ctx plan e n) (\<lambda>_. at_phase [DETERMINISTIC_GATE]) legal_stop"
  unfolding audit_attempt_def
  by (rule hoare_bnd hoare_if boundary_at still_at accept_at | simp; fail)+

lemma gate_loop_at:
  "hoare (at_phase [DETERMINISTIC_GATE]) (gate_loop ops ctx plan ns e a) (\<lambda>_. at_phase [DETERMINISTIC_GATE]) legal_stop"
proof (induction ns arbitrary: e a)
  case (Cons n ns)
  show ?case
    unfolding gate_loop.simps nothing_to_audit_def
    by (rule hoare_bnd hoare_if hoare_case_sum hoare_case_prod still_at audit_attempt_at accept_at Cons.IH)+
qed (simp add: still_at)

lemma gate_at:
  "hoare (at_phase [DETERMINISTIC_GATE]) (gate ops ctx plan start) (\<lambda>_. at_phase [DETERMINISTIC_GATE]) legal_stop"
  unfolding gate_def first_evidence_def
  by (rule hoare_bnd hoare_if hoare_option still_at accept_at gate_loop_at)+

lemma implement_at:
  "hoare (at_phase [IMPLEMENT_STEP]) (implement ops ctx plan first)
     (\<lambda>r s. legal s \<and> (\<forall>out. r = Inr out \<longrightarrow> at_phase [DETERMINISTIC_GATE] s)) legal_stop"
proof -
  have b: "hoare (goes_on [IMPLEMENT_STEP] None) (boundary ops ctx DETERMINISTIC_GATE plan None)
      (\<lambda>_. at_phase [DETERMINISTIC_GATE]) legal_stop"
    by (rule hoare_pre [OF boundary_at [of "[IMPLEMENT_STEP]"]]) simp_all
  show ?thesis
    unfolding implement_def
    by (rule hoare_bnd run_steps_at hoare_option gate_at b hoare_ret | simp)+
qed

lemma decide_at:
  "hoare (at_phase [DETERMINISTIC_GATE]) (decide_continuation ops ctx plan out) (\<lambda>_. at_phase [PLANNER]) legal_stop"
  unfolding decide_continuation_def by (rule hoare_bnd boundary_at still_at | simp; fail)+

text \<open>The end of a run leaves a legal cursor.\<close>

lemma ends_legal:
  "hoare (at_phase ps) (perform c m) (\<lambda>_. legal) legal_stop"
  "hoare (at_phase ps) (ret x) (\<lambda>_. legal) legal_stop"
  by (auto intro!: hoare_perform hoare_ret)

lemma fingerprint_at: "hoare (at_phase ps) (fingerprint_of ops ctx items out) (\<lambda>_. at_phase ps) legal_stop"
  unfolding fingerprint_of_def by (rule hoare_bnd still_at)+

lemma push_at:
  "hoare (at_phase [CANDIDATE_PUSH]) (push_and_publish ops ctx plan cand) (\<lambda>_. legal) legal_stop"
  unfolding push_and_publish_def
  by (rule hoare_bnd ends_legal candidate_boundary_at still_at | simp; fail)+

lemma complete_at:
  "hoare (at_phase [PLANNER]) (complete_run ops ctx plan out d c) (\<lambda>_. legal) legal_stop"
  unfolding complete_run_def
  by (rule hoare_bnd hoare_case_prod fingerprint_at push_at boundary_at candidate_boundary_at still_at | simp; fail)+

lemma close_at:
  "hoare (at_phase [PLANNER]) (close_for_next ops ctx plan out d failed c) (\<lambda>_. at_phase [PLANNER]) legal_stop"
  unfolding close_for_next_def Let_def
  by (rule hoare_bnd hoare_if hoare_case_prod hoare_option fingerprint_at still_at)+

lemma start_iteration_at:
  "hoare (at_phase [PLANNER]) (start_iteration ops ctx d) (\<lambda>_. at_phase [IMPLEMENT_STEP]) legal_stop"
  unfolding start_iteration_def
  by (rule hoare_bnd guard_at boundary_at still_at | simp; fail)+

lemma continue_at:
  "hoare (at_phase [DETERMINISTIC_GATE]) (continue_run fuel ops ctx plan out c) (\<lambda>_. legal) legal_stop"
proof (induction fuel arbitrary: ctx plan out c)
  case 0
  show ?case by (auto simp: legal_stop_def intro!: hoare_raise)
next
  case (Suc fuel)
  have paused: "hoare (\<lambda>s. legal s \<and> (\<forall>out. r = Inr out \<longrightarrow> at_phase [DETERMINISTIC_GATE] s))
      (case r of Inl x \<Rightarrow> ret x | Inr out' \<Rightarrow> continue_run fuel ops ctx' plan' out' head) (\<lambda>_. legal) legal_stop"
    for r head ctx' plan'
    by (cases r) (auto intro!: hoare_ret hoare_pre [OF Suc.IH])
  have next_one: "hoare (at_phase [PLANNER])
      (case ended of Some r \<Rightarrow> ret r
       | None \<Rightarrow> bnd (start_iteration ops ctx d) (\<lambda>(ctx', plan'). bnd (implement ops ctx' plan' 0) (\<lambda>r.
           case r of Inl x \<Rightarrow> ret x | Inr out' \<Rightarrow> continue_run fuel ops ctx' plan' out' head)))
      (\<lambda>_. legal) legal_stop" for ended d head
    by (rule hoare_option hoare_bnd hoare_case_prod start_iteration_at implement_at paused ends_legal)+
  have step: "hoare (at_phase [PLANNER])
      (case cr_decision d of
         SPEC_DECISION_STOP \<Rightarrow> bnd (perform c1 m1) (\<lambda>_. perform c2 m2)
       | COMPLETE_RUN \<Rightarrow> complete_run ops ctx plan out d c
       | NEXT_MILESTONE \<Rightarrow> bnd (close_for_next ops ctx plan out d failed c) (\<lambda>ended.
           case ended of Some r \<Rightarrow> ret r
           | None \<Rightarrow> bnd (start_iteration ops ctx d) (\<lambda>(ctx', plan'). bnd (implement ops ctx' plan' 0) (\<lambda>r.
               case r of Inl x \<Rightarrow> ret x | Inr out' \<Rightarrow> continue_run fuel ops ctx' plan' out' head))))
      (\<lambda>_. legal) legal_stop" for d failed head c1 c2 m2 and m1 :: "('a, exn, unit) act"
    by (cases "cr_decision d"; simp only: continue_decision.case)
       (rule hoare_bnd complete_at close_at next_one ends_legal still_at)+
  show ?case
    unfolding continue_run.simps by (rule hoare_bnd hoare_case_prod decide_at step)+
qed

lemma anywhere: "at_phase [] s \<Longrightarrow> at_phase ps s"
  by (simp add: at_phase_def)

lemma candidate_at:
  "hoare (at_phase []) (run_from_candidate ops ctx plan start) (\<lambda>_. legal) legal_stop"
proof -
  have b: "hoare (at_phase []) (if rc_phase start = CANDIDATE_READY then candidate_boundary ops ctx CANDIDATE_PUSH plan cand
      else ret ()) (\<lambda>_. at_phase [CANDIDATE_PUSH]) legal_stop" for cand
    by (intro hoare_if candidate_boundary_at hoare_ret) (simp_all add: anywhere)
  show ?thesis
    unfolding run_from_candidate_def by (rule hoare_bnd b push_at still_at)+
qed

lemma enter_continuation_at:
  "hoare (at_phase [DETERMINISTIC_GATE]) (enter_continuation fuel ops ctx plan out start) (\<lambda>_. legal) legal_stop"
  unfolding enter_continuation_def by (rule hoare_bnd continue_at still_at)+

lemma run_from_planner_at:
  "hoare (at_phase [DETERMINISTIC_GATE]) (run_from_planner fuel ops ctx start) (\<lambda>_. legal) legal_stop"
  unfolding run_from_planner_def by (rule hoare_bnd enter_continuation_at still_at)+

lemma run_from_step_at:
  "hoare (at_phase [IMPLEMENT_STEP]) (run_from_step fuel ops ctx plan start) (\<lambda>_. legal) legal_stop"
proof -
  have b: "hoare (\<lambda>s. legal s \<and> (\<forall>out. r = Inr out \<longrightarrow> at_phase [DETERMINISTIC_GATE] s))
      (case r of Inl x \<Rightarrow> ret x | Inr out \<Rightarrow> enter_continuation fuel ops ctx plan out start) (\<lambda>_. legal) legal_stop" for r
    by (cases r) (auto intro!: hoare_ret hoare_pre [OF enter_continuation_at])
  show ?thesis
    unfolding run_from_step_def by (rule hoare_option hoare_if hoare_bnd implement_at b still_at)+
qed

lemma gate_then_at:
  "hoare (at_phase []) (bnd (gate ops ctx plan start') (\<lambda>out. enter_continuation fuel ops ctx plan out start))
     (\<lambda>_. legal) legal_stop"
  by (rule hoare_pre [OF hoare_bnd [OF gate_at enter_continuation_at]]) (simp add: anywhere)

lemma dispatch_at:
  "hoare (at_phase [])
     (case rc_phase start of
        PUBLISH \<Rightarrow> bnd (perform c m) (\<lambda>cand. perform Publish_call (op_publish ops ctx (px_iteration ctx) cand))
      | IMPLEMENT_STEP \<Rightarrow> run_from_step fuel ops ctx plan start
      | DETERMINISTIC_GATE \<Rightarrow> bnd (gate ops ctx plan (Some start)) (\<lambda>out. enter_continuation fuel ops ctx plan out start)
      | AUDIT \<Rightarrow> bnd (gate ops ctx plan (Some start)) (\<lambda>out. enter_continuation fuel ops ctx plan out start)
      | CANDIDATE_READY \<Rightarrow> run_from_candidate ops ctx plan start
      | CANDIDATE_PUSH \<Rightarrow> run_from_candidate ops ctx plan start
      | _ \<Rightarrow> fail (Pipeline_failure ''RESUME_INTEGRITY_FAILURE'')) (\<lambda>_. legal) legal_stop"
proof (cases "rc_phase start"; simp only: run_phase.case)
  show "hoare (at_phase []) (run_from_step fuel ops ctx plan start) (\<lambda>_. legal) legal_stop"
    by (rule hoare_pre [OF run_from_step_at]) (simp add: anywhere)
  show "hoare (at_phase []) (bnd (perform c m) (\<lambda>cand. perform Publish_call (op_publish ops ctx (px_iteration ctx) cand)))
      (\<lambda>_. legal) legal_stop"
    by (rule hoare_bnd ends_legal still_at)+
qed (rule still_at gate_then_at candidate_at)+

lemma run_cycle_from_at:
  "hoare (at_phase []) (run_cycle_from fuel ops ctx start resumed) (\<lambda>_. legal) legal_stop"
  unfolding run_cycle_from_def
  by (rule hoare_bnd hoare_case_sum guard_at dispatch_at still_at)+

lemma run_checked_at:
  "hoare (at_phase []) (run_checked fuel ops ctx start resumed) (\<lambda>_. legal) legal_stop"
  unfolding run_checked_def
  by (rule hoare_if still_at run_cycle_from_at hoare_pre [OF run_from_planner_at] | simp add: anywhere; fail)+

text \<open>The budget exit runs in the state the exception left.\<close>

lemma hoare_run_pipeline:
  assumes "hoare P (run_checked fuel ops ctx start resumed) Q E"
    and "\<And>reason c. hoare (E (Raised (Budget_exhausted reason)))
      (perform (Budget_partial_call reason) (op_budget_partial ops c reason)) Q E"
  shows "hoare P (run_pipeline fuel ops ctx start resumed) Q E"
proof -
  have "case run_pipeline fuel ops ctx start resumed s of (Inl e, s') \<Rightarrow> E e s' | (Inr x, s') \<Rightarrow> Q x s'"
    if "P s" for s
  proof -
    obtain r s1 where r: "run_checked fuel ops ctx start resumed s = (r, s1)" by force
    show ?thesis
    proof (cases "\<exists>reason. r = Inl (Raised (Budget_exhausted reason))")
      case True
      then obtain reason where reason: "r = Inl (Raised (Budget_exhausted reason))" by blast
      with r assms(1) that have "E (Raised (Budget_exhausted reason)) s1" by (auto simp: hoare_def)
      with assms(2) show ?thesis by (simp add: run_pipeline_def r reason hoare_def)
    next
      case False
      with r have "run_pipeline fuel ops ctx start resumed s = (r, s1)"
        by (auto simp: run_pipeline_def split: sum.splits stop.splits exn.splits)
      with r assms(1) that show ?thesis by (auto simp: hoare_def)
    qed
  qed
  then show ?thesis by (simp add: hoare_def)
qed

lemma run_pipeline_at:
  "hoare (at_phase []) (run_pipeline fuel ops ctx start resumed) (\<lambda>_. legal) legal_stop"
  by (rule hoare_run_pipeline [OF run_checked_at]) (auto simp: legal_stop_def intro!: hoare_perform)

section \<open>Checkpoints before operations\<close>

text \<open>What must have been called last when an operation is called.\<close>

fun protected_by :: "call \<Rightarrow> call \<Rightarrow> bool" where
  "protected_by (Execute_step_call it i) prev \<longleftrightarrow> (\<exists>n h. prev = Checkpoint_call IMPLEMENT_STEP n h (Some i))"
| "protected_by (Run_audit_call it k) prev \<longleftrightarrow> (\<exists>n h. prev = Checkpoint_call AUDIT n h None)"
| "protected_by (Planner_continue_call it) prev \<longleftrightarrow> (\<exists>n h. prev = Checkpoint_call PLANNER n h None)"
| "protected_by (Create_candidate_call e) prev \<longleftrightarrow> (\<exists>n h. prev = Checkpoint_call CANDIDATE_READY n h None)"
| "protected_by Push_candidate_call prev \<longleftrightarrow>
     prev = Load_candidate_call \<or> (\<exists>n h. prev = Checkpoint_call CANDIDATE_PUSH n h None)"
| "protected_by Publish_call prev \<longleftrightarrow>
     prev = Load_candidate_call \<or> (\<exists>n h. prev = Checkpoint_call PUBLISH n h None)"
| "protected_by (Pause_call i) prev \<longleftrightarrow>
     (\<exists>n h. prev = Checkpoint_call IMPLEMENT_STEP n h (Some (i + 1))) \<or> (\<exists>n h. prev = Checkpoint_call DETERMINISTIC_GATE n h None)"
| "protected_by _ prev = True"

text \<open>The calls, latest first, where every call is protected by the one before it.\<close>

fun checkpointed :: "call list \<Rightarrow> bool" where
  "checkpointed [] = True"
| "checkpointed (c # cs) = ((case cs of [] \<Rightarrow> (\<forall>prev. protected_by c prev) | prev # _ \<Rightarrow> protected_by c prev) \<and> checkpointed cs)"

definition chk :: "'w coord \<Rightarrow> bool" where
  "chk s \<longleftrightarrow> checkpointed (co_calls s)"

definition chk_stop :: "stop \<Rightarrow> 'w coord \<Rightarrow> bool" where
  "chk_stop e s \<longleftrightarrow> chk s"

text \<open>The latest call is one of these.\<close>

definition after :: "call set \<Rightarrow> 'w coord \<Rightarrow> bool" where
  "after C s \<longleftrightarrow> chk s \<and> (\<exists>c cs. c \<in> C \<and> co_calls s = c # cs)"

definition saved :: "run_phase \<Rightarrow> int option \<Rightarrow> call set" where
  "saved p i = {c. \<exists>n h. c = Checkpoint_call p n h i}"

lemma after_chk [simp]: "after C s \<Longrightarrow> chk s"
  by (simp add: after_def)

lemma chk_pre: "hoare chk m Q E \<Longrightarrow> hoare (after C) m Q E"
  by (erule hoare_pre) simp

lemma chk_frame [simp]:
  "chk (s\<lparr>co_cursor := c\<rparr>) = chk s" "chk (s\<lparr>co_current := d\<rparr>) = chk s"
  by (simp_all add: chk_def)

lemma chk_stop_iff [simp]: "chk_stop e s = chk s"
  by (simp add: chk_stop_def)

text \<open>Calls that need no protection, readings, and a call right after its protection.\<close>

lemma free_call:
  "(\<And>prev. protected_by c prev) \<Longrightarrow> hoare chk (perform c m) (\<lambda>_. after {c}) chk_stop"
  by (auto simp: chk_def after_def intro!: hoare_perform split: list.splits)

lemma guarded_call:
  "(\<And>prev. prev \<in> C \<Longrightarrow> protected_by c prev) \<Longrightarrow> hoare (after C) (perform c m) (\<lambda>_. after {c}) chk_stop"
  by (auto simp: chk_def after_def intro!: hoare_perform)

lemma no_call:
  "hoare (after C) (consult f) (\<lambda>_. after C) chk_stop" "hoare chk (consult f) (\<lambda>_. chk) chk_stop"
  "hoare (after C) (eval r) (\<lambda>_. after C) chk_stop" "hoare chk (eval r) (\<lambda>_. chk) chk_stop"
  "hoare chk (fail e) Q chk_stop" "hoare chk (gets g) (\<lambda>_. chk) chk_stop" "hoare chk (ret x) (\<lambda>_. chk) chk_stop"
  by (auto intro!: hoare_consult hoare_eval hoare_fail hoare_gets hoare_ret)

lemma enter_chk: "hoare chk (enter_phase t) (\<lambda>_. chk) chk_stop"
  by (auto simp: hoare_def enter_phase_def Let_def split: sum.splits)

lemma guard_chk: "hoare chk (guard ops ctx) (\<lambda>_. chk) chk_stop"
proof -
  have m: "hoare chk (modify (\<lambda>s. s\<lparr>co_current := c\<rparr>)) (\<lambda>_. chk) chk_stop" for c :: "pctx option"
    by (rule hoare_modify) simp
  show ?thesis unfolding guard_def by (rule hoare_bnd hoare_option m no_call)+
qed

lemma saving_call:
  "hoare chk (write_boundary ops ctx t n h i) (\<lambda>_. after (saved t i)) chk_stop"
  unfolding write_boundary_def by (rule hoare_weaken [OF free_call]) (auto simp: after_def saved_def)

lemma boundary_chk: "hoare chk (boundary ops ctx t plan i) (\<lambda>_. after (saved t i)) chk_stop"
  unfolding boundary_def by (rule hoare_bnd enter_chk no_call saving_call)+

lemma candidate_boundary_chk:
  "hoare chk (candidate_boundary ops ctx t plan cand) (\<lambda>_. after (saved t None)) chk_stop"
  unfolding candidate_boundary_def by (rule hoare_bnd enter_chk hoare_option no_call saving_call)+

text \<open>
  The rules in the order a proof applies them: a call after its protection first, a call that needs
  none, and the weakening to a state whose last call does not matter.
\<close>

lemmas chk_rules = hoare_bnd hoare_if hoare_option hoare_case_sum hoare_case_prod
  no_call guard_chk boundary_chk candidate_boundary_chk

lemma guarded_end:
  "(\<And>prev. prev \<in> C \<Longrightarrow> protected_by c prev) \<Longrightarrow> hoare (after C) (perform c m) (\<lambda>_. chk) chk_stop"
  by (rule hoare_weaken [OF guarded_call]) auto

lemma free_end: "(\<And>prev. protected_by c prev) \<Longrightarrow> hoare chk (perform c m) (\<lambda>_. chk) chk_stop"
  by (rule hoare_weaken [OF free_call]) auto

lemma pause_chk: "hoare chk (pause_after_step ops ctx plan index) (\<lambda>_. chk) chk_stop"
proof -
  have b: "hoare chk
      (if index + 1 < int (length (tp_steps (cp_plan plan))) then boundary ops ctx IMPLEMENT_STEP plan (Some (index + 1))
       else boundary ops ctx DETERMINISTIC_GATE plan None)
      (\<lambda>_. after (saved IMPLEMENT_STEP (Some (index + 1)) \<union> saved DETERMINISTIC_GATE None)) chk_stop"
    by (intro hoare_if hoare_weaken [OF boundary_chk]) (auto simp: after_def)
  have p: "hoare (after (saved IMPLEMENT_STEP (Some (index + 1)) \<union> saved DETERMINISTIC_GATE None))
      (perform (Pause_call index) m) (\<lambda>_. chk) chk_stop" for m :: "('a, exn, 'c) act"
    by (rule guarded_end) (auto simp: saved_def)
  show ?thesis
    unfolding pause_after_step_def by (rule hoare_bnd b p hoare_if no_call)+
qed

lemma run_step_chk: "hoare chk (run_step ops ctx plan index) (\<lambda>_. chk) chk_stop"
proof -
  have e: "hoare (after (saved IMPLEMENT_STEP (Some index))) (perform (Execute_step_call it index) m) (\<lambda>_. chk) chk_stop"
    for it and m :: "('a, exn, unit) act"
    by (rule guarded_end) (auto simp: saved_def)
  show ?thesis unfolding run_step_def by (rule hoare_bnd boundary_chk e pause_chk)+
qed

lemma run_steps_chk: "hoare chk (run_steps ops ctx plan first) (\<lambda>_. chk) chk_stop"
  unfolding run_steps_def
  by (rule hoare_for_return, rule hoare_weaken [OF run_step_chk]) (auto split: option.splits)

lemma accept_chk: "hoare chk (accept_outcome ops ctx plan e a) (\<lambda>_. chk) chk_stop"
  unfolding accept_outcome_def by (rule hoare_bnd free_end no_call | simp; fail)+

lemma audit_call_chk:
  "hoare (after (saved AUDIT None)) (perform (Run_audit_call it n) m) (\<lambda>_. chk) chk_stop"
  by (rule guarded_end) (auto simp: saved_def)

lemma audit_attempt_chk: "hoare chk (audit_attempt ops ctx plan e n) (\<lambda>_. chk) chk_stop"
  unfolding audit_attempt_def
  by (rule hoare_bnd hoare_if boundary_chk audit_call_chk accept_chk free_end no_call(2,4,5,6,7) chk_pre | simp; fail)+

lemma gate_loop_chk: "hoare chk (gate_loop ops ctx plan ns e a) (\<lambda>_. chk) chk_stop"
proof (induction ns arbitrary: e a)
  case (Cons n ns)
  show ?case
    unfolding gate_loop.simps nothing_to_audit_def
    by (rule hoare_bnd hoare_if hoare_case_sum hoare_case_prod no_call audit_attempt_chk accept_chk Cons.IH)+
qed (simp add: no_call)

lemma gate_chk: "hoare chk (gate ops ctx plan start) (\<lambda>_. chk) chk_stop"
  unfolding gate_def first_evidence_def
  by (rule hoare_bnd hoare_if hoare_option no_call accept_chk gate_loop_chk free_end | simp; fail)+

lemma implement_chk: "hoare chk (implement ops ctx plan first) (\<lambda>_. chk) chk_stop"
  unfolding implement_def
  by (rule hoare_bnd hoare_option run_steps_chk boundary_chk gate_chk no_call(7) chk_pre)+

lemma planner_call_chk:
  "hoare (after (saved PLANNER None)) (perform (Planner_continue_call it) m) (\<lambda>_. chk) chk_stop"
  by (rule guarded_end) (auto simp: saved_def)

lemma decide_chk: "hoare chk (decide_continuation ops ctx plan out) (\<lambda>_. chk) chk_stop"
  unfolding decide_continuation_def by (rule hoare_bnd boundary_chk planner_call_chk no_call)+

lemma publish_call_chk:
  "hoare (after (saved PUBLISH None)) (perform Publish_call m) (\<lambda>_. chk) chk_stop"
  by (rule guarded_end) (auto simp: saved_def)

lemma push_chk:
  "hoare (after (saved CANDIDATE_PUSH None \<union> {Load_candidate_call})) (push_and_publish ops ctx plan cand) (\<lambda>_. chk) chk_stop"
proof -
  have p: "hoare (after (saved CANDIDATE_PUSH None \<union> {Load_candidate_call})) (perform Push_candidate_call m) (\<lambda>_. chk) chk_stop"
    for m :: "('a, exn, candidate) act"
    by (rule guarded_end) (auto simp: saved_def)
  show ?thesis
    unfolding push_and_publish_def by (rule hoare_bnd p candidate_boundary_chk publish_call_chk)+
qed

lemma fingerprint_chk: "hoare chk (fingerprint_of ops ctx items out) (\<lambda>_. chk) chk_stop"
  unfolding fingerprint_of_def by (rule hoare_bnd no_call)+

lemma complete_chk: "hoare chk (complete_run ops ctx plan out d c) (\<lambda>_. chk) chk_stop"
proof -
  have create: "hoare (after (saved CANDIDATE_READY None)) (perform (Create_candidate_call e) m) (\<lambda>_. chk) chk_stop"
    for e and m :: "('a, exn, candidate) act"
    by (rule guarded_end) (auto simp: saved_def)
  have push: "hoare (after (saved CANDIDATE_PUSH None)) (push_and_publish ops ctx plan cand) (\<lambda>_. chk) chk_stop" for cand
    by (rule hoare_pre [OF push_chk]) (auto simp: after_def)
  show ?thesis
    unfolding complete_run_def
    by (rule hoare_bnd hoare_case_prod fingerprint_chk boundary_chk candidate_boundary_chk create push free_end | simp; fail)+
qed

lemma close_chk: "hoare chk (close_for_next ops ctx plan out d failed c) (\<lambda>_. chk) chk_stop"
  unfolding close_for_next_def Let_def
  by (rule hoare_bnd hoare_if hoare_case_prod hoare_option fingerprint_chk no_call free_end | simp; fail)+

lemma start_iteration_chk: "hoare chk (start_iteration ops ctx d) (\<lambda>_. chk) chk_stop"
  unfolding start_iteration_def
  by (rule hoare_bnd guard_chk boundary_chk free_end no_call(7) chk_pre | simp; fail)+

lemma continue_chk: "hoare chk (continue_run fuel ops ctx plan out c) (\<lambda>_. chk) chk_stop"
proof (induction fuel arbitrary: ctx plan out c)
  case 0
  show ?case by (auto intro!: hoare_raise)
next
  case (Suc fuel)
  have step: "hoare chk
      (case cr_decision d of
         SPEC_DECISION_STOP \<Rightarrow> bnd (perform (Close_iteration_call i t) m1) (\<lambda>_. perform Spec_decision_call m2)
       | COMPLETE_RUN \<Rightarrow> complete_run ops ctx plan out d c
       | NEXT_MILESTONE \<Rightarrow> bnd (close_for_next ops ctx plan out d failed c) (\<lambda>ended.
           case ended of Some r \<Rightarrow> ret r
           | None \<Rightarrow> bnd (start_iteration ops ctx d) (\<lambda>(ctx', plan'). bnd (implement ops ctx' plan' 0) (\<lambda>r.
               case r of Inl x \<Rightarrow> ret x | Inr out' \<Rightarrow> continue_run fuel ops ctx' plan' out' head))))
      (\<lambda>_. chk) chk_stop" for d failed head i t m2 and m1 :: "('a, exn, unit) act"
    by (cases "cr_decision d"; simp only: continue_decision.case)
       (rule hoare_bnd hoare_case_prod hoare_case_sum hoare_option complete_chk close_chk start_iteration_chk
          implement_chk Suc.IH free_end no_call(7) | simp; fail)+
  show ?case
    unfolding continue_run.simps by (rule hoare_bnd hoare_case_prod decide_chk step)+
qed

lemma candidate_chk: "hoare chk (run_from_candidate ops ctx plan start) (\<lambda>_. chk) chk_stop"
proof -
  have b: "hoare (after {Load_candidate_call}) (if rc_phase start = CANDIDATE_READY
        then candidate_boundary ops ctx CANDIDATE_PUSH plan cand else ret ())
      (\<lambda>_. after (saved CANDIDATE_PUSH None \<union> {Load_candidate_call})) chk_stop" for cand
    by (intro hoare_if chk_pre [OF hoare_weaken [OF candidate_boundary_chk]] hoare_ret) (auto simp: after_def)
  show ?thesis
    unfolding run_from_candidate_def by (rule hoare_bnd free_call b push_chk | simp; fail)+
qed

lemma enter_continuation_chk: "hoare chk (enter_continuation fuel ops ctx plan out start) (\<lambda>_. chk) chk_stop"
  unfolding enter_continuation_def by (rule hoare_bnd continue_chk no_call)+

lemma run_from_planner_chk: "hoare chk (run_from_planner fuel ops ctx start) (\<lambda>_. chk) chk_stop"
  unfolding run_from_planner_def by (rule hoare_bnd enter_continuation_chk free_end no_call | simp; fail)+

lemma run_from_step_chk: "hoare chk (run_from_step fuel ops ctx plan start) (\<lambda>_. chk) chk_stop"
  unfolding run_from_step_def
  by (rule hoare_option hoare_if hoare_bnd hoare_case_sum implement_chk enter_continuation_chk no_call)+

lemma dispatch_chk:
  "hoare chk
     (case rc_phase start of
        PUBLISH \<Rightarrow> bnd (perform Load_candidate_call m) (\<lambda>cand. perform Publish_call (op_publish ops ctx (px_iteration ctx) cand))
      | IMPLEMENT_STEP \<Rightarrow> run_from_step fuel ops ctx plan start
      | DETERMINISTIC_GATE \<Rightarrow> bnd (gate ops ctx plan (Some start)) (\<lambda>out. enter_continuation fuel ops ctx plan out start)
      | AUDIT \<Rightarrow> bnd (gate ops ctx plan (Some start)) (\<lambda>out. enter_continuation fuel ops ctx plan out start)
      | CANDIDATE_READY \<Rightarrow> run_from_candidate ops ctx plan start
      | CANDIDATE_PUSH \<Rightarrow> run_from_candidate ops ctx plan start
      | _ \<Rightarrow> fail (Pipeline_failure ''RESUME_INTEGRITY_FAILURE'')) (\<lambda>_. chk) chk_stop"
proof (cases "rc_phase start"; simp only: run_phase.case)
  have p: "hoare (after {Load_candidate_call}) (perform Publish_call m') (\<lambda>_. chk) chk_stop" for m' :: "('a, exn, 'b) act"
    by (rule guarded_end) simp
  show "hoare chk (bnd (perform Load_candidate_call m) (\<lambda>cand. perform Publish_call (op_publish ops ctx (px_iteration ctx) cand)))
      (\<lambda>_. chk) chk_stop"
    by (rule hoare_bnd free_call p | simp; fail)+
qed (rule no_call hoare_bnd gate_chk enter_continuation_chk run_from_step_chk candidate_chk)+

lemma run_cycle_from_chk: "hoare chk (run_cycle_from fuel ops ctx start resumed) (\<lambda>_. chk) chk_stop"
  unfolding run_cycle_from_def
  by (rule hoare_bnd hoare_case_sum guard_chk dispatch_chk free_end no_call | simp; fail)+

lemma run_checked_chk: "hoare chk (run_checked fuel ops ctx start resumed) (\<lambda>_. chk) chk_stop"
  unfolding run_checked_def by (rule hoare_if no_call run_cycle_from_chk run_from_planner_chk)+

lemma run_pipeline_chk: "hoare chk (run_pipeline fuel ops ctx start resumed) (\<lambda>_. chk) chk_stop"
proof (rule hoare_run_pipeline [OF run_checked_chk])
  show "hoare (chk_stop (Raised (Budget_exhausted reason)))
      (perform (Budget_partial_call reason) (op_budget_partial ops c reason)) (\<lambda>_. chk) chk_stop" for reason c
    by (rule hoare_pre [OF free_end]) simp_all
qed

section \<open>What an observer of some calls sees\<close>

text \<open>
  The calls every part of an iteration may make, the decision and the candidate apart. An observer that
  does not look at them sees no difference across such a part; and such a part never runs out of fuel.
\<close>

fun inner_call :: "call \<Rightarrow> bool" where
  "inner_call (Planner_continue_call it) = False"
| "inner_call (Create_candidate_call e) = False"
| "inner_call Load_candidate_call = False"
| "inner_call Push_candidate_call = False"
| "inner_call Publish_call = False"
| "inner_call _ = True"

definition sees :: "(call \<Rightarrow> bool) \<Rightarrow> (call list \<Rightarrow> bool) \<Rightarrow> 'w coord \<Rightarrow> bool" where
  "sees K R s \<longleftrightarrow> R (filter K (co_calls s))"

definition sees_stop :: "(call \<Rightarrow> bool) \<Rightarrow> (call list \<Rightarrow> bool) \<Rightarrow> stop \<Rightarrow> 'w coord \<Rightarrow> bool" where
  "sees_stop K R e s \<longleftrightarrow> sees K R s \<and> e \<noteq> Out_of_fuel"

lemma sees_frame [simp]:
  "sees K R (s\<lparr>co_cursor := c\<rparr>) = sees K R s" "sees K R (s\<lparr>co_current := d\<rparr>) = sees K R s"
  "sees_stop K R (Raised e) s = sees K R s" "sees_stop K R (Illegal_phase x) s = sees K R s"
  by (simp_all add: sees_def sees_stop_def)

lemma sees_no_call:
  "hoare (sees K R) (consult f) (\<lambda>_. sees K R) (sees_stop K R)"
  "hoare (sees K R) (eval r) (\<lambda>_. sees K R) (sees_stop K R)"
  "hoare (sees K R) (fail e) Q (sees_stop K R)"
  "hoare (sees K R) (gets g) (\<lambda>_. sees K R) (sees_stop K R)"
  "hoare (sees K R) (ret x) (\<lambda>_. sees K R) (sees_stop K R)"
  by (auto intro!: hoare_consult hoare_eval hoare_fail hoare_gets hoare_ret)

locale call_observer =
  fixes K :: "call \<Rightarrow> bool"
  assumes blind: "inner_call c \<Longrightarrow> \<not> K c"
begin

lemma unseen: "inner_call c \<Longrightarrow> hoare (sees K R) (perform c m) (\<lambda>_. sees K R) (sees_stop K R)"
  by (auto simp: sees_def sees_stop_def dest: blind intro!: hoare_perform)

lemma enter: "hoare (sees K R) (enter_phase t) (\<lambda>_. sees K R) (sees_stop K R)"
  by (auto simp: hoare_def enter_phase_def Let_def split: sum.splits)

lemma guarded: "hoare (sees K R) (guard ops ctx) (\<lambda>_. sees K R) (sees_stop K R)"
proof -
  have m: "hoare (sees K R) (modify (\<lambda>s. s\<lparr>co_current := c\<rparr>)) (\<lambda>_. sees K R) (sees_stop K R)" for c :: "pctx option"
    by (rule hoare_modify) simp
  show ?thesis unfolding guard_def by (rule hoare_bnd hoare_option m sees_no_call)+
qed

lemma saving: "hoare (sees K R) (boundary ops ctx t plan i) (\<lambda>_. sees K R) (sees_stop K R)"
  unfolding boundary_def write_boundary_def by (rule hoare_bnd enter sees_no_call unseen | simp; fail)+

lemma candidate_saving:
  "hoare (sees K R) (candidate_boundary ops ctx t plan cand) (\<lambda>_. sees K R) (sees_stop K R)"
  unfolding candidate_boundary_def write_boundary_def
  by (rule hoare_bnd hoare_option enter sees_no_call unseen | simp; fail)+

lemma steps: "hoare (sees K R) (run_steps ops ctx plan first) (\<lambda>_. sees K R) (sees_stop K R)"
proof -
  have b: "hoare (sees K R) (run_step ops ctx plan i) (\<lambda>_. sees K R) (sees_stop K R)" for i
    unfolding run_step_def pause_after_step_def
    by (rule hoare_bnd hoare_if saving sees_no_call unseen | simp; fail)+
  show ?thesis
    unfolding run_steps_def
    by (rule hoare_for_return, rule hoare_weaken [OF b]) (auto split: option.splits)
qed

lemma accepting: "hoare (sees K R) (accept_outcome ops ctx plan e a) (\<lambda>_. sees K R) (sees_stop K R)"
  unfolding accept_outcome_def by (rule hoare_bnd sees_no_call unseen | simp; fail)+

lemma auditing: "hoare (sees K R) (audit_attempt ops ctx plan e n) (\<lambda>_. sees K R) (sees_stop K R)"
  unfolding audit_attempt_def by (rule hoare_bnd hoare_if saving accepting sees_no_call unseen | simp; fail)+

lemma looping: "hoare (sees K R) (gate_loop ops ctx plan ns e a) (\<lambda>_. sees K R) (sees_stop K R)"
proof (induction ns arbitrary: e a)
  case (Cons n ns)
  show ?case
    unfolding gate_loop.simps nothing_to_audit_def
    by (rule hoare_bnd hoare_if hoare_case_sum hoare_case_prod sees_no_call auditing accepting Cons.IH)+
qed (simp add: sees_no_call)

lemma gating: "hoare (sees K R) (gate ops ctx plan start) (\<lambda>_. sees K R) (sees_stop K R)"
  unfolding gate_def first_evidence_def
  by (rule hoare_bnd hoare_if hoare_option sees_no_call accepting looping unseen | simp; fail)+

lemma implementing: "hoare (sees K R) (implement ops ctx plan first) (\<lambda>_. sees K R) (sees_stop K R)"
  unfolding implement_def by (rule hoare_bnd hoare_option steps saving gating sees_no_call)+

lemma fingerprinting: "hoare (sees K R) (fingerprint_of ops ctx items out) (\<lambda>_. sees K R) (sees_stop K R)"
  unfolding fingerprint_of_def by (rule hoare_bnd sees_no_call)+

lemma closing: "hoare (sees K R) (close_for_next ops ctx plan out d failed c) (\<lambda>_. sees K R) (sees_stop K R)"
  unfolding close_for_next_def Let_def
  by (rule hoare_bnd hoare_if hoare_case_prod hoare_option fingerprinting sees_no_call unseen | simp; fail)+

lemma starting:
  "hoare (sees K R) (start_iteration ops ctx d) (\<lambda>_. sees K R) (sees_stop K R)"
  unfolding start_iteration_def by (rule hoare_bnd guarded saving sees_no_call unseen | simp; fail)+

end

text \<open>The observer of the candidate and that of the decisions.\<close>

fun candidate_call :: "call \<Rightarrow> bool" where
  "candidate_call (Create_candidate_call e) = True"
| "candidate_call Load_candidate_call = True"
| "candidate_call Push_candidate_call = True"
| "candidate_call Publish_call = True"
| "candidate_call _ = False"

fun decision_call :: "call \<Rightarrow> bool" where
  "decision_call (Planner_continue_call it) = True"
| "decision_call _ = False"

interpretation candidates: call_observer candidate_call
proof
  show "inner_call c \<Longrightarrow> \<not> candidate_call c" for c by (cases c) simp_all
qed

interpretation decisions: call_observer decision_call
proof
  show "inner_call c \<Longrightarrow> \<not> decision_call c" for c by (cases c) simp_all
qed

end
