(* ===== verification/PipelineSafety.thy ===== *)
theory PipelineSafety
  imports PipelineProofs
begin

text \<open>
  The contract of the planner the coordinator asks, its discharge by the model of
  \<open>PlannerContinue.decide\<close>, and the properties of whole runs of the pipeline: legal moves, checkpoints
  before operations, the way of a candidate to its publication, the decisions a run acts on, and the
  bound on its iterations.
\<close>

section \<open>The planner's contract\<close>

text \<open>
  What the coordinator relies on: a decision that is returned is one its validator returned, in some
  world, for some parsed answer.
\<close>

locale validated_continuation =
  fixes ask :: "'w validator \<Rightarrow> ('w, exn, continue_result) act"
  assumes validated: "ask validate w = (Inr d, w') \<Longrightarrow> \<exists>v d0. validate v d0 = Inr d"
begin

lemma decides:
  assumes "\<And>v d0 d. validate v d0 = Inr d \<Longrightarrow> P d"
  shows "hoare (\<lambda>_. True) (ask validate) (\<lambda>d _. P d) (\<lambda>_ _. True)"
  using assms by (auto intro!: hoareI dest!: validated)

end

text \<open>
  \<open>RunComposition._planner_continue\<close> around \<open>PlannerContinue.decide\<close>: the budget is consulted first; the
  facts of the request are gathered by the files and Git readings that make the request of one call, so
  the calls of the loop are a function of the outcome.
\<close>

fun decide_exn :: "decide_error \<Rightarrow> exn" where
  "decide_exn (Call_failed e) = Other_error e"
| "decide_exn (Still_invalid reason) = Other_error ''V2PlanParseError''"
| "decide_exn (Escaped e) = Other_error e"

definition planner_continue ::
  "('w \<Rightarrow> exn + string option) \<Rightarrow> (iteration_outcome \<Rightarrow> 'w continue_io) \<Rightarrow> plan_authority \<Rightarrow> nat \<Rightarrow>
   pctx \<Rightarrow> cycle_plan \<Rightarrow> iteration_outcome \<Rightarrow> 'w validator \<Rightarrow> ('w, exn, continue_result) act" where
  "planner_continue budget requests au attempts ctx plan out validate w =
     (case budget w of
        Inl e \<Rightarrow> (Inl e, w)
      | Inr (Some reason) \<Rightarrow> (Inl (budget_exhausted reason), w)
      | Inr None \<Rightarrow>
          (case decide (requests out) au attempts validate w of
             (Inr d, w') \<Rightarrow> (Inr d, w')
           | (Inl e, w') \<Rightarrow> (Inl (decide_exn e), w')))"

interpretation planner: validated_continuation "planner_continue budget requests au attempts ctx plan out"
proof
  fix validate :: "'a validator" and w d w'
  assume "planner_continue budget requests au attempts ctx plan out validate w = (Inr d, w')"
  then have "decide (requests out) au attempts validate w = (Inr d, w')"
    by (auto simp: planner_continue_def split: sum.splits option.splits prod.splits)
  then obtain v answer where
    "rbind (of_plan_error (parse_planner_continue au answer)) (validate v) = Inr d"
    unfolding decide_def by (blast dest: decide_loop_Inr)
  then show "\<exists>v d0. validate v d0 = Inr d" by auto
qed

definition answers_validated :: "('w, 'r) ops \<Rightarrow> bool" where
  "answers_validated ops \<longleftrightarrow> (\<forall>ctx plan out. validated_continuation (op_planner_continue ops ctx plan out))"

lemma planner_answers_validated:
  assumes "op_planner_continue ops = planner_continue budget requests au attempts"
  shows "answers_validated ops"
  unfolding answers_validated_def assms by (blast intro: planner.validated_continuation_axioms)

section \<open>What a validated decision promises\<close>

lemma lift_exn_Inr [simp]: "lift_exn r = Inr x \<longleftrightarrow> r = Inr x"
  by (auto simp: lift_exn_def split: sum.splits exn.splits)

lemma validated_length:
  assumes "validate_plan_repository_topology path_exists p = Inr q"
  shows "length (tp_steps q) = length (tp_steps p)"
proof -
  have "normalize_steps t r steps = (out, final, c) \<Longrightarrow> length out = length steps" for t r steps out final c
    by (induction t r steps arbitrary: out final c rule: normalize_steps.induct)
       (auto simp: Let_def split: prod.splits)
  with assms show ?thesis
    by (auto simp: validate_plan_repository_topology_def normalize_plan_repository_def
        normalize_plan_contracts_def Let_def split: if_splits prod.splits)
qed

text \<open>A COMPLETE decision leaves nothing open; a NEXT decision names the milestone to go on with and a
  plan the repository admits, of at most the configured size.\<close>

definition sound_decision :: "pctx \<Rightarrow> cycle_plan \<Rightarrow> iteration_outcome \<Rightarrow> continue_result \<Rightarrow> bool" where
  "sound_decision ctx plan out d \<longleftrightarrow>
     (cr_decision d = COMPLETE_RUN \<longrightarrow>
        gate_green out \<and> af_remaining (io_audit out) = [] \<and> cr_remaining d = []
        \<and> casefold (strip (tp_project_remainder (cp_plan plan))) \<in> set no_remainder_words)
     \<and> (cr_decision d = NEXT_MILESTONE \<longrightarrow>
        (\<exists>current p. tp_milestone_id (cp_plan plan) = Some current \<and> cr_next_plan d = Some p
           \<and> (\<exists>m \<in> set (allowed_milestones ctx current). cr_next_milestone d = Some m)
           \<and> int (length (tp_steps p)) \<le> px_max_steps_per_plan ctx
           \<and> (\<exists>path_exists p0. validate_plan_repository_topology path_exists p0 = Inr p)))"

lemma validate_next_Inr:
  assumes "validate_next ops ctx plan w d p = Inr d'"
  shows "\<exists>current path_exists q. tp_milestone_id (cp_plan plan) = Some current
    \<and> (\<exists>m \<in> set (allowed_milestones ctx current). cr_next_milestone d = Some m)
    \<and> int (length (tp_steps p)) \<le> px_max_steps_per_plan ctx
    \<and> validate_plan_repository_topology path_exists p = Inr q \<and> d' = d\<lparr>cr_next_plan := Some q\<rparr>"
proof -
  from assms obtain current where c: "tp_milestone_id (cp_plan plan) = Some current"
    by (auto simp: validate_next_def split: option.splits)
  with assms obtain path_exists where
    "(case validate_plan_repository_topology path_exists p of
        Inl _ \<Rightarrow> Inl (Refused ''NEXT cannot run against the current HEAD'')
      | Inr normalized \<Rightarrow> Inr (d\<lparr>cr_next_plan := Some normalized\<rparr>)) = Inr d'"
    and "\<exists>m \<in> set (allowed_milestones ctx current). cr_next_milestone d = Some m"
    and "int (length (tp_steps p)) \<le> px_max_steps_per_plan ctx"
    by (auto simp: validate_next_def split: if_splits)
  with c show ?thesis by (cases "validate_plan_repository_topology path_exists p") auto
qed

lemma validate_next_sound:
  assumes "validate_next ops ctx plan w d p = Inr d'" and "cr_decision d = NEXT_MILESTONE"
  shows "sound_decision ctx plan out d'"
  using validate_next_Inr [OF assms(1)] assms(2) validated_length unfolding sound_decision_def by fastforce

lemma complete_objections_Nil:
  "complete_objections plan out failed d = Inr [] \<Longrightarrow>
     gate_green out \<and> af_remaining (io_audit out) = [] \<and> cr_remaining d = []
     \<and> casefold (strip (tp_project_remainder (cp_plan plan))) \<in> set no_remainder_words"
  by (auto simp: complete_objections_def split: if_splits)

lemma validate_decision_sound:
  assumes "validate_decision ops ctx plan out failed w d0 = Inr d"
  shows "sound_decision ctx plan out d"
proof (cases "cr_decision d0")
  case COMPLETE_RUN
  with assms have "d = d0" and "complete_objections plan out failed d0 = Inr []"
    by (auto simp: validate_decision_def split: if_splits)
  with COMPLETE_RUN complete_objections_Nil [of plan out failed d0] show ?thesis by (simp add: sound_decision_def)
next
  case NEXT_MILESTONE
  with assms validate_next_sound show ?thesis by (auto simp: validate_decision_def split: option.splits)
next
  case SPEC_DECISION_STOP
  with assms show ?thesis by (auto simp: validate_decision_def sound_decision_def)
qed

lemma decision_sound:
  assumes "answers_validated ops"
    and "op_planner_continue ops ctx plan out (validate_decision ops ctx plan out failed) w = (Inr d, w')"
  shows "sound_decision ctx plan out d"
  using assms validated_continuation.validated validate_decision_sound
  unfolding answers_validated_def by metis

section \<open>The way of a candidate\<close>

text \<open>The candidate calls so far, latest first, are a beginning of this list of calls.\<close>

definition on_way :: "call list \<Rightarrow> call list \<Rightarrow> bool" where
  "on_way way cs \<longleftrightarrow> (\<exists>n. rev cs = take n way)"

definition green_way :: "call list \<Rightarrow> bool" where
  "green_way cs \<longleftrightarrow> (\<exists>e. evidence_green e \<and> on_way [Create_candidate_call e, Push_candidate_call, Publish_call] cs)"

definition loaded_way :: "call list \<Rightarrow> bool" where
  "loaded_way cs \<longleftrightarrow> on_way [Load_candidate_call, Push_candidate_call, Publish_call] cs
     \<or> on_way [Load_candidate_call, Publish_call] cs"

text \<open>Exactly these candidate calls were made.\<close>

definition made :: "call list \<Rightarrow> 'w coord \<Rightarrow> bool" where
  "made cs = sees candidate_call (\<lambda>ds. ds = cs)"

lemma made_eval: "made cs s \<longleftrightarrow> filter candidate_call (co_calls s) = cs"
  by (simp add: made_def sees_def)

lemma on_wayI: "rev cs = take n way \<Longrightarrow> on_way way cs"
  by (auto simp: on_way_def)

lemma green_beginnings:
  assumes "evidence_green e"
  shows "green_way []" "green_way [Create_candidate_call e]" "green_way [Push_candidate_call, Create_candidate_call e]"
    "green_way [Publish_call, Push_candidate_call, Create_candidate_call e]"
  unfolding green_way_def
  by (rule exI [of _ e], use assms on_wayI [of _ 0] on_wayI [of _ 1] on_wayI [of _ 2] on_wayI [of _ 3] in simp)+

lemma loaded_beginnings:
  "loaded_way []" "loaded_way [Load_candidate_call]" "loaded_way [Push_candidate_call, Load_candidate_call]"
  "loaded_way [Publish_call, Push_candidate_call, Load_candidate_call]" "loaded_way [Publish_call, Load_candidate_call]"
  unfolding loaded_way_def
  using on_wayI [of _ 0] on_wayI [of _ 1] on_wayI [of _ 2] on_wayI [of _ 3] by simp_all

lemma green_Nil: "green_way []"
proof (rule green_beginnings)
  show "evidence_green \<lparr>eb_deterministic_passed = True, eb_checks = [], eb_required_check_ids = [],
      eb_baseline_cleared = [], eb_failures = [], eb_changed_files = []\<rparr>"
    by (simp add: evidence_green_def required_checks_passed_def)
qed

lemma blind_made:
  assumes "hoare (sees candidate_call (\<lambda>ds. ds = cs)) m (\<lambda>_. sees candidate_call (\<lambda>ds. ds = cs))
      (sees_stop candidate_call (\<lambda>ds. ds = cs))" and "R cs"
  shows "hoare (made cs) m (\<lambda>_. made cs) (\<lambda>_. sees candidate_call R)"
  unfolding made_def using assms(2)
  by (intro hoare_weaken [OF assms(1)]) (auto simp: sees_def sees_stop_def)

lemma made_call:
  assumes "candidate_call c" and "R (c # cs)"
  shows "hoare (made cs) (perform c m) (\<lambda>_. made (c # cs)) (\<lambda>_. sees candidate_call R)"
  using assms by (auto simp: made_eval sees_def intro!: hoare_perform)

lemma made_end:
  assumes "candidate_call c" and "R (c # cs)"
  shows "hoare (made cs) (perform c m) (\<lambda>_. sees candidate_call R) (\<lambda>_. sees candidate_call R)"
  using assms by (auto simp: made_eval sees_def intro!: hoare_perform)

text \<open>The parts that make no candidate call.\<close>

lemma made_still:
  "R cs \<Longrightarrow> inner_call c \<Longrightarrow> hoare (made cs) (perform c m) (\<lambda>_. made cs) (\<lambda>_. sees candidate_call R)"
  "R cs \<Longrightarrow> hoare (made cs) (boundary ops ctx t plan i) (\<lambda>_. made cs) (\<lambda>_. sees candidate_call R)"
  "R cs \<Longrightarrow> hoare (made cs) (candidate_boundary ops ctx t plan cand) (\<lambda>_. made cs) (\<lambda>_. sees candidate_call R)"
  "R cs \<Longrightarrow> hoare (made cs) (consult f) (\<lambda>_. made cs) (\<lambda>_. sees candidate_call R)"
  "R cs \<Longrightarrow> hoare (made cs) (eval r) (\<lambda>_. made cs) (\<lambda>_. sees candidate_call R)"
  "R cs \<Longrightarrow> hoare (made cs) (gets g) (\<lambda>_. made cs) (\<lambda>_ :: stop. sees candidate_call R)"
  "R cs \<Longrightarrow> hoare (made cs) (ret x) (\<lambda>_. made cs) (\<lambda>_ :: stop. sees candidate_call R)"
  "R cs \<Longrightarrow> hoare (made cs) (guard ops ctx) (\<lambda>_. made cs) (\<lambda>_. sees candidate_call R)"
  "R cs \<Longrightarrow> hoare (made cs) (fingerprint_of ops ctx items out) (\<lambda>_. made cs) (\<lambda>_. sees candidate_call R)"
  "R cs \<Longrightarrow> hoare (made cs) (implement ops ctx plan first) (\<lambda>_. made cs) (\<lambda>_. sees candidate_call R)"
  "R cs \<Longrightarrow> hoare (made cs) (gate ops ctx plan start) (\<lambda>_. made cs) (\<lambda>_. sees candidate_call R)"
  "R cs \<Longrightarrow> hoare (made cs) (close_for_next ops ctx plan out d failed start_commit) (\<lambda>_. made cs) (\<lambda>_. sees candidate_call R)"
  "R cs \<Longrightarrow> hoare (made cs) (start_iteration ops ctx d) (\<lambda>_. made cs) (\<lambda>_. sees candidate_call R)"
  "R cs \<Longrightarrow> hoare (made cs) (fail e) Q (\<lambda>_. sees candidate_call R)"
  by (erule (1) blind_made [rotated, OF _ candidates.unseen])
     ((erule blind_made [rotated], rule sees_no_call candidates.saving candidates.candidate_saving candidates.guarded
        candidates.fingerprinting candidates.implementing candidates.gating candidates.closing candidates.starting)+,
      auto simp: made_eval sees_def intro!: hoare_fail)

lemma push_made:
  assumes "R cs" and "R (Push_candidate_call # cs)" and "R (Publish_call # Push_candidate_call # cs)"
  shows "hoare (made cs) (push_and_publish ops ctx plan cand) (\<lambda>_. sees candidate_call R) (\<lambda>_. sees candidate_call R)"
  unfolding push_and_publish_def
  by (rule hoare_bnd made_call made_end made_still | simp add: assms; fail)+

lemma complete_made:
  assumes "gate_green out"
  shows "hoare (made []) (complete_run ops ctx plan out d c)
    (\<lambda>_. sees candidate_call green_way) (\<lambda>_. sees candidate_call green_way)"
proof -
  have e: "evidence_green (io_evidence out)" using assms by (simp add: gate_green_def)
  note g = green_beginnings [OF e]
  show ?thesis
    unfolding complete_run_def
    by (rule hoare_bnd hoare_case_prod made_call push_made made_still | simp add: g; fail)+
qed

lemmas green_still = made_still [where R = green_way and cs = "[]", OF green_Nil]

lemma ret_green: "hoare (made []) (ret x) (\<lambda>_. sees candidate_call green_way) (\<lambda>_ :: stop. sees candidate_call green_way)"
  by (rule hoare_ret) (simp add: made_eval sees_def green_Nil)

lemma unseen_green:
  "inner_call c \<Longrightarrow> hoare (made []) (perform c m) (\<lambda>_. sees candidate_call green_way) (\<lambda>_. sees candidate_call green_way)"
  by (rule hoare_weaken [OF green_still(1)]) (auto simp: made_eval sees_def green_Nil)

lemma decide_made:
  assumes "answers_validated ops"
  shows "hoare (made []) (decide_continuation ops ctx plan out)
    (\<lambda>r s. made [] s \<and> sound_decision ctx plan out (fst (snd r))) (\<lambda>_. sees candidate_call green_way)"
proof -
  have p: "hoare (made []) (perform (Planner_continue_call it)
        (op_planner_continue ops ctx plan out (validate_decision ops ctx plan out failed)))
      (\<lambda>d s. made [] s \<and> sound_decision ctx plan out d) (\<lambda>_. sees candidate_call green_way)" for it failed
    using decision_sound [OF assms] by (auto simp: made_eval sees_def green_Nil intro!: hoare_perform)
  have f: "hoare (\<lambda>s. made [] s \<and> sound_decision ctx plan out d) (consult g)
      (\<lambda>_ s. made [] s \<and> sound_decision ctx plan out d) (\<lambda>_. sees candidate_call green_way)" for d and g :: "'a \<Rightarrow> exn + string list"
    by (auto simp: made_eval sees_def green_Nil intro!: hoare_consult)
  have r: "hoare (\<lambda>s. made [] s \<and> sound_decision ctx plan out d) (ret (head, d, failed))
      (\<lambda>r s. made [] s \<and> sound_decision ctx plan out (fst (snd r))) (\<lambda>_ :: stop. sees candidate_call green_way)"
    for head failed d by (rule hoare_ret) simp
  show ?thesis
    unfolding decide_continuation_def by (rule hoare_bnd p f r green_still)+
qed

lemma continue_made:
  assumes v: "answers_validated ops"
  shows "hoare (made []) (continue_run fuel ops ctx plan out c)
    (\<lambda>_. sees candidate_call green_way) (\<lambda>_. sees candidate_call green_way)"
proof (induction fuel arbitrary: ctx plan out c)
  case 0
  show ?case by (auto simp: made_eval sees_def green_Nil intro!: hoare_raise)
next
  case (Suc fuel)
  have next_one: "hoare (made [])
      (bnd (close_for_next ops ctx plan out d failed c) (\<lambda>ended.
           case ended of Some r \<Rightarrow> ret r
           | None \<Rightarrow> bnd (start_iteration ops ctx d) (\<lambda>(ctx', plan'). bnd (implement ops ctx' plan' 0) (\<lambda>r.
               case r of Inl x \<Rightarrow> ret x | Inr out' \<Rightarrow> continue_run fuel ops ctx' plan' out' head))))
      (\<lambda>_. sees candidate_call green_way) (\<lambda>_. sees candidate_call green_way)" for d failed head
    by (rule hoare_bnd hoare_case_prod hoare_case_sum hoare_option Suc.IH ret_green green_still)+
  have step: "hoare (\<lambda>s. made [] s \<and> sound_decision ctx plan out d)
      (case cr_decision d of
         SPEC_DECISION_STOP \<Rightarrow> bnd (perform (Close_iteration_call i t) m1) (\<lambda>_. perform Spec_decision_call m2)
       | COMPLETE_RUN \<Rightarrow> complete_run ops ctx plan out d c
       | NEXT_MILESTONE \<Rightarrow> bnd (close_for_next ops ctx plan out d failed c) (\<lambda>ended.
           case ended of Some r \<Rightarrow> ret r
           | None \<Rightarrow> bnd (start_iteration ops ctx d) (\<lambda>(ctx', plan'). bnd (implement ops ctx' plan' 0) (\<lambda>r.
               case r of Inl x \<Rightarrow> ret x | Inr out' \<Rightarrow> continue_run fuel ops ctx' plan' out' head))))
      (\<lambda>_. sees candidate_call green_way) (\<lambda>_. sees candidate_call green_way)"
    for d failed head i t m2 and m1 :: "('a, exn, unit) act"
  proof (cases "cr_decision d"; simp only: continue_decision.case)
    assume "cr_decision d = COMPLETE_RUN"
    then show "hoare (\<lambda>s. made [] s \<and> sound_decision ctx plan out d) (complete_run ops ctx plan out d c)
        (\<lambda>_. sees candidate_call green_way) (\<lambda>_. sees candidate_call green_way)"
      by (cases "sound_decision ctx plan out d")
         (auto simp: sound_decision_def hoare_def [of "\<lambda>_. False"] intro: hoare_pre [OF complete_made])
  next
    show "hoare (\<lambda>s. made [] s \<and> sound_decision ctx plan out d)
        (bnd (perform (Close_iteration_call i t) m1) (\<lambda>_. perform Spec_decision_call m2))
        (\<lambda>_. sees candidate_call green_way) (\<lambda>_. sees candidate_call green_way)"
      by (rule hoare_pre [of "made []"]) (rule hoare_bnd unseen_green green_still | simp)+
  qed (rule hoare_pre [OF next_one], simp)
  show ?case
    unfolding continue_run.simps
    by (rule hoare_bnd [OF decide_made [OF v]]) (auto intro!: hoare_case_prod step)
qed

lemma enter_continuation_made:
  "answers_validated ops \<Longrightarrow> hoare (made []) (enter_continuation fuel ops ctx plan out start)
     (\<lambda>_. sees candidate_call green_way) (\<lambda>_. sees candidate_call green_way)"
  unfolding enter_continuation_def by (rule hoare_bnd continue_made green_still | assumption)+

lemma run_from_planner_made:
  "answers_validated ops \<Longrightarrow> hoare (made []) (run_from_planner fuel ops ctx start)
     (\<lambda>_. sees candidate_call green_way) (\<lambda>_. sees candidate_call green_way)"
  unfolding run_from_planner_def
  by (rule hoare_bnd enter_continuation_made green_still | assumption | simp; fail)+

lemma run_from_step_made:
  "answers_validated ops \<Longrightarrow> hoare (made []) (run_from_step fuel ops ctx plan start)
     (\<lambda>_. sees candidate_call green_way) (\<lambda>_. sees candidate_call green_way)"
  unfolding run_from_step_def
  by (rule hoare_bnd hoare_if hoare_option hoare_case_sum enter_continuation_made ret_green green_still | assumption)+

lemma run_from_candidate_made:
  "hoare (made []) (run_from_candidate ops ctx plan start)
     (\<lambda>_. sees candidate_call loaded_way) (\<lambda>_. sees candidate_call loaded_way)"
  unfolding run_from_candidate_def
  by (rule hoare_bnd hoare_if made_call push_made made_still | simp add: loaded_beginnings; fail)+

text \<open>Which way a run's candidate takes depends on where the run starts.\<close>

definition candidate_way :: "run_phase \<Rightarrow> call list \<Rightarrow> bool" where
  "candidate_way p = (if p \<in> {CANDIDATE_READY, CANDIDATE_PUSH, PUBLISH} then loaded_way else green_way)"

lemma candidate_way_Nil: "candidate_way p []"
  by (simp add: candidate_way_def loaded_beginnings green_Nil)

lemma dispatch_made:
  assumes "answers_validated ops"
  shows "hoare (made [])
     (case rc_phase start of
        PUBLISH \<Rightarrow> bnd (perform Load_candidate_call m) (\<lambda>cand. perform Publish_call (op_publish ops ctx (px_iteration ctx) cand))
      | IMPLEMENT_STEP \<Rightarrow> run_from_step fuel ops ctx plan start
      | DETERMINISTIC_GATE \<Rightarrow> bnd (gate ops ctx plan (Some start)) (\<lambda>out. enter_continuation fuel ops ctx plan out start)
      | AUDIT \<Rightarrow> bnd (gate ops ctx plan (Some start)) (\<lambda>out. enter_continuation fuel ops ctx plan out start)
      | CANDIDATE_READY \<Rightarrow> run_from_candidate ops ctx plan start
      | CANDIDATE_PUSH \<Rightarrow> run_from_candidate ops ctx plan start
      | _ \<Rightarrow> fail (Pipeline_failure ''RESUME_INTEGRITY_FAILURE''))
     (\<lambda>_. sees candidate_call (candidate_way (rc_phase start))) (\<lambda>_. sees candidate_call (candidate_way (rc_phase start)))"
proof -
  have g: "hoare (made []) (bnd (gate ops ctx plan (Some start)) (\<lambda>out. enter_continuation fuel ops ctx plan out start))
      (\<lambda>_. sees candidate_call green_way) (\<lambda>_. sees candidate_call green_way)"
    by (rule hoare_bnd enter_continuation_made [OF assms] green_still)+
  have p: "hoare (made []) (bnd (perform Load_candidate_call m) (\<lambda>cand. perform Publish_call (op_publish ops ctx (px_iteration ctx) cand)))
      (\<lambda>_. sees candidate_call loaded_way) (\<lambda>_. sees candidate_call loaded_way)"
    by (rule hoare_bnd made_call made_end | simp add: loaded_beginnings; fail)+
  show ?thesis
    using g p run_from_step_made [OF assms, of fuel ctx plan start] run_from_candidate_made [of ops ctx plan start]
    by (cases "rc_phase start"; simp only: run_phase.case) (simp_all add: candidate_way_def made_still green_Nil)
qed

lemma run_checked_made:
  assumes "answers_validated ops"
  shows "hoare (made []) (run_checked fuel ops ctx start resumed)
     (\<lambda>_. sees candidate_call (candidate_way (rc_phase start))) (\<lambda>_. sees candidate_call (candidate_way (rc_phase start)))"
proof -
  have c: "hoare (made []) (run_cycle_from fuel ops ctx start resumed)
     (\<lambda>_. sees candidate_call (candidate_way (rc_phase start))) (\<lambda>_. sees candidate_call (candidate_way (rc_phase start)))"
    unfolding run_cycle_from_def
    by (rule hoare_bnd hoare_case_sum dispatch_made [OF assms] made_still | simp add: candidate_way_Nil; fail)+
  have p: "rc_phase start = PLANNER \<Longrightarrow> hoare (made []) (run_from_planner fuel ops ctx start)
     (\<lambda>_. sees candidate_call (candidate_way (rc_phase start))) (\<lambda>_. sees candidate_call (candidate_way (rc_phase start)))"
    using run_from_planner_made [OF assms, of fuel ctx start] by (simp add: candidate_way_def)
  show ?thesis
    unfolding run_checked_def by (intro hoare_if c p made_still candidate_way_Nil)
qed

lemma run_pipeline_made:
  assumes "answers_validated ops"
  shows "hoare (made []) (run_pipeline fuel ops ctx start resumed)
     (\<lambda>_. sees candidate_call (candidate_way (rc_phase start))) (\<lambda>_. sees candidate_call (candidate_way (rc_phase start)))"
  by (rule hoare_run_pipeline [OF run_checked_made [OF assms]]) (auto simp: sees_def intro!: hoare_perform)

section \<open>The bound on the iterations\<close>

text \<open>What \<open>_prepare_next_iteration\<close> does to the context: the next iteration of the same budget.\<close>

definition advances :: "('w, 'r) ops \<Rightarrow> bool" where
  "advances ops \<longleftrightarrow>
     (\<forall>ctx d w ctx' w'. op_prepare_next_iteration ops ctx d w = (Inr ctx', w') \<longrightarrow>
        px_iteration ctx' = px_iteration ctx + 1 \<and> px_budget ctx' = px_budget ctx)"

definition rounds_left :: "pctx \<Rightarrow> nat" where
  "rounds_left ctx = nat (max_iterations (px_budget ctx) - px_iteration ctx)"

text \<open>At most so many decisions have been asked for, and the fuel did not run out.\<close>

definition asked :: "nat \<Rightarrow> 'w coord \<Rightarrow> bool" where
  "asked n = sees decision_call (\<lambda>cs. length cs \<le> n)"

definition asked_stop :: "nat \<Rightarrow> stop \<Rightarrow> 'w coord \<Rightarrow> bool" where
  "asked_stop n = sees_stop decision_call (\<lambda>cs. length cs \<le> n)"

lemma hoare_conj:
  "hoare P m Q E \<Longrightarrow> hoare P m Q' E' \<Longrightarrow> hoare P m (\<lambda>x s. Q x s \<and> Q' x s) (\<lambda>e s. E e s \<and> E' e s)"
  by (fastforce simp: hoare_def split: prod.splits sum.splits)

lemma asked_mono: "asked n s \<Longrightarrow> n \<le> m \<Longrightarrow> asked m s" "asked_stop n e s \<Longrightarrow> n \<le> m \<Longrightarrow> asked_stop m e s"
  by (auto simp: asked_def asked_stop_def sees_def sees_stop_def)

lemma stop_mono: "hoare P m Q (asked_stop n) \<Longrightarrow> n \<le> k \<Longrightarrow> hoare P m Q (asked_stop k)"
  by (erule hoare_weaken) (auto elim: asked_mono)

lemma end_mono:
  "hoare P m (\<lambda>_. asked n) (asked_stop n) \<Longrightarrow> n \<le> k \<Longrightarrow> hoare P m (\<lambda>_. asked k) (asked_stop k)"
  by (erule hoare_weaken) (auto elim: asked_mono)

lemma hoare_given: "(p \<Longrightarrow> hoare P m Q E) \<Longrightarrow> hoare (\<lambda>s. P s \<and> p) m Q E"
  by (auto simp: hoare_def)

text \<open>The parts that ask nothing.\<close>

lemma asks_nothing:
  "inner_call c \<Longrightarrow> hoare (asked n) (perform c m) (\<lambda>_. asked n) (asked_stop n)"
  "hoare (asked n) (boundary ops ctx t plan i) (\<lambda>_. asked n) (asked_stop n)"
  "hoare (asked n) (candidate_boundary ops ctx t plan cand) (\<lambda>_. asked n) (asked_stop n)"
  "hoare (asked n) (consult f) (\<lambda>_. asked n) (asked_stop n)"
  "hoare (asked n) (gets g) (\<lambda>_. asked n) (asked_stop n)"
  "hoare (asked n) (ret x) (\<lambda>_. asked n) (asked_stop n)"
  "hoare (asked n) (fail e) Q (asked_stop n)"
  "hoare (asked n) (guard ops ctx) (\<lambda>_. asked n) (asked_stop n)"
  "hoare (asked n) (fingerprint_of ops ctx items out) (\<lambda>_. asked n) (asked_stop n)"
  "hoare (asked n) (implement ops ctx plan first) (\<lambda>_. asked n) (asked_stop n)"
  "hoare (asked n) (gate ops ctx plan start) (\<lambda>_. asked n) (asked_stop n)"
  "hoare (asked n) (close_for_next ops ctx plan out d failed start_commit) (\<lambda>_. asked n) (asked_stop n)"
  "hoare (asked n) (start_iteration ops ctx d) (\<lambda>_. asked n) (asked_stop n)"
  unfolding asked_def asked_stop_def
  by (rule decisions.unseen, assumption)
     (rule sees_no_call decisions.saving decisions.candidate_saving decisions.guarded decisions.fingerprinting
        decisions.implementing decisions.gating decisions.closing decisions.starting)+

text \<open>The calls of the candidate are no decisions either.\<close>

lemma asked_call: "\<not> decision_call c \<Longrightarrow> hoare (asked n) (perform c m) (\<lambda>_. asked n) (asked_stop n)"
  by (auto simp: asked_def asked_stop_def sees_def sees_stop_def intro!: hoare_perform)

lemma push_asked: "hoare (asked n) (push_and_publish ops ctx plan cand) (\<lambda>_. asked n) (asked_stop n)"
  unfolding push_and_publish_def by (rule hoare_bnd asked_call asks_nothing | simp; fail)+

lemma complete_asked: "hoare (asked n) (complete_run ops ctx plan out d c) (\<lambda>_. asked n) (asked_stop n)"
  unfolding complete_run_def
  by (rule hoare_bnd hoare_case_prod asks_nothing(2-) asked_call push_asked | simp; fail)+

lemma decide_asked: "hoare (asked n) (decide_continuation ops ctx plan out) (\<lambda>_. asked (Suc n)) (asked_stop (Suc n))"
proof -
  have p: "hoare (asked n) (perform c m) (\<lambda>_. asked (Suc n)) (asked_stop (Suc n))" for c and m :: "('a, exn, 'c) act"
    by (auto simp: asked_def asked_stop_def sees_def sees_stop_def intro!: hoare_perform)
  show ?thesis
    unfolding decide_continuation_def
    by (rule hoare_bnd stop_mono [OF asks_nothing(4)] stop_mono [OF asks_nothing(2)] p asks_nothing | simp; fail)+
qed

lemma hoare_top: "hoare P m (\<lambda>_ _. True) (\<lambda>_ _. True)"
  by (auto simp: hoare_def split: prod.splits sum.splits)

lemma close_ends:
  "hoare P (close_for_next ops ctx plan out d failed c)
     (\<lambda>r _. r = None \<longrightarrow> px_iteration ctx < max_iterations (px_budget ctx)) (\<lambda>_ _. True)"
  unfolding close_for_next_def Let_def
  by (rule hoare_bnd hoare_if hoare_case_prod hoare_option
      | (rule hoare_ret hoare_fail, simp add: partial_reason_def split: if_splits; fail) | rule hoare_top)+

lemma start_advances:
  assumes "advances ops"
  shows "hoare P (start_iteration ops ctx d)
     (\<lambda>r _. px_iteration (fst r) = px_iteration ctx + 1 \<and> px_budget (fst r) = px_budget ctx) (\<lambda>_ _. True)"
proof -
  have "px_iteration ctx' = px_iteration ctx + 1 \<and> px_budget ctx' = px_budget ctx"
    if "op_prepare_next_iteration ops ctx d w = (Inr ctx', w')" for ctx' w w'
    using assms that unfolding advances_def by blast
  then show ?thesis
    by (auto simp: hoare_def start_iteration_def bnd_def ret_def perform_def split: prod.splits sum.splits)
qed

lemma continue_asked:
  assumes a: "advances ops"
  shows "rounds_left ctx < fuel \<Longrightarrow> hoare (asked n) (continue_run fuel ops ctx plan out c)
    (\<lambda>_. asked (n + rounds_left ctx + 1)) (asked_stop (n + rounds_left ctx + 1))"
proof (induction fuel arbitrary: ctx plan out c n)
  case 0
  then show ?case by simp
next
  case (Suc fuel)
  let ?k = "n + rounds_left ctx + 1"
  have again: "hoare (asked (Suc n))
      (bnd (implement ops ctx' plan' 0) (\<lambda>r. case r of Inl x \<Rightarrow> ret x | Inr out' \<Rightarrow> continue_run fuel ops ctx' plan' out' head))
      (\<lambda>_. asked ?k) (asked_stop ?k)"
    if "px_iteration ctx < max_iterations (px_budget ctx)"
      and "px_iteration ctx' = px_iteration ctx + 1 \<and> px_budget ctx' = px_budget ctx" for ctx' plan' head
  proof -
    from that have r: "rounds_left ctx = Suc (rounds_left ctx')" by (auto simp: rounds_left_def)
    with Suc.prems Suc.IH [of ctx' "Suc n" plan' _ head]
    have rest: "hoare (asked (Suc n)) (continue_run fuel ops ctx' plan' out' head) (\<lambda>_. asked ?k) (asked_stop ?k)" for out'
      by simp
    show ?thesis
      by (rule hoare_bnd hoare_case_sum rest stop_mono [OF asks_nothing(10)] end_mono [OF asks_nothing(6)] | simp; fail)+
  qed
  have next_one: "hoare (asked (Suc n))
      (bnd (close_for_next ops ctx plan out d failed c) (\<lambda>ended.
           case ended of Some r \<Rightarrow> ret r
           | None \<Rightarrow> bnd (start_iteration ops ctx d) (\<lambda>(ctx', plan'). bnd (implement ops ctx' plan' 0) (\<lambda>r.
               case r of Inl x \<Rightarrow> ret x | Inr out' \<Rightarrow> continue_run fuel ops ctx' plan' out' head))))
      (\<lambda>_. asked ?k) (asked_stop ?k)" for d failed head
  proof -
    have close: "hoare (asked (Suc n)) (close_for_next ops ctx plan out d failed c)
        (\<lambda>r s. asked (Suc n) s \<and> (r = None \<longrightarrow> px_iteration ctx < max_iterations (px_budget ctx))) (asked_stop ?k)"
      by (rule hoare_weaken [OF hoare_conj [OF asks_nothing(12) [where n = "Suc n"] close_ends]]) (auto elim: asked_mono)
    have start: "hoare (asked (Suc n)) (start_iteration ops ctx d)
        (\<lambda>r s. asked (Suc n) s \<and> px_iteration (fst r) = px_iteration ctx + 1 \<and> px_budget (fst r) = px_budget ctx)
        (asked_stop ?k)"
      by (rule hoare_weaken [OF hoare_conj [OF asks_nothing(13) [where n = "Suc n"] start_advances [OF a]]]) (auto elim: asked_mono)
    have go: "hoare (\<lambda>s. asked (Suc n) s \<and> px_iteration ctx < max_iterations (px_budget ctx))
        (bnd (start_iteration ops ctx d) (\<lambda>(ctx', plan'). bnd (implement ops ctx' plan' 0) (\<lambda>r.
           case r of Inl x \<Rightarrow> ret x | Inr out' \<Rightarrow> continue_run fuel ops ctx' plan' out' head)))
        (\<lambda>_. asked ?k) (asked_stop ?k)"
      by (intro hoare_given hoare_bnd [OF start] hoare_case_prod again) simp_all
    show ?thesis
      by (rule hoare_bnd [OF close], rule hoare_option)
         (use hoare_pre [OF go] in \<open>auto intro!: hoare_ret elim: asked_mono\<close>)
  qed
  have step: "hoare (asked (Suc n))
      (case cr_decision d of
         SPEC_DECISION_STOP \<Rightarrow> bnd (perform (Close_iteration_call i t) m1) (\<lambda>_. perform Spec_decision_call m2)
       | COMPLETE_RUN \<Rightarrow> complete_run ops ctx plan out d c
       | NEXT_MILESTONE \<Rightarrow> bnd (close_for_next ops ctx plan out d failed c) (\<lambda>ended.
           case ended of Some r \<Rightarrow> ret r
           | None \<Rightarrow> bnd (start_iteration ops ctx d) (\<lambda>(ctx', plan'). bnd (implement ops ctx' plan' 0) (\<lambda>r.
               case r of Inl x \<Rightarrow> ret x | Inr out' \<Rightarrow> continue_run fuel ops ctx' plan' out' head))))
      (\<lambda>_. asked ?k) (asked_stop ?k)" for d failed head i t m2 and m1 :: "('a, exn, unit) act"
    by (cases "cr_decision d"; simp only: continue_decision.case)
       (rule next_one end_mono [OF complete_asked] hoare_bnd stop_mono [OF asks_nothing(1)] end_mono [OF asks_nothing(1)] | simp; fail)+
  show ?case
    unfolding continue_run.simps
    by (rule hoare_bnd hoare_case_prod stop_mono [OF decide_asked] step | simp; fail)+
qed

lemma enter_continuation_asked:
  assumes "advances ops" and "rounds_left ctx < fuel"
  shows "hoare (asked 0) (enter_continuation fuel ops ctx plan out start)
    (\<lambda>_. asked (rounds_left ctx + 1)) (asked_stop (rounds_left ctx + 1))"
  unfolding enter_continuation_def
  using continue_asked [OF assms, of 0] by (intro hoare_bnd [OF stop_mono [OF asks_nothing(5)]]) auto

text \<open>The parts of a run before its first decision, at the bound of the whole run.\<close>

lemmas early = asks_nothing(1,2,3,4,6,7,8,10,11) [where n = 0, THEN stop_mono]
lemmas late = asks_nothing(6) [THEN end_mono] asked_call [THEN end_mono] push_asked [THEN end_mono]

lemma run_checked_asked:
  assumes "advances ops" and "rounds_left ctx < fuel"
  shows "hoare (asked 0) (run_checked fuel ops ctx start resumed)
    (\<lambda>_. asked (rounds_left ctx + 1)) (asked_stop (rounds_left ctx + 1))"
proof -
  note c = enter_continuation_asked [OF assms]
  have step: "hoare (asked 0) (run_from_step fuel ops ctx plan start)
      (\<lambda>_. asked (rounds_left ctx + 1)) (asked_stop (rounds_left ctx + 1))" for plan
    unfolding run_from_step_def
    by (rule hoare_option hoare_if hoare_bnd hoare_case_sum c late early | simp; fail)+
  have cand: "hoare (asked 0) (run_from_candidate ops ctx plan start)
      (\<lambda>_. asked (rounds_left ctx + 1)) (asked_stop (rounds_left ctx + 1))" for plan
    unfolding run_from_candidate_def
    by (rule hoare_bnd hoare_if late early asked_call [THEN stop_mono] | simp; fail)+
  have gated: "hoare (asked 0) (bnd (gate ops ctx plan (Some start)) (\<lambda>out. enter_continuation fuel ops ctx plan out start))
      (\<lambda>_. asked (rounds_left ctx + 1)) (asked_stop (rounds_left ctx + 1))" for plan
    by (rule hoare_bnd c early | simp; fail)+
  have pub: "hoare (asked 0) (bnd (perform Load_candidate_call m) (\<lambda>cand. perform Publish_call (op_publish ops ctx (px_iteration ctx) cand)))
      (\<lambda>_. asked (rounds_left ctx + 1)) (asked_stop (rounds_left ctx + 1))" for m
    by (rule hoare_bnd late asked_call [THEN stop_mono] | simp; fail)+
  have cycle: "hoare (asked 0) (run_cycle_from fuel ops ctx start resumed)
      (\<lambda>_. asked (rounds_left ctx + 1)) (asked_stop (rounds_left ctx + 1))"
    unfolding run_cycle_from_def
    by (cases "rc_phase start"; simp only: run_phase.case)
       (rule hoare_bnd hoare_case_sum step cand gated pub late early | simp; fail)+
  show ?thesis
    unfolding run_checked_def run_from_planner_def
    by (rule hoare_if cycle hoare_bnd c early | simp; fail)+
qed

lemma run_pipeline_asked:
  assumes "advances ops" and "rounds_left ctx < fuel"
  shows "hoare (asked 0) (run_pipeline fuel ops ctx start resumed)
    (\<lambda>_. asked (rounds_left ctx + 1)) (asked_stop (rounds_left ctx + 1))"
  by (rule hoare_run_pipeline [OF run_checked_asked [OF assms]])
     (auto simp: asked_def asked_stop_def sees_def sees_stop_def intro!: hoare_perform)

text \<open>A triple of a run that starts afresh, as a statement about its end.\<close>

lemma hoare_end:
  assumes "hoare P m Q E" and "P s" and "\<And>x s. Q x s \<Longrightarrow> R s" and "\<And>e s. E e s \<Longrightarrow> R s"
  shows "R (snd (m s))"
  using assms by (cases "m s"; cases "fst (m s)") (fastforce simp: hoare_def)+

lemma hoare_stops:
  assumes "hoare P m Q E" and "P s" and "\<And>s. \<not> E e s"
  shows "fst (m s) \<noteq> Inl e"
  using assms by (cases "m s"; cases "fst (m s)") (fastforce simp: hoare_def)+

section \<open>A sample run\<close>

text \<open>A run of one step whose planner answers COMPLETE, on the second attempt. The world counts the calls
  of the model.\<close>

definition pipeline_step :: implementation_step where
  "pipeline_step = \<lparr>st_id = ''S01'', st_title = ''t'', st_execution_class = REASONING, st_depends_on = None,
     st_context = [], st_read_set = [], st_write_set = [''a.py''], st_create_set = [], st_delete_set = [],
     st_instructions = [], st_interfaces = [], st_examples = [], st_tests = [], st_pitfalls = [],
     st_done_when = [], st_verify = []\<rparr>"

definition pipeline_plan :: task_plan where
  "pipeline_plan = \<lparr>tp_decision = READY, tp_title = ''t'', tp_objective = [], tp_constraints = [],
     tp_execution_mode = Some SINGLE, tp_steps = [pipeline_step], tp_acceptance = [], tp_tests = [], tp_risks = [],
     tp_blockers = [], tp_raw = [], tp_required_checks = [''unit''], tp_max_step_contract_chars = 4000,
     tp_blocker_kind = None, tp_milestone_id = Some ''M01'', tp_milestone_title = [], tp_milestone_goal = [],
     tp_project_remainder = ''NONE'', tp_normalizations = []\<rparr>"

definition sample_cycle :: cycle_plan where
  "sample_cycle = \<lparr>cp_cycle = \<lparr>cy_number = 1, cy_kind = INITIAL\<rparr>, cp_plan = pipeline_plan\<rparr>"

definition sample_evidence :: evidence where
  "sample_evidence = \<lparr>eb_deterministic_passed = True,
     eb_checks = [\<lparr>ck_name = ''unit'', ck_exit_code = 0, ck_timed_out = False, ck_workspace_mutated = False,
       ck_failure_kind = ''passed'', ck_mutation_recovered = False\<rparr>],
     eb_required_check_ids = [''unit''], eb_baseline_cleared = [], eb_failures = [], eb_changed_files = []\<rparr>"

definition sample_ctx :: pctx where
  "sample_ctx = \<lparr>px_run_id = ''r'', px_base_sha = ''base'',
     px_budget = \<lparr>step_attempts = 3, audit_repairs = 2, max_iterations = 4, max_wall_clock_hours = 1, max_cost = 0\<rparr>,
     px_max_steps_per_plan = 5, px_iteration = 1\<rparr>"

definition sample_start :: resume_checkpoint where
  "sample_start = \<lparr>rc_phase = IMPLEMENT_STEP, rc_iteration = 1, rc_step_index = Some 0,
     rc_last_green_commit = None, rc_plan_sha256 = None\<rparr>"

definition plain_codec :: codec where
  "plain_codec = \<lparr>json_loads = (\<lambda>s. None), json_dumps = (\<lambda>style v. []), sha256_hex = (\<lambda>s. ''0'')\<rparr>"

definition sample_ops :: "(nat, string) ops" where
  "sample_ops = \<lparr>op_checkpoint = (\<lambda>ctx p n h i. ret ()), op_begin_cycle = (\<lambda>ctx c f. ret ()),
     op_initial_plan = (\<lambda>ctx. ret sample_cycle), op_execute_step = (\<lambda>ctx p i. ret ()),
     op_pause_requested = (\<lambda>ctx w. Inr False), op_pause = (\<lambda>ctx p i. ret ''paused''),
     op_run_gate = (\<lambda>ctx p. ret sample_evidence), op_load_gate_evidence = (\<lambda>ctx n w. Inr None),
     op_run_audit = (\<lambda>ctx p e k. raise (Other_error ''audit'')), op_accept_gate_state = (\<lambda>ctx p e. ret ()),
     op_hard_failures = (\<lambda>e. []), op_create_candidate = (\<lambda>ctx p e. ret [(''commit_sha'', PStr ''c1'')]),
     op_load_candidate = (\<lambda>ctx n. ret [(''commit_sha'', PStr ''c1'')]),
     op_push_candidate = (\<lambda>ctx n c. ret c), op_publish = (\<lambda>ctx n c. ret ''published''),
     op_load_iteration_outcome = (\<lambda>ctx p w. Inr \<lparr>io_evidence = sample_evidence, io_audit = no_audit\<rparr>),
     op_planner_continue = planner_continue (\<lambda>w. Inr None) (\<lambda>out. sample_io) sample_authority 3,
     op_prepare_next_iteration = (\<lambda>ctx d. ret (ctx\<lparr>px_iteration := px_iteration ctx + 1\<rparr>)),
     op_close_iteration = (\<lambda>ctx p out d c f status. ret ()), op_partial = (\<lambda>ctx r rem fs. ret ''partial''),
     op_spec_decision = (\<lambda>ctx d out. ret ''spec''), op_failed_continued = (\<lambda>ctx p w. Inr []),
     op_budget_exhausted = (\<lambda>ctx w. Inr None), op_budget_partial = (\<lambda>ctx r. ret ''budget''),
     op_current_head = (\<lambda>ctx w. Inr ''head''), rd_codec = plain_codec, rd_run_dir = (\<lambda>w p. Missing),
     rd_audit_reports = (\<lambda>ctx n w. []), rd_candidate_tree = (\<lambda>ctx w. Inr ''tree''),
     rd_resolve_tree = (\<lambda>ctx h w. Inr (\<lambda>p. True))\<rparr>"

definition sample_run :: "(stop + string) \<times> nat coord" where
  "sample_run = run_pipeline 4 sample_ops sample_ctx sample_start False (fresh_coord 0)"

lemma sample_run_result:
  "fst sample_run = Inr ''published'' \<and> filter candidate_call (co_calls (snd sample_run))
     = [Publish_call, Push_candidate_call, Create_candidate_call sample_evidence]
   \<and> co_cursor (snd sample_run) = [IMPLEMENT_STEP, DETERMINISTIC_GATE, PLANNER, CANDIDATE_READY, CANDIDATE_PUSH, PUBLISH]
   \<and> length (filter decision_call (co_calls (snd sample_run))) = 1"
  by code_simp

lemma sample_laws: "answers_validated sample_ops" "advances sample_ops"
proof -
  have "op_planner_continue sample_ops = planner_continue (\<lambda>w. Inr None) (\<lambda>out. sample_io) sample_authority 3"
    by (simp add: sample_ops_def)
  then show "answers_validated sample_ops" by (rule planner_answers_validated)
  show "advances sample_ops" by (auto simp: advances_def sample_ops_def ret_def)
qed

section \<open>Properties\<close>

text \<open>C5: the coordinator makes only legal moves. Whatever its operations do and wherever the run starts,
  the move that the run machine would refuse never happens, and the phases a run entered, in their
  order, are a path of the phase graph.\<close>

theorem coordinator_moves_are_legal:
  "(\<forall>x. fst (run_pipeline fuel ops ctx start resumed (fresh_coord w)) \<noteq> Inl (Illegal_phase x))
   \<and> (case co_cursor (snd (run_pipeline fuel ops ctx start resumed (fresh_coord w))) of
        [] \<Rightarrow> True | p # ps \<Rightarrow> phase_path p ps)"
proof -
  have s: "at_phase [] (fresh_coord w)" by (simp add: at_phase_def legal_def fresh_coord_def)
  have "legal (snd (run_pipeline fuel ops ctx start resumed (fresh_coord w)))"
    by (rule hoare_end [OF run_pipeline_at s]) (simp_all add: legal_stop_def)
  moreover have "fst (run_pipeline fuel ops ctx start resumed (fresh_coord w)) \<noteq> Inl (Illegal_phase x)" for x
    by (rule hoare_stops [OF run_pipeline_at s]) (simp add: legal_stop_def)
  ultimately show ?thesis by (simp add: legal_def)
qed


text \<open>C1: only a green candidate is published. When the planner's decisions are validated, the candidate
  operations of a run are, in this order and each at most once, the creation of the candidate from an
  evidence whose gate passed with every required check answered, its push and the publication; a run
  resumed at a candidate loads it instead and creates none.\<close>

theorem only_green_candidates_are_published:
  assumes "answers_validated ops"
  shows "candidate_way (rc_phase start)
    (filter candidate_call (co_calls (snd (run_pipeline fuel ops ctx start resumed (fresh_coord w)))))"
proof -
  have s: "made [] (fresh_coord w)" by (simp add: made_eval fresh_coord_def)
  have "sees candidate_call (candidate_way (rc_phase start))
      (snd (run_pipeline fuel ops ctx start resumed (fresh_coord w)))"
    by (rule hoare_end [OF run_pipeline_made [OF assms] s])
  then show ?thesis by (simp add: sees_def)
qed

theorem only_green_candidates_are_published_witness:
  "candidate_way IMPLEMENT_STEP [Publish_call, Push_candidate_call, Create_candidate_call sample_evidence]"
proof -
  have "candidate_way (rc_phase sample_start) (filter candidate_call (co_calls (snd sample_run)))"
    unfolding sample_run_def by (rule only_green_candidates_are_published [OF sample_laws(1)])
  then show ?thesis using sample_run_result by (simp add: sample_start_def)
qed

text \<open>C14: a decision of the planner is acted on only when it is sound. Whatever the model answers, a
  decision that comes back from the validated planner is COMPLETE only with a green gate, an audit and
  a continuation without remaining items and no project remainder, and NEXT only with the current or
  the next milestone and a plan of at most the configured number of steps that the repository check
  accepted.\<close>

theorem accepted_continuation_is_sound:
  assumes "planner_continue budget requests au attempts ctx plan out (validate_decision ops ctx plan out failed) w = (Inr d, w')"
  shows "(cr_decision d = COMPLETE_RUN \<longrightarrow>
        gate_green out \<and> af_remaining (io_audit out) = [] \<and> cr_remaining d = []
        \<and> casefold (strip (tp_project_remainder (cp_plan plan))) \<in> set no_remainder_words)
     \<and> (cr_decision d = NEXT_MILESTONE \<longrightarrow>
        (\<exists>current p. tp_milestone_id (cp_plan plan) = Some current \<and> cr_next_plan d = Some p
           \<and> (\<exists>m \<in> set (allowed_milestones ctx current). cr_next_milestone d = Some m)
           \<and> int (length (tp_steps p)) \<le> px_max_steps_per_plan ctx
           \<and> (\<exists>path_exists p0. validate_plan_repository_topology path_exists p0 = Inr p)))"
  using planner.validated [OF assms] validate_decision_sound unfolding sound_decision_def by metis

definition sample_outcome :: iteration_outcome where
  "sample_outcome = \<lparr>io_evidence = sample_evidence, io_audit = no_audit\<rparr>"

lemma none_word: "casefold (strip ''NONE'') \<in> set no_remainder_words"
  by code_simp

lemma sample_continuation:
  "planner_continue (\<lambda>w. Inr None) (\<lambda>out. sample_io) sample_authority 3 sample_ctx sample_cycle sample_outcome
     (validate_decision sample_ops sample_ctx sample_cycle sample_outcome []) 0 = (Inr sample_decision, 2)"
proof -
  have "validate_decision sample_ops sample_ctx sample_cycle sample_outcome [] v sample_decision = Inr sample_decision" for v
    by (simp add: validate_decision_def sample_decision_def complete_objections_def lift_exn_def unresolved_failed_def
        gate_green_def evidence_green_def required_checks_passed_def result_named_def check_answered_def
        sample_outcome_def sample_evidence_def no_audit_def sample_cycle_def pipeline_plan_def none_word)
  then show ?thesis
    by (simp add: planner_continue_def decide_def numeral_3_eq_3 obtain_answer_def sample_io_def sample_parse sample_nonsense)
qed

theorem accepted_continuation_is_sound_witness:
  "cr_decision sample_decision = COMPLETE_RUN \<and> gate_green sample_outcome"
  using accepted_continuation_is_sound [OF sample_continuation] by (simp add: sample_decision_def)

text \<open>C6: a run ends within its budget of iterations. When the next iteration is the following one of the
  same budget, the fuel of one more than the iterations left is always enough, and a run asks the
  planner for a continuation at most once per iteration left and once more.\<close>

theorem run_ends_within_budget:
  assumes "advances ops" and "nat (max_iterations (px_budget ctx) - px_iteration ctx) < fuel"
  shows "fst (run_pipeline fuel ops ctx start resumed (fresh_coord w)) \<noteq> Inl Out_of_fuel
    \<and> length (filter decision_call (co_calls (snd (run_pipeline fuel ops ctx start resumed (fresh_coord w)))))
        \<le> nat (max_iterations (px_budget ctx) - px_iteration ctx) + 1"
proof
  note h = run_pipeline_asked [OF assms(1), of ctx fuel start resumed]
  have l: "rounds_left ctx < fuel" using assms(2) by (simp add: rounds_left_def)
  have s: "asked 0 (fresh_coord w)" by (simp add: asked_def sees_def fresh_coord_def)
  show "fst (run_pipeline fuel ops ctx start resumed (fresh_coord w)) \<noteq> Inl Out_of_fuel"
    by (rule hoare_stops [OF h [OF l] s]) (simp add: asked_stop_def sees_stop_def)
  have "asked (rounds_left ctx + 1) (snd (run_pipeline fuel ops ctx start resumed (fresh_coord w)))"
    by (rule hoare_end [OF h [OF l] s]) (simp_all add: asked_def asked_stop_def sees_stop_def)
  then show "length (filter decision_call (co_calls (snd (run_pipeline fuel ops ctx start resumed (fresh_coord w)))))
        \<le> nat (max_iterations (px_budget ctx) - px_iteration ctx) + 1"
    by (simp add: asked_def sees_def rounds_left_def)
qed

theorem run_ends_within_budget_witness:
  "fst sample_run \<noteq> Inl Out_of_fuel \<and> length (filter decision_call (co_calls (snd sample_run))) \<le> 4"
proof -
  have "nat (max_iterations (px_budget sample_ctx) - px_iteration sample_ctx) < 4" by (simp add: sample_ctx_def)
  from run_ends_within_budget [OF sample_laws(2) this, of sample_start False 0] show ?thesis
    by (simp add: sample_run_def sample_ctx_def)
qed

end
