(* ===== verification/Spec2Isabelle.thy ===== *)
theory Spec2Isabelle
  imports StateStore Approval CommitGate PipelineSafety
begin

text \<open>
  A verification development for MetaHarness.
\<close>

end
